(* ===== verification/Vemu_Prelude.thy ===== *)
theory Vemu_Prelude
  imports Main "HOL-Library.Word"
begin

text \<open>
  Shared vocabulary of the development: the machine integers of the C++ sources, the result
  type of code that can stop the process, the index ranges of counting loops, and the word
  lemmas (masks, byte splitting, sign extension) that the component theories use.
\<close>

unbundle bit_operations_syntax

subsection \<open>Machine integers\<close>

text \<open>
  Signed and unsigned integers of one width are the same words; signedness is a matter of the
  operation (\<open>sint\<close>, \<open>scast\<close>, \<open><s\<close>, \<open>signed_drop_bit\<close> for the signed ones). Signed arithmetic is
  the two's complement arithmetic of the target.
\<close>

type_synonym u8 = "8 word"
type_synonym u16 = "16 word"
type_synonym u32 = "32 word"
type_synonym u64 = "64 word"
type_synonym u128 = "128 word"

subsection \<open>Code that can stop the process\<close>

text \<open>
  The ways in which the C++ code leaves the emulated program behind: a failed \<open>assert\<close>, a
  memory access outside an object, \<open>std::map::at\<close> on a missing key, a call through an empty
  \<open>std::function\<close>, and \<open>exit(EXIT_FAILURE)\<close>.
\<close>

datatype abort =
    AssertionFailure
  | UndefinedBehaviour
  | OutOfRange
  | BadFunctionCall
  | ExitFailure

type_synonym 'a res = "abort + 'a"

definition bind_res :: "'a res \<Rightarrow> ('a \<Rightarrow> 'b res) \<Rightarrow> 'b res" where
  "bind_res m f = (case m of Inl e \<Rightarrow> Inl e | Inr x \<Rightarrow> f x)"

definition assert_res :: "bool \<Rightarrow> unit res" where
  "assert_res b = (if b then Inr () else Inl AssertionFailure)"

definition defined_res :: "bool \<Rightarrow> unit res" where
  "defined_res b = (if b then Inr () else Inl UndefinedBehaviour)"

text \<open>A loop over a list whose body can stop the process.\<close>

fun fold_res :: "('x \<Rightarrow> 's \<Rightarrow> 's res) \<Rightarrow> 'x list \<Rightarrow> 's \<Rightarrow> 's res" where
  "fold_res f [] s = Inr s"
| "fold_res f (x # xs) s = bind_res (f x s) (fold_res f xs)"

text \<open>The indices visited by \<open>for (uint64_t i = a; i < b; i++)\<close>.\<close>

definition loop_range :: "u64 \<Rightarrow> u64 \<Rightarrow> u64 list" where
  "loop_range a b = map (\<lambda>k. a + of_nat k) [0..<unat b - unat a]"

named_theorems mask_eqs \<open>mask literals of the sources as shifted contiguous masks\<close>
named_theorems frame \<open>what an operation leaves unchanged\<close>
named_theorems res_intro \<open>success of operations that may stop the process\<close>

subsection \<open>Results\<close>

lemma bind_res_simps [simp]:
  "bind_res (Inl e) f = Inl e"
  "bind_res (Inr x) f = f x"
  by (simp_all add: bind_res_def)

lemma bind_res_eq_Inr:
  "bind_res m f = Inr y \<longleftrightarrow> (\<exists>x. m = Inr x \<and> f x = Inr y)"
  by (cases m) auto

lemma bind_res_eq_Inl:
  "bind_res m f = Inl e \<longleftrightarrow> m = Inl e \<or> (\<exists>x. m = Inr x \<and> f x = Inl e)"
  by (cases m) auto

lemma assert_res_iff [simp]:
  "assert_res b = Inr u \<longleftrightarrow> b"
  "assert_res b = Inl e \<longleftrightarrow> \<not> b \<and> e = AssertionFailure"
  by (auto simp: assert_res_def)

lemma defined_res_iff [simp]:
  "defined_res b = Inr u \<longleftrightarrow> b"
  "defined_res b = Inl e \<longleftrightarrow> \<not> b \<and> e = UndefinedBehaviour"
  by (auto simp: defined_res_def)

lemma assert_res_simps [simp]:
  "assert_res True = Inr ()" "assert_res False = Inl AssertionFailure"
  by (simp_all add: assert_res_def)

lemma defined_res_simps [simp]:
  "defined_res True = Inr ()" "defined_res False = Inl UndefinedBehaviour"
  by (simp_all add: defined_res_def)

lemma fold_res_invariant:
  assumes "fold_res f xs s = Inr s'" and "I s"
    and "\<And>x t t'. x \<in> set xs \<Longrightarrow> I t \<Longrightarrow> f x t = Inr t' \<Longrightarrow> I t'"
  shows "I s'"
  using assms
proof (induction xs arbitrary: s)
  case Nil
  then show ?case by simp
next
  case (Cons x xs)
  from Cons.prems(1) obtain t where "f x s = Inr t" and rest: "fold_res f xs t = Inr s'"
    by (auto simp: bind_res_eq_Inr)
  then have "I t" using Cons.prems(2) Cons.prems(3) [of x s t] by simp
  with rest show ?case
  proof (rule Cons.IH)
    fix y u u' assume "y \<in> set xs" "I u" "f y u = Inr u'"
    then show "I u'" using Cons.prems(3) [of y u u'] by simp
  qed
qed

subsection \<open>Counting loops\<close>

lemma unat_u64_bound: "unat (x :: u64) < 2 ^ 64"
  using unsigned_less [of x] by simp

lemma unat_of_nat_u64: "k < 2 ^ 64 \<Longrightarrow> unat (of_nat k :: u64) = k"
  by (simp add: unsigned_of_nat take_bit_nat_eq_self)

lemma unat_add_no_wrap:
  assumes "a \<le> a + n"
  shows "unat (a + n) = unat a + unat (n :: u64)"
proof -
  have "n \<le> n + a" using assms by (metis add.commute no_olen_add)
  then show ?thesis using assms by (metis unat_plus_simple)
qed

lemma loop_range_empty: "b \<le> a \<Longrightarrow> loop_range a b = []"
  by (simp add: loop_range_def word_le_nat_alt)

lemma set_loop_range: "set (loop_range a b) = {i. a \<le> i \<and> i < b}"
proof (rule set_eqI)
  fix i
  show "i \<in> set (loop_range a b) \<longleftrightarrow> i \<in> {i. a \<le> i \<and> i < b}"
  proof
    assume "i \<in> set (loop_range a b)"
    then obtain k where k: "k < unat b - unat a" and i: "i = a + of_nat k"
      by (auto simp: loop_range_def)
    have "unat a + k < 2 ^ 64" using k unat_u64_bound [of b] by simp
    then have "unat i = unat a + k"
      using k by (simp add: i unat_word_ariths unat_of_nat_u64)
    then show "i \<in> {i. a \<le> i \<and> i < b}"
      using k by (simp add: word_le_nat_alt word_less_nat_alt)
  next
    assume "i \<in> {i. a \<le> i \<and> i < b}"
    then have "unat a \<le> unat i" "unat i < unat b"
      by (simp_all add: word_le_nat_alt word_less_nat_alt)
    moreover have "i = a + of_nat (unat i - unat a)"
      using \<open>unat a \<le> unat i\<close> by simp
    ultimately show "i \<in> set (loop_range a b)"
      unfolding loop_range_def by (auto intro!: image_eqI [of _ _ "unat i - unat a"])
  qed
qed

lemma distinct_loop_range: "distinct (loop_range a b)"
proof -
  have "inj_on (\<lambda>k. a + (of_nat k :: u64)) (set [0..<unat b - unat a])"
  proof (rule inj_onI)
    fix j k assume "j \<in> set [0..<unat b - unat a]" "k \<in> set [0..<unat b - unat a]"
      and eq: "a + (of_nat j :: u64) = a + of_nat k"
    then have "j < 2 ^ 64" "k < 2 ^ 64" using unat_u64_bound [of b] by auto
    with eq show "j = k" by (metis add_left_cancel unat_of_nat_u64)
  qed
  then show ?thesis by (simp add: loop_range_def distinct_map)
qed

subsection \<open>Low-order masks\<close>

lemma and_low_mask:
  fixes w :: "'a::len word"
  shows "w AND 0x1F = take_bit 5 w" "w AND 0x3F = take_bit 6 w" "w AND 0xFF = take_bit 8 w"
    "w AND 0xFFF = take_bit 12 w" "w AND 0xFFFF = take_bit 16 w" "w AND 0xFFFFFFFF = take_bit 32 w"
  by (simp_all add: take_bit_eq_mask mask_eq_exp_minus_1)

lemma take_bit_full [simp]:
  "take_bit 8 (x :: u8) = x" "take_bit 32 (y :: u32) = y" "take_bit 64 (z :: u64) = z"
  using take_bit_length_eq [of x] take_bit_length_eq [of y] take_bit_length_eq [of z] by simp_all

end
