(* ===== verification/Vemu_Defs.thy ===== *)
theory Vemu_Defs
  imports Vemu_Prelude
begin

text \<open>
  The enumerations and constants of \<^verbatim>\<open>include/defs.h\<close> and the build configuration: instruction
  names, privilege modes, return exceptions, interrupts, device addresses and CSR numbers.
\<close>

unbundle bit_operations_syntax

subsection \<open>Build configuration\<close>

text \<open>
  The preprocessor selects one of three builds (\<^verbatim>\<open>fuzz_emu\<close> with \<open>FUZZ_ENV\<close>, \<^verbatim>\<open>test_emu\<close> with
  \<open>TEST_ENV\<close>, \<^verbatim>\<open>emu\<close> with neither), and the build files define \<open>SUPPORT_SOFTFLOAT\<close> only when asked
  to: \<open>softfloat\<close> is \<open>None\<close> without it, and then the floating-point handlers report an illegal
  instruction. The model takes the selection as an argument, together with what the sources do not
  determine: the value of
  a right shift of a 64-bit integer by 64 or more (\<open>wide_shr\<close>; undefined in C++, an implementation
  computes some word), and the answers of the host's \<open>open\<close>, \<open>lseek\<close> and \<open>read\<close>
  (\<open>host_open n path flags\<close>: the descriptor and the contents that the \<open>n\<close>-th call obtains,
  \<open>None\<close> when it fails), and the bytes of a structure on the stack that is only partly initialised
  (\<open>stack_byte\<close>, by offset).
\<close>

datatype build_env = FUZZ_ENV | TEST_ENV | EMU_ENV

text \<open>
  The functions of the SoftFloat library that the handlers call, on bit patterns, each with the exception
  flags that it raises, and the NaN that the host's \<open>std::fma\<close> returns.
\<close>

record softfloat =
  f32_add :: "u32 \<Rightarrow> u32 \<Rightarrow> u32 \<times> u8"
  f32_sub :: "u32 \<Rightarrow> u32 \<Rightarrow> u32 \<times> u8"
  f32_mul :: "u32 \<Rightarrow> u32 \<Rightarrow> u32 \<times> u8"
  f32_div :: "u32 \<Rightarrow> u32 \<Rightarrow> u32 \<times> u8"
  f32_sqrt :: "u32 \<Rightarrow> u32"
  fma_nan :: "u32 \<Rightarrow> u32 \<Rightarrow> u32 \<Rightarrow> u32"

record config =
  build :: build_env
  softfloat :: "softfloat option"
  wide_shr :: "u64 \<Rightarrow> u64 \<Rightarrow> u64"
  host_open :: "nat \<Rightarrow> u8 list \<Rightarrow> u32 \<Rightarrow> (u32 \<times> u8 list) option"
  stack_byte :: "nat \<Rightarrow> u8"

text \<open>\<open>x >> n\<close> on \<open>uint64_t\<close>\<close>

definition shr64 :: "config \<Rightarrow> u64 \<Rightarrow> u64 \<Rightarrow> u64" where
  "shr64 cfg x n = (if n < 64 then drop_bit (unat n) x else wide_shr cfg x n)"

subsection \<open>Instruction names\<close>

text \<open>
  \<open>enum class IName : uint8_t\<close>: a scoped enumeration over its underlying byte, whose enumerators
  are numbered from 0 in declaration order. The order of the underlying values is the key order
  of every \<open>std::map<IName, ...>\<close> of the decoder and the emulator. The enumerator
  \<open>IName::LB\<close> is written \<open>iLB\<close>, and so on.
\<close>

datatype IName = IName (iname_val: u8)

instantiation IName :: linorder
begin

definition less_eq_IName :: "IName \<Rightarrow> IName \<Rightarrow> bool" where
  "less_eq_IName a b \<longleftrightarrow> iname_val a \<le> iname_val b"

definition less_IName :: "IName \<Rightarrow> IName \<Rightarrow> bool" where
  "less_IName a b \<longleftrightarrow> iname_val a < iname_val b"

instance
  by standard (auto simp: less_eq_IName_def less_IName_def IName.expand)

end

abbreviation iLB :: IName where "iLB \<equiv> IName 0"
abbreviation iLH :: IName where "iLH \<equiv> IName 1"
abbreviation iLW :: IName where "iLW \<equiv> IName 2"
abbreviation iLBU :: IName where "iLBU \<equiv> IName 3"
abbreviation iLHU :: IName where "iLHU \<equiv> IName 4"
abbreviation iLD :: IName where "iLD \<equiv> IName 5"
abbreviation iLWU :: IName where "iLWU \<equiv> IName 6"
abbreviation iADDI :: IName where "iADDI \<equiv> IName 7"
abbreviation iADDW :: IName where "iADDW \<equiv> IName 8"
abbreviation iADDIW :: IName where "iADDIW \<equiv> IName 9"
abbreviation iSLTI :: IName where "iSLTI \<equiv> IName 10"
abbreviation iSLTIU :: IName where "iSLTIU \<equiv> IName 11"
abbreviation iXORI :: IName where "iXORI \<equiv> IName 12"
abbreviation iORI :: IName where "iORI \<equiv> IName 13"
abbreviation iANDI :: IName where "iANDI \<equiv> IName 14"
abbreviation iSLLI :: IName where "iSLLI \<equiv> IName 15"
abbreviation iSRLI :: IName where "iSRLI \<equiv> IName 16"
abbreviation iSRAI :: IName where "iSRAI \<equiv> IName 17"
abbreviation iSLLIW :: IName where "iSLLIW \<equiv> IName 18"
abbreviation iSRLIW :: IName where "iSRLIW \<equiv> IName 19"
abbreviation iSRAIW :: IName where "iSRAIW \<equiv> IName 20"
abbreviation iFENCE :: IName where "iFENCE \<equiv> IName 21"
abbreviation iFENCEI :: IName where "iFENCEI \<equiv> IName 22"
abbreviation iECALL :: IName where "iECALL \<equiv> IName 23"
abbreviation iEBREAK :: IName where "iEBREAK \<equiv> IName 24"
abbreviation iCSRRW :: IName where "iCSRRW \<equiv> IName 25"
abbreviation iCSRRS :: IName where "iCSRRS \<equiv> IName 26"
abbreviation iCSRRC :: IName where "iCSRRC \<equiv> IName 27"
abbreviation iCSRRWI :: IName where "iCSRRWI \<equiv> IName 28"
abbreviation iCSRRSI :: IName where "iCSRRSI \<equiv> IName 29"
abbreviation iCSRRCI :: IName where "iCSRRCI \<equiv> IName 30"
abbreviation iBEQ :: IName where "iBEQ \<equiv> IName 31"
abbreviation iBNE :: IName where "iBNE \<equiv> IName 32"
abbreviation iBLT :: IName where "iBLT \<equiv> IName 33"
abbreviation iBGE :: IName where "iBGE \<equiv> IName 34"
abbreviation iBLTU :: IName where "iBLTU \<equiv> IName 35"
abbreviation iBGEU :: IName where "iBGEU \<equiv> IName 36"
abbreviation iSB :: IName where "iSB \<equiv> IName 37"
abbreviation iSH :: IName where "iSH \<equiv> IName 38"
abbreviation iSW :: IName where "iSW \<equiv> IName 39"
abbreviation iSD :: IName where "iSD \<equiv> IName 40"
abbreviation iADD :: IName where "iADD \<equiv> IName 41"
abbreviation iSUB :: IName where "iSUB \<equiv> IName 42"
abbreviation iSUBW :: IName where "iSUBW \<equiv> IName 43"
abbreviation iSLL :: IName where "iSLL \<equiv> IName 44"
abbreviation iSLLW :: IName where "iSLLW \<equiv> IName 45"
abbreviation iSLT :: IName where "iSLT \<equiv> IName 46"
abbreviation iSLTU :: IName where "iSLTU \<equiv> IName 47"
abbreviation iXOR :: IName where "iXOR \<equiv> IName 48"
abbreviation iSRL :: IName where "iSRL \<equiv> IName 49"
abbreviation iSRLW :: IName where "iSRLW \<equiv> IName 50"
abbreviation iSRA :: IName where "iSRA \<equiv> IName 51"
abbreviation iSRAW :: IName where "iSRAW \<equiv> IName 52"
abbreviation iOR :: IName where "iOR \<equiv> IName 53"
abbreviation iAND :: IName where "iAND \<equiv> IName 54"
abbreviation iJAL :: IName where "iJAL \<equiv> IName 55"
abbreviation iJALR :: IName where "iJALR \<equiv> IName 56"
abbreviation iLUI :: IName where "iLUI \<equiv> IName 57"
abbreviation iAUIPC :: IName where "iAUIPC \<equiv> IName 58"
abbreviation iMUL :: IName where "iMUL \<equiv> IName 59"
abbreviation iMULH :: IName where "iMULH \<equiv> IName 60"
abbreviation iMULHSU :: IName where "iMULHSU \<equiv> IName 61"
abbreviation iMULHU :: IName where "iMULHU \<equiv> IName 62"
abbreviation iDIV :: IName where "iDIV \<equiv> IName 63"
abbreviation iDIVU :: IName where "iDIVU \<equiv> IName 64"
abbreviation iREM :: IName where "iREM \<equiv> IName 65"
abbreviation iREMU :: IName where "iREMU \<equiv> IName 66"
abbreviation iMULW :: IName where "iMULW \<equiv> IName 67"
abbreviation iDIVW :: IName where "iDIVW \<equiv> IName 68"
abbreviation iDIVUW :: IName where "iDIVUW \<equiv> IName 69"
abbreviation iREMW :: IName where "iREMW \<equiv> IName 70"
abbreviation iREMUW :: IName where "iREMUW \<equiv> IName 71"
abbreviation iLRW :: IName where "iLRW \<equiv> IName 72"
abbreviation iSCW :: IName where "iSCW \<equiv> IName 73"
abbreviation iAMOSWAPW :: IName where "iAMOSWAPW \<equiv> IName 74"
abbreviation iAMOADDW :: IName where "iAMOADDW \<equiv> IName 75"
abbreviation iAMOXORW :: IName where "iAMOXORW \<equiv> IName 76"
abbreviation iAMOANDW :: IName where "iAMOANDW \<equiv> IName 77"
abbreviation iAMOORW :: IName where "iAMOORW \<equiv> IName 78"
abbreviation iAMOMINW :: IName where "iAMOMINW \<equiv> IName 79"
abbreviation iAMOMAXW :: IName where "iAMOMAXW \<equiv> IName 80"
abbreviation iAMOMINUW :: IName where "iAMOMINUW \<equiv> IName 81"
abbreviation iAMOMAXUW :: IName where "iAMOMAXUW \<equiv> IName 82"
abbreviation iLRD :: IName where "iLRD \<equiv> IName 83"
abbreviation iSCD :: IName where "iSCD \<equiv> IName 84"
abbreviation iAMOSWAPD :: IName where "iAMOSWAPD \<equiv> IName 85"
abbreviation iAMOADDD :: IName where "iAMOADDD \<equiv> IName 86"
abbreviation iAMOXORD :: IName where "iAMOXORD \<equiv> IName 87"
abbreviation iAMOANDD :: IName where "iAMOANDD \<equiv> IName 88"
abbreviation iAMOORD :: IName where "iAMOORD \<equiv> IName 89"
abbreviation iAMOMIND :: IName where "iAMOMIND \<equiv> IName 90"
abbreviation iAMOMAXD :: IName where "iAMOMAXD \<equiv> IName 91"
abbreviation iAMOMINUD :: IName where "iAMOMINUD \<equiv> IName 92"
abbreviation iAMOMAXUD :: IName where "iAMOMAXUD \<equiv> IName 93"
abbreviation iSRET :: IName where "iSRET \<equiv> IName 94"
abbreviation iMRET :: IName where "iMRET \<equiv> IName 95"
abbreviation iFLW :: IName where "iFLW \<equiv> IName 96"
abbreviation iFSW :: IName where "iFSW \<equiv> IName 97"
abbreviation iFMADDS :: IName where "iFMADDS \<equiv> IName 98"
abbreviation iFMSUBS :: IName where "iFMSUBS \<equiv> IName 99"
abbreviation iFNMSUBS :: IName where "iFNMSUBS \<equiv> IName 100"
abbreviation iFNMADDS :: IName where "iFNMADDS \<equiv> IName 101"
abbreviation iFADDS :: IName where "iFADDS \<equiv> IName 102"
abbreviation iFSUBS :: IName where "iFSUBS \<equiv> IName 103"
abbreviation iFMULS :: IName where "iFMULS \<equiv> IName 104"
abbreviation iFDIVS :: IName where "iFDIVS \<equiv> IName 105"
abbreviation iFSQRTS :: IName where "iFSQRTS \<equiv> IName 106"
abbreviation iFSGNJS :: IName where "iFSGNJS \<equiv> IName 107"
abbreviation iFSGNJNS :: IName where "iFSGNJNS \<equiv> IName 108"
abbreviation iFSGNJXS :: IName where "iFSGNJXS \<equiv> IName 109"
abbreviation iFMINS :: IName where "iFMINS \<equiv> IName 110"
abbreviation iFMAXS :: IName where "iFMAXS \<equiv> IName 111"
abbreviation iFCVTWS :: IName where "iFCVTWS \<equiv> IName 112"
abbreviation iFCVTWUS :: IName where "iFCVTWUS \<equiv> IName 113"
abbreviation iFMVXW :: IName where "iFMVXW \<equiv> IName 114"
abbreviation iFEQS :: IName where "iFEQS \<equiv> IName 115"
abbreviation iFLTS :: IName where "iFLTS \<equiv> IName 116"
abbreviation iFLES :: IName where "iFLES \<equiv> IName 117"
abbreviation iFCLASSS :: IName where "iFCLASSS \<equiv> IName 118"
abbreviation iFCVTSW :: IName where "iFCVTSW \<equiv> IName 119"
abbreviation iFCVTSWU :: IName where "iFCVTSWU \<equiv> IName 120"
abbreviation iFMVWX :: IName where "iFMVWX \<equiv> IName 121"
abbreviation iFCVTLS :: IName where "iFCVTLS \<equiv> IName 122"
abbreviation iFCVTLUS :: IName where "iFCVTLUS \<equiv> IName 123"
abbreviation iFCVTSL :: IName where "iFCVTSL \<equiv> IName 124"
abbreviation iFCVTSLU :: IName where "iFCVTSLU \<equiv> IName 125"
abbreviation iXXX :: IName where "iXXX \<equiv> IName 126"

subsection \<open>Modes, exceptions and interrupts\<close>

datatype Mode = User | Supervisor | Machine

datatype ReturnException =
    InstructionAddressMisaligned
  | InstructionAccessFault
  | IllegalInstruction
  | InstructionAddressBreakpoint
  | LoadAddressMisaligned
  | LoadAccessFault
  | StoreAMOAddressMisaligned
  | StoreAMOAccessFault
  | EnvironmentCallFromUserMode
  | EnvironmentCallFromSupervisorMode
  | EnvironmentCallFromMachineMode
  | InstructionPageFault
  | LoadPageFault
  | StoreAMOPageFault
  | ReadMemoryWithNoPermission
  | UninitializedMemoryAccess
  | NormalExecutionReturn

text \<open>The underlying values that \<open>static_cast<uint8_t>(e)\<close> reads.\<close>

primrec exception_code :: "ReturnException \<Rightarrow> u8" where
  "exception_code InstructionAddressMisaligned = 0"
| "exception_code InstructionAccessFault = 1"
| "exception_code IllegalInstruction = 2"
| "exception_code InstructionAddressBreakpoint = 3"
| "exception_code LoadAddressMisaligned = 4"
| "exception_code LoadAccessFault = 5"
| "exception_code StoreAMOAddressMisaligned = 6"
| "exception_code StoreAMOAccessFault = 7"
| "exception_code EnvironmentCallFromUserMode = 8"
| "exception_code EnvironmentCallFromSupervisorMode = 9"
| "exception_code EnvironmentCallFromMachineMode = 11"
| "exception_code InstructionPageFault = 12"
| "exception_code LoadPageFault = 13"
| "exception_code StoreAMOPageFault = 15"
| "exception_code ReadMemoryWithNoPermission = 253"
| "exception_code UninitializedMemoryAccess = 254"
| "exception_code NormalExecutionReturn = 255"

datatype Interrupt =
    UserSoftwareInterrupt
  | SupervisorSoftwareInterrupt
  | MachineSoftwareInterrupt
  | UserTimerInterrupt
  | SupervisorTimerInterrupt
  | MachineTimerInterrupt
  | UserExternalInterrupt
  | SupervisorExternalInterrupt
  | MachineExternalInterrupt
  | NoInterrupt

primrec interrupt_code :: "Interrupt \<Rightarrow> u8" where
  "interrupt_code UserSoftwareInterrupt = 0"
| "interrupt_code SupervisorSoftwareInterrupt = 1"
| "interrupt_code MachineSoftwareInterrupt = 3"
| "interrupt_code UserTimerInterrupt = 4"
| "interrupt_code SupervisorTimerInterrupt = 5"
| "interrupt_code MachineTimerInterrupt = 7"
| "interrupt_code UserExternalInterrupt = 8"
| "interrupt_code SupervisorExternalInterrupt = 9"
| "interrupt_code MachineExternalInterrupt = 11"
| "interrupt_code NoInterrupt = 255"

subsection \<open>Device addresses\<close>

abbreviation (input) CLINT_BASE :: u64 where "CLINT_BASE \<equiv> 0x2000000"
abbreviation (input) CLINT_SIZE :: u64 where "CLINT_SIZE \<equiv> 0x10000"
abbreviation (input) CLINT_MTIMECMP :: u64 where "CLINT_MTIMECMP \<equiv> 0x2004000"
abbreviation (input) CLINT_MTIME :: u64 where "CLINT_MTIME \<equiv> 0x200bff8"
abbreviation (input) PLIC_BASE :: u64 where "PLIC_BASE \<equiv> 0xc000000"
abbreviation (input) PLIC_SIZE :: u64 where "PLIC_SIZE \<equiv> 0x4000000"
abbreviation (input) PLIC_PENDING :: u64 where "PLIC_PENDING \<equiv> 0xc001000"
abbreviation (input) PLIC_SENABLE :: u64 where "PLIC_SENABLE \<equiv> 0xc002080"
abbreviation (input) PLIC_SPRIORITY :: u64 where "PLIC_SPRIORITY \<equiv> 0xc201000"
abbreviation (input) PLIC_SCLAIM :: u64 where "PLIC_SCLAIM \<equiv> 0xc201004"
abbreviation (input) UART_BASE :: u64 where "UART_BASE \<equiv> 0x10000000"
abbreviation (input) UART_SIZE :: u64 where "UART_SIZE \<equiv> 0x100"
abbreviation (input) UART_RHR :: u64 where "UART_RHR \<equiv> 0x10000000"
abbreviation (input) UART_THR :: u64 where "UART_THR \<equiv> 0x10000000"
abbreviation (input) UART_LCR :: u64 where "UART_LCR \<equiv> 0x10000003"
abbreviation (input) UART_LSR :: u64 where "UART_LSR \<equiv> 0x10000005"
abbreviation (input) UART_LSR_RX :: u8 where "UART_LSR_RX \<equiv> 1"
abbreviation (input) UART_LSR_TX :: u8 where "UART_LSR_TX \<equiv> 0x20"
abbreviation (input) AM_OPCODE :: u8 where "AM_OPCODE \<equiv> 0b0101111"
abbreviation (input) FP_R_OPCODE :: u8 where "FP_R_OPCODE \<equiv> 0b1010011"

subsection \<open>Instruction masks\<close>

abbreviation (input) OPCODE_MASK :: u32 where "OPCODE_MASK \<equiv> 0x0000007F"
abbreviation (input) FUNCT3_MASK :: u32 where "FUNCT3_MASK \<equiv> 0x00007000"
abbreviation (input) FUNCT2_MASK :: u32 where "FUNCT2_MASK \<equiv> 0x06000000"
abbreviation (input) FUNCT7_MASK :: u32 where "FUNCT7_MASK \<equiv> 0xFE000000"
abbreviation (input) FUNCT6_MASK :: u32 where "FUNCT6_MASK \<equiv> 0xFC000000"
abbreviation (input) RD_MASK :: u32 where "RD_MASK \<equiv> 0x00000F80"
abbreviation (input) RS1_MASK :: u32 where "RS1_MASK \<equiv> 0x000F8000"
abbreviation (input) RS2_MASK :: u32 where "RS2_MASK \<equiv> 0x01F00000"
abbreviation (input) RS3_MASK :: u32 where "RS3_MASK \<equiv> 0xF1000000"
abbreviation (input) IMM12_MASK :: u32 where "IMM12_MASK \<equiv> 0xFFF00000"
abbreviation (input) IMM20_MASK :: u32 where "IMM20_MASK \<equiv> 0xFFFFF000"
abbreviation (input) SHAMT64_MASK :: u32 where "SHAMT64_MASK \<equiv> 0x03F00000"
abbreviation (input) SHAMT32_MASK :: u32 where "SHAMT32_MASK \<equiv> 0x01F00000"
abbreviation (input) J_IMM_0 :: u32 where "J_IMM_0 \<equiv> 0x0000001E"
abbreviation (input) J_IMM_1 :: u32 where "J_IMM_1 \<equiv> 0x000007E0"
abbreviation (input) J_IMM_2 :: u32 where "J_IMM_2 \<equiv> 0x00000800"
abbreviation (input) J_IMM_3 :: u32 where "J_IMM_3 \<equiv> 0x000FF000"
abbreviation (input) J_IMM_4 :: u32 where "J_IMM_4 \<equiv> 0xFFF00000"
abbreviation (input) J_INST_IMM_0 :: u32 where "J_INST_IMM_0 \<equiv> 0x01E00000"
abbreviation (input) J_INST_IMM_1 :: u32 where "J_INST_IMM_1 \<equiv> 0x7E000000"
abbreviation (input) J_INST_IMM_2 :: u32 where "J_INST_IMM_2 \<equiv> 0x00100000"
abbreviation (input) J_INST_IMM_3 :: u32 where "J_INST_IMM_3 \<equiv> 0x000FF000"
abbreviation (input) J_INST_IMM_4 :: u32 where "J_INST_IMM_4 \<equiv> 0x80000000"
abbreviation (input) B_IMM_0 :: u32 where "B_IMM_0 \<equiv> 0x0000001E"
abbreviation (input) B_IMM_1 :: u32 where "B_IMM_1 \<equiv> 0x000007E0"
abbreviation (input) B_IMM_2 :: u32 where "B_IMM_2 \<equiv> 0x00000800"
abbreviation (input) B_IMM_3 :: u32 where "B_IMM_3 \<equiv> 0xFFFFF000"
abbreviation (input) B_INST_IMM_0 :: u32 where "B_INST_IMM_0 \<equiv> 0x00000F00"
abbreviation (input) B_INST_IMM_1 :: u32 where "B_INST_IMM_1 \<equiv> 0x7E000000"
abbreviation (input) B_INST_IMM_2 :: u32 where "B_INST_IMM_2 \<equiv> 0x00000080"
abbreviation (input) B_INST_IMM_3 :: u32 where "B_INST_IMM_3 \<equiv> 0x80000000"

subsection \<open>Control and status registers, bit positions, registers and system calls\<close>

abbreviation (input) MHARTID :: u64 where "MHARTID \<equiv> 0xf14"
abbreviation (input) MSTATUS :: u64 where "MSTATUS \<equiv> 0x300"
abbreviation (input) MISA :: u64 where "MISA \<equiv> 0x301"
abbreviation (input) MTVEC :: u64 where "MTVEC \<equiv> 0x305"
abbreviation (input) MEDELEG :: u64 where "MEDELEG \<equiv> 0x302"
abbreviation (input) MIDELEG :: u64 where "MIDELEG \<equiv> 0x303"
abbreviation (input) MIP :: u64 where "MIP \<equiv> 0x344"
abbreviation (input) MIE :: u64 where "MIE \<equiv> 0x304"
abbreviation (input) MEPC :: u64 where "MEPC \<equiv> 0x341"
abbreviation (input) MCAUSE :: u64 where "MCAUSE \<equiv> 0x342"
abbreviation (input) MTVAL :: u64 where "MTVAL \<equiv> 0x343"
abbreviation (input) MCOUNTEREN :: u64 where "MCOUNTEREN \<equiv> 0x306"
abbreviation (input) MSCRATCH :: u64 where "MSCRATCH \<equiv> 0x340"
abbreviation (input) SSTATUS :: u64 where "SSTATUS \<equiv> 0x100"
abbreviation (input) SSCRATCH :: u64 where "SSCRATCH \<equiv> 0x140"
abbreviation (input) STVEC :: u64 where "STVEC \<equiv> 0x105"
abbreviation (input) SIP :: u64 where "SIP \<equiv> 0x144"
abbreviation (input) SIE :: u64 where "SIE \<equiv> 0x104"
abbreviation (input) SEPC :: u64 where "SEPC \<equiv> 0x141"
abbreviation (input) SCAUSE :: u64 where "SCAUSE \<equiv> 0x142"
abbreviation (input) STVAL :: u64 where "STVAL \<equiv> 0x143"
abbreviation (input) SATP :: u64 where "SATP \<equiv> 0x180"
abbreviation (input) FFLAGS :: u64 where "FFLAGS \<equiv> 0x001"
abbreviation (input) SSTATUS_SIE_POS :: nat where "SSTATUS_SIE_POS \<equiv> 1"
abbreviation (input) SSTATUS_SPIE_POS :: nat where "SSTATUS_SPIE_POS \<equiv> 5"
abbreviation (input) SSTATUS_SPP_POS :: nat where "SSTATUS_SPP_POS \<equiv> 8"
abbreviation (input) MSTATUS_MIE_POS :: nat where "MSTATUS_MIE_POS \<equiv> 3"
abbreviation (input) MSTATUS_MPIE_POS :: nat where "MSTATUS_MPIE_POS \<equiv> 7"
abbreviation (input) MIP_SSIP_POS :: nat where "MIP_SSIP_POS \<equiv> 1"
abbreviation (input) MIP_MSIP_POS :: nat where "MIP_MSIP_POS \<equiv> 3"
abbreviation (input) MIP_STIP_POS :: nat where "MIP_STIP_POS \<equiv> 5"
abbreviation (input) MIP_MTIP_POS :: nat where "MIP_MTIP_POS \<equiv> 7"
abbreviation (input) MIP_SEIP_POS :: nat where "MIP_SEIP_POS \<equiv> 9"
abbreviation (input) MIP_MEIP_POS :: nat where "MIP_MEIP_POS \<equiv> 11"
abbreviation (input) REG_SP :: nat where "REG_SP \<equiv> 2"
abbreviation (input) REG_GP :: nat where "REG_GP \<equiv> 3"
abbreviation (input) REG_A0 :: nat where "REG_A0 \<equiv> 10"
abbreviation (input) REG_A1 :: nat where "REG_A1 \<equiv> 11"
abbreviation (input) REG_A2 :: nat where "REG_A2 \<equiv> 12"
abbreviation (input) REG_A7 :: nat where "REG_A7 \<equiv> 17"
abbreviation (input) SYSCALL_NR_CLOSE :: u64 where "SYSCALL_NR_CLOSE \<equiv> 57"
abbreviation (input) SYSCALL_NR_WRITE :: u64 where "SYSCALL_NR_WRITE \<equiv> 64"
abbreviation (input) SYSCALL_NR_LSEEK :: u64 where "SYSCALL_NR_LSEEK \<equiv> 62"
abbreviation (input) SYSCALL_NR_READ :: u64 where "SYSCALL_NR_READ \<equiv> 63"
abbreviation (input) SYSCALL_NR_FSTAT :: u64 where "SYSCALL_NR_FSTAT \<equiv> 80"
abbreviation (input) SYSCALL_NR_EXIT :: u64 where "SYSCALL_NR_EXIT \<equiv> 93"
abbreviation (input) SYSCALL_NR_BRK :: u64 where "SYSCALL_NR_BRK \<equiv> 214"
abbreviation (input) SYSCALL_NR_OPEN :: u64 where "SYSCALL_NR_OPEN \<equiv> 1024"

lemma exception_code_inj: "exception_code a = exception_code b \<longleftrightarrow> a = b"
  by (cases a; cases b; simp)

lemma interrupt_code_inj: "interrupt_code a = interrupt_code b \<longleftrightarrow> a = b"
  by (cases a; cases b; simp)

lemma IName_eq_iff: "a = b \<longleftrightarrow> iname_val a = iname_val b"
  by (cases a; cases b; simp)

end
