(* ===== verification/Vemu_MMU.thy ===== *)
theory Vemu_MMU
  imports Vemu_Defs
begin

text \<open>
  The memory of the emulated program, \<^verbatim>\<open>src/MMU.cpp\<close> and \<^verbatim>\<open>include/MMU.h\<close>: bytes, one permission
  byte per byte, a bump allocator, and the set of 4 KiB blocks that stores have dirtied. A byte that
  has been allocated but not yet written is marked \<open>PERM_RAW\<close>; the first write turns the mark
  into \<open>PERM_READ\<close>, and a read of a marked byte is reported as \<open>UninitializedMemoryAccess\<close>.

  The vectors \<open>ram\<close> and \<open>byte_permission\<close> are only ever \<open>reserve\<close>d: their elements are the
  reserved storage, whose size is the field \<open>ram_cap\<close>. An access at or beyond it is
  \<open>UndefinedBehaviour\<close>. Since the vectors' own size stays 0, copying them copies nothing
  (\<open>MMU_copy\<close>).
\<close>

unbundle bit_operations_syntax

subsection \<open>Definitions\<close>

abbreviation (input) PERM_EXEC :: u8 where "PERM_EXEC \<equiv> 1"
abbreviation (input) PERM_WRITE :: u8 where "PERM_WRITE \<equiv> 2"
abbreviation (input) PERM_READ :: u8 where "PERM_READ \<equiv> 4"
abbreviation (input) PERM_RAW :: u8 where "PERM_RAW \<equiv> 8"
abbreviation (input) BLOCK_SIZE :: u64 where "BLOCK_SIZE \<equiv> 4096"

record MMU =
  ram :: "u64 \<Rightarrow> u8"
  byte_permission :: "u64 \<Rightarrow> u8"
  ram_cap :: u64
  dirty_blocks :: "u64 set"
  mmu_ram_size :: u64
  alloc_ptr :: u64

text \<open>
  The reserved storage starts with indeterminate contents, the arguments \<open>mem\<close> and \<open>perms\<close>.
\<close>

definition MMU_new :: "(u64 \<Rightarrow> u8) \<Rightarrow> (u64 \<Rightarrow> u8) \<Rightarrow> u64 \<Rightarrow> MMU" where
  "MMU_new mem perms mem_size =
     \<lparr>ram = mem, byte_permission = perms, ram_cap = mem_size, dirty_blocks = {},
      mmu_ram_size = mem_size, alloc_ptr = 0x10000\<rparr>"

definition MMU_copy :: "MMU \<Rightarrow> MMU" where
  "MMU_copy other = other\<lparr>ram_cap := 0\<rparr>"

text \<open>Every index of a loop lies in the reserved storage.\<close>

definition in_storage :: "MMU \<Rightarrow> u64 list \<Rightarrow> bool" where
  "in_storage m is \<longleftrightarrow> list_all (\<lambda>i. i < ram_cap m) is"

definition set_perms :: "MMU \<Rightarrow> u64 \<Rightarrow> u64 \<Rightarrow> u8 \<Rightarrow> MMU res" where
  "set_perms m addr len perm =
     bind_res (assert_res (addr + len < mmu_ram_size m)) (\<lambda>_.
     bind_res (defined_res (addr \<le> addr + len \<and> addr + len \<le> ram_cap m)) (\<lambda>_.
     Inr (m\<lparr>byte_permission :=
              (\<lambda>i. if addr \<le> i \<and> i < addr + len then perm else byte_permission m i)\<rparr>)))"

definition allocate :: "MMU \<Rightarrow> u64 \<Rightarrow> (u64 \<times> MMU) res" where
  "allocate m len =
     (let base = alloc_ptr m in
      bind_res (assert_res (len + base < mmu_ram_size m)) (\<lambda>_.
      let m' = m\<lparr>alloc_ptr := alloc_ptr m + len\<rparr> in
      bind_res (set_perms m' base len (PERM_RAW OR PERM_WRITE)) (\<lambda>m''.
      Inr (base, m''))))"

text \<open>
  \<open>reset_to\<close> copies each dirty block of \<open>other\<close> back. The blocks are disjoint, so the order in
  which the unordered set is walked does not matter.
\<close>

definition reset_to :: "MMU \<Rightarrow> MMU \<Rightarrow> MMU res" where
  "reset_to m other =
     bind_res (defined_res (\<forall>blk \<in> dirty_blocks m.
        in_storage m (loop_range (blk * BLOCK_SIZE) (blk * BLOCK_SIZE + BLOCK_SIZE)) \<and>
        in_storage other (loop_range (blk * BLOCK_SIZE) (blk * BLOCK_SIZE + BLOCK_SIZE)))) (\<lambda>_.
     Inr (m\<lparr>ram := (\<lambda>i. if \<exists>blk \<in> dirty_blocks m.
                              blk * BLOCK_SIZE \<le> i \<and> i < blk * BLOCK_SIZE + BLOCK_SIZE
                         then ram other i else ram m i),
           dirty_blocks := {}\<rparr>))"

text \<open>One step of the second loop of \<open>write_from\<close>: the byte, then its permission.\<close>

definition write_byte :: "u8 list \<Rightarrow> u64 \<Rightarrow> u64 \<Rightarrow> MMU \<Rightarrow> MMU" where
  "write_byte buf start_addr i m =
     (let m1 = m\<lparr>ram := (ram m)(i := buf ! unat (i - start_addr))\<rparr> in
      if byte_permission m1 i AND PERM_RAW \<noteq> 0
      then m1\<lparr>byte_permission :=
                (byte_permission m1)(i := (byte_permission m1 i OR PERM_READ) AND NOT PERM_RAW)\<rparr>
      else m1)"

definition write_from :: "MMU \<Rightarrow> u8 list \<Rightarrow> u64 \<Rightarrow> MMU res" where
  "write_from m buf start_addr =
     (let end_addr = start_addr + of_nat (length buf); is = loop_range start_addr end_addr in
      bind_res (assert_res (end_addr < mmu_ram_size m)) (\<lambda>_.
      bind_res (defined_res (in_storage m is)) (\<lambda>_.
      bind_res (assert_res (list_all (\<lambda>i. byte_permission m i AND PERM_WRITE \<noteq> 0) is)) (\<lambda>_.
      Inr (fold (write_byte buf start_addr) is m)))))"

definition read_to :: "MMU \<Rightarrow> u64 \<Rightarrow> u64 \<Rightarrow> (u8 list \<times> ReturnException) res" where
  "read_to m start_addr len =
     (let end_addr = start_addr + len; is = loop_range start_addr end_addr in
      bind_res (assert_res (end_addr < mmu_ram_size m)) (\<lambda>_.
      bind_res (defined_res (in_storage m is)) (\<lambda>_.
      let can_read_all = list_all (\<lambda>i. byte_permission m i AND PERM_READ \<noteq> 0) is;
          has_raw = list_ex (\<lambda>i. byte_permission m i AND PERM_RAW \<noteq> 0) is;
          exp1 = (if \<not> can_read_all then ReadMemoryWithNoPermission else NormalExecutionReturn);
          exp2 = (if has_raw then UninitializedMemoryAccess else exp1);
          bytes = fold (\<lambda>i bs. bs[unat (i - start_addr) := ram m i]) is (replicate (unat len) 0)
      in Inr (bytes, exp2))))"

definition load_byte :: "MMU \<Rightarrow> u64 \<Rightarrow> (u64 \<times> ReturnException) res" where
  "load_byte m addr =
     bind_res (read_to m addr 1) (\<lambda>(read_data, exp). Inr (ucast (read_data ! 0), exp))"

definition load_hword :: "MMU \<Rightarrow> u64 \<Rightarrow> (u64 \<times> ReturnException) res" where
  "load_hword m addr =
     bind_res (read_to m addr 2) (\<lambda>(read_data, exp).
     Inr (ucast (read_data ! 0) OR push_bit 8 (ucast (read_data ! 1)), exp))"

definition load_word :: "MMU \<Rightarrow> u64 \<Rightarrow> (u64 \<times> ReturnException) res" where
  "load_word m addr =
     bind_res (read_to m addr 4) (\<lambda>(read_data, exp).
     Inr (ucast (read_data ! 0) OR push_bit 8 (ucast (read_data ! 1))
          OR push_bit 16 (ucast (read_data ! 2)) OR push_bit 24 (ucast (read_data ! 3)), exp))"

definition load_dword :: "MMU \<Rightarrow> u64 \<Rightarrow> (u64 \<times> ReturnException) res" where
  "load_dword m addr =
     bind_res (read_to m addr 8) (\<lambda>(read_data, exp).
     Inr (ucast (read_data ! 0) OR push_bit 8 (ucast (read_data ! 1))
          OR push_bit 16 (ucast (read_data ! 2)) OR push_bit 24 (ucast (read_data ! 3))
          OR push_bit 32 (ucast (read_data ! 4)) OR push_bit 40 (ucast (read_data ! 5))
          OR push_bit 48 (ucast (read_data ! 6)) OR push_bit 56 (ucast (read_data ! 7)), exp))"

definition store_byte :: "MMU \<Rightarrow> u64 \<Rightarrow> u64 \<Rightarrow> MMU res" where
  "store_byte m addr v = write_from m [ucast v] addr"

definition store_hword :: "MMU \<Rightarrow> u64 \<Rightarrow> u64 \<Rightarrow> MMU res" where
  "store_hword m addr v =
     write_from m [ucast v AND 0xFF, ucast (drop_bit 8 v AND 0xFF)] addr"

definition store_word :: "MMU \<Rightarrow> u64 \<Rightarrow> u64 \<Rightarrow> MMU res" where
  "store_word m addr v =
     write_from m [ucast v AND 0xFF, ucast (drop_bit 8 v AND 0xFF),
                   ucast (drop_bit 16 v AND 0xFF), ucast (drop_bit 24 v AND 0xFF)] addr"

definition store_dword :: "MMU \<Rightarrow> u64 \<Rightarrow> u64 \<Rightarrow> MMU res" where
  "store_dword m addr v =
     write_from m [ucast v AND 0xFF, ucast (drop_bit 8 v AND 0xFF),
                   ucast (drop_bit 16 v AND 0xFF), ucast (drop_bit 24 v AND 0xFF),
                   ucast (drop_bit 32 v AND 0xFF), ucast (drop_bit 40 v AND 0xFF),
                   ucast (drop_bit 48 v AND 0xFF), ucast (drop_bit 56 v AND 0xFF)] addr"

definition MMU_load :: "MMU \<Rightarrow> u64 \<Rightarrow> nat \<Rightarrow> (u64 \<times> ReturnException) res" where
  "MMU_load m addr sz =
     (if sz = 8 then load_byte m addr
      else if sz = 16 then load_hword m addr
      else if sz = 32 then load_word m addr
      else if sz = 64 then load_dword m addr
      else Inl AssertionFailure)"

definition MMU_store :: "MMU \<Rightarrow> u64 \<Rightarrow> u64 \<Rightarrow> nat \<Rightarrow> (ReturnException \<times> MMU) res" where
  "MMU_store m addr v sz =
     bind_res (if sz = 8 then store_byte m addr v
               else if sz = 16 then store_hword m addr v
               else if sz = 32 then store_word m addr v
               else if sz = 64 then store_dword m addr v
               else Inl AssertionFailure) (\<lambda>m'.
     Inr (NormalExecutionReturn, m'\<lparr>dirty_blocks := insert (addr div BLOCK_SIZE) (dirty_blocks m')\<rparr>))"

text \<open>The fetch path reads the storage without an assertion and without a permission check.\<close>

definition load_insn :: "MMU \<Rightarrow> u64 \<Rightarrow> (u32 \<times> ReturnException) res" where
  "load_insn m addr =
     bind_res (defined_res (in_storage m [addr + 0, addr + 1, addr + 2, addr + 3])) (\<lambda>_.
     let r = 0 OR ucast (ram m (addr + 0)) OR push_bit 8 (ucast (ram m (addr + 1)))
               OR push_bit 16 (ucast (ram m (addr + 2))) OR push_bit 24 (ucast (ram m (addr + 3)))
     in Inr (ucast (r :: u64), NormalExecutionReturn))"

text \<open>
  \<open>_read_null_terminated_string\<close> reads byte by byte until a zero byte, which it keeps. Every read
  asserts that its end lies below the memory size, so the addresses that can be read are below it:
  the loop either meets a zero byte or stops at the assertion. \<open>fuel\<close> bounds the number of
  reads.
\<close>

fun read_null_terminated_string :: "nat \<Rightarrow> MMU \<Rightarrow> u64 \<Rightarrow> u8 list res option" where
  "read_null_terminated_string 0 m addr = None"
| "read_null_terminated_string (Suc fuel) m addr =
     (case read_to m addr 1 of
        Inl e \<Rightarrow> Some (Inl e)
      | Inr (bs, exp) \<Rightarrow>
          (let read_char = bs ! 0 in
           if read_char = 0 then Some (Inr [read_char])
           else map_option (map_sum id (\<lambda>str. read_char # str))
                  (read_null_terminated_string fuel m (addr + 1))))"

subsection \<open>Loading program segments\<close>

record MemorySegment =
  seg_perms :: u8
  seg_start_addr :: u64
  seg_mem_size :: u64
  seg_file_size :: u64
  seg_data :: "u8 list"

text \<open>\<open>seg_data\<close> is the buffer of \<open>seg_file_size\<close> bytes that \<open>read_elf\<close> allocated.\<close>

definition segment_image :: "MemorySegment \<Rightarrow> u8 list" where
  "segment_image seg =
     (let d = take (unat (seg_file_size seg)) (seg_data seg);
          d1 = (if length d < unat (seg_mem_size seg)
                then d @ replicate (unat (seg_mem_size seg) - length d) 0 else d)
      in if length d1 > unat (seg_mem_size seg) then take (unat (seg_mem_size seg)) d1 else d1)"

definition load_segment :: "MemorySegment \<Rightarrow> MMU \<Rightarrow> MMU res" where
  "load_segment seg m =
     bind_res (set_perms m (seg_start_addr seg) (seg_mem_size seg) PERM_WRITE) (\<lambda>m1.
     bind_res (defined_res (unat (seg_file_size seg) \<le> length (seg_data seg))) (\<lambda>_.
     bind_res (write_from m1 (segment_image seg) (seg_start_addr seg)) (\<lambda>m2.
     bind_res (set_perms m2 (seg_start_addr seg) (seg_mem_size seg) (seg_perms seg)) (\<lambda>m3.
     Inr (m3\<lparr>alloc_ptr := max (alloc_ptr m3)
                (((seg_start_addr seg + seg_mem_size seg) + 0xFFFF) AND NOT 0xFFFF)\<rparr>)))))"

definition load_file :: "MMU \<Rightarrow> MemorySegment list \<Rightarrow> MMU res" where
  "load_file m segments = fold_res load_segment segments m"

subsection \<open>The byte loops in closed form\<close>

lemma fold_write_byte:
  assumes "distinct is"
  shows "fold (write_byte buf s) is m =
    m\<lparr>ram := (\<lambda>i. if i \<in> set is then buf ! unat (i - s) else ram m i),
      byte_permission := (\<lambda>i. if i \<in> set is \<and> byte_permission m i AND PERM_RAW \<noteq> 0
         then (byte_permission m i OR PERM_READ) AND NOT PERM_RAW else byte_permission m i)\<rparr>"
  using assms
proof (induction "is" arbitrary: m)
  case Nil
  then show ?case by simp
next
  case (Cons j js)
  then show ?case by (auto simp: write_byte_def Let_def fun_eq_iff intro!: MMU.equality)
qed

lemma fold_update_upt:
  "j \<le> length xs \<Longrightarrow> fold (\<lambda>k bs. bs[k := g k]) [0..<j] xs = map g [0..<j] @ drop j xs"
proof (induction j)
  case 0
  then show ?case by simp
next
  case (Suc j)
  then show ?case
    by (simp add: list_update_append Cons_nth_drop_Suc [symmetric])
qed

lemma fold_update_loop_range:
  assumes "s \<le> s + len"
  shows "fold (\<lambda>i bs. bs[unat (i - s) := f i]) (loop_range s (s + len)) (replicate (unat len) x)
     = map (\<lambda>k. f (s + of_nat k)) [0..<unat len]"
proof -
  have n: "unat (s + len) - unat s = unat len"
    using unat_add_no_wrap [OF assms] by simp
  have "fold (\<lambda>i bs. bs[unat (i - s) := f i]) (loop_range s (s + len)) (replicate (unat len) x)
     = fold (\<lambda>k bs. bs[unat (of_nat k :: u64) := f (s + of_nat k)]) [0..<unat len] (replicate (unat len) x)"
    by (simp add: loop_range_def n fold_map comp_def)
  also have "\<dots> = fold (\<lambda>k bs. bs[k := f (s + of_nat k)]) [0..<unat len] (replicate (unat len) x)"
  proof (rule fold_cong)
    fix k assume "k \<in> set [0..<unat len]"
    then have "k < 2 ^ 64" using unat_u64_bound [of len] by simp
    then show "(\<lambda>bs. bs[unat (of_nat k :: u64) := f (s + of_nat k)]) = (\<lambda>bs. bs[k := f (s + of_nat k)])"
      by (simp add: unat_of_nat_u64)
  qed simp_all
  also have "\<dots> = map (\<lambda>k. f (s + of_nat k)) [0..<unat len]"
    by (simp add: fold_update_upt)
  finally show ?thesis .
qed

subsection \<open>Reads and writes in closed form\<close>

text \<open>The addresses of an access of \<open>n\<close> bytes at \<open>a\<close> that does not wrap around.\<close>

definition region :: "u64 \<Rightarrow> u64 \<Rightarrow> u64 set" where
  "region a n = {i. a \<le> i \<and> i < a + n}"

definition mmu_wf :: "MMU \<Rightarrow> bool" where
  "mmu_wf m \<longleftrightarrow> ram_cap m = mmu_ram_size m"

text \<open>Every byte of the region may be read once it has been written.\<close>
definition readable_once_written :: "MMU \<Rightarrow> u64 set \<Rightarrow> bool" where
  "readable_once_written m A \<longleftrightarrow>
     (\<forall>i \<in> A. byte_permission m i AND PERM_READ \<noteq> 0 \<or> byte_permission m i AND PERM_RAW \<noteq> 0)"

definition written :: "MMU \<Rightarrow> u8 list \<Rightarrow> u64 \<Rightarrow> MMU" where
  "written m buf a =
    m\<lparr>ram := (\<lambda>i. if i \<in> region a (of_nat (length buf)) then buf ! unat (i - a) else ram m i),
      byte_permission :=
        (\<lambda>i. if i \<in> region a (of_nat (length buf)) \<and> byte_permission m i AND PERM_RAW \<noteq> 0
         then (byte_permission m i OR PERM_READ) AND NOT PERM_RAW else byte_permission m i)\<rparr>"

lemma set_loop_region: "set (loop_range a (a + n)) = region a n"
  by (simp add: set_loop_range region_def)

lemma in_storage_region: "in_storage m (loop_range a (a + n)) \<longleftrightarrow> (\<forall>i \<in> region a n. i < ram_cap m)"
  by (simp add: in_storage_def list_all_iff set_loop_region)

lemma in_storage_wf:
  "mmu_wf m \<Longrightarrow> a + n < mmu_ram_size m \<Longrightarrow> in_storage m (loop_range a (a + n))"
  by (auto simp: in_storage_region mmu_wf_def region_def)

lemma write_from_eq:
  "write_from m buf a =
     (if \<not> a + of_nat (length buf) < mmu_ram_size m then Inl AssertionFailure
      else if \<not> (\<forall>i \<in> region a (of_nat (length buf)). i < ram_cap m) then Inl UndefinedBehaviour
      else if \<not> (\<forall>i \<in> region a (of_nat (length buf)). byte_permission m i AND PERM_WRITE \<noteq> 0)
      then Inl AssertionFailure
      else Inr (written m buf a))"
  by (simp add: write_from_def Let_def in_storage_region fold_write_byte distinct_loop_range
        written_def set_loop_region list_all_iff assert_res_def defined_res_def)

definition read_exception :: "MMU \<Rightarrow> u64 set \<Rightarrow> ReturnException" where
  "read_exception m A =
     (if \<exists>i \<in> A. byte_permission m i AND PERM_RAW \<noteq> 0 then UninitializedMemoryAccess
      else if \<exists>i \<in> A. byte_permission m i AND PERM_READ = 0 then ReadMemoryWithNoPermission
      else NormalExecutionReturn)"

lemma read_to_eq:
  assumes "a \<le> a + n"
  shows "read_to m a n =
     (if \<not> a + n < mmu_ram_size m then Inl AssertionFailure
      else if \<not> (\<forall>i \<in> region a n. i < ram_cap m) then Inl UndefinedBehaviour
      else Inr (map (\<lambda>k. ram m (a + of_nat k)) [0..<unat n], read_exception m (region a n)))"
  using assms
  by (simp add: read_to_def Let_def in_storage_region fold_update_loop_range
        set_loop_region list_all_iff list_ex_iff read_exception_def assert_res_def defined_res_def)

lemma read_to_wrapped:
  assumes "a + n < a"
  shows "read_to m a n =
     (if a + n < mmu_ram_size m then Inr (replicate (unat n) 0, NormalExecutionReturn)
      else Inl AssertionFailure)"
  using assms by (simp add: read_to_def Let_def loop_range_empty in_storage_def)

lemma read_to_length: "read_to m a n = Inr (bs, e) \<Longrightarrow> length bs = unat n"
proof (cases "a \<le> a + n")
  case True
  then show "read_to m a n = Inr (bs, e) \<Longrightarrow> length bs = unat n"
    by (auto simp: read_to_eq split: if_splits)
next
  case False
  then show "read_to m a n = Inr (bs, e) \<Longrightarrow> length bs = unat n"
    by (auto simp: read_to_wrapped split: if_splits)
qed

lemma region_offset:
  assumes "a \<le> a + n" "k < unat n"
  shows "a + of_nat k \<in> region a n" and "unat (a + of_nat k - a) = k"
proof -
  have k: "k < 2 ^ 64" using assms(2) unat_u64_bound [of n] by simp
  then show "unat (a + of_nat k - a) = k" by (simp add: unat_of_nat_u64)
  have b: "unat a + unat n < 2 ^ 64"
    using unat_add_no_wrap [OF assms(1)] unat_u64_bound [of "a + n"] by simp
  then have "unat (a + of_nat k) = unat a + k"
    using assms(2) k by (simp add: unat_word_ariths unat_of_nat_u64)
  then show "a + of_nat k \<in> region a n"
    using assms(2) unat_add_no_wrap [OF assms(1)]
    by (simp add: region_def word_le_nat_alt word_less_nat_alt)
qed

lemma perm_bits:
  fixes p :: u8
  shows "p AND 8 = 0 \<longleftrightarrow> \<not> bit p 3" and "p AND 4 = 0 \<longleftrightarrow> \<not> bit p 2" and "p AND 2 = 0 \<longleftrightarrow> \<not> bit p 1"
  using and_exp_eq_0_iff_not_bit [of p 3] and_exp_eq_0_iff_not_bit [of p 2]
    and_exp_eq_0_iff_not_bit [of p 1] by simp_all

lemma perm_after_write:
  fixes p :: u8
  shows "((p OR 4) AND NOT 8) AND 8 = 0" and "((p OR 4) AND NOT 8) AND 4 \<noteq> 0"
    and "((p OR 4) AND NOT 8) AND 2 = 0 \<longleftrightarrow> p AND 2 = 0"
  by (simp_all only: perm_bits bit_and_iff bit_or_iff bit_not_iff) simp_all

lemmas perm_after_write_simps [simp] = perm_after_write [simplified]

end
