(* ===== verification/Memory_Laws.thy ===== *)
theory Memory_Laws
  imports Vemu_MMU
begin

text \<open>
  What the memory promises. The locale \<open>byte_memory\<close> is the contract of a byte store (a read
  of what was just written returns it, a read elsewhere is not affected); the little-endian
  accesses of every size are proved once inside it, for any encoding with an inverse, and the memory
  of the emulator is an instance. Then the allocator, the permission bytes, the dirty blocks and the
  loader.
\<close>

unbundle bit_operations_syntax

subsection \<open>The contract of a byte store\<close>

locale byte_memory =
  fixes rd :: "'m \<Rightarrow> u64 \<Rightarrow> u64 \<Rightarrow> (u8 list \<times> ReturnException) res"
    and wr :: "'m \<Rightarrow> u8 list \<Rightarrow> u64 \<Rightarrow> 'm res"
    and clean :: "'m \<Rightarrow> u64 set \<Rightarrow> bool"
  assumes rd_wr:
      "wr m bs a = Inr m' \<Longrightarrow> length bs < 2 ^ 64 \<Longrightarrow> a \<le> a + of_nat (length bs) \<Longrightarrow>
       \<exists>e. rd m' a (of_nat (length bs)) = Inr (bs, e)"
    and rd_wr_clean:
      "wr m bs a = Inr m' \<Longrightarrow> length bs < 2 ^ 64 \<Longrightarrow> a \<le> a + of_nat (length bs) \<Longrightarrow>
       clean m (region a (of_nat (length bs))) \<Longrightarrow>
       rd m' a (of_nat (length bs)) = Inr (bs, NormalExecutionReturn)"
    and rd_wr_elsewhere:
      "wr m bs a = Inr m' \<Longrightarrow> b \<le> b + n \<Longrightarrow> region b n \<inter> region a (of_nat (length bs)) = {} \<Longrightarrow>
       rd m' b n = rd m b n"
begin

lemma codec_roundtrip:
  assumes "wr m (enc v) a = Inr m'" and "length (enc v) = n" and "n < 2 ^ 64"
    and "a \<le> a + of_nat n" and "clean m (region a (of_nat n))"
    and "dec (enc v) = w"
  shows "bind_res (rd m' a (of_nat n)) (\<lambda>(bs, e). Inr (dec bs, e)) = Inr (w, NormalExecutionReturn)"
  using rd_wr_clean [of m "enc v" a m'] assms by simp

lemma codec_value:
  assumes "wr m (enc v) a = Inr m'" and "length (enc v) = n" and "n < 2 ^ 64"
    and "a \<le> a + of_nat n" and "dec (enc v) = w"
  shows "\<exists>e. bind_res (rd m' a (of_nat n)) (\<lambda>(bs, e). Inr (dec bs, e)) = Inr (w, e)"
  using rd_wr [of m "enc v" a m'] assms by auto

end

lemma region_nth:
  assumes "length bs < 2 ^ 64" "a \<le> a + of_nat (length bs)" "k < length bs"
  shows "a + of_nat k \<in> region a (of_nat (length bs))" and "unat (a + of_nat k - a) = k"
  using region_offset [of a "of_nat (length bs)" k] assms by (simp_all add: unat_of_nat_u64)

lemma ram_written:
  assumes "length bs < 2 ^ 64" "a \<le> a + of_nat (length bs)"
  shows "map (\<lambda>k. ram (written m bs a) (a + of_nat k)) [0..<length bs] = bs"
proof (rule nth_equalityI)
  fix k assume "k < length (map (\<lambda>k. ram (written m bs a) (a + of_nat k)) [0..<length bs])"
  then have k: "k < length bs" by simp
  then show "map (\<lambda>k. ram (written m bs a) (a + of_nat k)) [0..<length bs] ! k = bs ! k"
    using region_nth [OF assms k] by (simp add: written_def)
qed simp

lemma read_exception_written:
  "readable_once_written m A \<Longrightarrow> A = region a (of_nat (length bs)) \<Longrightarrow>
     read_exception (written m bs a) A = NormalExecutionReturn"
  by (auto simp: read_exception_def written_def readable_once_written_def)

lemma written_sizes [simp]:
  "ram_cap (written m bs a) = ram_cap m" "mmu_ram_size (written m bs a) = mmu_ram_size m"
  "alloc_ptr (written m bs a) = alloc_ptr m" "dirty_blocks (written m bs a) = dirty_blocks m"
  by (simp_all add: written_def)

lemma written_elsewhere:
  assumes "region b n \<inter> region a (of_nat (length bs)) = {}" and "i \<in> region b n"
  shows "ram (written m bs a) i = ram m i"
    and "byte_permission (written m bs a) i = byte_permission m i"
  using assms by (auto simp: written_def)

interpretation mem: byte_memory read_to write_from readable_once_written
proof
  fix m bs a m'
  assume w: "write_from m bs a = Inr m'" and l: "length bs < 2 ^ 64"
    and nw: "a \<le> a + of_nat (length bs)"
  from w have m': "m' = written m bs a"
    and ok: "a + of_nat (length bs) < mmu_ram_size m"
      "\<forall>i \<in> region a (of_nat (length bs)). i < ram_cap m"
    by (auto simp: write_from_eq split: if_splits)
  have r: "read_to m' a (of_nat (length bs)) =
      Inr (bs, read_exception m' (region a (of_nat (length bs))))"
    using ok nw l by (simp add: m' read_to_eq unat_of_nat_u64 ram_written)
  then show "\<exists>e. read_to m' a (of_nat (length bs)) = Inr (bs, e)" by blast
  assume "readable_once_written m (region a (of_nat (length bs)))"
  with r show "read_to m' a (of_nat (length bs)) = Inr (bs, NormalExecutionReturn)"
    by (simp add: m' read_exception_written)
next
  fix m bs a m' b n
  assume w: "write_from m bs a = Inr m'" and nw: "b \<le> b + n"
    and d: "region b n \<inter> region a (of_nat (length bs)) = {}"
  from w have m': "m' = written m bs a" by (auto simp: write_from_eq split: if_splits)
  have ram_eq: "ram m' (b + of_nat k) = ram m (b + of_nat k)" if "k < unat n" for k
    unfolding m' using written_elsewhere(1) [OF d] region_offset(1) [OF nw that] by blast
  have "read_exception m' (region b n) = read_exception m (region b n)"
    unfolding read_exception_def m' using written_elsewhere(2) [OF d] by simp
  with ram_eq show "read_to m' b n = read_to m b n"
    using nw by (simp add: read_to_eq m')
qed

subsection \<open>Little-endian accesses\<close>

text \<open>The bytes that a store writes, least significant first, and the value that a load makes of bytes.\<close>

definition le_bytes :: "nat \<Rightarrow> u64 \<Rightarrow> u8 list" where
  "le_bytes n v = map (\<lambda>k. ucast (drop_bit (8 * k) v)) [0..<n]"

fun le_value :: "u8 list \<Rightarrow> u64" where
  "le_value [] = 0"
| "le_value (b # bs) = ucast b OR push_bit 8 (le_value bs)"

lemma le_value_bit:
  "bit (le_value bs) n \<longleftrightarrow> n < 64 \<and> n < 8 * length bs \<and> bit (bs ! (n div 8)) (n mod 8)"
proof (induction bs arbitrary: n)
  case Nil
  then show ?case by simp
next
  case (Cons b bs)
  show ?case
  proof (cases "n < 8")
    case True
    then show ?thesis by (auto simp: bit_simps)
  next
    case False
    then have "n div 8 = Suc ((n - 8) div 8)" "n mod 8 = (n - 8) mod 8"
      by (simp_all add: le_div_geq le_mod_geq)
    moreover have "\<not> bit b n" using False using bit_imp_le_length [of b n] by auto
    ultimately show ?thesis using False by (auto simp: bit_simps Cons.IH)
  qed
qed

lemma le_value_le_bytes: "le_value (le_bytes n v) = take_bit (8 * n) v"
proof (rule bit_word_eqI)
  fix i assume "i < LENGTH(64)"
  moreover have "i < 8 * n \<Longrightarrow> i div 8 < n" by (simp add: div_less_iff_less_mult mult.commute)
  ultimately show "bit (le_value (le_bytes n v)) i = bit (take_bit (8 * n) v) i"
    by (auto simp: le_value_bit le_bytes_def bit_simps)
qed

lemma store_as_bytes:
  "store_byte m a v = write_from m (le_bytes 1 v) a"
  "store_hword m a v = write_from m (le_bytes 2 v) a"
  "store_word m a v = write_from m (le_bytes 4 v) a"
  "store_dword m a v = write_from m (le_bytes 8 v) a"
  by (simp_all add: store_byte_def store_hword_def store_word_def store_dword_def le_bytes_def
      upt_rec and_low_mask unsigned_take_bit_eq)

lemma le_value_expand:
  "length bs = 1 \<Longrightarrow> le_value bs = ucast (bs ! 0)"
  "length bs = 2 \<Longrightarrow> le_value bs = ucast (bs ! 0) OR push_bit 8 (ucast (bs ! 1))"
  "length bs = 4 \<Longrightarrow> le_value bs = ucast (bs ! 0) OR push_bit 8 (ucast (bs ! 1))
     OR push_bit 16 (ucast (bs ! 2)) OR push_bit 24 (ucast (bs ! 3))"
  "length bs = 8 \<Longrightarrow> le_value bs = ucast (bs ! 0) OR push_bit 8 (ucast (bs ! 1))
     OR push_bit 16 (ucast (bs ! 2)) OR push_bit 24 (ucast (bs ! 3))
     OR push_bit 32 (ucast (bs ! 4)) OR push_bit 40 (ucast (bs ! 5))
     OR push_bit 48 (ucast (bs ! 6)) OR push_bit 56 (ucast (bs ! 7))"
  by (auto simp: numeral_eq_Suc length_Suc_conv push_bit_or ac_simps)

definition load_bytes :: "MMU \<Rightarrow> u64 \<Rightarrow> nat \<Rightarrow> (u64 \<times> ReturnException) res" where
  "load_bytes m a n = bind_res (read_to m a (of_nat n)) (\<lambda>(bs, e). Inr (le_value bs, e))"

lemma bind_res_cong:
  "(\<And>x. m = Inr x \<Longrightarrow> f x = g x) \<Longrightarrow> bind_res m f = bind_res m g"
  by (cases m) auto

lemma load_as_bytes:
  "load_byte m a = load_bytes m a 1"
  "load_hword m a = load_bytes m a 2"
  "load_word m a = load_bytes m a 4"
  "load_dword m a = load_bytes m a 8"
  unfolding load_byte_def load_hword_def load_word_def load_dword_def load_bytes_def
  by (auto intro!: bind_res_cong dest!: read_to_length simp: le_value_expand)

lemma length_le_bytes [simp]: "length (le_bytes n v) = n"
  by (simp add: le_bytes_def)

lemma mmu_store_cases:
  assumes "MMU_store m a v sz = Inr (x, m')"
  obtains n where "sz = 8 * n" "n \<in> {1, 2, 4, 8}" "x = NormalExecutionReturn"
    "write_from m (le_bytes n v) a = Inr (m'\<lparr>dirty_blocks := dirty_blocks m\<rparr>)"
    "dirty_blocks m' = insert (a div BLOCK_SIZE) (dirty_blocks m)"
proof -
  from assms obtain n m1 where n: "sz = 8 * n" "n \<in> {1, 2, 4, 8}"
    and w: "write_from m (le_bytes n v) a = Inr m1"
    and m': "m' = m1\<lparr>dirty_blocks := insert (a div BLOCK_SIZE) (dirty_blocks m1)\<rparr>"
    and x: "x = NormalExecutionReturn"
    by (auto simp: MMU_store_def bind_res_eq_Inr store_as_bytes split: if_splits)
  from w have m1: "m1 = written m (le_bytes n v) a" by (auto simp: write_from_eq split: if_splits)
  show thesis
    by (rule that [OF n x]) (simp_all add: w m' m1)
qed

lemma mmu_load_bytes:
  "n \<in> {1, 2, 4, 8} \<Longrightarrow> MMU_load m a (8 * n) = load_bytes m a n"
  by (auto simp: MMU_load_def load_as_bytes)

lemma read_to_dirty [simp]: "read_to (m\<lparr>dirty_blocks := D\<rparr>) a n = read_to m a n"
  by (simp add: read_to_def in_storage_def)

lemma load_bytes_dirty [simp]: "load_bytes (m\<lparr>dirty_blocks := D\<rparr>) a n = load_bytes m a n"
  by (simp add: load_bytes_def)

text \<open>(C8) A load of the size and address of a store that has just succeeded returns the stored
  value, cut to that size, without an exception, provided the access does not wrap around the
  address space and its bytes are readable or still uninitialised.\<close>

theorem mmu_store_load:
  assumes "MMU_store m a v sz = Inr (x, m')"
    and "a \<le> a + of_nat (sz div 8)"
    and "readable_once_written m (region a (of_nat (sz div 8)))"
  shows "MMU_load m' a sz = Inr (take_bit sz v, NormalExecutionReturn)"
proof -
  from assms(1) obtain n where n: "sz = 8 * n" "n \<in> {1, 2, 4, 8}"
    and w: "write_from m (le_bytes n v) a = Inr (m'\<lparr>dirty_blocks := dirty_blocks m\<rparr>)"
    by (rule mmu_store_cases)
  have "load_bytes (m'\<lparr>dirty_blocks := dirty_blocks m\<rparr>) a n = Inr (take_bit sz v, NormalExecutionReturn)"
    unfolding load_bytes_def n(1)
    by (rule mem.codec_roundtrip [where enc = "le_bytes n", OF w])
      (use n assms(2,3) in \<open>auto simp: le_value_le_bytes\<close>)
  then show ?thesis using n by (simp add: mmu_load_bytes)
qed

text \<open>(C9) A store changes no load of a disjoint part of the memory, whatever the sizes: neither
  the value nor the exception.\<close>

theorem mmu_store_load_elsewhere:
  assumes "MMU_store m a v sz = Inr (x, m')"
    and "b \<le> b + of_nat (sz' div 8)"
    and "region b (of_nat (sz' div 8)) \<inter> region a (of_nat (sz div 8)) = {}"
  shows "MMU_load m' b sz' = MMU_load m b sz'"
proof -
  from assms(1) obtain n where n: "sz = 8 * n"
    and w: "write_from m (le_bytes n v) a = Inr (m'\<lparr>dirty_blocks := dirty_blocks m\<rparr>)"
    by (rule mmu_store_cases)
  have "read_to m' b (of_nat (sz' div 8)) = read_to m b (of_nat (sz' div 8))"
    using mem.rd_wr_elsewhere [OF w assms(2)] assms(3) n by simp
  then show ?thesis
    by (cases "sz' \<in> {8, 16, 32, 64}") (auto simp: MMU_load_def load_as_bytes load_bytes_def)
qed

subsection \<open>Memory safety\<close>

lemma read_to_abort: "mmu_wf m \<Longrightarrow> read_to m a n = Inl e \<Longrightarrow> e = AssertionFailure"
proof (cases "a \<le> a + n")
  case True
  then show "mmu_wf m \<Longrightarrow> read_to m a n = Inl e \<Longrightarrow> e = AssertionFailure"
    by (auto simp: read_to_eq region_def mmu_wf_def split: if_splits)
next
  case False
  then show "read_to m a n = Inl e \<Longrightarrow> e = AssertionFailure"
    by (simp add: read_to_wrapped split: if_splits)
qed

lemma write_from_abort: "mmu_wf m \<Longrightarrow> write_from m bs a = Inl e \<Longrightarrow> e = AssertionFailure"
  by (auto simp: write_from_eq region_def mmu_wf_def split: if_splits)

lemma mmu_wf_written [simp]: "mmu_wf (written m bs a) = mmu_wf m"
  by (simp add: mmu_wf_def)

lemma write_from_wf: "mmu_wf m \<Longrightarrow> write_from m bs a = Inr m' \<Longrightarrow> mmu_wf m'"
  by (auto simp: write_from_eq split: if_splits)

lemma MMU_load_abort: "mmu_wf m \<Longrightarrow> MMU_load m a sz = Inl e \<Longrightarrow> e = AssertionFailure"
  by (auto simp: MMU_load_def load_as_bytes load_bytes_def bind_res_eq_Inl
      dest: read_to_abort split: if_splits)

lemma MMU_store_abort: "mmu_wf m \<Longrightarrow> MMU_store m a v sz = Inl e \<Longrightarrow> e = AssertionFailure"
  by (auto simp: MMU_store_def store_as_bytes bind_res_eq_Inl dest: write_from_abort split: if_splits)

lemma MMU_store_wf: "mmu_wf m \<Longrightarrow> MMU_store m a v sz = Inr (x, m') \<Longrightarrow> mmu_wf m'"
  by (erule mmu_store_cases, drule (1) write_from_wf) (simp add: mmu_wf_def)

lemma set_perms_wf: "mmu_wf m \<Longrightarrow> set_perms m a n p = Inr m' \<Longrightarrow> mmu_wf m'"
  by (auto simp: set_perms_def bind_res_eq_Inr mmu_wf_def)

lemma mmu_wf_alloc_ptr [simp]: "mmu_wf (m\<lparr>alloc_ptr := p\<rparr>) = mmu_wf m"
  by (simp add: mmu_wf_def)

lemma load_segment_wf: "mmu_wf m \<Longrightarrow> load_segment seg m = Inr m' \<Longrightarrow> mmu_wf m'"
  by (auto simp: load_segment_def bind_res_eq_Inr) (metis set_perms_wf write_from_wf)

lemma load_file_wf: "mmu_wf m \<Longrightarrow> load_file m segs = Inr m' \<Longrightarrow> mmu_wf m'"
  unfolding load_file_def by (rule fold_res_invariant [where I = mmu_wf]) (auto dest: load_segment_wf)

text \<open>Loads and stores of a memory whose storage has its nominal size never touch host
  memory outside that storage, whatever the guest address and size: if they stop the process, it
  is at an assertion. A successful store keeps the memory in that form.\<close>

theorem mmu_access_safe:
  assumes "mmu_wf m"
  shows "(MMU_load m a sz = Inl e \<longrightarrow> e = AssertionFailure) \<and>
         (MMU_store m a v sz = Inl e' \<longrightarrow> e' = AssertionFailure) \<and>
         (MMU_store m a v sz = Inr (x, m') \<longrightarrow> mmu_wf m')"
  using assms MMU_load_abort MMU_store_abort MMU_store_wf by blast

text \<open>
  The bound that the accesses assert is computed modulo the word size. An access that wraps around
  the top of the address space passes it, its loop makes no iteration, and the guest sees a read of
  zeros or a store that is lost.
\<close>

text \<open>(C34) An access whose last byte lies beyond the top of the address space is not reported: the
  load returns zero normally and the store succeeds without changing a byte.\<close>

theorem mmu_wrapped_access:
  assumes "n \<in> {1, 2, 4, 8}" and "a + of_nat n < a" and "a + of_nat n < mmu_ram_size m"
  shows "MMU_load m a (8 * n) = Inr (0, NormalExecutionReturn) \<and>
         (\<exists>m'. MMU_store m a v (8 * n) = Inr (NormalExecutionReturn, m') \<and> ram m' = ram m)"
proof -
  have n: "n < 2 ^ 64" "of_nat (length (le_bytes n v)) = (of_nat n :: u64)"
    using assms(1) by auto
  have reg: "region a (of_nat n) = {}" using assms(2) by (auto simp: region_def)
  have zero: "le_value (replicate k 0) = 0" for k by (induction k) simp_all
  have "load_bytes m a n = Inr (0, NormalExecutionReturn)"
    using assms by (simp add: load_bytes_def read_to_wrapped zero)
  moreover have "write_from m (le_bytes n v) a = Inr (written m (le_bytes n v) a)"
    using assms(3) reg by (simp add: write_from_eq)
  moreover have "ram (written m (le_bytes n v) a) = ram m"
    using reg by (simp add: written_def)
  ultimately show ?thesis
    using assms(1) by (auto simp: mmu_load_bytes MMU_store_def store_as_bytes)
qed

subsection \<open>The allocator and uninitialised memory\<close>

lemma allocate_eq:
  assumes "allocate m n = Inr (base, m')"
  shows "base = alloc_ptr m" and "alloc_ptr m' = base + n" and "base \<le> base + n"
    and "base + n < mmu_ram_size m" and "ram m' = ram m" and "ram_cap m' = ram_cap m"
    and "mmu_ram_size m' = mmu_ram_size m" and "dirty_blocks m' = dirty_blocks m"
    and "byte_permission m' =
      (\<lambda>i. if i \<in> region base n then PERM_RAW OR PERM_WRITE else byte_permission m i)"
  using assms
  by (auto simp: allocate_def set_perms_def bind_res_eq_Inr Let_def region_def add.commute)

text \<open>A read that touches one byte of a block just allocated and not yet written reports
  uninitialised memory, whatever else it touches, and returns no normal result.\<close>

theorem fresh_block_uninitialised:
  assumes "allocate m n = Inr (base, m')" and "mmu_wf m"
    and "b \<le> b + k" and "b + k < mmu_ram_size m" and "region b k \<inter> region base n \<noteq> {}"
  shows "\<exists>bs. read_to m' b k = Inr (bs, UninitializedMemoryAccess)"
proof -
  from assms(5) obtain i where "i \<in> region b k" "i \<in> region base n" by blast
  then have "byte_permission m' i AND PERM_RAW \<noteq> 0"
    using allocate_eq(9) [OF assms(1)] by simp
  then have "read_exception m' (region b k) = UninitializedMemoryAccess"
    using \<open>i \<in> region b k\<close> by (auto simp: read_exception_def)
  moreover have "\<forall>i \<in> region b k. i < ram_cap m'"
    using assms(2,4) allocate_eq(6) [OF assms(1)] by (auto simp: region_def mmu_wf_def)
  ultimately show ?thesis
    using assms(3,4) allocate_eq(7) [OF assms(1)] by (simp add: read_to_eq)
qed

text \<open>A run of allocations: the bases handed out, in order.\<close>

fun allocate_all :: "MMU \<Rightarrow> u64 list \<Rightarrow> (u64 list \<times> MMU) res" where
  "allocate_all m [] = Inr ([], m)"
| "allocate_all m (n # ns) =
     bind_res (allocate m n) (\<lambda>(b, m'). bind_res (allocate_all m' ns) (\<lambda>(bs, m''). Inr (b # bs, m'')))"

lemma allocate_all_above:
  "allocate_all m ns = Inr (bs, m') \<Longrightarrow>
     length bs = length ns \<and> (\<forall>j < length ns. alloc_ptr m \<le> bs ! j)"
proof (induction ns arbitrary: m bs)
  case Nil
  then show ?case by simp
next
  case (Cons n ns)
  then obtain b m1 bs1 where a: "allocate m n = Inr (b, m1)"
    and r: "allocate_all m1 ns = Inr (bs1, m')" and bs: "bs = b # bs1"
    by (auto simp: bind_res_eq_Inr)
  have "alloc_ptr m \<le> alloc_ptr m1" using allocate_eq(1,2,3) [OF a] by simp
  then show ?case
    using Cons.IH [OF r] allocate_eq(1) [OF a] bs by (auto simp: nth_Cons split: nat.splits)
qed

text \<open>The blocks of any run of allocations are pairwise disjoint.\<close>

theorem allocations_disjoint:
  assumes "allocate_all m ns = Inr (bs, m')" and "i < j" and "j < length ns"
  shows "region (bs ! i) (ns ! i) \<inter> region (bs ! j) (ns ! j) = {}"
  using assms
proof (induction ns arbitrary: m bs i j)
  case Nil
  then show ?case by simp
next
  case (Cons n ns)
  from Cons.prems(1) obtain b m1 bs1 where a: "allocate m n = Inr (b, m1)"
    and r: "allocate_all m1 ns = Inr (bs1, m')" and bs: "bs = b # bs1"
    by (auto simp: bind_res_eq_Inr)
  from Cons.prems(2) obtain j' where j: "j = Suc j'" by (cases j) auto
  show ?case
  proof (cases i)
    case 0
    have "b + n \<le> bs1 ! j'"
      using allocate_all_above [OF r] allocate_eq(1,2) [OF a] Cons.prems(3) j by simp
    then show ?thesis using 0 j bs by (auto simp: region_def)
  next
    case (Suc i')
    then show ?thesis using Cons.IH [OF r, of i' j'] Cons.prems(2,3) j bs by simp
  qed
qed

end
