(* ===== verification/Memory_Reset.thy ===== *)
theory Memory_Reset
  imports Memory_Laws
begin

text \<open>
  The dirty-block protocol of the memory (\<open>store\<close> marks, \<open>reset_to\<close> restores), the copy
  constructor, the null-terminated string read and the segment loader.
\<close>

unbundle bit_operations_syntax

subsection \<open>Runs of stores and the dirty blocks\<close>

definition stores :: "(u64 \<times> u64 \<times> nat) list \<Rightarrow> MMU \<Rightarrow> MMU res" where
  "stores ss m = fold_res (\<lambda>(a, v, sz) m. bind_res (MMU_store m a v sz) (\<lambda>(_, m'). Inr m')) ss m"

definition within_block :: "u64 \<Rightarrow> nat \<Rightarrow> bool" where
  "within_block a n \<longleftrightarrow> unat a mod 4096 + n \<le> 4096 \<and> a \<le> a + of_nat n"

text \<open>Every byte that differs from \<open>base\<close> is in a dirty block, and the dirty blocks are whole.\<close>

definition tracked :: "MMU \<Rightarrow> MMU \<Rightarrow> bool" where
  "tracked base m \<longleftrightarrow>
     (\<forall>i. ram m i \<noteq> ram base i \<longrightarrow> i div BLOCK_SIZE \<in> dirty_blocks m) \<and>
     (\<forall>blk \<in> dirty_blocks m. unat blk * 4096 + 4096 \<le> unat (mmu_ram_size m)) \<and>
     mmu_wf m \<and> mmu_ram_size m = mmu_ram_size base"

lemma unat_block: "unat (a div BLOCK_SIZE) = unat (a :: u64) div 4096"
  by (simp add: unat_div)

lemma same_block_nat:
  assumes "a mod b + n \<le> b" "a \<le> i" "i < a + n"
  shows "i div b = a div (b :: nat)"
proof (rule div_nat_eqI)
  have "b * (a div b) + a mod b = a" by simp
  then show "b * (a div b) \<le> i" "i < b * Suc (a div b)" using assms unfolding mult_Suc_right by linarith+
qed

lemma region_same_block:
  assumes "within_block a n" "i \<in> region a (of_nat n)" "n \<le> 4096"
  shows "i div BLOCK_SIZE = a div BLOCK_SIZE"
proof -
  have n: "unat (of_nat n :: u64) = n" using assms(3) by (simp add: unat_of_nat_u64)
  have "unat (a + of_nat n) = unat a + n"
    using unat_add_no_wrap [of a "of_nat n"] assms(1) n by (simp add: within_block_def)
  then have "unat a \<le> unat i" "unat i < unat a + n"
    using assms(2) by (auto simp: region_def word_le_nat_alt word_less_nat_alt)
  then have "unat i div 4096 = unat a div 4096"
    using assms(1) unfolding within_block_def by (intro same_block_nat [of "unat a" 4096 n]) auto
  then show ?thesis by (metis unat_block word_unat_eq_iff)
qed

lemma block_end:
  assumes "4096 dvd R" "a < R"
  shows "a div 4096 * 4096 + 4096 \<le> (R :: nat)"
proof -
  from assms(1) obtain k where k: "R = k * 4096" by (metis dvd_def mult.commute)
  then have "a div 4096 < k" using assms(2) by (simp add: div_less_iff_less_mult)
  then have "(a div 4096 + 1) * 4096 \<le> k * 4096" by (intro mult_le_mono1) simp
  then show ?thesis using k by simp
qed

lemma tracked_store:
  assumes "tracked base m" "MMU_store m a v sz = Inr (x, m')" "within_block a (sz div 8)"
    "4096 dvd unat (mmu_ram_size m)"
  shows "tracked base m'"
proof -
  from assms(2) obtain n where n: "sz = 8 * n" "n \<in> {1, 2, 4, 8}"
    and w: "write_from m (le_bytes n v) a = Inr (m'\<lparr>dirty_blocks := dirty_blocks m\<rparr>)"
    and d: "dirty_blocks m' = insert (a div BLOCK_SIZE) (dirty_blocks m)"
    by (rule mmu_store_cases)
  from w have m': "m'\<lparr>dirty_blocks := dirty_blocks m\<rparr> = written m (le_bytes n v) a"
    and lim: "a + of_nat n < mmu_ram_size m"
    by (auto simp: write_from_eq split: if_splits)
  have ram': "ram m' = ram (written m (le_bytes n v) a)" "mmu_ram_size m' = mmu_ram_size m"
    using arg_cong [OF m', of ram] arg_cong [OF m', of mmu_ram_size] by simp_all
  have wb: "within_block a n" using assms(3) n(1) by simp
  have small: "n \<le> 4096" using n(2) by auto
  have "a < mmu_ram_size m" using wb lim unfolding within_block_def by (meson le_less_trans)
  then have "unat a div 4096 * 4096 + 4096 \<le> unat (mmu_ram_size m)"
    using block_end [OF assms(4)] by (simp add: word_less_nat_alt)
  moreover have "i div BLOCK_SIZE \<in> dirty_blocks m'" if "ram m' i \<noteq> ram base i" for i
  proof (cases "i \<in> region a (of_nat n)")
    case True
    then show ?thesis using region_same_block [OF wb _ small] d by simp
  next
    case False
    then show ?thesis using that assms(1) d ram' by (auto simp: written_def tracked_def)
  qed
  moreover have "mmu_wf m'" using assms(1,2) MMU_store_wf unfolding tracked_def by blast
  ultimately show ?thesis
    using assms(1) unfolding tracked_def d ram'(2) ball_simps unat_block by metis
qed

lemma tracked_stores:
  assumes "tracked base m" "stores ss m = Inr m'"
    "\<forall>(a, v, sz) \<in> set ss. within_block a (sz div 8)" "4096 dvd unat (mmu_ram_size m)"
  shows "tracked base m' \<and> mmu_ram_size m' = mmu_ram_size m"
  using assms(2) unfolding stores_def
proof (rule fold_res_invariant)
  show "tracked base m \<and> mmu_ram_size m = mmu_ram_size m" using assms(1) by simp
next
  fix s t t'
  assume "s \<in> set ss" and t: "tracked base t \<and> mmu_ram_size t = mmu_ram_size m"
    and st: "(case s of (a, v, sz) \<Rightarrow> \<lambda>m. bind_res (MMU_store m a v sz) (\<lambda>(_, m'). Inr m')) t = Inr t'"
  obtain a v sz where s: "s = (a, v, sz)" by (cases s)
  with st obtain x where st': "MMU_store t a v sz = Inr (x, t')"
    by (auto simp: bind_res_eq_Inr)
  have "tracked base t'"
    using tracked_store [OF _ st'] t assms(3,4) \<open>s \<in> set ss\<close> s by auto
  then show "tracked base t' \<and> mmu_ram_size t' = mmu_ram_size m"
    using t unfolding tracked_def by metis
qed

lemma block_region:
  assumes "unat blk * 4096 + 4096 < 2 ^ 64"
  shows "unat (blk * BLOCK_SIZE) = unat blk * 4096"
    and "unat (blk * BLOCK_SIZE + BLOCK_SIZE) = unat blk * 4096 + 4096"
  using assms by (simp_all add: unat_word_ariths)

lemma reset_to_tracked:
  assumes "tracked base m" "mmu_wf base"
  shows "\<exists>m'. reset_to m base = Inr m' \<and> ram m' = ram base \<and> dirty_blocks m' = {}"
proof -
  have lim: "unat blk * 4096 + 4096 < 2 ^ 64" "unat blk * 4096 + 4096 \<le> unat (mmu_ram_size m)"
    if "blk \<in> dirty_blocks m" for blk
    using assms(1) that unat_u64_bound [of "mmu_ram_size m"] by (auto simp: tracked_def dest!: bspec)
  have st: "in_storage m' (loop_range (blk * BLOCK_SIZE) (blk * BLOCK_SIZE + BLOCK_SIZE))"
    if "blk \<in> dirty_blocks m" "ram_cap m' = mmu_ram_size m" for blk m'
    using lim [OF that(1)] block_region [of blk] that(2)
    by (auto simp: in_storage_def list_all_iff set_loop_range word_less_nat_alt)
  have "(if \<exists>blk \<in> dirty_blocks m. blk * BLOCK_SIZE \<le> i \<and> i < blk * BLOCK_SIZE + BLOCK_SIZE
         then ram base i else ram m i) = ram base i" for i
  proof (cases "ram m i = ram base i")
    case False
    then have b: "i div BLOCK_SIZE \<in> dirty_blocks m" using assms(1) by (simp add: tracked_def)
    have "i div BLOCK_SIZE * BLOCK_SIZE \<le> i" "i < i div BLOCK_SIZE * BLOCK_SIZE + BLOCK_SIZE"
      using block_region [OF lim(1) [OF b]]
      by (simp_all add: word_le_nat_alt word_less_nat_alt unat_block)
    then show ?thesis using b by auto
  qed simp
  moreover have "ram_cap m = mmu_ram_size m" "ram_cap base = mmu_ram_size m"
    using assms by (auto simp: tracked_def mmu_wf_def)
  ultimately show ?thesis using st by (simp add: reset_to_def)
qed

text \<open>(C10) Resetting restores the contents: after any run of stores none of which crosses a
  block boundary, \<open>reset_to\<close> gives back the bytes of the snapshot and an empty dirty set, for
  memories of whole blocks.\<close>

theorem reset_restores:
  assumes "mmu_wf m" and "mmu_wf base" and "mmu_ram_size base = mmu_ram_size m"
    and "ram m = ram base" and "dirty_blocks m = {}"
    and "4096 dvd unat (mmu_ram_size m)"
    and "stores ss m = Inr m'"
    and "\<forall>(a, v, sz) \<in> set ss. within_block a (sz div 8)"
  shows "\<exists>m''. reset_to m' base = Inr m'' \<and> ram m'' = ram base \<and> dirty_blocks m'' = {}"
proof -
  have "tracked base m" using assms(1-5) by (simp add: tracked_def)
  then have "tracked base m'" using tracked_stores assms(6-8) by blast
  then show ?thesis using assms(2) by (rule reset_to_tracked)
qed

text \<open>(C33) A store marks only the block of its first byte: a byte that it writes in the next
  block survives the reset with the written value.\<close>

theorem reset_misses_crossing_store:
  assumes "MMU_store m a v sz = Inr (x, m')" and "dirty_blocks m = {}"
    and "a div BLOCK_SIZE * BLOCK_SIZE + BLOCK_SIZE \<le> i"
    and "reset_to m' base = Inr m''"
  shows "ram m'' i = ram m' i"
proof -
  from assms(1) have "dirty_blocks m' = {a div BLOCK_SIZE}"
    by (rule mmu_store_cases) (simp add: assms(2))
  then show ?thesis using assms(3,4) by (auto simp: reset_to_def bind_res_eq_Inr)
qed

subsection \<open>The copy constructor\<close>

text \<open>A copied memory has no storage: a read or a write of at least one byte, at any address
  that the assertions let through without wrapping, is undefined behaviour. The copies made by
  \<open>Bus\<close>'s copy constructor and \<open>VEmu::fork\<close> are of this kind.\<close>

theorem mmu_copy_unusable:
  assumes "0 < n" and "a \<le> a + n" and "a + n < mmu_ram_size m"
  shows "read_to (MMU_copy m) a n = Inl UndefinedBehaviour \<and>
         (\<forall>bs. of_nat (length bs) = n \<longrightarrow> write_from (MMU_copy m) bs a = Inl UndefinedBehaviour)"
proof -
  have "a < a + n" using assms(1,2) by (metis add.right_neutral add_left_cancel order_le_less word_coorder.extremum_strict)
  then have "a \<in> region a n" by (simp add: region_def)
  then have "\<not> (\<forall>i \<in> region a n. i < ram_cap (MMU_copy m))" by (auto simp: MMU_copy_def)
  moreover have "a + n < mmu_ram_size (MMU_copy m)" using assms(3) by (simp add: MMU_copy_def)
  ultimately show ?thesis using assms(2) by (auto simp: read_to_eq write_from_eq)
qed

subsection \<open>Null-terminated strings\<close>

lemma unat_add_1: "a + 1 \<noteq> 0 \<Longrightarrow> unat (a + 1 :: u64) = Suc (unat a)"
  using unatSuc [of a] by (simp add: add.commute)

lemma read_one_byte:
  "read_to m a 1 =
     (if a + 1 = 0 then (if 0 < mmu_ram_size m then Inr ([0], NormalExecutionReturn) else Inl AssertionFailure)
      else if \<not> a + 1 < mmu_ram_size m then Inl AssertionFailure
      else if \<not> a < ram_cap m then Inl UndefinedBehaviour
      else Inr ([ram m a], read_exception m {a}))"
proof (cases "a + 1 = 0")
  case True
  then have "a \<noteq> 0" by auto
  then have "a + 1 < a" using True by (simp add: word_neq_0_conv)
  then show ?thesis using True read_to_wrapped [of a 1 m] by simp
next
  case False
  note u = unat_add_1 [OF False]
  then have "a \<le> a + 1" by (simp add: word_le_nat_alt)
  moreover have "region a 1 = {a}"
    using u by (auto simp: region_def word_le_nat_alt word_less_nat_alt word_unat_eq_iff)
  ultimately show ?thesis using False by (simp add: read_to_eq)
qed

lemma string_read_ends:
  "unat (mmu_ram_size m) - unat a < fuel \<Longrightarrow> \<exists>r. read_null_terminated_string fuel m a = Some r"
proof (induction fuel arbitrary: a)
  case 0
  then show ?case by simp
next
  case (Suc fuel)
  show ?case
  proof (cases "a + 1 \<noteq> 0 \<and> a + 1 < mmu_ram_size m \<and> a < ram_cap m")
    case True
    then have "unat (mmu_ram_size m) - unat (a + 1) < fuel"
      using Suc.prems unat_add_1 [of a] by (auto simp: word_less_nat_alt)
    then show ?thesis using Suc.IH [of "a + 1"] True by (auto simp: read_one_byte Let_def)
  next
    case False
    then show ?thesis by (auto simp: read_one_byte Let_def)
  qed
qed

lemma string_read_shape:
  "read_null_terminated_string fuel m a = Some (Inr str) \<Longrightarrow>
     str \<noteq> [] \<and> last str = 0 \<and> 0 \<notin> set (butlast str)"
proof (induction fuel arbitrary: a str)
  case 0
  then show ?case by simp
next
  case (Suc fuel)
  then obtain bs e where rd: "read_to m a 1 = Inr (bs, e)" by (auto split: sum.splits)
  show ?case
  proof (cases "bs ! 0 = 0")
    case True
    then show ?thesis using Suc.prems rd by auto
  next
    case False
    with Suc.prems rd obtain z where z: "read_null_terminated_string fuel m (a + 1) = Some z"
      and "map_sum id (\<lambda>s. bs ! 0 # s) z = Inr str"
      by (auto simp: Let_def)
    then obtain s where "z = Inr s" "str = bs ! 0 # s" by (cases z) auto
    then show ?thesis using Suc.IH z False by auto
  qed
qed

text \<open>(C32) Reading a path name from guest memory always ends, within as many reads as the memory
  has bytes plus one; and what it returns is one null byte preceded by non-null bytes.\<close>

theorem string_read_total:
  assumes "unat (mmu_ram_size m) < fuel"
  shows "\<exists>r. read_null_terminated_string fuel m a = Some r \<and>
     (\<forall>str. r = Inr str \<longrightarrow> str \<noteq> [] \<and> last str = 0 \<and> 0 \<notin> set (butlast str))"
proof -
  obtain r where "read_null_terminated_string fuel m a = Some r"
    using string_read_ends [of m a fuel] assms by (meson diff_le_self le_less_trans)
  then show ?thesis using string_read_shape [of fuel m a] by blast
qed

subsection \<open>The segment loader\<close>

lemma segment_image_length: "length (segment_image seg) = unat (seg_mem_size seg)"
  by (auto simp: segment_image_def Let_def)

lemma segment_image_nth:
  assumes "k < unat (seg_mem_size seg)" "unat (seg_file_size seg) \<le> length (seg_data seg)"
  shows "segment_image seg ! k = (if k < unat (seg_file_size seg) then seg_data seg ! k else 0)"
  using assms by (simp add: segment_image_def Let_def nth_append)

text \<open>What a loaded segment leaves in the memory\<close>

lemma load_segment_result:
  assumes "load_segment seg m = Inr m'"
  defines "a \<equiv> seg_start_addr seg" and "n \<equiv> seg_mem_size seg"
  shows "a \<le> a + n" "a + n < mmu_ram_size m" "unat (seg_file_size seg) \<le> length (seg_data seg)"
    "k < unat n \<Longrightarrow> ram m' (a + of_nat k) = segment_image seg ! k"
    "i \<notin> region a n \<Longrightarrow> ram m' i = ram m i"
    "byte_permission m' i = (if i \<in> region a n then seg_perms seg else byte_permission m i)"
    "alloc_ptr m' = max (alloc_ptr m) (((a + n) + 0xFFFF) AND NOT 0xFFFF)" "mmu_ram_size m' = mmu_ram_size m"
proof -
  have len: "of_nat (length (segment_image seg)) = n" by (simp add: segment_image_length n_def)
  from assms obtain m1 m2 where nw: "a \<le> a + n" and sz: "a + n < mmu_ram_size m"
    and m1: "m1 = m\<lparr>byte_permission := (\<lambda>i. if i \<in> region a n then PERM_WRITE else byte_permission m i)\<rparr>"
    and f: "unat (seg_file_size seg) \<le> length (seg_data seg)"
    and m2: "m2 = written m1 (segment_image seg) a"
    and ram': "ram m' = ram m2"
    and perm': "byte_permission m' = (\<lambda>i. if i \<in> region a n then seg_perms seg else byte_permission m2 i)"
    and rest: "alloc_ptr m' = max (alloc_ptr m) (((a + n) + 0xFFFF) AND NOT 0xFFFF)" "mmu_ram_size m' = mmu_ram_size m"
    by (auto simp: load_segment_def set_perms_def bind_res_eq_Inr write_from_eq region_def a_def n_def split: if_splits)
  show "a \<le> a + n" "a + n < mmu_ram_size m" "unat (seg_file_size seg) \<le> length (seg_data seg)"
    "alloc_ptr m' = max (alloc_ptr m) (((a + n) + 0xFFFF) AND NOT 0xFFFF)" "mmu_ram_size m' = mmu_ram_size m"
    by (fact nw sz f rest)+
  show "ram m' (a + of_nat k) = segment_image seg ! k" if "k < unat n"
    using region_offset [OF nw that] by (simp add: ram' m2 written_def len)
  show "i \<notin> region a n \<Longrightarrow> ram m' i = ram m i"
    "byte_permission m' i = (if i \<in> region a n then seg_perms seg else byte_permission m i)"
    by (simp_all add: ram' perm' m2 m1 written_def len)
qed

text \<open>(C31) Loading a segment puts the file's bytes at its address, zeros in the rest of its memory
  size, its permissions on exactly those bytes, and changes no other byte or permission.\<close>

theorem load_segment_effect:
  assumes "load_segment seg m = Inr m'"
  shows "(\<forall>k < unat (seg_mem_size seg). ram m' (seg_start_addr seg + of_nat k) =
            (if k < unat (seg_file_size seg) then seg_data seg ! k else 0)) \<and>
         (\<forall>i. byte_permission m' i =
            (if i \<in> region (seg_start_addr seg) (seg_mem_size seg) then seg_perms seg else byte_permission m i)) \<and>
         (\<forall>i. i \<notin> region (seg_start_addr seg) (seg_mem_size seg) \<longrightarrow> ram m' i = ram m i)"
  using load_segment_result [OF assms] by (simp add: segment_image_nth)

end
