(* ===== verification/Decoder_Tables.thy ===== *)
theory Decoder_Tables
  imports Vemu_Defs
begin

text \<open>
  The constant tables of \<^verbatim>\<open>src/InstructionDecoder.cpp\<close>. A \<open>const std::map\<close> is built from its
  initialiser list: the entries are kept in key order and the first entry of a key wins. Walking
  the map visits the entries in that order; \<open>at\<close> on a missing key throws.
\<close>

subsection \<open>Maps from initialiser lists\<close>

fun map_insert :: "'k::linorder \<Rightarrow> 'v \<Rightarrow> ('k \<times> 'v) list \<Rightarrow> ('k \<times> 'v) list" where
  "map_insert k v [] = [(k, v)]"
| "map_insert k v ((k', v') # m) =
     (if k < k' then (k, v) # (k', v') # m
      else if k = k' then (k', v') # m
      else (k', v') # map_insert k v m)"

definition map_init :: "('k::linorder \<times> 'v) list \<Rightarrow> ('k \<times> 'v) list" where
  "map_init xs = foldl (\<lambda>m (k, v). map_insert k v m) [] xs"

definition map_at :: "('k \<times> 'v) list \<Rightarrow> 'k \<Rightarrow> 'v res" where
  "map_at m k = (case map_of m k of None \<Rightarrow> Inl OutOfRange | Some v \<Rightarrow> Inr v)"

subsection \<open>The tables\<close>

definition inst_string_names :: "(IName \<times> string) list" where
  "inst_string_names = map_init [
    (iLB, ''LB''), (iLH, ''LH''), (iLW, ''LW''), (iLBU, ''LBU''), (iLHU, ''LHU''), (iLD, ''LD''),
    (iLWU, ''LWU''), (iADDI, ''ADDI''), (iADDIW, ''ADDIW''), (iSLTI, ''SLTI''),
    (iSLTIU, ''SLTIU''), (iXORI, ''XORI''), (iORI, ''ORI''), (iOR, ''OR''), (iANDI, ''ANDI''),
    (iAND, ''AND''), (iSLLI, ''SLLI''), (iSRLI, ''SRLI''), (iSRAI, ''SRAI''), (iSRA, ''SRA''),
    (iSLLIW, ''SLLIW''), (iSRLIW, ''SRLIW''), (iSRLW, ''SRLW''), (iSRAIW, ''SRAIW''),
    (iSRAW, ''SRAW''), (iFENCE, ''FENCE''), (iFENCEI, ''FENCEI''), (iECALL, ''ECALL''),
    (iEBREAK, ''EBREAK''), (iCSRRW, ''CSRRW''), (iCSRRS, ''CSRRS''), (iCSRRC, ''CSRRC''),
    (iCSRRWI, ''CSRRWI''), (iCSRRSI, ''CSRRSI''), (iCSRRCI, ''CSRRCI''), (iBEQ, ''BEQ''),
    (iBNE, ''BNE''), (iBLT, ''BLT''), (iBGE, ''BGE''), (iBLTU, ''BLTU''), (iBGEU, ''BGEU''),
    (iSB, ''SB''), (iSH, ''SH''), (iSW, ''SW''), (iSD, ''SD''), (iADD, ''ADD''),
    (iADDW, ''ADDW''), (iSUB, ''SUB''), (iSUBW, ''SUBW''), (iSLL, ''SLL''), (iSLLW, ''SLLW''),
    (iSLT, ''SLT''), (iSLTU, ''SLTU''), (iXOR, ''XOR''), (iSRL, ''SRL''), (iSRLW, ''SRLW''),
    (iLUI, ''LUI''), (iAUIPC, ''AUIPC''), (iJAL, ''JAL''), (iJALR, ''JALR''), (iMUL, ''MUL''),
    (iMULH, ''MULH''), (iMULHSU, ''MULHSU''), (iMULHU, ''MULHU''), (iDIV, ''DIV''),
    (iDIVU, ''DIVU''), (iREM, ''REM''), (iREMU, ''REMU''), (iMULW, ''MULW''), (iDIVW, ''DIVW''),
    (iDIVUW, ''DIVUW''), (iREMW, ''REMW''), (iREMUW, ''REMUW''), (iLRW, ''LRW''),
    (iSCW, ''SCW''), (iAMOSWAPW, ''AMOSWAPW''), (iAMOADDW, ''AMOADDW''), (iAMOXORW, ''AMOXORW''),
    (iAMOANDW, ''AMOANDW''), (iAMOORW, ''AMOORW''), (iAMOMINW, ''AMOMINW''),
    (iAMOMAXW, ''AMOMAXW''), (iAMOMINUW, ''AMOMINUW''), (iAMOMAXUW, ''AMOMAXUW''),
    (iLRD, ''LRD''), (iSCD, ''SCD''), (iAMOSWAPD, ''AMOSWAPD''), (iAMOADDD, ''AMOADDD''),
    (iAMOXORD, ''AMOXORD''), (iAMOANDD, ''AMOANDD''), (iAMOORD, ''AMOORD''),
    (iAMOMIND, ''AMOMIND''), (iAMOMAXD, ''AMOMAXD''), (iAMOMINUD, ''AMOMINUD''),
    (iAMOMAXUD, ''AMOMAXUD''), (iSRET, ''SRET''), (iMRET, ''MRET''), (iFLW, ''FLW''),
    (iFSW, ''FSW''), (iFMADDS, ''FMADDS''), (iFMSUBS, ''FMSUBS''), (iFMSUBS, ''FMSUBS''),
    (iFNMSUBS, ''FNMSUBS''), (iFADDS, ''FADDS''), (iFSUBS, ''FSUBS''), (iFMULS, ''FMULS''),
    (iFDIVS, ''FDIVS''), (iFSQRTS, ''FSQRTS''), (iFSGNJS, ''FSGNJS''), (iFSGNJNS, ''FSGNJNS''),
    (iFSGNJXS, ''FSGNJXS''), (iFMINS, ''FMINS''), (iFMAXS, ''FMAXS''), (iFCVTWS, ''FCVTWS''),
    (iFCVTWUS, ''FCVTWUS''), (iFMVXW, ''FMVXW''), (iFEQS, ''FEQS''), (iFLTS, ''FLTS''),
    (iFLES, ''FLES''), (iFCLASSS, ''FCLASSS''), (iFCVTSW, ''FCVTSW''), (iFCVTSWU, ''FCVTSWU''),
    (iFMVWX, ''FMVWX''), (iFCVTLS, ''FCVTLS''), (iFCVTLUS, ''FCVTLUS''), (iFCVTLS, ''FCVTLS''),
    (iFCVTSLU, ''FCVTSLU''), (iXXX, ''XXX'')]"

definition i_opcodes :: "(IName \<times> u8) list" where
  "i_opcodes = map_init [
    (iLB, 0b0000011), (iLBU, 0b0000011), (iLH, 0b0000011), (iLHU, 0b0000011), (iLW, 0b0000011),
    (iLD, 0b0000011), (iLWU, 0b0000011), (iADDI, 0b0010011), (iADDIW, 0b0011011),
    (iSLTI, 0b0010011), (iSLTIU, 0b0010011), (iXORI, 0b0010011), (iORI, 0b0010011),
    (iANDI, 0b0010011), (iSLLI, 0b0010011), (iSRLI, 0b0010011), (iSRAI, 0b0010011),
    (iSLLIW, 0b0011011), (iSRLIW, 0b0011011), (iSRAIW, 0b0011011), (iJALR, 0b1100111),
    (iFENCE, 0b0001111), (iFENCEI, 0b0001111), (iECALL, 0b1110011), (iEBREAK, 0b1110011),
    (iCSRRW, 0b1110011), (iCSRRS, 0b1110011), (iCSRRC, 0b1110011), (iCSRRWI, 0b1110011),
    (iCSRRSI, 0b1110011), (iCSRRCI, 0b1110011), (iFLW, 0b0000111)]"

definition r_opcodes :: "(IName \<times> u8) list" where
  "r_opcodes = map_init [
    (iADD, 0b0110011), (iADDW, 0b0111011), (iSUB, 0b0110011), (iSUBW, 0b0111011),
    (iSLL, 0b0110011), (iSLLW, 0b0111011), (iSLT, 0b0110011), (iSLTU, 0b0110011),
    (iXOR, 0b0110011), (iSRL, 0b0110011), (iSRLW, 0b0111011), (iSRA, 0b0110011),
    (iSRAW, 0b0111011), (iOR, 0b0110011), (iAND, 0b0110011), (iMUL, 0b0110011),
    (iMULH, 0b0110011), (iMULHSU, 0b0110011), (iMULHU, 0b0110011), (iDIV, 0b0110011),
    (iDIVU, 0b0110011), (iREM, 0b0110011), (iREMU, 0b0110011), (iMULW, 0b0111011),
    (iDIVW, 0b0111011), (iDIVUW, 0b0111011), (iREMW, 0b0111011), (iREMUW, 0b0111011),
    (iLRW, 0b0101111), (iSCW, 0b0101111), (iAMOSWAPW, 0b0101111), (iAMOADDW, 0b0101111),
    (iAMOXORW, 0b0101111), (iAMOANDW, 0b0101111), (iAMOORW, 0b0101111), (iAMOMINW, 0b0101111),
    (iAMOMAXW, 0b0101111), (iAMOMINUW, 0b0101111), (iAMOMAXUW, 0b0101111),
    (iAMOSWAPD, 0b0101111), (iAMOADDD, 0b0101111), (iAMOXORD, 0b0101111), (iAMOANDD, 0b0101111),
    (iAMOORD, 0b0101111), (iAMOMIND, 0b0101111), (iAMOMAXD, 0b0101111), (iAMOMINUD, 0b0101111),
    (iAMOMAXUD, 0b0101111), (iLRD, 0b0101111), (iSCD, 0b0101111), (iFADDS, 0b1010011),
    (iFSUBS, 0b1010011), (iFMULS, 0b1010011), (iFDIVS, 0b1010011), (iFSQRTS, 0b1010011),
    (iFSGNJS, 0b1010011), (iFSGNJNS, 0b1010011), (iFSGNJXS, 0b1010011), (iFMINS, 0b1010011),
    (iFMAXS, 0b1010011), (iFCVTWS, 0b1010011), (iFCVTWUS, 0b1010011), (iFMVXW, 0b1010011),
    (iFEQS, 0b1010011), (iFLTS, 0b1010011), (iFLES, 0b1010011), (iFCLASSS, 0b1010011),
    (iFCVTSW, 0b1010011), (iFCVTSWU, 0b1010011), (iFMVWX, 0b1010011), (iFCVTLS, 0b1010011),
    (iFCVTLUS, 0b1010011), (iFCVTLS, 0b1010011), (iFCVTSLU, 0b1010011)]"

definition r4_opcodes :: "(IName \<times> u8) list" where
  "r4_opcodes = map_init [
    (iFMADDS, 0b1000011), (iFMSUBS, 0b1000111), (iFNMSUBS, 0b1001011), (iFNMADDS, 0b1001111),
    (iFNMADDS, 0b1001111)]"

definition b_opcodes :: "(IName \<times> u8) list" where
  "b_opcodes = map_init [
    (iBEQ, 0b1100011), (iBNE, 0b1100011), (iBLT, 0b1100011), (iBGE, 0b1100011),
    (iBLTU, 0b1100011), (iBGEU, 0b1100011)]"

definition s_opcodes :: "(IName \<times> u8) list" where
  "s_opcodes = map_init [
    (iSB, 0b0100011), (iSH, 0b0100011), (iSW, 0b0100011), (iSD, 0b0100011), (iFSW, 0b0100111)]"

definition j_opcodes :: "(IName \<times> u8) list" where
  "j_opcodes = map_init [
    (iJAL, 0b1101111)]"

definition u_opcodes :: "(IName \<times> u8) list" where
  "u_opcodes = map_init [
    (iLUI, 0b0110111), (iAUIPC, 0b0010111)]"

definition i_funct3 :: "(IName \<times> u8) list" where
  "i_funct3 = map_init [
    (iLB, 0b000), (iLH, 0b001), (iLW, 0b010), (iLBU, 0b100), (iLHU, 0b101), (iLD, 0b011),
    (iLWU, 0b110), (iADDI, 0b000), (iADDIW, 0b000), (iSLTI, 0b010), (iSLTIU, 0b011),
    (iXORI, 0b100), (iORI, 0b110), (iANDI, 0b111), (iSLLI, 0b001), (iSRLI, 0b101),
    (iSRAI, 0b101), (iSLLIW, 0b001), (iSRLIW, 0b101), (iSRAIW, 0b101), (iECALL, 0b000),
    (iEBREAK, 0b000), (iFENCE, 0b000), (iFENCEI, 0b001), (iCSRRW, 0b001), (iCSRRS, 0b010),
    (iCSRRC, 0b011), (iCSRRWI, 0b101), (iCSRRSI, 0b110), (iCSRRCI, 0b111), (iJALR, 0b000),
    (iFLW, 0b010)]"

definition r_funct3 :: "(IName \<times> u8) list" where
  "r_funct3 = map_init [
    (iADD, 0b000), (iADDW, 0b000), (iSUB, 0b000), (iSUBW, 0b000), (iSLL, 0b001), (iSLLW, 0b001),
    (iSRLW, 0b101), (iSRAW, 0b101), (iSLT, 0b010), (iSLTU, 0b011), (iXOR, 0b100), (iSRL, 0b101),
    (iSRA, 0b101), (iOR, 0b110), (iAND, 0b111), (iLRW, 0b010), (iSCW, 0b010), (iMUL, 0b000),
    (iMULH, 0b001), (iMULHSU, 0b010), (iMULHU, 0b011), (iDIV, 0b100), (iDIVU, 0b101),
    (iREM, 0b110), (iREMU, 0b111), (iMULW, 0b000), (iDIVW, 0b100), (iDIVUW, 0b101),
    (iREMW, 0b110), (iREMUW, 0b111), (iAMOSWAPW, 0b010), (iAMOADDW, 0b010), (iAMOXORW, 0b010),
    (iAMOANDW, 0b010), (iAMOORW, 0b010), (iAMOMINW, 0b010), (iAMOMAXW, 0b010),
    (iAMOMINUW, 0b010), (iAMOMAXUW, 0b010), (iAMOSWAPD, 0b011), (iAMOADDD, 0b011),
    (iAMOXORD, 0b011), (iAMOANDD, 0b011), (iAMOORD, 0b011), (iAMOMIND, 0b011), (iAMOMAXD, 0b011),
    (iAMOMINUD, 0b011), (iAMOMAXUD, 0b011), (iLRD, 0b011), (iSCD, 0b011), (iFSGNJS, 0b000),
    (iFSGNJNS, 0b001), (iFSGNJXS, 0b010), (iFMINS, 0b000), (iFMAXS, 0b001), (iFMVXW, 0b000),
    (iFEQS, 0b010), (iFLTS, 0b001), (iFLES, 0b000), (iFCLASSS, 0b001), (iFMVWX, 0b000)]"

definition r4_funct2 :: "(IName \<times> u8) list" where
  "r4_funct2 = map_init [
    (iFMADDS, 0b00), (iFMSUBS, 0b00), (iFNMSUBS, 0b00), (iFNMADDS, 0b00), (iFNMADDS, 0b00)]"

definition b_funct3 :: "(IName \<times> u8) list" where
  "b_funct3 = map_init [
    (iBEQ, 0b000), (iBNE, 0b001), (iBLT, 0b100), (iBGE, 0b101), (iBLTU, 0b110), (iBGEU, 0b111)]"

definition s_funct3 :: "(IName \<times> u8) list" where
  "s_funct3 = map_init [
    (iSB, 0b000), (iSH, 0b001), (iSW, 0b010), (iSD, 0b011), (iFSW, 0b010)]"

definition r_funct7 :: "(IName \<times> u8) list" where
  "r_funct7 = map_init [
    (iADD, 0b0000000), (iADDW, 0b0000000), (iSUB, 0b0100000), (iSUBW, 0b0100000),
    (iSLL, 0b0000000), (iSLLW, 0b0000000), (iSLT, 0b0000000), (iSLTU, 0b0000000),
    (iXOR, 0b0000000), (iSRL, 0b0000000), (iSRLW, 0b0000000), (iSRA, 0b0100000),
    (iSRAW, 0b0100000), (iOR, 0b0000000), (iAND, 0b0000000), (iMUL, 0b0000001),
    (iMULH, 0b0000001), (iMULHSU, 0b0000001), (iMULHU, 0b0000001), (iDIV, 0b0000001),
    (iDIVU, 0b0000001), (iREM, 0b0000001), (iREMU, 0b0000001), (iMULW, 0b0000001),
    (iDIVW, 0b0000001), (iDIVUW, 0b0000001), (iREMW, 0b0000001), (iREMUW, 0b0000001),
    (iLRW, 0b0001000), (iSCW, 0b0001100), (iAMOSWAPW, 0b0000100), (iAMOADDW, 0b0000000),
    (iAMOXORW, 0b0010000), (iAMOANDW, 0b0110000), (iAMOORW, 0b0100000), (iAMOMINW, 0b1000000),
    (iAMOMAXW, 0b1010000), (iAMOMINUW, 0b1100000), (iAMOMAXUW, 0b1110000), (iLRD, 0b0001000),
    (iSCD, 0b0001100), (iAMOSWAPD, 0b0000100), (iAMOADDD, 0b0000000), (iAMOXORD, 0b0010000),
    (iAMOANDD, 0b0110000), (iAMOORD, 0b0100000), (iAMOMIND, 0b1000000), (iAMOMAXD, 0b1010000),
    (iAMOMINUD, 0b1100000), (iAMOMAXUD, 0b1110000), (iFADDS, 0b0000000), (iFSUBS, 0b0000100),
    (iFMULS, 0b0001000), (iFDIVS, 0b0001100), (iFSQRTS, 0b0101100), (iFSGNJS, 0b0010000),
    (iFSGNJNS, 0b0010000), (iFSGNJXS, 0b0010000), (iFMINS, 0b0010100), (iFMAXS, 0b0010100),
    (iFCVTWS, 0b1100000), (iFCVTWUS, 0b1100000), (iFMVXW, 0b1110000), (iFEQS, 0b1010000),
    (iFLTS, 0b1010000), (iFLES, 0b1010000), (iFCLASSS, 0b1110000), (iFCVTSW, 0b1101000),
    (iFCVTSWU, 0b1101000), (iFMVWX, 0b1111000), (iFCVTLS, 0b1100000), (iFCVTLUS, 0b1100000),
    (iFCVTLS, 0b1101000), (iFCVTSLU, 0b1101000)]"

definition i_funct7 :: "(IName \<times> u8) list" where
  "i_funct7 = map_init [
    (iSLLI, 0b0000000), (iSRLI, 0b0000000), (iSRAI, 0b0100000), (iSLLIW, 0b0000000),
    (iSRLIW, 0b0000000), (iSRAIW, 0b0100000)]"

definition i_funct6 :: "(IName \<times> u8) list" where
  "i_funct6 = map_init [
    (iSLLI, 0b000000), (iSRLI, 0b000000), (iSRAI, 0b010000)]"

subsection \<open>Initialised maps are sorted, and look up the first entry\<close>

lemma map_of_map_insert:
  "map_of (map_insert k v m) =
     (\<lambda>x. if x = k then (case map_of m k of None \<Rightarrow> Some v | Some w \<Rightarrow> Some w) else map_of m x)"
  if "sorted_wrt (<) (map fst m)"
  using that
proof (induction k v m rule: map_insert.induct)
  case (2 k v k' v' m)
  then have "k < k' \<Longrightarrow> map_of m k = None"
    by (auto simp: map_of_eq_None_iff)
  with 2 show ?case by (auto simp: fun_eq_iff split: option.splits)
qed (auto simp: fun_eq_iff)

lemma set_map_insert: "fst ` set (map_insert k v m) = insert k (fst ` set m)"
  by (induction k v m rule: map_insert.induct) auto

lemma sorted_map_insert:
  "sorted_wrt (<) (map fst m) \<Longrightarrow> sorted_wrt (<) (map fst (map_insert k v m))"
proof (induction k v m rule: map_insert.induct)
  case (2 k v k' v' m)
  have "\<forall>x \<in> fst ` set (map_insert k v m). k' < x" if "k' < k"
    using 2 that by (simp add: set_map_insert)
  with 2 show ?case by auto
qed simp

lemma map_init_props:
  "sorted_wrt (<) (map fst (map_init xs)) \<and> map_of (map_init xs) = map_of xs"
proof (induction xs rule: rev_induct)
  case Nil
  then show ?case by (simp add: map_init_def)
next
  case (snoc x xs)
  obtain k v where x: "x = (k, v)" by (cases x)
  have "map_init (xs @ [x]) = map_insert k v (map_init xs)" by (simp add: map_init_def x)
  then show ?case
    using snoc by (auto simp: sorted_map_insert map_of_map_insert x fun_eq_iff map_add_def split: option.splits)
qed

lemmas sorted_map_init = map_init_props [THEN conjunct1]
lemmas map_of_map_init = map_init_props [THEN conjunct2]

lemmas table_defs = i_opcodes_def r_opcodes_def r4_opcodes_def b_opcodes_def s_opcodes_def
  j_opcodes_def u_opcodes_def i_funct3_def r_funct3_def r4_funct2_def b_funct3_def s_funct3_def
  r_funct7_def i_funct7_def i_funct6_def

end
