(* ===== verification/Instruction_Decoder.thy ===== *)
theory Instruction_Decoder
  imports Decoder_Tables
begin

text \<open>
  The instruction decoder, \<^verbatim>\<open>src/InstructionDecoder.cpp\<close>, with its two caches as state: field
  extraction, immediates, the type of an opcode, and one decoding routine per instruction format.
  The records model \<^verbatim>\<open>include/Instruction.h\<close>.
\<close>

unbundle bit_operations_syntax

subsection \<open>Instructions\<close>

record Fields =
  OPCode :: u8
  rd :: u8
  funct3 :: u8
  rs1 :: u8
  rs2 :: u8
  funct7 :: u8
  shamt32 :: u8
  shamt64 :: u8
  funct6 :: u8
  imm :: u32
  funct2 :: u8
  rs3 :: u8

datatype itype = Type_R | Type_R4 | Type_I | Type_S | Type_B | Type_U | Type_J | Type_WRONG

record Instruction =
  get_type :: itype
  get_name :: IName
  get_fields :: Fields
  str_name :: string

definition empty_fields :: Fields where
  "empty_fields = \<lparr>OPCode = 0, rd = 0, funct3 = 0, rs1 = 0, rs2 = 0, funct7 = 0,
     shamt32 = 0, shamt64 = 0, funct6 = 0, imm = 0, funct2 = 0, rs3 = 0\<rparr>"

definition mk_instr :: "itype \<Rightarrow> IName \<Rightarrow> Fields \<Rightarrow> string \<Rightarrow> Instruction" where
  "mk_instr t n f s = \<lparr>get_type = t, get_name = n, get_fields = f, str_name = s\<rparr>"

definition wrong_instr :: "Fields \<Rightarrow> Instruction" where
  "wrong_instr f = mk_instr Type_WRONG iXXX f ''XXX''"

definition MRET_instr :: Instruction where
  "MRET_instr = mk_instr Type_R iMRET
     \<lparr>OPCode = 0b1110011, rd = 0, funct3 = 0, rs1 = 0, rs2 = 0b00010, funct7 = 0b0011000,
      shamt32 = 0, shamt64 = 0, funct6 = 0, imm = 0, funct2 = 0, rs3 = 0\<rparr> ''MRET''"

definition SRET_instr :: Instruction where
  "SRET_instr = mk_instr Type_R iSRET
     \<lparr>OPCode = 0b1110011, rd = 0, funct3 = 0, rs1 = 0, rs2 = 0b00010, funct7 = 0b0001000,
      shamt32 = 0, shamt64 = 0, funct6 = 0, imm = 0, funct2 = 0, rs3 = 0\<rparr> ''SRET''"

record InstructionDecoder =
  instr_cache :: "u32 \<Rightarrow> Instruction option"
  opcode_to_type_cache :: "u8 \<Rightarrow> itype option"

definition InstructionDecoder_new :: InstructionDecoder where
  "InstructionDecoder_new =
     \<lparr>instr_cache = [0x30200073 \<mapsto> MRET_instr, 0x10200073 \<mapsto> SRET_instr],
      opcode_to_type_cache = Map.empty\<rparr>"

subsection \<open>Field extraction\<close>

definition extract_opcode :: "u32 \<Rightarrow> u8" where
  "extract_opcode inst = ucast (inst AND OPCODE_MASK)"

definition extract_funct3 :: "u32 \<Rightarrow> u8" where
  "extract_funct3 inst = ucast (drop_bit 12 (inst AND FUNCT3_MASK))"

definition extract_funct7 :: "u32 \<Rightarrow> u8" where
  "extract_funct7 inst = ucast (drop_bit 25 (inst AND FUNCT7_MASK))"

definition extract_funct6 :: "u32 \<Rightarrow> u8" where
  "extract_funct6 inst = ucast (drop_bit 26 (inst AND FUNCT6_MASK))"

definition extract_rd :: "u32 \<Rightarrow> u8" where
  "extract_rd inst = ucast (drop_bit 7 (inst AND RD_MASK))"

definition extract_rs1 :: "u32 \<Rightarrow> u8" where
  "extract_rs1 inst = ucast (drop_bit 15 (inst AND RS1_MASK))"

definition extract_rs2 :: "u32 \<Rightarrow> u8" where
  "extract_rs2 inst = ucast (drop_bit 20 (inst AND RS2_MASK))"

definition extract_rs3 :: "u32 \<Rightarrow> u8" where
  "extract_rs3 inst = ucast (drop_bit 27 (inst AND RS3_MASK))"

definition extract_funct2 :: "u32 \<Rightarrow> u8" where
  "extract_funct2 inst = ucast (drop_bit 25 (inst AND FUNCT2_MASK))"

definition extract_shamt32 :: "u32 \<Rightarrow> u8" where
  "extract_shamt32 inst = ucast (drop_bit 20 (inst AND SHAMT32_MASK))"

definition extract_shamt64 :: "u32 \<Rightarrow> u8" where
  "extract_shamt64 inst = ucast (drop_bit 20 (inst AND SHAMT64_MASK))"

subsection \<open>Immediates\<close>

text \<open>
  The masks are unsigned, so \<open>&\<close> and the right shift of its result are unsigned; the shifts of the
  signed accumulator \<open>imm\<close> are arithmetic.
\<close>

definition imm_i :: "u32 \<Rightarrow> u32" where
  "imm_i inst = signed_drop_bit 20 (inst AND IMM12_MASK)"

definition imm_s :: "u32 \<Rightarrow> u32" where
  "imm_s inst =
     (let im = ucast (extract_rd inst) OR drop_bit 20 (inst AND FUNCT7_MASK)
      in signed_drop_bit 20 (push_bit 20 im))"

definition imm_b :: "u32 \<Rightarrow> u32" where
  "imm_b inst =
     (let im = (drop_bit 7 (inst AND B_INST_IMM_0) AND B_IMM_0)
            OR (drop_bit 20 (inst AND B_INST_IMM_1) AND B_IMM_1)
            OR (push_bit 4 (inst AND B_INST_IMM_2) AND B_IMM_2)
            OR (drop_bit 19 (inst AND B_INST_IMM_3) AND B_IMM_3)
      in signed_drop_bit 19 (push_bit 19 im))"

definition imm_u :: "u32 \<Rightarrow> u32" where
  "imm_u inst = inst AND IMM20_MASK"

definition imm_j :: "u32 \<Rightarrow> u32" where
  "imm_j inst =
     (let im = (drop_bit 20 (inst AND J_INST_IMM_0) AND J_IMM_0)
            OR (drop_bit 20 (inst AND J_INST_IMM_1) AND J_IMM_1)
            OR (drop_bit 9 (inst AND J_INST_IMM_2) AND J_IMM_2)
            OR ((inst AND J_INST_IMM_3) AND J_IMM_3)
            OR (drop_bit 11 (inst AND J_INST_IMM_4) AND J_IMM_4)
      in signed_drop_bit 11 (push_bit 11 im))"

subsection \<open>The type of an opcode\<close>

text \<open>The seven table walks of \<open>instr_type(uint8_t)\<close>, in their order.\<close>

definition opcode_type :: "u8 \<Rightarrow> itype" where
  "opcode_type op =
     (if list_ex (\<lambda>(k, v). op = v) i_opcodes then Type_I
      else if list_ex (\<lambda>(k, v). op = v) j_opcodes then Type_J
      else if list_ex (\<lambda>(k, v). op = v) s_opcodes then Type_S
      else if list_ex (\<lambda>(k, v). op = v) b_opcodes then Type_B
      else if list_ex (\<lambda>(k, v). op = v) r_opcodes then Type_R
      else if list_ex (\<lambda>(k, v). op = v) r4_opcodes then Type_R4
      else if list_ex (\<lambda>(k, v). op = v) u_opcodes then Type_U
      else Type_WRONG)"

definition instr_type_op :: "InstructionDecoder \<Rightarrow> u8 \<Rightarrow> itype \<times> InstructionDecoder" where
  "instr_type_op d op =
     (case opcode_to_type_cache d op of
        Some t \<Rightarrow> (t, d)
      | None \<Rightarrow> (opcode_type op,
                 d\<lparr>opcode_to_type_cache := (opcode_to_type_cache d)(op \<mapsto> opcode_type op)\<rparr>))"

definition instr_type :: "InstructionDecoder \<Rightarrow> u32 \<Rightarrow> itype \<times> InstructionDecoder" where
  "instr_type d inst = instr_type_op d (extract_opcode inst)"

definition immediate_of :: "itype \<Rightarrow> u32 \<Rightarrow> u32" where
  "immediate_of t inst = (case t of
       Type_WRONG \<Rightarrow> 0 | Type_R \<Rightarrow> 0 | Type_R4 \<Rightarrow> 0
     | Type_I \<Rightarrow> imm_i inst | Type_J \<Rightarrow> imm_j inst | Type_B \<Rightarrow> imm_b inst
     | Type_S \<Rightarrow> imm_s inst | Type_U \<Rightarrow> imm_u inst)"

definition get_immediate :: "InstructionDecoder \<Rightarrow> u32 \<Rightarrow> u32 \<times> InstructionDecoder" where
  "get_immediate d inst = (let (t, d') = instr_type d inst in (immediate_of t inst, d'))"

definition fields_with :: "u32 \<Rightarrow> u32 \<Rightarrow> Fields" where
  "fields_with inst im =
     \<lparr>OPCode = extract_opcode inst, rd = extract_rd inst, funct3 = extract_funct3 inst,
      rs1 = extract_rs1 inst, rs2 = extract_rs2 inst, funct7 = extract_funct7 inst,
      shamt32 = extract_shamt32 inst, shamt64 = extract_shamt64 inst,
      funct6 = extract_funct6 inst, imm = im, funct2 = extract_funct2 inst,
      rs3 = extract_rs3 inst\<rparr>"

definition decoder_get_fields :: "InstructionDecoder \<Rightarrow> u32 \<Rightarrow> Fields \<times> InstructionDecoder" where
  "decoder_get_fields d inst =
     (let (im, d') = get_immediate d inst in (fields_with inst im, d'))"

subsection \<open>Table access\<close>

definition get_opcode :: "IName \<Rightarrow> itype \<Rightarrow> u8 res" where
  "get_opcode n t = (case t of
       Type_R \<Rightarrow> map_at r_opcodes n
     | Type_I \<Rightarrow> map_at i_opcodes n
     | Type_S \<Rightarrow> map_at s_opcodes n
     | Type_B \<Rightarrow> map_at b_opcodes n
     | Type_U \<Rightarrow> map_at u_opcodes n
     | Type_J \<Rightarrow> map_at j_opcodes n
     | Type_R4 \<Rightarrow> map_at r4_opcodes n
     | Type_WRONG \<Rightarrow> Inr 255)"

definition get_string_name :: "IName \<Rightarrow> string res" where
  "get_string_name n = map_at inst_string_names n"

definition get_i_funct7 :: "IName \<Rightarrow> u8 res" where
  "get_i_funct7 n = (if n = iXXX then Inr 255 else map_at i_funct7 n)"

definition get_i_funct6 :: "IName \<Rightarrow> u8 res" where
  "get_i_funct6 n = (if n = iXXX then Inr 255 else map_at i_funct6 n)"

definition is_shift_imm_32_instruction :: "IName \<Rightarrow> bool" where
  "is_shift_imm_32_instruction n \<longleftrightarrow> n = iSLLIW \<or> n = iSRLIW \<or> n = iSRAIW"

definition is_shift_imm_64_instruction :: "IName \<Rightarrow> bool" where
  "is_shift_imm_64_instruction n \<longleftrightarrow> n = iSLLI \<or> n = iSRLI \<or> n = iSRAI"

text \<open>\<open>Instruction(t, ins, f, get_string_name(ins))\<close>\<close>

definition named_instr :: "itype \<Rightarrow> IName \<Rightarrow> Fields \<Rightarrow> Instruction res" where
  "named_instr t ins f = bind_res (get_string_name ins) (\<lambda>s. Inr (mk_instr t ins f s))"

subsection \<open>Decoding by format\<close>

fun decode_r_loop :: "Fields \<Rightarrow> (IName \<times> u8) list \<Rightarrow> Instruction res" where
  "decode_r_loop f [] = Inr (wrong_instr f)"
| "decode_r_loop f ((ins, f3) # rest) =
     bind_res (get_opcode ins Type_R) (\<lambda>ins_opcode.
     bind_res (map_at r_funct7 ins) (\<lambda>ins_f7.
     if OPCode f = ins_opcode \<and> f3 = funct3 f \<and> ins_f7 = funct7 f then named_instr Type_R ins f
     else if OPCode f = ins_opcode \<and> f3 = funct3 f \<and> OPCode f = AM_OPCODE
             \<and> (funct7 f AND NOT 0b11) = ins_f7 then named_instr Type_R ins f
     else decode_r_loop f rest))"

fun decode_fp_with_f3_loop :: "Fields \<Rightarrow> (IName \<times> u8) list \<Rightarrow> Instruction res" where
  "decode_fp_with_f3_loop f [] = Inr (wrong_instr f)"
| "decode_fp_with_f3_loop f ((ins, f3) # rest) =
     bind_res (get_opcode ins Type_R) (\<lambda>op.
     bind_res (map_at r_funct7 ins) (\<lambda>f7.
     if funct3 f = f3 \<and> OPCode f = op \<and> funct7 f = f7 then named_instr Type_R ins f
     else decode_fp_with_f3_loop f rest))"

fun decode_fp_without_f3_loop :: "Fields \<Rightarrow> (IName \<times> u8) list \<Rightarrow> IName res" where
  "decode_fp_without_f3_loop f [] = Inr iXXX"
| "decode_fp_without_f3_loop f ((iname, f7) # rest) =
     bind_res (get_opcode iname Type_R) (\<lambda>opc.
     if f7 = funct7 f \<and> opc = OPCode f then Inr iname
     else decode_fp_without_f3_loop f rest)"

definition decode_fp_with_f3 :: "InstructionDecoder \<Rightarrow> u32 \<Rightarrow> (Instruction \<times> InstructionDecoder) res" where
  "decode_fp_with_f3 d inst =
     (let (f, d') = decoder_get_fields d inst in
      bind_res (decode_fp_with_f3_loop f r_funct3) (\<lambda>i. Inr (i, d')))"

definition decode_fp_without_f3 :: "InstructionDecoder \<Rightarrow> u32 \<Rightarrow> (Instruction \<times> InstructionDecoder) res" where
  "decode_fp_without_f3 d inst =
     (let (f, d') = decoder_get_fields d inst in
      bind_res
        (if funct7 f = 0b1100000 then
           Inr (if rs2 f = 0 then iFCVTWS else if rs2 f = 1 then iFCVTWUS
                else if rs2 f = 2 then iFCVTLS else if rs2 f = 3 then iFCVTLUS else iXXX)
         else if funct7 f = 0b1101000 then
           Inr (if rs2 f = 0 then iFCVTSW else if rs2 f = 1 then iFCVTSWU
                else if rs2 f = 2 then iFCVTSL else if rs2 f = 3 then iFCVTSLU else iXXX)
         else decode_fp_without_f3_loop f r_funct7) (\<lambda>ins.
      bind_res (named_instr Type_R ins f) (\<lambda>i. Inr (i, d'))))"

definition is_fp_instr :: "u32 \<Rightarrow> bool" where
  "is_fp_instr inst \<longleftrightarrow> extract_opcode inst = FP_R_OPCODE"

definition ignore_f3 :: "u32 \<Rightarrow> bool" where
  "ignore_f3 inst \<longleftrightarrow>
     (let f7 = extract_funct7 inst in
      f7 = 0b0000000 \<or> f7 = 0b0000100 \<or> f7 = 0b0001000 \<or> f7 = 0b0001100
      \<or> f7 = 0b0101100 \<or> f7 = 0b1100000 \<or> f7 = 0b1101000)"

definition decode_with_rs2 :: "u32 \<Rightarrow> bool" where
  "decode_with_rs2 inst \<longleftrightarrow>
     (let f7 = extract_funct7 inst in f7 = 0b1100000 \<or> f7 = 0b1101000)"

definition decode_fp :: "InstructionDecoder \<Rightarrow> u32 \<Rightarrow> (Instruction \<times> InstructionDecoder) res" where
  "decode_fp d inst =
     (if ignore_f3 inst then decode_fp_without_f3 d inst else decode_fp_with_f3 d inst)"

definition decode_r :: "InstructionDecoder \<Rightarrow> u32 \<Rightarrow> (Instruction \<times> InstructionDecoder) res" where
  "decode_r d inst =
     (if is_fp_instr inst then decode_fp d inst
      else let (f, d') = decoder_get_fields d inst in
           bind_res (decode_r_loop f r_funct3) (\<lambda>i. Inr (i, d')))"

fun decode_r4_loop :: "Fields \<Rightarrow> (IName \<times> u8) list \<Rightarrow> Instruction res" where
  "decode_r4_loop f [] = Inr (wrong_instr f)"
| "decode_r4_loop f ((ins, f2) # rest) =
     bind_res (get_opcode ins Type_R4) (\<lambda>ins_opcode.
     if OPCode f = ins_opcode \<and> f2 = funct2 f then named_instr Type_R4 ins f
     else decode_r4_loop f rest)"

definition decode_r4 :: "InstructionDecoder \<Rightarrow> u32 \<Rightarrow> (Instruction \<times> InstructionDecoder) res" where
  "decode_r4 d inst =
     (let (f, d') = decoder_get_fields d inst in
      bind_res (decode_r4_loop f r4_funct2) (\<lambda>i. Inr (i, d')))"

text \<open>
  The conditions of \<open>decode_i\<close> call \<open>get_opcode\<close>, \<open>get_i_funct7\<close> and \<open>get_i_funct6\<close>
  lazily, in the order below.
\<close>

fun decode_i_loop :: "Fields \<Rightarrow> (IName \<times> u8) list \<Rightarrow> Instruction res" where
  "decode_i_loop f [] = Inr (wrong_instr f)"
| "decode_i_loop f ((ins, f3) # rest) =
     bind_res (get_opcode ins Type_I) (\<lambda>op.
     if op = OPCode f \<and> f3 = funct3 f
        \<and> \<not> is_shift_imm_32_instruction ins \<and> \<not> is_shift_imm_64_instruction ins then
       (if (ins = iECALL \<and> imm f = 0) \<or> (ins = iEBREAK \<and> imm f = 1)
           \<or> (ins \<noteq> iEBREAK \<and> ins \<noteq> iECALL)
        then named_instr Type_I ins f
        else decode_i_loop f rest)
     else if is_shift_imm_32_instruction ins \<and> OPCode f = op \<and> f3 = funct3 f then
       bind_res (get_i_funct7 ins) (\<lambda>f7.
       if f7 = funct7 f then named_instr Type_I ins f else decode_i_loop f rest)
     else if is_shift_imm_64_instruction ins \<and> OPCode f = op \<and> f3 = funct3 f then
       bind_res (get_i_funct6 ins) (\<lambda>f6.
       if f6 = funct6 f then named_instr Type_I ins f else decode_i_loop f rest)
     else decode_i_loop f rest)"

definition decode_i :: "InstructionDecoder \<Rightarrow> u32 \<Rightarrow> (Instruction \<times> InstructionDecoder) res" where
  "decode_i d inst =
     (let (f, d') = decoder_get_fields d inst in
      bind_res (decode_i_loop f i_funct3) (\<lambda>i. Inr (i, d')))"

text \<open>The loops of \<open>decode_b\<close> and \<open>decode_s\<close> differ in the type and the table.\<close>

fun decode_f3_loop :: "itype \<Rightarrow> Fields \<Rightarrow> (IName \<times> u8) list \<Rightarrow> Instruction res" where
  "decode_f3_loop t f [] = Inr (wrong_instr f)"
| "decode_f3_loop t f ((ins, f3) # rest) =
     bind_res (get_opcode ins t) (\<lambda>op.
     if OPCode f = op \<and> f3 = funct3 f then named_instr t ins f
     else decode_f3_loop t f rest)"

definition decode_b :: "InstructionDecoder \<Rightarrow> u32 \<Rightarrow> (Instruction \<times> InstructionDecoder) res" where
  "decode_b d inst =
     (let (f, d') = decoder_get_fields d inst in
      bind_res (decode_f3_loop Type_B f b_funct3) (\<lambda>i. Inr (i, d')))"

definition decode_s :: "InstructionDecoder \<Rightarrow> u32 \<Rightarrow> (Instruction \<times> InstructionDecoder) res" where
  "decode_s d inst =
     (let (f, d') = decoder_get_fields d inst in
      bind_res (decode_f3_loop Type_S f s_funct3) (\<lambda>i. Inr (i, d')))"

text \<open>Likewise the loops of \<open>decode_j\<close> and \<open>decode_u\<close>.\<close>

fun decode_op_loop :: "itype \<Rightarrow> Fields \<Rightarrow> (IName \<times> u8) list \<Rightarrow> Instruction res" where
  "decode_op_loop t f [] = Inr (wrong_instr f)"
| "decode_op_loop t f ((ins, op) # rest) =
     (if op = OPCode f then named_instr t ins f else decode_op_loop t f rest)"

definition decode_j :: "InstructionDecoder \<Rightarrow> u32 \<Rightarrow> (Instruction \<times> InstructionDecoder) res" where
  "decode_j d inst =
     (let (f, d') = decoder_get_fields d inst in
      bind_res (decode_op_loop Type_J f j_opcodes) (\<lambda>i. Inr (i, d')))"

definition decode_u :: "InstructionDecoder \<Rightarrow> u32 \<Rightarrow> (Instruction \<times> InstructionDecoder) res" where
  "decode_u d inst =
     (let (f, d') = decoder_get_fields d inst in
      bind_res (decode_op_loop Type_U f u_opcodes) (\<lambda>i. Inr (i, d')))"

subsection \<open>Decoding\<close>

definition decode :: "InstructionDecoder \<Rightarrow> u32 \<Rightarrow> (Instruction \<times> InstructionDecoder) res" where
  "decode d inst =
     (case instr_cache d inst of
        Some i \<Rightarrow> Inr (i, d)
      | None \<Rightarrow>
         (let (t, d1) = instr_type d inst;
              keep = (\<lambda>r. bind_res r (\<lambda>(i, d2).
                        Inr (i, d2\<lparr>instr_cache := (instr_cache d2)(inst \<mapsto> i)\<rparr>)))
          in case t of
               Type_R \<Rightarrow> keep (decode_r d1 inst)
             | Type_R4 \<Rightarrow> keep (decode_r4 d1 inst)
             | Type_I \<Rightarrow> keep (decode_i d1 inst)
             | Type_S \<Rightarrow> keep (decode_s d1 inst)
             | Type_B \<Rightarrow> keep (decode_b d1 inst)
             | Type_U \<Rightarrow> keep (decode_u d1 inst)
             | Type_J \<Rightarrow> keep (decode_j d1 inst)
             | Type_WRONG \<Rightarrow> Inr (mk_instr t iXXX empty_fields ''XXX'', d1)))"

end
