(* ===== verification/Decoder_Cache.thy ===== *)
theory Decoder_Cache
  imports Instruction_Decoder
begin

text \<open>
  The decoder without its caches is the specification; the decoder with caches refines it. Both
  caches are instances of one contract, the locale \<open>memo_table\<close>: a table that is only ever filled
  with values of the function it stands for.
\<close>

unbundle bit_operations_syntax

subsection \<open>Specification: decoding without caches\<close>

definition fields_of :: "u32 \<Rightarrow> Fields" where
  "fields_of inst = fields_with inst (immediate_of (opcode_type (extract_opcode inst)) inst)"

definition decode_format :: "itype \<Rightarrow> u32 \<Rightarrow> Instruction res" where
  "decode_format t inst = (case t of
       Type_R \<Rightarrow>
         (if is_fp_instr inst then
            (if ignore_f3 inst then
               bind_res
                 (if extract_funct7 inst = 0b1100000 then
                    Inr (if extract_rs2 inst = 0 then iFCVTWS else if extract_rs2 inst = 1 then iFCVTWUS
                         else if extract_rs2 inst = 2 then iFCVTLS
                         else if extract_rs2 inst = 3 then iFCVTLUS else iXXX)
                  else if extract_funct7 inst = 0b1101000 then
                    Inr (if extract_rs2 inst = 0 then iFCVTSW else if extract_rs2 inst = 1 then iFCVTSWU
                         else if extract_rs2 inst = 2 then iFCVTSL
                         else if extract_rs2 inst = 3 then iFCVTSLU else iXXX)
                  else decode_fp_without_f3_loop (fields_of inst) r_funct7)
                 (\<lambda>ins. named_instr Type_R ins (fields_of inst))
             else decode_fp_with_f3_loop (fields_of inst) r_funct3)
          else decode_r_loop (fields_of inst) r_funct3)
     | Type_R4 \<Rightarrow> decode_r4_loop (fields_of inst) r4_funct2
     | Type_I \<Rightarrow> decode_i_loop (fields_of inst) i_funct3
     | Type_S \<Rightarrow> decode_f3_loop Type_S (fields_of inst) s_funct3
     | Type_B \<Rightarrow> decode_f3_loop Type_B (fields_of inst) b_funct3
     | Type_U \<Rightarrow> decode_op_loop Type_U (fields_of inst) u_opcodes
     | Type_J \<Rightarrow> decode_op_loop Type_J (fields_of inst) j_opcodes
     | Type_WRONG \<Rightarrow> Inr (mk_instr Type_WRONG iXXX empty_fields ''XXX''))"

definition decode_spec :: "u32 \<Rightarrow> Instruction res" where
  "decode_spec inst =
     (if inst = 0x30200073 then Inr MRET_instr
      else if inst = 0x10200073 then Inr SRET_instr
      else decode_format (opcode_type (extract_opcode inst)) inst)"

subsection \<open>The contract of a cache\<close>

definition coherent :: "('s \<Rightarrow> 'k \<Rightarrow> 'v option) \<Rightarrow> ('k \<Rightarrow> 'v option) \<Rightarrow> 's \<Rightarrow> bool" where
  "coherent lookup spec s \<longleftrightarrow> (\<forall>k v. lookup s k = Some v \<longrightarrow> spec k = Some v)"

locale memo_table =
  fixes lookup :: "'s \<Rightarrow> 'k \<Rightarrow> 'v option"
    and enter :: "'s \<Rightarrow> 'k \<Rightarrow> 'v \<Rightarrow> 's"
    and spec :: "'k \<Rightarrow> 'v option"
  assumes lookup_enter: "lookup (enter s k v) j = (if j = k then Some v else lookup s j)"
begin

lemma hit: "coherent lookup spec s \<Longrightarrow> lookup s k = Some v \<Longrightarrow> spec k = Some v"
  by (simp add: coherent_def)

lemma coherent_enter:
  "coherent lookup spec s \<Longrightarrow> spec k = Some v \<Longrightarrow> coherent lookup spec (enter s k v)"
  by (simp add: coherent_def lookup_enter)

lemma enter_keeps:
  "coherent lookup spec s \<Longrightarrow> spec k = Some v \<Longrightarrow> lookup s j = Some w \<Longrightarrow> lookup (enter s k v) j = Some w"
  by (auto simp: coherent_def lookup_enter)

end

abbreviation enter_type :: "InstructionDecoder \<Rightarrow> u8 \<Rightarrow> itype \<Rightarrow> InstructionDecoder" where
  "enter_type d op t \<equiv> d\<lparr>opcode_to_type_cache := (opcode_to_type_cache d)(op \<mapsto> t)\<rparr>"

abbreviation enter_instr :: "InstructionDecoder \<Rightarrow> u32 \<Rightarrow> Instruction \<Rightarrow> InstructionDecoder" where
  "enter_instr d inst i \<equiv> d\<lparr>instr_cache := (instr_cache d)(inst \<mapsto> i)\<rparr>"

definition instr_spec :: "u32 \<Rightarrow> Instruction option" where
  "instr_spec inst = (case decode_spec inst of Inl _ \<Rightarrow> None | Inr i \<Rightarrow> Some i)"

interpretation tcache: memo_table opcode_to_type_cache enter_type "\<lambda>op. Some (opcode_type op)"
  by unfold_locales simp

interpretation icache: memo_table instr_cache enter_instr instr_spec
  by unfold_locales simp

definition types_ok :: "InstructionDecoder \<Rightarrow> bool" where
  "types_ok d \<longleftrightarrow> coherent opcode_to_type_cache (\<lambda>op. Some (opcode_type op)) d"

definition decoder_ok :: "InstructionDecoder \<Rightarrow> bool" where
  "decoder_ok d \<longleftrightarrow> types_ok d \<and> coherent instr_cache instr_spec d \<and>
     instr_cache d 0x30200073 = Some MRET_instr \<and> instr_cache d 0x10200073 = Some SRET_instr"

subsection \<open>The cached routines compute the specification\<close>

lemma instr_type_ok:
  assumes "types_ok d"
  shows "fst (instr_type d inst) = opcode_type (extract_opcode inst)"
    and "types_ok (snd (instr_type d inst))"
    and "instr_cache (snd (instr_type d inst)) = instr_cache d"
  using assms tcache.hit [of d] tcache.coherent_enter [of d]
  by (auto simp: instr_type_def instr_type_op_def types_ok_def split: option.splits)

lemma instr_type_again:
  assumes "types_ok d"
  shows "instr_type (snd (instr_type d inst)) inst = instr_type d inst"
  by (simp add: instr_type_def instr_type_op_def split: option.splits)

lemma decoder_get_fields_ok:
  assumes "types_ok d"
  shows "decoder_get_fields d inst = (fields_of inst, snd (instr_type d inst))"
  using instr_type_ok(1) [OF assms, of inst]
  by (simp add: decoder_get_fields_def get_immediate_def fields_of_def Let_def case_prod_beta)

lemma fields_of_simps [simp]:
  "OPCode (fields_of inst) = extract_opcode inst" "rd (fields_of inst) = extract_rd inst"
  "funct3 (fields_of inst) = extract_funct3 inst" "rs1 (fields_of inst) = extract_rs1 inst"
  "rs2 (fields_of inst) = extract_rs2 inst" "funct7 (fields_of inst) = extract_funct7 inst"
  "funct6 (fields_of inst) = extract_funct6 inst" "funct2 (fields_of inst) = extract_funct2 inst"
  "rs3 (fields_of inst) = extract_rs3 inst"
  "imm (fields_of inst) = immediate_of (opcode_type (extract_opcode inst)) inst"
  by (simp_all add: fields_of_def fields_with_def)

lemma bind_res_assoc: "bind_res (bind_res m f) g = bind_res m (\<lambda>x. bind_res (f x) g)"
  by (cases m) simp_all

lemmas decode_routine_defs = decode_r_def decode_r4_def decode_i_def decode_s_def decode_b_def
  decode_u_def decode_j_def decode_fp_def decode_fp_with_f3_def decode_fp_without_f3_def

lemma decode_routines_ok:
  assumes "types_ok d"
  shows "decode_r d inst = bind_res (decode_format Type_R inst) (\<lambda>i. Inr (i, snd (instr_type d inst)))"
    "decode_r4 d inst = bind_res (decode_format Type_R4 inst) (\<lambda>i. Inr (i, snd (instr_type d inst)))"
    "decode_i d inst = bind_res (decode_format Type_I inst) (\<lambda>i. Inr (i, snd (instr_type d inst)))"
    "decode_s d inst = bind_res (decode_format Type_S inst) (\<lambda>i. Inr (i, snd (instr_type d inst)))"
    "decode_b d inst = bind_res (decode_format Type_B inst) (\<lambda>i. Inr (i, snd (instr_type d inst)))"
    "decode_u d inst = bind_res (decode_format Type_U inst) (\<lambda>i. Inr (i, snd (instr_type d inst)))"
    "decode_j d inst = bind_res (decode_format Type_J inst) (\<lambda>i. Inr (i, snd (instr_type d inst)))"
  by (simp_all add: decode_routine_defs decode_format_def decoder_get_fields_ok [OF assms]
      bind_res_assoc)

lemma decode_miss:
  assumes ok: "decoder_ok d" and miss: "instr_cache d inst = None"
  shows "decode d inst =
    bind_res (decode_spec inst) (\<lambda>i.
      Inr (i, if opcode_type (extract_opcode inst) = Type_WRONG then snd (instr_type d inst)
              else enter_instr (snd (instr_type d inst)) inst i))"
proof -
  have t: "types_ok d" using ok by (simp add: decoder_ok_def)
  obtain ty d1 where it: "instr_type d inst = (ty, d1)" by (cases "instr_type d inst")
  have ty: "ty = opcode_type (extract_opcode inst)" and d1: "types_ok d1"
    using instr_type_ok [OF t, of inst] it by simp_all
  have again: "snd (instr_type d1 inst) = d1"
    using instr_type_again [OF t, of inst] it by simp
  have "inst \<noteq> 0x30200073" "inst \<noteq> 0x10200073" using ok miss by (auto simp: decoder_ok_def)
  then have spec: "decode_spec inst = decode_format ty inst" by (simp add: decode_spec_def ty)
  show ?thesis
    by (cases ty)
      (simp_all add: decode_def miss it spec decode_routines_ok [OF d1] again bind_res_assoc
        flip: ty, simp add: decode_format_def)
qed

lemma decode_hit: "instr_cache d inst = Some i \<Longrightarrow> decode d inst = Inr (i, d)"
  by (simp add: decode_def)

lemma decode_correct:
  assumes ok: "decoder_ok d"
  shows "decode d inst = Inr (i, d') \<Longrightarrow> decode_spec inst = Inr i \<and> decoder_ok d'"
    and "decode d inst = Inl e \<Longrightarrow> decode_spec inst = Inl e"
    and "decode_spec inst = Inr i \<Longrightarrow> \<exists>d'. decode d inst = Inr (i, d')"
proof -
  have t: "types_ok d" and c: "coherent instr_cache instr_spec d" using ok by (simp_all add: decoder_ok_def)
  have c1: "coherent instr_cache instr_spec (snd (instr_type d inst))"
    using c instr_type_ok(3) [OF t] by (simp add: coherent_def)
  have hit: "decode_spec inst = Inr j" if "instr_cache d inst = Some j" for j
    using icache.hit [OF c that] by (simp add: instr_spec_def split: sum.splits)
  have entered: "decoder_ok (enter_instr (snd (instr_type d inst)) inst j)"
    if "decode_spec inst = Inr j" for j
  proof -
    have s: "instr_spec inst = Some j" using that by (simp add: instr_spec_def)
    have "inst = 0x30200073 \<Longrightarrow> j = MRET_instr" "inst = 0x10200073 \<Longrightarrow> j = SRET_instr"
      using that by (simp_all add: decode_spec_def)
    then show ?thesis
      using icache.coherent_enter [OF c1 s] ok instr_type_ok(2,3) [OF t, of inst]
      by (simp add: decoder_ok_def types_ok_def coherent_def)
  qed
  have kept: "decoder_ok (snd (instr_type d inst))"
    using c1 ok instr_type_ok(2,3) [OF t, of inst] by (simp add: decoder_ok_def)
  show "decode d inst = Inr (i, d') \<Longrightarrow> decode_spec inst = Inr i \<and> decoder_ok d'"
    using decode_miss [OF ok, of inst] hit entered kept ok
    by (cases "instr_cache d inst") (auto simp: bind_res_eq_Inr decode_hit split: if_splits)
  show "decode d inst = Inl e \<Longrightarrow> decode_spec inst = Inl e"
    using decode_miss [OF ok, of inst]
    by (cases "instr_cache d inst") (auto simp: bind_res_eq_Inl decode_hit)
  show "decode_spec inst = Inr i \<Longrightarrow> \<exists>d'. decode d inst = Inr (i, d')"
    using decode_miss [OF ok, of inst] hit
    by (cases "instr_cache d inst") (auto simp: decode_hit)
qed

lemma decoder_ok_new: "decoder_ok InstructionDecoder_new"
  by (auto simp: decoder_ok_def types_ok_def coherent_def InstructionDecoder_new_def instr_spec_def
      decode_spec_def)

text \<open>Decoding a stream of words, as the run loop does.\<close>

fun decode_stream :: "InstructionDecoder \<Rightarrow> u32 list \<Rightarrow> (Instruction list \<times> InstructionDecoder) res" where
  "decode_stream d [] = Inr ([], d)"
| "decode_stream d (w # ws) =
     bind_res (decode d w) (\<lambda>(i, d').
     bind_res (decode_stream d' ws) (\<lambda>(is, d''). Inr (i # is, d'')))"

lemma decode_stream_ok:
  "decoder_ok d \<Longrightarrow> list_all2 (\<lambda>w i. decode_spec w = Inr i) ws is \<Longrightarrow>
     \<exists>d'. decode_stream d ws = Inr (is, d') \<and> decoder_ok d'"
proof (induction ws arbitrary: d "is")
  case Nil
  then show ?case by simp
next
  case (Cons w ws)
  then obtain i js where js: "is = i # js" "decode_spec w = Inr i"
    "list_all2 (\<lambda>w i. decode_spec w = Inr i) ws js"
    by (auto simp: list_all2_Cons1)
  then obtain d1 where "decode d w = Inr (i, d1)" "decoder_ok d1"
    using decode_correct(1,3) [OF Cons.prems(1)] by blast
  then show ?case using Cons.IH [of d1 js] js by auto
qed

text \<open>(C11) The caches are transparent: a decoder that starts as the constructor leaves it returns,
  for every word of any stream of words, what decoding without caches returns.\<close>

theorem decode_caches_transparent:
  assumes "list_all2 (\<lambda>w i. decode_spec w = Inr i) ws is"
  shows "\<exists>d. decode_stream InstructionDecoder_new ws = Inr (is, d) \<and> decoder_ok d"
  using decode_stream_ok [OF decoder_ok_new assms] .

end
