(* ===== verification/Decoder_Fields.thy ===== *)
theory Decoder_Fields
  imports Decoder_Cache
begin

text \<open>
  The instruction formats of the RISC-V base encoding, written down independently of the decoder
  (\<open>enc_R\<close> to \<open>enc_J\<close>), and the bits that the decoder's extraction routines read: every field
  and every immediate of an encoded word is the operand it was encoded from.
\<close>

unbundle bit_operations_syntax

subsection \<open>Formats\<close>

type_synonym reg = "5 word"

definition enc_R :: "7 word \<Rightarrow> reg \<Rightarrow> 3 word \<Rightarrow> reg \<Rightarrow> reg \<Rightarrow> 7 word \<Rightarrow> u32" where
  "enc_R op d f3 r1 r2 f7 =
     ucast op OR push_bit 7 (ucast d) OR push_bit 12 (ucast f3) OR push_bit 15 (ucast r1)
     OR push_bit 20 (ucast r2) OR push_bit 25 (ucast f7)"

definition enc_I :: "7 word \<Rightarrow> reg \<Rightarrow> 3 word \<Rightarrow> reg \<Rightarrow> 12 word \<Rightarrow> u32" where
  "enc_I op d f3 r1 im = enc_R op d f3 r1 (ucast im) (ucast (drop_bit 5 im))"

definition enc_S :: "7 word \<Rightarrow> 3 word \<Rightarrow> reg \<Rightarrow> reg \<Rightarrow> 12 word \<Rightarrow> u32" where
  "enc_S op f3 r1 r2 im = enc_R op (ucast im) f3 r1 r2 (ucast (drop_bit 5 im))"

text \<open>Branch and jump offsets have 13 and 21 bits; bit 0 is not encoded.\<close>

definition enc_B :: "7 word \<Rightarrow> 3 word \<Rightarrow> reg \<Rightarrow> reg \<Rightarrow> 13 word \<Rightarrow> u32" where
  "enc_B op f3 r1 r2 im =
     enc_R op (ucast (im AND NOT 1) OR ucast (take_bit 1 (drop_bit 11 im))) f3 r1 r2
       (ucast (take_bit 6 (drop_bit 5 im)) OR push_bit 6 (ucast (drop_bit 12 im)))"

definition enc_U :: "7 word \<Rightarrow> reg \<Rightarrow> 20 word \<Rightarrow> u32" where
  "enc_U op d im = ucast op OR push_bit 7 (ucast d) OR push_bit 12 (ucast im)"

definition enc_J :: "7 word \<Rightarrow> reg \<Rightarrow> 21 word \<Rightarrow> u32" where
  "enc_J op d im = enc_U op d
     (ucast (take_bit 8 (drop_bit 12 im)) OR push_bit 8 (ucast (take_bit 1 (drop_bit 11 im)))
      OR push_bit 9 (ucast (take_bit 10 (drop_bit 1 im))) OR push_bit 19 (ucast (drop_bit 20 im)))"

subsection \<open>Bits of masks, fields and immediates\<close>

lemma masks [mask_eqs]:
  "(OPCODE_MASK :: u32) = mask 7"
  "(RD_MASK :: u32) = push_bit 7 (mask 5)"
  "(FUNCT3_MASK :: u32) = push_bit 12 (mask 3)"
  "(RS1_MASK :: u32) = push_bit 15 (mask 5)"
  "(RS2_MASK :: u32) = push_bit 20 (mask 5)"
  "(FUNCT7_MASK :: u32) = push_bit 25 (mask 7)"
  "(FUNCT6_MASK :: u32) = push_bit 26 (mask 6)"
  "(FUNCT2_MASK :: u32) = push_bit 25 (mask 2)"
  "(SHAMT32_MASK :: u32) = push_bit 20 (mask 5)"
  "(SHAMT64_MASK :: u32) = push_bit 20 (mask 6)"
  "(IMM12_MASK :: u32) = push_bit 20 (mask 12)"
  "(IMM20_MASK :: u32) = push_bit 12 (mask 20)"
  "(J_IMM_0 :: u32) = push_bit 1 (mask 4)"
  "(J_IMM_1 :: u32) = push_bit 5 (mask 6)"
  "(J_IMM_2 :: u32) = push_bit 11 (mask 1)"
  "(J_IMM_3 :: u32) = push_bit 12 (mask 8)"
  "(J_INST_IMM_0 :: u32) = push_bit 21 (mask 4)"
  "(J_INST_IMM_1 :: u32) = push_bit 25 (mask 6)"
  "(J_INST_IMM_2 :: u32) = push_bit 20 (mask 1)"
  "(J_INST_IMM_4 :: u32) = push_bit 31 (mask 1)"
  "(B_INST_IMM_0 :: u32) = push_bit 8 (mask 4)"
  "(B_INST_IMM_2 :: u32) = push_bit 7 (mask 1)"
  by (simp_all add: mask_eq_exp_minus_1 push_bit_eq_mult)

lemma bit_lengths:
  "bit (a :: 3 word) n \<Longrightarrow> n < 3" "bit (b :: 5 word) n \<Longrightarrow> n < 5" "bit (c :: 7 word) n \<Longrightarrow> n < 7"
  "bit (e :: 12 word) n \<Longrightarrow> n < 12" "bit (f :: 13 word) n \<Longrightarrow> n < 13" "bit (g :: 20 word) n \<Longrightarrow> n < 20"
  "bit (h :: 21 word) n \<Longrightarrow> n < 21" "bit (k :: u32) n \<Longrightarrow> n < 32"
  using bit_imp_le_length [of a n] bit_imp_le_length [of b n] bit_imp_le_length [of c n]
    bit_imp_le_length [of e n] bit_imp_le_length [of f n] bit_imp_le_length [of g n]
    bit_imp_le_length [of h n] bit_imp_le_length [of k n] by simp_all

lemma extract_bits:
  "bit (extract_opcode w) n \<longleftrightarrow> n < 7 \<and> bit w n"
  "bit (extract_rd w) n \<longleftrightarrow> n < 5 \<and> bit w (7 + n)"
  "bit (extract_funct3 w) n \<longleftrightarrow> n < 3 \<and> bit w (12 + n)"
  "bit (extract_rs1 w) n \<longleftrightarrow> n < 5 \<and> bit w (15 + n)"
  "bit (extract_rs2 w) n \<longleftrightarrow> n < 5 \<and> bit w (20 + n)"
  "bit (extract_funct7 w) n \<longleftrightarrow> n < 7 \<and> bit w (25 + n)"
  "bit (extract_funct6 w) n \<longleftrightarrow> n < 6 \<and> bit w (26 + n)"
  "bit (extract_funct2 w) n \<longleftrightarrow> n < 2 \<and> bit w (25 + n)"
  "bit (extract_shamt32 w) n \<longleftrightarrow> n < 5 \<and> bit w (20 + n)"
  "bit (extract_shamt64 w) n \<longleftrightarrow> n < 6 \<and> bit w (20 + n)"
  unfolding extract_opcode_def extract_rd_def extract_funct3_def extract_rs1_def extract_rs2_def
    extract_funct7_def extract_funct6_def extract_funct2_def extract_shamt32_def extract_shamt64_def mask_eqs
  by (auto simp: bit_simps)

lemma enc_R_bit:
  "bit (enc_R op d f3 r1 r2 f7) n \<longleftrightarrow>
     (if n < 7 then bit op n else if n < 12 then bit d (n - 7) else if n < 15 then bit f3 (n - 12)
      else if n < 20 then bit r1 (n - 15) else if n < 25 then bit r2 (n - 20)
      else bit f7 (n - 25))"
  unfolding enc_R_def by (auto simp: bit_simps dest: bit_lengths)
  
lemma enc_U_bit:
  "bit (enc_U op d im) n \<longleftrightarrow>
     (if n < 7 then bit op n else if n < 12 then bit d (n - 7) else bit im (n - 12))"
  unfolding enc_U_def by (auto simp: bit_simps dest: bit_lengths)

lemma enc_R_fields:
  "extract_opcode (enc_R op d f3 r1 r2 f7) = ucast op"
  "extract_rd (enc_R op d f3 r1 r2 f7) = ucast d"
  "extract_funct3 (enc_R op d f3 r1 r2 f7) = ucast f3"
  "extract_rs1 (enc_R op d f3 r1 r2 f7) = ucast r1"
  "extract_rs2 (enc_R op d f3 r1 r2 f7) = ucast r2"
  "extract_funct7 (enc_R op d f3 r1 r2 f7) = ucast f7"
  "extract_funct6 (enc_R op d f3 r1 r2 f7) = ucast (drop_bit 1 f7)"
  "extract_shamt32 (enc_R op d f3 r1 r2 f7) = ucast r2"
  by (rule bit_word_eqI, auto simp: extract_bits enc_R_bit bit_simps dest: bit_lengths)+

lemma enc_U_fields:
  "extract_opcode (enc_U op d im) = ucast op"
  "extract_rd (enc_U op d im) = ucast d"
  by (rule bit_word_eqI, auto simp: extract_bits enc_U_bit bit_simps dest: bit_lengths)+

lemma imm_i_bit: "bit (imm_i w) n \<longleftrightarrow> n < 32 \<and> bit w (20 + min n 11)"
  unfolding imm_i_def mask_eqs by (auto simp: bit_simps min_def dest: bit_lengths)

lemma imm_s_bit: "bit (imm_s w) n \<longleftrightarrow> n < 32 \<and> bit w (if n < 5 then 7 + n else 20 + min n 11)"
  unfolding imm_s_def Let_def mask_eqs by (auto simp: bit_simps extract_bits min_def dest: bit_lengths)

lemma imm_u_bit: "bit (imm_u w) n \<longleftrightarrow> 12 \<le> n \<and> bit w n"
  unfolding imm_u_def mask_eqs by (auto simp: bit_simps dest: bit_lengths)


lemma sext_bits:
  "k < 32 \<Longrightarrow> bit (signed_drop_bit k (push_bit k (w :: u32))) n \<longleftrightarrow> n < 32 \<and> bit w (min n (31 - k))"
  by (auto simp: bit_simps min_def dest: bit_lengths)

lemma bit_field_mask: "bit (push_bit p (mask k) :: u32) n \<longleftrightarrow> p \<le> n \<and> n < p + k \<and> n < 32"
  by (auto simp: bit_simps)

lemma imm_b_raw:
  "bit ((drop_bit 7 (inst AND B_INST_IMM_0) AND B_IMM_0) :: u32) n \<longleftrightarrow> 1 \<le> n \<and> n < 5 \<and> bit inst (7 + n)"
  "bit ((drop_bit 20 (inst AND B_INST_IMM_1) AND B_IMM_1) :: u32) n \<longleftrightarrow> 5 \<le> n \<and> n < 11 \<and> bit inst (20 + n)"
  "bit ((push_bit 4 (inst AND B_INST_IMM_2) AND B_IMM_2) :: u32) n \<longleftrightarrow> n = 11 \<and> bit inst 7"
  "bit ((drop_bit 19 (inst AND B_INST_IMM_3) AND B_IMM_3) :: u32) n \<longleftrightarrow> n = 12 \<and> bit inst 31"
  by (simp_all only: mask_eqs bit_field_mask bit_and_iff bit_drop_bit_eq bit_push_bit_iff bit_mask_iff comp_apply)
    (auto dest: bit_lengths)

lemma imm_j_raw:
  "bit ((drop_bit 20 (inst AND J_INST_IMM_0) AND J_IMM_0) :: u32) n \<longleftrightarrow> 1 \<le> n \<and> n < 5 \<and> bit inst (20 + n)"
  "bit ((drop_bit 20 (inst AND J_INST_IMM_1) AND J_IMM_1) :: u32) n \<longleftrightarrow> 5 \<le> n \<and> n < 11 \<and> bit inst (20 + n)"
  "bit ((drop_bit 9 (inst AND J_INST_IMM_2) AND J_IMM_2) :: u32) n \<longleftrightarrow> n = 11 \<and> bit inst 20"
  "bit (((inst AND J_INST_IMM_3) AND J_IMM_3) :: u32) n \<longleftrightarrow> 12 \<le> n \<and> n < 20 \<and> bit inst n"
  "bit ((drop_bit 11 (inst AND J_INST_IMM_4) AND J_IMM_4) :: u32) n \<longleftrightarrow> n = 20 \<and> bit inst 31"
  by (simp_all only: mask_eqs bit_field_mask bit_and_iff bit_drop_bit_eq bit_push_bit_iff bit_mask_iff comp_apply)
    (auto dest: bit_lengths)

lemma imm_b_bit: "bit (imm_b w) n \<longleftrightarrow>
  (if n = 0 then False else if n < 5 then bit w (7 + n) else if n < 11 then bit w (20 + n)
   else if n = 11 then bit w 7 else n < 32 \<and> bit w 31)"
  unfolding imm_b_def Let_def
  by (simp only: sext_bits bit_or_iff imm_b_raw) (auto simp: min_def)

lemma imm_j_bit: "bit (imm_j w) n \<longleftrightarrow>
  (if n = 0 then False else if n < 11 then bit w (20 + n) else if n = 11 then bit w 20
   else if n < 20 then bit w n else n < 32 \<and> bit w 31)"
  unfolding imm_j_def Let_def
  by (simp only: sext_bits bit_or_iff imm_j_raw) (auto simp: min_def)

subsection \<open>Immediates of encoded words\<close>

lemma imm_enc_I: "imm_i (enc_I op d f3 r1 im) = scast im"
  by (rule bit_word_eqI)
    (auto simp: imm_i_bit enc_I_def enc_R_bit bit_simps min_def dest: bit_lengths)

lemma imm_enc_S: "imm_s (enc_S op f3 r1 r2 im) = scast im"
  by (rule bit_word_eqI)
    (auto simp: imm_s_bit enc_S_def enc_R_bit bit_simps min_def dest: bit_lengths)

lemma imm_enc_U: "imm_u (enc_U op d im) = push_bit 12 (ucast im)"
  by (rule bit_word_eqI) (auto simp: imm_u_bit enc_U_bit bit_simps dest: bit_lengths)

lemma bits_eq_list:
  "list_all (\<lambda>n. bit a n \<longleftrightarrow> bit b n)
     [0, 1, 2, 3, 4, 5, 6, 7, 8, 9, 10, 11, 12, 13, 14, 15, 16, 17, 18, 19, 20, 21, 22, 23, 24, 25,
      26, 27, 28, 29, 30, 31] \<Longrightarrow> a = (b :: u32)"
proof (rule bit_word_eqI)
  fix n assume all: "list_all (\<lambda>n. bit a n \<longleftrightarrow> bit b n)
     [0, 1, 2, 3, 4, 5, 6, 7, 8, 9, 10, 11, 12, 13, 14, 15, 16, 17, 18, 19, 20, 21, 22, 23, 24, 25,
      26, 27, 28, 29, 30, 31]" and n: "n < LENGTH(32)"
  have "[0..<32] = [0, 1, 2, 3, 4, 5, 6, 7, 8, 9, 10, 11, 12, 13, 14, 15, 16, 17, 18, 19, 20, 21,
      22, 23, 24, 25, 26, 27, 28, 29, 30, 31]" by code_simp
  then have "list_all (\<lambda>n. bit a n \<longleftrightarrow> bit b n) [0..<32]" using all by argo
  then show "bit a n \<longleftrightarrow> bit b n" using n by (simp only: list_all_iff) simp
qed

lemma imm_enc_B: "imm_b (enc_B op f3 r1 r2 im) = scast (im AND NOT 1)"
  by (rule bits_eq_list) (simp add: imm_b_bit enc_B_def enc_R_bit bit_simps flip: bit_0)

lemma imm_enc_J: "imm_j (enc_J op d im) = scast (im AND NOT 1)"
  by (rule bits_eq_list) (simp add: imm_j_bit enc_J_def enc_U_bit bit_simps flip: bit_0 numeral_2_eq_2 numeral_3_eq_3)

end
