(* ===== verification/Decoder_Rows.thy ===== *)
theory Decoder_Rows
  imports Decoder_Fields
begin

text \<open>
  The instruction listings of the RISC-V unprivileged specification (RV64I, M, A and the
  single-precision operations with a fixed \<open>funct3\<close>), one row per instruction, and the facts that
  tie them to the decoder's tables: each table holds what the listing says, and no two rows of a
  format share an encoding.
\<close>

unbundle bit_operations_syntax

subsection \<open>Listings\<close>

definition rv_R :: "(IName \<times> 7 word \<times> 3 word \<times> 7 word) list" where
  "rv_R = [
    (iADDW, 0b0111011, 0b000, 0b0000000), (iADD, 0b0110011, 0b000, 0b0000000),
    (iSUB, 0b0110011, 0b000, 0b0100000), (iSUBW, 0b0111011, 0b000, 0b0100000),
    (iSLL, 0b0110011, 0b001, 0b0000000), (iSLLW, 0b0111011, 0b001, 0b0000000),
    (iSLT, 0b0110011, 0b010, 0b0000000), (iSLTU, 0b0110011, 0b011, 0b0000000),
    (iXOR, 0b0110011, 0b100, 0b0000000), (iSRL, 0b0110011, 0b101, 0b0000000),
    (iSRLW, 0b0111011, 0b101, 0b0000000), (iSRA, 0b0110011, 0b101, 0b0100000),
    (iSRAW, 0b0111011, 0b101, 0b0100000), (iOR, 0b0110011, 0b110, 0b0000000),
    (iAND, 0b0110011, 0b111, 0b0000000), (iMUL, 0b0110011, 0b000, 0b0000001),
    (iMULH, 0b0110011, 0b001, 0b0000001), (iMULHSU, 0b0110011, 0b010, 0b0000001),
    (iMULHU, 0b0110011, 0b011, 0b0000001), (iDIV, 0b0110011, 0b100, 0b0000001),
    (iDIVU, 0b0110011, 0b101, 0b0000001), (iREM, 0b0110011, 0b110, 0b0000001),
    (iREMU, 0b0110011, 0b111, 0b0000001), (iMULW, 0b0111011, 0b000, 0b0000001),
    (iDIVW, 0b0111011, 0b100, 0b0000001), (iDIVUW, 0b0111011, 0b101, 0b0000001),
    (iREMW, 0b0111011, 0b110, 0b0000001), (iREMUW, 0b0111011, 0b111, 0b0000001),
    (iLRW, 0b0101111, 0b010, 0b0001000), (iSCW, 0b0101111, 0b010, 0b0001100),
    (iAMOSWAPW, 0b0101111, 0b010, 0b0000100), (iAMOADDW, 0b0101111, 0b010, 0b0000000),
    (iAMOXORW, 0b0101111, 0b010, 0b0010000), (iAMOANDW, 0b0101111, 0b010, 0b0110000),
    (iAMOORW, 0b0101111, 0b010, 0b0100000), (iAMOMINW, 0b0101111, 0b010, 0b1000000),
    (iAMOMAXW, 0b0101111, 0b010, 0b1010000), (iAMOMINUW, 0b0101111, 0b010, 0b1100000),
    (iAMOMAXUW, 0b0101111, 0b010, 0b1110000), (iLRD, 0b0101111, 0b011, 0b0001000),
    (iSCD, 0b0101111, 0b011, 0b0001100), (iAMOSWAPD, 0b0101111, 0b011, 0b0000100),
    (iAMOADDD, 0b0101111, 0b011, 0b0000000), (iAMOXORD, 0b0101111, 0b011, 0b0010000),
    (iAMOANDD, 0b0101111, 0b011, 0b0110000), (iAMOORD, 0b0101111, 0b011, 0b0100000),
    (iAMOMIND, 0b0101111, 0b011, 0b1000000), (iAMOMAXD, 0b0101111, 0b011, 0b1010000),
    (iAMOMINUD, 0b0101111, 0b011, 0b1100000), (iAMOMAXUD, 0b0101111, 0b011, 0b1110000),
    (iFSGNJS, 0b1010011, 0b000, 0b0010000), (iFSGNJNS, 0b1010011, 0b001, 0b0010000),
    (iFSGNJXS, 0b1010011, 0b010, 0b0010000), (iFMINS, 0b1010011, 0b000, 0b0010100),
    (iFMAXS, 0b1010011, 0b001, 0b0010100), (iFMVXW, 0b1010011, 0b000, 0b1110000),
    (iFEQS, 0b1010011, 0b010, 0b1010000), (iFLTS, 0b1010011, 0b001, 0b1010000),
    (iFLES, 0b1010011, 0b000, 0b1010000), (iFCLASSS, 0b1010011, 0b001, 0b1110000),
    (iFMVWX, 0b1010011, 0b000, 0b1111000)]"

definition rv_I :: "(IName \<times> 7 word \<times> 3 word) list" where
  "rv_I = [
    (iLB, 0b0000011, 0b000), (iLH, 0b0000011, 0b001), (iLW, 0b0000011, 0b010),
    (iLBU, 0b0000011, 0b100), (iLHU, 0b0000011, 0b101), (iLD, 0b0000011, 0b011),
    (iLWU, 0b0000011, 0b110), (iADDI, 0b0010011, 0b000), (iADDIW, 0b0011011, 0b000),
    (iSLTI, 0b0010011, 0b010), (iSLTIU, 0b0010011, 0b011), (iXORI, 0b0010011, 0b100),
    (iORI, 0b0010011, 0b110), (iANDI, 0b0010011, 0b111), (iSLLI, 0b0010011, 0b001),
    (iSRLI, 0b0010011, 0b101), (iSRAI, 0b0010011, 0b101), (iSLLIW, 0b0011011, 0b001),
    (iSRLIW, 0b0011011, 0b101), (iSRAIW, 0b0011011, 0b101), (iFENCE, 0b0001111, 0b000),
    (iFENCEI, 0b0001111, 0b001), (iECALL, 0b1110011, 0b000), (iEBREAK, 0b1110011, 0b000),
    (iCSRRW, 0b1110011, 0b001), (iCSRRS, 0b1110011, 0b010), (iCSRRC, 0b1110011, 0b011),
    (iCSRRWI, 0b1110011, 0b101), (iCSRRSI, 0b1110011, 0b110), (iCSRRCI, 0b1110011, 0b111),
    (iJALR, 0b1100111, 0b000), (iFLW, 0b0000111, 0b010)]"

definition rv_S :: "(IName \<times> 7 word \<times> 3 word) list" where
  "rv_S = [
    (iSB, 0b0100011, 0b000), (iSH, 0b0100011, 0b001), (iSW, 0b0100011, 0b010),
    (iSD, 0b0100011, 0b011), (iFSW, 0b0100111, 0b010)]"

definition rv_B :: "(IName \<times> 7 word \<times> 3 word) list" where
  "rv_B = [
    (iBEQ, 0b1100011, 0b000), (iBNE, 0b1100011, 0b001), (iBLT, 0b1100011, 0b100),
    (iBGE, 0b1100011, 0b101), (iBLTU, 0b1100011, 0b110), (iBGEU, 0b1100011, 0b111)]"

text \<open>The shifts by a constant: their \<open>funct6\<close> (64-bit) and \<open>funct7\<close> (32-bit).\<close>

definition rv_shift :: "(IName \<times> 6 word) list" where
  "rv_shift = [(iSLLI, 0b000000), (iSRLI, 0b000000), (iSRAI, 0b010000)]"

definition rv_shiftw :: "(IName \<times> 7 word) list" where
  "rv_shiftw = [(iSLLIW, 0b0000000), (iSRLIW, 0b0000000), (iSRAIW, 0b0100000)]"

definition rv_U :: "(IName \<times> 7 word) list" where
  "rv_U = [(iLUI, 0b0110111), (iAUIPC, 0b0010111)]"

definition rv_J :: "(IName \<times> 7 word) list" where
  "rv_J = [(iJAL, 0b1101111)]"

subsection \<open>The tables hold the listings\<close>

lemmas key_order = map_init_def less_IName_def

lemma funct3_rows:
  "r_funct3 = map (\<lambda>(n, op, f3, f7). (n, ucast f3)) rv_R"
  "i_funct3 = map (\<lambda>(n, op, f3). (n, ucast f3)) rv_I"
  "s_funct3 = map (\<lambda>(n, op, f3). (n, ucast f3)) rv_S"
  "b_funct3 = map (\<lambda>(n, op, f3). (n, ucast f3)) rv_B"
  by (simp_all add: r_funct3_def rv_R_def i_funct3_def rv_I_def s_funct3_def rv_S_def b_funct3_def
      rv_B_def key_order)

lemma opcode_rows:
  "i_opcodes = map (\<lambda>(n, op, f3). (n, ucast op)) rv_I"
  "s_opcodes = map (\<lambda>(n, op, f3). (n, ucast op)) rv_S"
  "b_opcodes = map (\<lambda>(n, op, f3). (n, ucast op)) rv_B"
  "u_opcodes = map (\<lambda>(n, op). (n, ucast op)) rv_U"
  "j_opcodes = map (\<lambda>(n, op). (n, ucast op)) rv_J"
  by (simp_all add: i_opcodes_def rv_I_def s_opcodes_def rv_S_def b_opcodes_def rv_B_def
      u_opcodes_def rv_U_def j_opcodes_def rv_J_def key_order)

lemma R_rows_lookup:
  "list_all (\<lambda>(n, op, f3, f7). map_at r_opcodes n = Inr (ucast op)
     \<and> map_at r_funct7 n = Inr (ucast f7)) rv_R"
  by (simp add: rv_R_def map_at_def r_opcodes_def r_funct7_def map_of_map_init map_of_Cons_code
      del: map_of.simps)

lemma I_rows_lookup: "list_all (\<lambda>(n, op, f3). map_at i_opcodes n = Inr (ucast op)) rv_I"
  by (simp add: rv_I_def map_at_def opcode_rows map_of_Cons_code del: map_of.simps)

lemma S_rows_lookup: "list_all (\<lambda>(n, op, f3). map_at s_opcodes n = Inr (ucast op)) rv_S"
  by (simp add: rv_S_def map_at_def opcode_rows)

lemma B_rows_lookup: "list_all (\<lambda>(n, op, f3). map_at b_opcodes n = Inr (ucast op)) rv_B"
  by (simp add: rv_B_def map_at_def opcode_rows)

lemma shift_rows_lookup:
  "map_at i_funct6 n = (case map_of rv_shift n of None \<Rightarrow> Inl OutOfRange | Some f6 \<Rightarrow> Inr (ucast f6))"
  by (simp add: rv_shift_def map_at_def i_funct6_def map_of_map_init)

lemma shiftw_rows_lookup:
  "(n, f7) \<in> set rv_shiftw \<Longrightarrow> map_at i_funct7 n = Inr (ucast f7)"
  by (auto simp: rv_shiftw_def map_at_def i_funct7_def map_of_map_init)

lemma names_None:
  "map_of inst_string_names n = None \<longleftrightarrow> n \<notin> IName `
    {0, 1, 2, 3, 4, 5, 6, 7, 9, 10, 11, 12, 13, 53, 14, 54, 15, 16, 17, 51, 18, 19, 50, 20, 52,
     21, 22, 23, 24, 25, 26, 27, 28, 29, 30, 31, 32, 33, 34, 35, 36, 37, 38, 39, 40, 41, 8, 42,
     43, 44, 45, 46, 47, 48, 49, 50, 57, 58, 55, 56, 59, 60, 61, 62, 63, 64, 65, 66, 67, 68,
     69, 70, 71, 72, 73, 74, 75, 76, 77, 78, 79, 80, 81, 82, 83, 84, 85, 86, 87, 88, 89, 90,
     91, 92, 93, 94, 95, 96, 97, 98, 99, 99, 100, 102, 103, 104, 105, 106, 107, 108, 109, 110,
     111, 112, 113, 114, 115, 116, 117, 118, 119, 120, 121, 122, 123, 122, 125, 126}"
  unfolding inst_string_names_def map_of_map_init map_of_eq_None_iff
  by (simp only: list.set image_empty image_insert fst_conv)

lemma rows_named:
  "list_all (\<lambda>(n, k). map_of inst_string_names n \<noteq> None) rv_R"
  "list_all (\<lambda>(n, k). map_of inst_string_names n \<noteq> None) rv_I"
  "list_all (\<lambda>(n, k). map_of inst_string_names n \<noteq> None) rv_S"
  "list_all (\<lambda>(n, k). map_of inst_string_names n \<noteq> None) rv_B"
  "list_all (\<lambda>(n, k). map_of inst_string_names n \<noteq> None) rv_U"
  "list_all (\<lambda>(n, k). map_of inst_string_names n \<noteq> None) rv_J"
  by (simp_all add: rv_R_def rv_I_def rv_S_def rv_B_def rv_U_def rv_J_def names_None)

subsection \<open>The type of an opcode\<close>

lemma opcode_type_rows:
  "list_all (\<lambda>(n, op, k). opcode_type (ucast op) = Type_I) rv_I"
  "list_all (\<lambda>(n, op, k). opcode_type (ucast op) = Type_S) rv_S"
  "list_all (\<lambda>(n, op, k). opcode_type (ucast op) = Type_B) rv_B"
  "list_all (\<lambda>(n, op). opcode_type (ucast op) = Type_J) rv_J"
  by (simp_all add: opcode_type_def opcode_rows rv_I_def rv_S_def rv_B_def rv_J_def)

lemma R_opcodes:
  "list_all (\<lambda>(n, op, k). op = 0b0110011 \<or> op = 0b0111011 \<or> op = 0b0101111 \<or> op = 0b1010011) rv_R"
  by (simp add: rv_R_def)

lemma r_opcodes_mem: "map_at r_opcodes n = Inr v \<Longrightarrow> list_ex (\<lambda>(k, w). v = w) r_opcodes"
  by (auto simp: map_at_def list_ex_iff split: option.splits dest!: map_of_SomeD intro!: bexI)

lemma opcode_type_R:
  assumes "(n, op, k) \<in> set rv_R"
  shows "opcode_type (ucast op) = Type_R"
proof -
  obtain f3 f7 where k: "k = (f3, f7)" by (cases k)
  have "map_at r_opcodes n = Inr (ucast op)" using R_rows_lookup assms by (auto simp: list_all_iff k)
  then have "list_ex (\<lambda>(k, w). ucast op = w) r_opcodes" by (rule r_opcodes_mem)
  moreover have "op = 0b0110011 \<or> op = 0b0111011 \<or> op = 0b0101111 \<or> op = 0b1010011"
    using R_opcodes assms by (auto simp: list_all_iff)
  ultimately show ?thesis
    by (auto simp: opcode_type_def opcode_rows rv_I_def rv_S_def rv_B_def rv_J_def)
qed

subsection \<open>No two rows share an encoding\<close>

lemma R_distinct: "distinct (map snd rv_R)"
  by (simp add: rv_R_def)

lemma S_B_distinct: "distinct (map snd rv_S)" "distinct (map snd rv_B)"
  by (simp_all add: rv_S_def rv_B_def)

lemma R_amo_aligned: "list_all (\<lambda>(n, op, f3, f7). op = 0b0101111 \<longrightarrow> f7 AND NOT 0b11 = f7) rv_R"
  by (simp add: rv_R_def)

text \<open>Rows of the I format that share opcode and \<open>funct3\<close>.\<close>

definition twins :: "IName \<Rightarrow> IName \<Rightarrow> bool" where
  "twins m n \<longleftrightarrow> (m = iSRLI \<and> n = iSRAI) \<or> (m = iSRAI \<and> n = iSRLI)
     \<or> (m = iSRLIW \<and> n = iSRAIW) \<or> (m = iSRAIW \<and> n = iSRLIW)
     \<or> (m = iECALL \<and> n = iEBREAK) \<or> (m = iEBREAK \<and> n = iECALL)"

lemma I_distinct:
  "list_all (\<lambda>(m, j). list_all (\<lambda>(n, k). j = k \<longrightarrow> m = n \<or> twins m n) rv_I) rv_I"
  by (simp add: rv_I_def twins_def)

end
