(* ===== verification/Decoder_Roundtrip.thy ===== *)
theory Decoder_Roundtrip
  imports Decoder_Rows
begin

text \<open>
  Assembling and decoding: \<open>asm\<close> is the abstract syntax of the instructions, \<open>encode\<close> produces
  their words from the listings and the formats, and decoding a produced word yields an instruction
  that \<open>denotes\<close> the assembled one, with all its operands.
\<close>

unbundle bit_operations_syntax

subsection \<open>Abstract syntax and encoding\<close>

datatype asm =
    AsmR IName reg reg reg "2 word"
  | AsmI IName reg reg "12 word"
  | AsmShift IName reg reg "6 word"
  | AsmShiftW IName reg reg "5 word"
  | AsmS IName reg reg "12 word"
  | AsmB IName reg reg "13 word"
  | AsmU IName reg "20 word"
  | AsmJ IName reg "21 word"
  | AsmMRET
  | AsmSRET

fun encode :: "asm \<Rightarrow> u32 option" where
  "encode (AsmR n d r1 r2 aqrl) = (case map_of rv_R n of
      Some (op, f3, f7) \<Rightarrow>
        if aqrl \<noteq> 0 \<and> op \<noteq> 0b0101111 then None
        else Some (enc_R op d f3 r1 r2 (f7 OR ucast aqrl))
    | None \<Rightarrow> None)"
| "encode (AsmI n d r1 im) = (case map_of rv_I n of
      Some (op, f3) \<Rightarrow>
        if n \<in> fst ` set rv_shift \<or> n \<in> fst ` set rv_shiftw
           \<or> (n = iECALL \<and> im \<noteq> 0) \<or> (n = iEBREAK \<and> im \<noteq> 1) then None
        else Some (enc_I op d f3 r1 im)
    | None \<Rightarrow> None)"
| "encode (AsmShift n d r1 sh) = (case (map_of rv_I n, map_of rv_shift n) of
      (Some (op, f3), Some f6) \<Rightarrow> Some (enc_I op d f3 r1 (ucast sh OR push_bit 6 (ucast f6)))
    | _ \<Rightarrow> None)"
| "encode (AsmShiftW n d r1 sh) = (case (map_of rv_I n, map_of rv_shiftw n) of
      (Some (op, f3), Some f7) \<Rightarrow> Some (enc_I op d f3 r1 (ucast sh OR push_bit 5 (ucast f7)))
    | _ \<Rightarrow> None)"
| "encode (AsmS n r1 r2 im) = map_option (\<lambda>(op, f3). enc_S op f3 r1 r2 im) (map_of rv_S n)"
| "encode (AsmB n r1 r2 im) = map_option (\<lambda>(op, f3). enc_B op f3 r1 r2 im) (map_of rv_B n)"
| "encode (AsmU n d im) = map_option (\<lambda>op. enc_U op d im) (map_of rv_U n)"
| "encode (AsmJ n d im) = map_option (\<lambda>op. enc_J op d im) (map_of rv_J n)"
| "encode AsmMRET = Some 0x30200073"
| "encode AsmSRET = Some 0x10200073"

fun denotes :: "Instruction \<Rightarrow> asm \<Rightarrow> bool" where
  "denotes i (AsmR n d r1 r2 aqrl) \<longleftrightarrow> get_type i = Type_R \<and> get_name i = n
     \<and> rd (get_fields i) = ucast d \<and> rs1 (get_fields i) = ucast r1 \<and> rs2 (get_fields i) = ucast r2"
| "denotes i (AsmI n d r1 im) \<longleftrightarrow> get_type i = Type_I \<and> get_name i = n
     \<and> rd (get_fields i) = ucast d \<and> rs1 (get_fields i) = ucast r1 \<and> imm (get_fields i) = scast im"
| "denotes i (AsmShift n d r1 sh) \<longleftrightarrow> get_type i = Type_I \<and> get_name i = n
     \<and> rd (get_fields i) = ucast d \<and> rs1 (get_fields i) = ucast r1
     \<and> shamt64 (get_fields i) = ucast sh \<and> take_bit 6 (imm (get_fields i)) = ucast sh"
| "denotes i (AsmShiftW n d r1 sh) \<longleftrightarrow> get_type i = Type_I \<and> get_name i = n
     \<and> rd (get_fields i) = ucast d \<and> rs1 (get_fields i) = ucast r1
     \<and> shamt32 (get_fields i) = ucast sh \<and> take_bit 5 (imm (get_fields i)) = ucast sh"
| "denotes i (AsmS n r1 r2 im) \<longleftrightarrow> get_type i = Type_S \<and> get_name i = n
     \<and> rs1 (get_fields i) = ucast r1 \<and> rs2 (get_fields i) = ucast r2 \<and> imm (get_fields i) = scast im"
| "denotes i (AsmB n r1 r2 im) \<longleftrightarrow> get_type i = Type_B \<and> get_name i = n
     \<and> rs1 (get_fields i) = ucast r1 \<and> rs2 (get_fields i) = ucast r2
     \<and> imm (get_fields i) = scast (im AND NOT 1)"
| "denotes i (AsmU n d im) \<longleftrightarrow> get_type i = Type_U \<and> get_name i = n
     \<and> rd (get_fields i) = ucast d \<and> imm (get_fields i) = push_bit 12 (ucast im)"
| "denotes i (AsmJ n d im) \<longleftrightarrow> get_type i = Type_J \<and> get_name i = n
     \<and> rd (get_fields i) = ucast d \<and> imm (get_fields i) = scast (im AND NOT 1)"
| "denotes i AsmMRET \<longleftrightarrow> get_name i = iMRET"
| "denotes i AsmSRET \<longleftrightarrow> get_name i = iSRET"

subsection \<open>Scanning a table finds the row\<close>


lemma find_unique:
  assumes "x \<in> set xs" "P x" "\<And>y. y \<in> set xs \<Longrightarrow> P y \<Longrightarrow> y = x"
  shows "List.find P xs = Some x"
  using assms
proof (induction xs)
  case (Cons a xs)
  show ?case
  proof (cases "P a")
    case True
    have "a = x" by (rule Cons.prems(3)) (simp_all add: True)
    then show ?thesis using True by simp
  next
    case False
    then have "x \<in> set xs" using Cons.prems(1,2) by auto
    then have "List.find P xs = Some x"
    proof (rule Cons.IH [OF _ Cons.prems(2)])
      show "y = x" if "y \<in> set xs" "P y" for y
        by (rule Cons.prems(3)) (simp_all add: that)
    qed
    then show ?thesis using False by simp
  qed
qed simp

lemma distinct_key:
  assumes "distinct (map snd xs)" "(a, k) \<in> set xs" "(b, k) \<in> set xs"
  shows "a = b"
proof -
  have "inj_on snd (set xs)" using assms(1) by (simp add: distinct_map)
  from inj_onD [OF this _ assms(2,3)] show ?thesis by simp
qed

definition r_match :: "Fields \<Rightarrow> IName \<times> 7 word \<times> 3 word \<times> 7 word \<Rightarrow> bool" where
  "r_match f = (\<lambda>(n, op, f3, f7). OPCode f = ucast op \<and> ucast f3 = funct3 f
     \<and> (ucast f7 = funct7 f \<or> (OPCode f = AM_OPCODE \<and> funct7 f AND NOT 0b11 = ucast f7)))"

definition fp_match :: "Fields \<Rightarrow> IName \<times> 7 word \<times> 3 word \<times> 7 word \<Rightarrow> bool" where
  "fp_match f = (\<lambda>(n, op, f3, f7). funct3 f = ucast f3 \<and> OPCode f = ucast op \<and> funct7 f = ucast f7)"

definition f3_match :: "Fields \<Rightarrow> IName \<times> 7 word \<times> 3 word \<Rightarrow> bool" where
  "f3_match f = (\<lambda>(n, op, f3). OPCode f = ucast op \<and> ucast f3 = funct3 f)"

definition i_match :: "Fields \<Rightarrow> IName \<times> 7 word \<times> 3 word \<Rightarrow> bool" where
  "i_match f = (\<lambda>(n, op, f3). OPCode f = ucast op \<and> ucast f3 = funct3 f
     \<and> (is_shift_imm_32_instruction n \<longrightarrow> get_i_funct7 n = Inr (funct7 f))
     \<and> (is_shift_imm_64_instruction n \<longrightarrow> get_i_funct6 n = Inr (funct6 f))
     \<and> (n = iECALL \<longrightarrow> imm f = 0) \<and> (n = iEBREAK \<longrightarrow> imm f = 1))"

lemma decode_r_loop_rows:
  "list_all (\<lambda>(n, op, f3, f7). map_at r_opcodes n = Inr (ucast op)
     \<and> map_at r_funct7 n = Inr (ucast f7)) xs \<Longrightarrow>
   decode_r_loop f (map (\<lambda>(n, op, f3, f7). (n, ucast f3)) xs) =
     (case List.find (r_match f) xs of None \<Rightarrow> Inr (wrong_instr f)
      | Some (n, k) \<Rightarrow> named_instr Type_R n f)"
  by (induction xs) (auto simp: get_opcode_def r_match_def split: if_splits)

lemma decode_fp_loop_rows:
  "list_all (\<lambda>(n, op, f3, f7). map_at r_opcodes n = Inr (ucast op)
     \<and> map_at r_funct7 n = Inr (ucast f7)) xs \<Longrightarrow>
   decode_fp_with_f3_loop f (map (\<lambda>(n, op, f3, f7). (n, ucast f3)) xs) =
     (case List.find (fp_match f) xs of None \<Rightarrow> Inr (wrong_instr f)
      | Some (n, k) \<Rightarrow> named_instr Type_R n f)"
  by (induction xs) (auto simp: get_opcode_def fp_match_def split: if_splits)

lemma decode_f3_loop_rows:
  "list_all (\<lambda>(n, op, f3). get_opcode n t = Inr (ucast op)) xs \<Longrightarrow>
   decode_f3_loop t f (map (\<lambda>(n, op, f3). (n, ucast f3)) xs) =
     (case List.find (f3_match f) xs of None \<Rightarrow> Inr (wrong_instr f)
      | Some (n, k) \<Rightarrow> named_instr t n f)"
  by (induction xs) (auto simp: f3_match_def split: if_splits)

lemma shift_lookup:
  "is_shift_imm_32_instruction n \<Longrightarrow> \<exists>v. get_i_funct7 n = Inr v"
  "is_shift_imm_64_instruction n \<Longrightarrow> \<exists>v. get_i_funct6 n = Inr v"
  "is_shift_imm_32_instruction n \<Longrightarrow> \<not> is_shift_imm_64_instruction n \<and> n \<noteq> iECALL \<and> n \<noteq> iEBREAK"
  "is_shift_imm_64_instruction n \<Longrightarrow> n \<noteq> iECALL \<and> n \<noteq> iEBREAK"
  by (auto simp: is_shift_imm_32_instruction_def is_shift_imm_64_instruction_def get_i_funct6_def
      get_i_funct7_def map_at_def i_funct6_def i_funct7_def map_of_map_init)

lemma decode_i_loop_rows:
  "list_all (\<lambda>(n, op, f3). map_at i_opcodes n = Inr (ucast op)) xs \<Longrightarrow>
   decode_i_loop f (map (\<lambda>(n, op, f3). (n, ucast f3)) xs) =
     (case List.find (i_match f) xs of None \<Rightarrow> Inr (wrong_instr f)
      | Some (n, k) \<Rightarrow> named_instr Type_I n f)"
proof (induction xs)
  case (Cons x xs)
  obtain n op f3 where x: "x = (n, op, f3)" by (cases x)
  consider (w) v where "is_shift_imm_32_instruction n" "get_i_funct7 n = Inr v"
    | (d) v where "is_shift_imm_64_instruction n" "get_i_funct6 n = Inr v"
    | (p) "\<not> is_shift_imm_32_instruction n" "\<not> is_shift_imm_64_instruction n"
    using shift_lookup [of n] by blast
  then show ?case
    using Cons shift_lookup(3,4) [of n]
    by cases (auto simp: x get_opcode_def i_match_def split: if_splits)
qed simp

lemma named_instr_eq:
  "map_of inst_string_names n \<noteq> None \<Longrightarrow> \<exists>s. named_instr t n f = Inr (mk_instr t n f s)"
  by (auto simp: named_instr_def get_string_name_def map_at_def)

subsection \<open>Decoding by format\<close>

lemma ucast_u8_inj [simp]:
  "(ucast (a :: 7 word) :: u8) = ucast a' \<longleftrightarrow> a = a'"
  "(ucast (b :: 3 word) :: u8) = ucast b' \<longleftrightarrow> b = b'"
  "(ucast (c :: 6 word) :: u8) = ucast c' \<longleftrightarrow> c = c'"
  by (auto simp: bit_eq_iff [of "ucast _"] bit_simps intro!: bit_word_eqI)

lemma aqrl_simps:
  "(ucast (f7 :: 7 word) :: u8) AND NOT 0b11 = ucast g7 \<longleftrightarrow> f7 AND NOT 0b11 = g7"
proof -
  have "(ucast f7 :: u8) AND NOT 0b11 = ucast (f7 AND NOT 0b11)"
    by (rule bit_word_eqI) (auto simp: bit_simps dest: bit_lengths)
  then show ?thesis by simp
qed

lemma aqrl_clear: "f7 AND NOT 0b11 = f7 \<Longrightarrow> (f7 OR ucast (q :: 2 word)) AND NOT 0b11 = (f7 :: 7 word)"
proof -
  assume *: "f7 AND NOT 0b11 = f7"
  have "(ucast q :: 7 word) AND NOT (mask 2) = 0"
    by (rule bit_word_eqI) (auto simp: bit_simps dest: bit_imp_le_length)
  then have "(ucast q :: 7 word) AND NOT 0b11 = 0" by (simp add: mask_eq_exp_minus_1)
  then show ?thesis using * by (simp add: bit.conj_disj_distrib2)
qed

lemma decode_R_row:
  assumes row: "(n, op, f3, f7) \<in> set rv_R" and op: "op \<noteq> 0b1010011"
    and f: "OPCode f = ucast op" "funct3 f = ucast f3" "funct7 f = ucast g7"
    and g7: "g7 = f7 \<or> op = 0b0101111 \<and> g7 AND NOT 0b11 = f7"
  shows "decode_r_loop f r_funct3 = named_instr Type_R n f"
proof -
  have "List.find (r_match f) rv_R = Some (n, op, f3, f7)"
  proof (rule find_unique [OF row])
    show "r_match f (n, op, f3, f7)" using g7 f by (auto simp: r_match_def aqrl_simps [simplified])
    fix y assume y: "y \<in> set rv_R" "r_match f y"
    obtain m op' f3' f7' where ye: "y = (m, op', f3', f7')" by (cases y)
    have k: "op' = op" "f3' = f3" and k7: "g7 = f7' \<or> op = 0b0101111 \<and> g7 AND NOT 0b11 = f7'"
      using y(2) f ucast_u8_inj(1) [of op "0b0101111"]
      by (auto simp: ye r_match_def aqrl_simps [simplified])
    have "f7' = f7"
      using g7 k k7 R_amo_aligned row y(1) by (fastforce simp: list_all_iff ye)
    then show "y = (n, op, f3, f7)"
      using distinct_key [OF R_distinct, of m "(op, f3, f7)" n] row y(1) k by (simp add: ye)
  qed
  then show ?thesis
    using decode_r_loop_rows [OF R_rows_lookup] by (simp add: funct3_rows)
qed


lemma decode_FP_row:
  assumes row: "(n, op, f3, f7) \<in> set rv_R"
    and f: "OPCode f = ucast op" "funct3 f = ucast f3" "funct7 f = ucast f7"
  shows "decode_fp_with_f3_loop f r_funct3 = named_instr Type_R n f"
proof -
  have "List.find (fp_match f) rv_R = Some (n, op, f3, f7)"
    using row f distinct_key [OF R_distinct]
    by (intro find_unique) (auto simp: fp_match_def)
  then show ?thesis
    using decode_fp_loop_rows [OF R_rows_lookup] by (simp add: funct3_rows)
qed

lemma decode_f3_row:
  assumes row: "(n, op :: 7 word, f3 :: 3 word) \<in> set rows"
    and f: "OPCode f = ucast op" "funct3 f = ucast f3"
    and tab: "distinct (map snd rows)" "list_all (\<lambda>(n, op, f3). get_opcode n t = Inr (ucast op)) rows"
  shows "decode_f3_loop t f (map (\<lambda>(n, op, f3). (n, ucast f3)) rows) = named_instr t n f"
proof -
  have "List.find (f3_match f) rows = Some (n, op, f3)"
    using row f distinct_key [OF tab(1)]
    by (intro find_unique) (auto simp: f3_match_def)
  then show ?thesis using decode_f3_loop_rows [OF tab(2)] by simp
qed

lemma I_distinctD:
  assumes "(m, k) \<in> set rv_I" "(n, k) \<in> set rv_I"
  shows "m = n \<or> twins m n"
proof -
  have "list_all (\<lambda>(n, k'). k = k' \<longrightarrow> m = n \<or> twins m n) rv_I"
    using I_distinct assms(1) unfolding list_all_iff by fast
  then show ?thesis using assms(2) unfolding list_all_iff by fast
qed

lemma i_match_key: "i_match f (n, op, f3) \<Longrightarrow> OPCode f = ucast op \<and> funct3 f = ucast f3"
  by (simp add: i_match_def)

lemma shift_values:
  "get_i_funct6 iSLLI = Inr 0" "get_i_funct6 iSRLI = Inr 0" "get_i_funct6 iSRAI = Inr 0b010000"
  "get_i_funct7 iSLLIW = Inr 0" "get_i_funct7 iSRLIW = Inr 0" "get_i_funct7 iSRAIW = Inr 0b0100000"
  by (simp_all add: get_i_funct6_def get_i_funct7_def map_at_def i_funct6_def i_funct7_def
      map_of_map_init)

lemma twins_exclusive:
  assumes "twins m n" "i_match f (m, j)" "i_match f (n, k)"
  shows False
  using assms(1) unfolding twins_def
  by (elim disjE conjE)
    (use assms(2,3) in \<open>simp_all add: i_match_def case_prod_beta is_shift_imm_32_instruction_def
      is_shift_imm_64_instruction_def shift_values\<close>)

lemma decode_I_row:
  assumes row: "(n, op, f3) \<in> set rv_I" and m: "i_match f (n, op, f3)"
  shows "decode_i_loop f i_funct3 = named_instr Type_I n f"
proof -
  have "List.find (i_match f) rv_I = Some (n, op, f3)"
  proof (rule find_unique [where P = "i_match f", OF row m])
    fix y assume y: "y \<in> set rv_I" "i_match f y"
    obtain m op' f3' where ye: "y = (m, op', f3')" by (cases y)
    have k: "op' = op" "f3' = f3"
      using i_match_key [OF m] i_match_key [OF y(2) [unfolded ye]] by simp_all
    then have "m = n \<or> twins m n" using I_distinctD [OF _ row] y(1) by (simp add: ye)
    moreover have "\<not> twins m n"
      using twins_exclusive [OF _ y(2) [unfolded ye] assms(2)] by blast
    ultimately show "y = (n, op, f3)" using k by (simp add: ye)
  qed
  then show ?thesis
    using decode_i_loop_rows [OF I_rows_lookup] by (simp add: funct3_rows)
qed

lemma decode_op_row:
  assumes "distinct (map snd xs)" "(n, op :: 7 word) \<in> set xs" "OPCode f = ucast op"
  shows "decode_op_loop t f (map (\<lambda>(n, op). (n, ucast op)) xs) = named_instr t n f"
  using assms
proof (induction xs)
  case (Cons x xs)
  obtain m op' where x: "x = (m, op')" by (cases x)
  show ?case
  proof (cases "op' = op")
    case True
    then have "m = n" using distinct_key [OF Cons.prems(1), of m op n] Cons.prems(2) by (simp add: x)
    then show ?thesis using True Cons.prems(3) by (simp add: x)
  next
    case False
    then show ?thesis using Cons by (simp add: x)
  qed
qed simp


subsection \<open>Decoding an encoded word\<close>

lemma enc_fields:
  "extract_opcode (enc_I op d f3 r1 im) = ucast op" "extract_rd (enc_I op d f3 r1 im) = ucast d"
  "extract_funct3 (enc_I op d f3 r1 im) = ucast f3" "extract_rs1 (enc_I op d f3 r1 im) = ucast r1"
  "extract_opcode (enc_S op f3 r1 r2 im) = ucast op" "extract_funct3 (enc_S op f3 r1 r2 im) = ucast f3"
  "extract_rs1 (enc_S op f3 r1 r2 im) = ucast r1" "extract_rs2 (enc_S op f3 r1 r2 im) = ucast r2"
  "extract_opcode (enc_B op f3 r1 r2 jm) = ucast op" "extract_funct3 (enc_B op f3 r1 r2 jm) = ucast f3"
  "extract_rs1 (enc_B op f3 r1 r2 jm) = ucast r1" "extract_rs2 (enc_B op f3 r1 r2 jm) = ucast r2"
  "extract_opcode (enc_J op d km) = ucast op" "extract_rd (enc_J op d km) = ucast d"
  by (simp_all add: enc_I_def enc_S_def enc_B_def enc_J_def enc_R_fields enc_U_fields)

lemma shift_low_bits:
  "take_bit 6 (scast (ucast (sh :: 6 word) OR push_bit 6 (ucast (f6 :: 6 word)) :: 12 word) :: u32) = ucast sh"
  "take_bit 5 (scast (ucast (shw :: 5 word) OR push_bit 5 (ucast (f7 :: 7 word)) :: 12 word) :: u32) = ucast shw"
  by (rule bit_word_eqI, auto simp: bit_simps min_def dest: bit_lengths bit_imp_le_length)+

lemma enc_shift:
  "extract_shamt64 (enc_I op d f3 r1 (ucast sh OR push_bit 6 (ucast f6))) = ucast (sh :: 6 word)"
  "extract_funct6 (enc_I op d f3 r1 (ucast sh OR push_bit 6 (ucast f6))) = ucast (f6 :: 6 word)"
  "extract_shamt32 (enc_I op d f3 r1 (ucast shw OR push_bit 5 (ucast f7))) = ucast (shw :: 5 word)"
  "extract_funct7 (enc_I op d f3 r1 (ucast shw OR push_bit 5 (ucast f7))) = ucast (f7 :: 7 word)"
  by (rule bit_word_eqI, auto simp: extract_bits enc_I_def enc_R_bit bit_simps dest: bit_lengths bit_imp_le_length)+

lemma ret_word_fields:
  "extract_opcode 0x30200073 = 0b1110011 \<and> extract_funct3 0x30200073 = 0 \<and> imm_i 0x30200073 = 0x302"
  "extract_opcode 0x10200073 = 0b1110011 \<and> extract_funct3 0x10200073 = 0 \<and> imm_i 0x10200073 = 0x102"
  by code_simp+

lemma decode_spec_format:
  assumes "extract_opcode w \<noteq> 0b1110011 \<or> extract_funct3 w \<noteq> 0 \<or> imm_i w = 0 \<or> imm_i w = 1"
  shows "decode_spec w = decode_format (opcode_type (extract_opcode w)) w"
  using assms ret_word_fields by (auto simp: decode_spec_def)

lemma system_rows:
  "list_all (\<lambda>(n, op, f3). op = 0b1110011 \<and> f3 = 0 \<longrightarrow> n = iECALL \<or> n = iEBREAK) rv_I"
  "list_all (\<lambda>(n, op, k). op \<noteq> 0b1110011) rv_R" "list_all (\<lambda>(n, op, k). op \<noteq> 0b1110011) rv_S"
  "list_all (\<lambda>(n, op, k). op \<noteq> 0b1110011) rv_B" "list_all (\<lambda>(n, op). op \<noteq> 0b1110011) rv_U"
  "list_all (\<lambda>(n, op). op \<noteq> 0b1110011) rv_J"
  by (simp_all add: rv_I_def rv_R_def rv_S_def rv_B_def rv_U_def rv_J_def)

lemma fp_rows: "list_all (\<lambda>(n, op, f3, f7). op = 0b1010011 \<longrightarrow>
    f7 \<in> {0b0010000, 0b0010100, 0b1110000, 0b1010000, 0b1111000}) rv_R"
  by (simp add: rv_R_def)

lemma ucast_eq_numeral:
  "(ucast (op :: 7 word) :: u8) = 0b1110011 \<longleftrightarrow> op = 0b1110011"
  "(ucast (op :: 7 word) :: u8) = 0b1010011 \<longleftrightarrow> op = 0b1010011"
  "(ucast (f3 :: 3 word) :: u8) = 0 \<longleftrightarrow> f3 = 0"
  using ucast_u8_inj(1) [of op "0b1110011"] ucast_u8_inj(1) [of op "0b1010011"] ucast_u8_inj(2) [of f3 0]
  by simp_all

lemma decoded_R:
  assumes row: "(n, op, f3, f7) \<in> set rv_R" and q: "q = 0 \<or> op = 0b0101111"
    and w_def: "w = enc_R op d f3 r1 r2 (f7 OR ucast (q :: 2 word))"
  shows "decode_spec w = named_instr Type_R n (fields_of w)"
proof -
  have op: "op \<noteq> 0b1110011" using system_rows(2) row by (auto simp: list_all_iff)
  have spec: "decode_spec w = decode_format Type_R w"
    using opcode_type_R [OF row] op decode_spec_format [of w]
    by (simp add: w_def enc_R_fields ucast_eq_numeral)
  show ?thesis
  proof (cases "op = 0b1010011")
    case True
    then have "q = 0" using q by auto
    moreover have "f7 \<in> {0b0010000, 0b0010100, 0b1110000, 0b1010000, 0b1111000}"
      using fp_rows row True by (auto simp: list_all_iff)
    ultimately have "\<not> ignore_f3 w" "is_fp_instr w"
      by (auto simp: ignore_f3_def is_fp_instr_def w_def enc_R_fields True)
    then show ?thesis
      using decode_FP_row [OF row, of "fields_of w"] \<open>q = 0\<close> spec
      by (simp add: decode_format_def w_def enc_R_fields)
  next
    case False
    have "f7 OR ucast q = f7 \<or> op = 0b0101111 \<and> (f7 OR ucast q) AND NOT 0b11 = f7"
      using q R_amo_aligned row aqrl_clear [of f7 q] by (auto simp: list_all_iff)
    then show ?thesis
      using decode_R_row [OF row False, of "fields_of w" "f7 OR ucast q"] False spec
      by (simp add: decode_format_def is_fp_instr_def w_def enc_R_fields ucast_eq_numeral)
  qed
qed

lemma decoded_I:
  assumes row: "(n, op, f3) \<in> set rv_I" and m: "i_match (fields_of w) (n, op, f3)"
    and w: "w = enc_I op d f3 r1 im" and e: "n = iECALL \<or> n = iEBREAK \<Longrightarrow> im = 0 \<or> im = 1"
  shows "decode_spec w = named_instr Type_I n (fields_of w)"
proof -
  have "imm_i w = 0 \<or> imm_i w = 1" if "op = 0b1110011" "f3 = 0"
  proof -
    have "n = iECALL \<or> n = iEBREAK" using system_rows(1) row that by (auto simp: list_all_iff)
    from e [OF this] show ?thesis by (auto simp: w imm_enc_I)
  qed
  then have "decode_spec w = decode_format (opcode_type (ucast op)) w"
    using decode_spec_format [of w] by (simp add: w enc_fields ucast_eq_numeral)
  moreover have "opcode_type (ucast op) = Type_I"
    using opcode_type_rows(1) row by (auto simp: list_all_iff)
  ultimately show ?thesis using decode_I_row [OF row m] by (simp add: decode_format_def)
qed

lemma decoded_S:
  assumes row: "(n, op, f3) \<in> set rv_S"
    and w_def: "w = enc_S op f3 r1 r2 im"
  shows "decode_spec w = named_instr Type_S n (fields_of w)"
proof -
  have "op \<noteq> 0b1110011" "opcode_type (ucast op) = Type_S"
    using system_rows(3) opcode_type_rows(2) row by (auto simp: list_all_iff)
  then show ?thesis
    using decode_spec_format [of w] S_rows_lookup
      decode_f3_row [OF row _ _ S_B_distinct(1), of "fields_of w" Type_S]
    by (simp add: w_def enc_fields ucast_eq_numeral decode_format_def funct3_rows get_opcode_def)
qed

lemma decoded_B:
  assumes row: "(n, op, f3) \<in> set rv_B"
    and w_def: "w = enc_B op f3 r1 r2 im"
  shows "decode_spec w = named_instr Type_B n (fields_of w)"
proof -
  have "op \<noteq> 0b1110011" "opcode_type (ucast op) = Type_B"
    using system_rows(4) opcode_type_rows(3) row by (auto simp: list_all_iff)
  then show ?thesis
    using decode_spec_format [of w] B_rows_lookup
      decode_f3_row [OF row _ _ S_B_distinct(2), of "fields_of w" Type_B]
    by (simp add: w_def enc_fields ucast_eq_numeral decode_format_def funct3_rows get_opcode_def)
qed


lemma u_not_earlier:
  "list_all (\<lambda>(n, op). opcode_type (ucast op) = Type_U) rv_U"
proof -
  have r: "\<not> list_ex (\<lambda>(k, w). v = w) r_opcodes \<and> \<not> list_ex (\<lambda>(k, w). v = w) r4_opcodes"
    if "v = 0b0110111 \<or> v = 0b0010111" for v :: u8
    using that by (auto simp: r_opcodes_def r4_opcodes_def key_order)
  show ?thesis
    by (simp add: opcode_type_def opcode_rows rv_U_def rv_I_def rv_S_def rv_B_def rv_J_def r)
qed

lemma decoded_U:
  assumes row: "(n, op) \<in> set rv_U" and w_def: "w = enc_U op d im"
  shows "decode_spec w = named_instr Type_U n (fields_of w)"
proof -
  have "op \<noteq> 0b1110011" "opcode_type (ucast op) = Type_U"
    using system_rows(5) u_not_earlier row by (auto simp: list_all_iff)
  then show ?thesis
    using decode_spec_format [of w] decode_op_row [OF _ row, of "fields_of w" Type_U]
    by (simp add: w_def enc_U_fields ucast_eq_numeral decode_format_def opcode_rows rv_U_def)
qed

lemma decoded_J:
  assumes row: "(n, op) \<in> set rv_J" and w_def: "w = enc_J op d im"
  shows "decode_spec w = named_instr Type_J n (fields_of w)"
proof -
  have "op \<noteq> 0b1110011" "opcode_type (ucast op) = Type_J"
    using system_rows(6) opcode_type_rows(4) row by (auto simp: list_all_iff)
  then show ?thesis
    using decode_spec_format [of w] decode_op_row [OF _ row, of "fields_of w" Type_J]
    by (simp add: w_def enc_fields ucast_eq_numeral decode_format_def opcode_rows rv_J_def)
qed


lemma decoded_denotes:
  assumes "decode_spec w = named_instr t n (fields_of w)" "map_of inst_string_names n \<noteq> None"
    "\<And>s. denotes (mk_instr t n (fields_of w) s) a"
  shows "\<exists>i. decode_spec w = Inr i \<and> denotes i a"
  using named_instr_eq [OF assms(2), of t "fields_of w"] assms(1,3) by fastforce

lemma decode_spec_encode: "encode a = Some w \<Longrightarrow> \<exists>i. decode_spec w = Inr i \<and> denotes i a"
proof (induction a rule: encode.induct)
  case (1 n d r1 r2 q)
  then obtain op f3 f7 where row: "(n, op, f3, f7) \<in> set rv_R" and q: "q = 0 \<or> op = 0b0101111"
    and w: "w = enc_R op d f3 r1 r2 (f7 OR ucast q)"
    by (auto split: option.splits if_splits dest: map_of_SomeD)
  show ?case
    using decoded_R [OF row q w] rows_named(1) row
    by (intro decoded_denotes) (auto simp: list_all_iff mk_instr_def w enc_R_fields)
next
  case (2 n d r1 im)
  then obtain op f3 where row: "(n, op, f3) \<in> set rv_I" and w: "w = enc_I op d f3 r1 im"
    and n: "n \<notin> fst ` set rv_shift" "n \<notin> fst ` set rv_shiftw" "n = iECALL \<Longrightarrow> im = 0" "n = iEBREAK \<Longrightarrow> im = 1"
    by (auto split: option.splits if_splits dest: map_of_SomeD)
  have t: "imm (fields_of w) = scast im"
    using opcode_type_rows(1) row by (auto simp: list_all_iff w enc_fields immediate_of_def imm_enc_I)
  have "i_match (fields_of w) (n, op, f3)"
    using n t by (auto simp: i_match_def rv_shift_def rv_shiftw_def w enc_fields
        is_shift_imm_32_instruction_def is_shift_imm_64_instruction_def)
  from decoded_I [OF row this w] show ?case
    using rows_named(2) row n(3,4) t
    by (intro decoded_denotes) (auto simp: list_all_iff mk_instr_def w enc_fields)
next
  case (3 n d r1 sh)
  then obtain op f3 f6 where row: "(n, op, f3) \<in> set rv_I" "(n, f6) \<in> set rv_shift"
    and w: "w = enc_I op d f3 r1 (ucast sh OR push_bit 6 (ucast f6))"
    by (auto split: option.splits dest!: map_of_SomeD)
  have "i_match (fields_of w) (n, op, f3)"
    using row(2) by (auto simp: i_match_def rv_shift_def w enc_fields enc_shift shift_values
        is_shift_imm_32_instruction_def)
  moreover have "imm (fields_of w) = scast (ucast sh OR push_bit 6 (ucast f6) :: 12 word)"
    using opcode_type_rows(1) row(1) by (auto simp: list_all_iff w enc_fields immediate_of_def imm_enc_I)
  then have "take_bit 6 (imm (fields_of w)) = ucast sh" by (simp only: shift_low_bits)
  ultimately show ?case
    using decoded_I [OF row(1) _ w] rows_named(2) row
    by (intro decoded_denotes) (auto simp: list_all_iff mk_instr_def w enc_fields enc_shift
        fields_of_def fields_with_def rv_shift_def)
next
  case (4 n d r1 sh)
  then obtain op f3 f7 where row: "(n, op, f3) \<in> set rv_I" "(n, f7) \<in> set rv_shiftw"
    and w: "w = enc_I op d f3 r1 (ucast sh OR push_bit 5 (ucast f7))"
    by (auto split: option.splits dest!: map_of_SomeD)
  have "i_match (fields_of w) (n, op, f3)"
    using row(2) by (auto simp: i_match_def rv_shiftw_def w enc_fields enc_shift shift_values
        is_shift_imm_64_instruction_def)
  moreover have "imm (fields_of w) = scast (ucast sh OR push_bit 5 (ucast f7) :: 12 word)"
    using opcode_type_rows(1) row(1) by (auto simp: list_all_iff w enc_fields immediate_of_def imm_enc_I)
  then have "take_bit 5 (imm (fields_of w)) = ucast sh" by (simp only: shift_low_bits)
  ultimately show ?case
    using decoded_I [OF row(1) _ w] rows_named(2) row
    by (intro decoded_denotes) (auto simp: list_all_iff mk_instr_def w enc_fields enc_shift
        fields_of_def fields_with_def rv_shiftw_def)
next
  case (5 n r1 r2 im)
  then obtain op f3 where row: "(n, op, f3) \<in> set rv_S" and w: "w = enc_S op f3 r1 r2 im"
    by (auto dest: map_of_SomeD)
  show ?case
    using decoded_S [OF row w] rows_named(3) row opcode_type_rows(2)
    by (intro decoded_denotes) (auto simp: list_all_iff mk_instr_def w enc_fields immediate_of_def imm_enc_S)
next
  case (6 n r1 r2 im)
  then obtain op f3 where row: "(n, op, f3) \<in> set rv_B" and w: "w = enc_B op f3 r1 r2 im"
    by (auto dest: map_of_SomeD)
  show ?case
    using decoded_B [OF row w] rows_named(4) row opcode_type_rows(3)
    by (intro decoded_denotes) (auto simp: list_all_iff mk_instr_def w enc_fields immediate_of_def imm_enc_B)
next
  case (7 n d im)
  then obtain op where row: "(n, op) \<in> set rv_U" and w: "w = enc_U op d im"
    by (auto dest: map_of_SomeD)
  show ?case
    using decoded_U [OF row w] rows_named(5) row u_not_earlier
    by (intro decoded_denotes) (auto simp: list_all_iff mk_instr_def w enc_U_fields immediate_of_def imm_enc_U)
next
  case (8 n d im)
  then obtain op where row: "(n, op) \<in> set rv_J" and w: "w = enc_J op d im"
    by (auto dest: map_of_SomeD)
  show ?case
    using decoded_J [OF row w] rows_named(6) row opcode_type_rows(4)
    by (intro decoded_denotes) (auto simp: list_all_iff mk_instr_def w enc_fields immediate_of_def imm_enc_J)
qed (simp_all add: decode_spec_def MRET_instr_def SRET_instr_def mk_instr_def)


text \<open>(C2) Assembling and decoding are inverse: for every instruction of the RV64IMA listings (and the
  single-precision operations with a fixed \<open>funct3\<close>) and all its operands, the decoder, whatever
  its caches hold, decodes the assembled word to that instruction with those operands; immediates
  come back sign-extended, the low bit of branch and jump offsets is zero.\<close>

theorem decode_encode:
  assumes "encode a = Some w" and "decoder_ok d"
  shows "\<exists>i d'. decode d w = Inr (i, d') \<and> denotes i a \<and> decoder_ok d'"
proof -
  obtain i where i: "decode_spec w = Inr i" "denotes i a" using decode_spec_encode [OF assms(1)] by blast
  then obtain d' where "decode d w = Inr (i, d')" using decode_correct(3) [OF assms(2)] by blast
  then show ?thesis using decode_correct(1) [OF assms(2)] i by blast
qed

subsection \<open>What the decoder gets wrong\<close>

lemma unnamed_types: "opcode_type 0b1001111 = Type_R4" "opcode_type 0b1010011 = Type_R"
proof -
  have r: "\<not> list_ex (\<lambda>(k, w). v = w) r_opcodes \<and> list_ex (\<lambda>(k, w). v = w) r4_opcodes"
    if "v = 0b1001111" for v :: u8
    using that by (simp add: r_opcodes_def r4_opcodes_def key_order)
  show "opcode_type 0b1001111 = Type_R4"
    by (simp add: opcode_type_def opcode_rows rv_I_def rv_S_def rv_B_def rv_J_def r)
  show "opcode_type 0b1010011 = Type_R"
    using opcode_type_R [of iFEQS "0b1010011" "(0b010, 0b1010000)"] by (simp add: rv_R_def)
qed

lemma decode_spec_abort:
  assumes "decoder_ok d" "decode_spec w = Inl e"
  shows "decode d w = Inl e"
proof (cases "decode d w")
  case (Inl e')
  then show ?thesis using decode_correct(2) [OF assms(1)] assms(2) by auto
next
  case (Inr r)
  then show ?thesis using decode_correct(1) [OF assms(1), of w "fst r" "snd r"] assms(2) by simp
qed

lemma r4_named:
  "map_of inst_string_names iFNMADDS = None" "map_of inst_string_names iFCVTSL = None"
  by (simp_all add: names_None)

text \<open>Two instructions of the F extension stop the emulator in the decoder: their names are
  missing from \<open>inst_string_names\<close> (\<open>FMSUBS\<close> and \<open>FCVTLS\<close> are entered twice instead), so
  \<open>at\<close> throws for every \<open>FNMADD.S\<close> word and every \<open>FCVT.S.L\<close> word.\<close>

theorem decode_unnamed_aborts:
  assumes "decoder_ok d"
  shows "(extract_opcode w = 0b1001111 \<and> extract_funct2 w = 0 \<longrightarrow> decode d w = Inl OutOfRange)
    \<and> (extract_opcode w = 0b1010011 \<and> extract_funct7 w = 0b1101000 \<and> extract_rs2 w = 2
        \<longrightarrow> decode d w = Inl OutOfRange)"
proof (intro conjI impI)
  assume a: "extract_opcode w = 0b1001111 \<and> extract_funct2 w = 0"
  have "decode_format Type_R4 w = Inl OutOfRange"
    using a by (simp add: decode_format_def r4_funct2_def r4_opcodes_def get_opcode_def map_at_def
        key_order named_instr_def get_string_name_def r4_named)
  then show "decode d w = Inl OutOfRange"
    using a by (intro decode_spec_abort [OF assms]) (simp add: decode_spec_format unnamed_types)
next
  assume a: "extract_opcode w = 0b1010011 \<and> extract_funct7 w = 0b1101000 \<and> extract_rs2 w = 2"
  then have "decode_format Type_R w = Inl OutOfRange"
    by (simp add: decode_format_def is_fp_instr_def ignore_f3_def named_instr_def
        get_string_name_def map_at_def r4_named)
  then show "decode d w = Inl OutOfRange"
    using a by (intro decode_spec_abort [OF assms]) (simp add: decode_spec_format unnamed_types)
qed

text \<open>The mask for \<open>rs3\<close> is \<open>0xF1000000\<close>: bit 27 of the word, the lowest bit of \<open>rs3\<close>, is
  never read, so the third source register of a fused multiply-add is rounded down to an even
  one.\<close>

theorem rs3_even: "extract_rs3 w = ucast (drop_bit 27 w) AND 0b11110"
proof -
  have m: "(RS3_MASK :: u32) = push_bit 28 (mask 4) OR push_bit 24 (mask 1)"
    and e: "(0b11110 :: u8) = push_bit 1 (mask 4)"
    by (simp_all add: mask_eq_exp_minus_1 push_bit_eq_mult)
  show ?thesis
    unfolding extract_rs3_def m e
    by (rule bit_word_eqI)
      (auto simp only: bit_and_iff bit_or_iff bit_push_bit_iff bit_mask_iff bit_drop_bit_eq
        bit_unsigned_iff comp_apply possible_bit_word, auto dest: bit_lengths)
qed

lemma extract_reg_bound:
  "unat (extract_rd w) < 32" "unat (extract_rs1 w) < 32" "unat (extract_rs2 w) < 32"
  "unat (extract_rs3 w) < 32"
proof -
  have b: "unat x < 32" if "\<And>n. bit x n \<Longrightarrow> n < 5" for x :: u8
  proof -
    have "x = take_bit 5 x" by (rule bit_word_eqI) (use that in \<open>auto simp: bit_simps\<close>)
    then have "unat x = take_bit 5 (unat x)" by (metis unsigned_take_bit_eq)
    then show ?thesis using take_bit_nat_less_exp [of 5 "unat x"] by simp
  qed
  show "unat (extract_rd w) < 32" "unat (extract_rs1 w) < 32" "unat (extract_rs2 w) < 32"
    by (rule b, simp add: extract_bits)+
  show "unat (extract_rs3 w) < 32"
    by (rule b) (auto simp: extract_rs3_def bit_simps dest: bit_lengths)
qed

end
