(* ===== verification/Reg_File.thy ===== *)
theory Reg_File
  imports Vemu_Defs
begin

text \<open>
  The register files: \<^verbatim>\<open>src/RegFile.cpp\<close> (integer registers, \<open>x0\<close> hard-wired to its
  initial zero) and \<^verbatim>\<open>src/FRegFile.cpp\<close> (floating-point registers). A fixed array of 32
  elements is a function on indices; \<open>double\<close> values are their 64-bit patterns.
  The locale \<open>register_file\<close> is the contract that the instruction handlers rely on.
\<close>

subsection \<open>Definitions\<close>

record RegFile =
  rf_data :: "nat \<Rightarrow> u64"

definition RegFile_new :: RegFile where
  "RegFile_new = \<lparr>rf_data = (\<lambda>_. 0)\<rparr>"

definition store_reg :: "RegFile \<Rightarrow> nat \<Rightarrow> u64 \<Rightarrow> RegFile" where
  "store_reg r idx value =
     (if idx = 0 then r else r\<lparr>rf_data := (rf_data r)(idx := value)\<rparr>)"

definition load_reg :: "RegFile \<Rightarrow> nat \<Rightarrow> u64" where
  "load_reg r idx = rf_data r idx"

definition get_regs :: "RegFile \<Rightarrow> u64 list" where
  "get_regs r = map (rf_data r) [0..<32]"

record FRegFile =
  frf_data :: "nat \<Rightarrow> u64"

definition FRegFile_new :: FRegFile where
  "FRegFile_new = \<lparr>frf_data = (\<lambda>_. 0)\<rparr>"

definition fstore_reg :: "FRegFile \<Rightarrow> nat \<Rightarrow> u64 \<Rightarrow> FRegFile" where
  "fstore_reg r idx value = r\<lparr>frf_data := (frf_data r)(idx := value)\<rparr>"

definition fload_reg :: "FRegFile \<Rightarrow> nat \<Rightarrow> u64" where
  "fload_reg r idx = frf_data r idx"

definition fget_regs :: "FRegFile \<Rightarrow> u64 list" where
  "fget_regs r = map (frf_data r) [0..<32]"

text \<open>Register 0 reads as zero: true of a new register file and of every one made from it.\<close>

definition x0_zero :: "RegFile \<Rightarrow> bool" where
  "x0_zero r \<longleftrightarrow> load_reg r 0 = 0"

subsection \<open>The contract of a register file\<close>

locale register_file =
  fixes ld :: "'r \<Rightarrow> nat \<Rightarrow> 'v"
    and st :: "'r \<Rightarrow> nat \<Rightarrow> 'v \<Rightarrow> 'r"
    and hardwired :: "nat set"
  assumes ld_st_same: "i \<notin> hardwired \<Longrightarrow> ld (st r i v) i = v"
    and ld_st_other: "j \<noteq> i \<Longrightarrow> ld (st r i v) j = ld r j"
    and st_hardwired: "i \<in> hardwired \<Longrightarrow> st r i v = r"
begin

lemma ld_st: "ld (st r i v) j = (if j = i \<and> i \<notin> hardwired then v else ld r j)"
  using ld_st_same ld_st_other st_hardwired by metis

text \<open>After a sequence of writes a register holds the last value written to it.\<close>

lemma ld_writes:
  "ld (foldl (\<lambda>r (i, v). st r i v) r ws) j =
     (case map_of (rev ws) j of
        Some v \<Rightarrow> (if j \<in> hardwired then ld r j else v)
      | None \<Rightarrow> ld r j)"
proof (induction ws rule: rev_induct)
  case Nil
  then show ?case by simp
next
  case (snoc w ws)
  then show ?case by (cases w) (auto simp: ld_st split: option.splits)
qed

lemma ld_hardwired_writes:
  "j \<in> hardwired \<Longrightarrow> ld (foldl (\<lambda>r (i, v). st r i v) r ws) j = ld r j"
  by (simp add: ld_writes split: option.splits)

end

subsection \<open>The register files meet the contract\<close>

interpretation ireg: register_file load_reg store_reg "{0}"
  by unfold_locales (auto simp: load_reg_def store_reg_def)

interpretation freg: register_file fload_reg fstore_reg "{}"
  by unfold_locales (auto simp: fload_reg_def fstore_reg_def)

lemmas load_store_reg [simp] = ireg.ld_st

lemma x0_zero_new: "x0_zero RegFile_new"
  by (simp add: x0_zero_def RegFile_new_def load_reg_def)

lemma x0_zero_store [simp]: "x0_zero (store_reg r i v) \<longleftrightarrow> x0_zero r"
  by (auto simp: x0_zero_def)

lemma load_reg_new [simp]: "load_reg RegFile_new i = 0"
  by (simp add: RegFile_new_def load_reg_def)

end
