(* ===== verification/Vemu_Devices.thy ===== *)
theory Vemu_Devices
  imports Vemu_Defs
begin

text \<open>
  The memory-mapped devices behind the abstract class of \<^verbatim>\<open>include/Device.h\<close>: the core-local
  interruptor (\<^verbatim>\<open>src/CLINT.cpp\<close>), the platform-level interrupt controller (\<^verbatim>\<open>src/PLIC.cpp\<close>) and
  the serial port (\<^verbatim>\<open>src/UART.cpp\<close>). A load returns a value, an exception and the device after
  the access; a store returns an exception and the device. The locale \<open>mmio_device\<close> is the contract
  of the class, \<open>register_bank\<close> that of the two devices that are plain banks of registers.
\<close>

unbundle bit_operations_syntax

subsection \<open>CLINT\<close>

record CLINT =
  mtime :: u64
  mtimecmp :: u64

definition CLINT_new :: CLINT where
  "CLINT_new = \<lparr>mtime = 0, mtimecmp = 0\<rparr>"

definition CLINT_load64 :: "CLINT \<Rightarrow> u64 \<Rightarrow> u64" where
  "CLINT_load64 d addr =
     (if addr = CLINT_MTIMECMP then mtimecmp d
      else if addr = CLINT_MTIME then mtime d
      else 0)"

definition CLINT_store64 :: "CLINT \<Rightarrow> u64 \<Rightarrow> u64 \<Rightarrow> CLINT" where
  "CLINT_store64 d addr v =
     (if addr = CLINT_MTIMECMP then d\<lparr>mtimecmp := v\<rparr>
      else if addr = CLINT_MTIME then d\<lparr>mtime := v\<rparr>
      else d)"

definition CLINT_load :: "CLINT \<Rightarrow> u64 \<Rightarrow> nat \<Rightarrow> u64 \<times> ReturnException \<times> CLINT" where
  "CLINT_load d addr sz =
     (if sz = 64 then (CLINT_load64 d addr, NormalExecutionReturn, d)
      else (0, LoadAccessFault, d))"

definition CLINT_store :: "CLINT \<Rightarrow> u64 \<Rightarrow> u64 \<Rightarrow> nat \<Rightarrow> ReturnException \<times> CLINT" where
  "CLINT_store d addr v sz =
     (if sz = 64 then (NormalExecutionReturn, CLINT_store64 d addr v)
      else (StoreAMOAccessFault, d))"

subsection \<open>PLIC\<close>

record PLIC =
  pending :: u64
  senable :: u64
  spriority :: u64
  sclaim :: u64

definition PLIC_new :: PLIC where
  "PLIC_new = \<lparr>pending = 0, senable = 0, spriority = 0, sclaim = 0\<rparr>"

definition PLIC_load64 :: "PLIC \<Rightarrow> u64 \<Rightarrow> u64" where
  "PLIC_load64 d addr =
     (if addr = PLIC_PENDING then pending d
      else if addr = PLIC_SENABLE then senable d
      else if addr = PLIC_SPRIORITY then spriority d
      else if addr = PLIC_SCLAIM then sclaim d
      else 0)"

definition PLIC_store64 :: "PLIC \<Rightarrow> u64 \<Rightarrow> u64 \<Rightarrow> PLIC" where
  "PLIC_store64 d addr v =
     (if addr = PLIC_PENDING then d\<lparr>pending := v\<rparr>
      else if addr = PLIC_SENABLE then d\<lparr>senable := v\<rparr>
      else if addr = PLIC_SPRIORITY then d\<lparr>spriority := v\<rparr>
      else if addr = PLIC_SCLAIM then d\<lparr>sclaim := v\<rparr>
      else d)"

definition PLIC_load :: "PLIC \<Rightarrow> u64 \<Rightarrow> nat \<Rightarrow> u64 \<times> ReturnException \<times> PLIC" where
  "PLIC_load d addr sz =
     (if sz = 64 then (PLIC_load64 d addr, NormalExecutionReturn, d)
      else (0, LoadAccessFault, d))"

definition PLIC_store :: "PLIC \<Rightarrow> u64 \<Rightarrow> u64 \<Rightarrow> nat \<Rightarrow> ReturnException \<times> PLIC" where
  "PLIC_store d addr v sz =
     (if sz = 64 then (NormalExecutionReturn, PLIC_store64 d addr v)
      else (StoreAMOAccessFault, d))"

subsection \<open>UART\<close>

text \<open>
  \<open>uart_mem\<close> is the register array, \<open>interrupting\<close> the atomic flag (left indeterminate by the
  constructor, so an argument of \<open>UART_new\<close>), and \<open>tx\<close> the bytes that stores to the transmit
  register have written to standard output.
\<close>

record UART =
  uart_mem :: "nat \<Rightarrow> u8"
  interrupting :: bool
  tx :: "u8 list"

abbreviation uart_reg :: "u64 \<Rightarrow> nat" where
  "uart_reg addr \<equiv> unat (addr - UART_BASE)"

definition UART_new :: "bool \<Rightarrow> UART" where
  "UART_new flag =
     \<lparr>uart_mem = (\<lambda>_. 0)(uart_reg UART_LSR := 0 OR UART_LSR_TX), interrupting = flag, tx = []\<rparr>"

definition UART_copy :: "UART \<Rightarrow> UART" where
  "UART_copy other = \<lparr>uart_mem = uart_mem other, interrupting = False, tx = tx other\<rparr>"

definition UART_load8 :: "UART \<Rightarrow> u64 \<Rightarrow> u64 \<times> UART" where
  "UART_load8 d addr =
     (let d' = (if addr = UART_RHR
                then d\<lparr>uart_mem := (uart_mem d)
                         (uart_reg UART_LSR := uart_mem d (uart_reg UART_LSR) AND NOT UART_LSR_RX)\<rparr>
                else d)
      in (ucast (uart_mem d' (uart_reg addr)), d'))"

definition UART_store8 :: "UART \<Rightarrow> u64 \<Rightarrow> u64 \<Rightarrow> UART" where
  "UART_store8 d addr v =
     (if addr = UART_THR then d\<lparr>tx := tx d @ [ucast v]\<rparr>
      else d\<lparr>uart_mem := (uart_mem d)(uart_reg addr := ucast (v AND 0xFF))\<rparr>)"

definition UART_load :: "UART \<Rightarrow> u64 \<Rightarrow> nat \<Rightarrow> u64 \<times> ReturnException \<times> UART" where
  "UART_load d addr sz =
     (if sz = 8 then (let (v, d') = UART_load8 d addr in (v, NormalExecutionReturn, d'))
      else (0, LoadAccessFault, d))"

definition UART_store :: "UART \<Rightarrow> u64 \<Rightarrow> u64 \<Rightarrow> nat \<Rightarrow> ReturnException \<times> UART" where
  "UART_store d addr v sz =
     (if sz = 8 then (NormalExecutionReturn, UART_store8 d addr v)
      else (StoreAMOAccessFault, d))"

text \<open>\<open>interrupting.exchange(false)\<close>: the old value, and the flag cleared.\<close>

definition UART_is_interrupting :: "UART \<Rightarrow> bool \<times> UART" where
  "UART_is_interrupting d = (interrupting d, d\<lparr>interrupting := False\<rparr>)"

subsection \<open>The contract of a device\<close>

locale mmio_device =
  fixes dload :: "'d \<Rightarrow> u64 \<Rightarrow> nat \<Rightarrow> u64 \<times> ReturnException \<times> 'd"
    and dstore :: "'d \<Rightarrow> u64 \<Rightarrow> u64 \<Rightarrow> nat \<Rightarrow> ReturnException \<times> 'd"
    and width :: nat
  assumes load_bad_size: "sz \<noteq> width \<Longrightarrow> dload d a sz = (0, LoadAccessFault, d)"
    and store_bad_size: "sz \<noteq> width \<Longrightarrow> dstore d a v sz = (StoreAMOAccessFault, d)"
    and load_width: "fst (snd (dload d a width)) = NormalExecutionReturn"
    and store_width: "fst (dstore d a v width) = NormalExecutionReturn"
begin

lemma load_exception:
  "fst (snd (dload d a sz)) = (if sz = width then NormalExecutionReturn else LoadAccessFault)"
  using load_width load_bad_size by auto

lemma store_exception:
  "fst (dstore d a v sz) = (if sz = width then NormalExecutionReturn else StoreAMOAccessFault)"
  using store_width store_bad_size by auto

text \<open>A run of stores of a size the device does not support leaves it as it was.\<close>

lemma bad_size_stores:
  "list_all (\<lambda>(a, v, sz). sz \<noteq> width) ws \<Longrightarrow>
     foldl (\<lambda>d (a, v, sz). snd (dstore d a v sz)) d ws = d"
  by (induction ws) (auto simp: store_bad_size)

end

locale register_bank = mmio_device +
  fixes regs :: "u64 set"
  assumes load_keeps: "snd (snd (dload d a sz)) = d"
    and load_store_same:
      "a \<in> regs \<Longrightarrow> fst (dload (snd (dstore d a v width)) a width) = v"
    and load_store_other:
      "b \<noteq> a \<Longrightarrow> fst (dload (snd (dstore d a v width)) b width) = fst (dload d b width)"
    and load_unmapped: "a \<notin> regs \<Longrightarrow> fst (dload d a width) = 0"
begin

lemma load_store:
  "fst (dload (snd (dstore d a v width)) b width) =
     (if a = b \<and> b \<in> regs then v else fst (dload d b width))"
proof (cases "a = b")
  case True
  then show ?thesis using load_store_same load_unmapped by (cases "b \<in> regs") auto
next
  case False
  then show ?thesis using load_store_other by auto
qed

text \<open>A mapped register reads as the last value of a run of stores to the bank.\<close>

lemma load_stores:
  "fst (dload (foldl (\<lambda>d (a, v). snd (dstore d a v width)) d ws) b width) =
     (case map_of (rev ws) b of
        Some v \<Rightarrow> (if b \<in> regs then v else 0)
      | None \<Rightarrow> fst (dload d b width))"
proof (induction ws rule: rev_induct)
  case Nil
  then show ?case by simp
next
  case (snoc w ws)
  then show ?case
    by (cases w) (auto simp: load_store load_unmapped split: option.splits)
qed

end

subsection \<open>The devices meet the contract\<close>

lemmas CLINT_defs = CLINT_load_def CLINT_store_def CLINT_load64_def CLINT_store64_def
lemmas PLIC_defs = PLIC_load_def PLIC_store_def PLIC_load64_def PLIC_store64_def
lemmas UART_defs = UART_load_def UART_store_def UART_load8_def UART_store8_def

interpretation clint_dev: register_bank CLINT_load CLINT_store 64 "{CLINT_MTIMECMP, CLINT_MTIME}"
  by unfold_locales (auto simp: CLINT_defs)

interpretation plic_dev: register_bank PLIC_load PLIC_store 64
  "{PLIC_PENDING, PLIC_SENABLE, PLIC_SPRIORITY, PLIC_SCLAIM}"
  by unfold_locales (auto simp: PLIC_defs)

interpretation uart_dev: mmio_device UART_load UART_store 8
  by unfold_locales (auto simp: UART_defs Let_def)

lemma UART_load_tx [frame]: "tx (snd (snd (UART_load d a sz))) = tx d"
  by (simp add: UART_defs Let_def)

end
