(* ===== verification/Vemu_Bus.thy ===== *)
theory Vemu_Bus
  imports Vemu_Devices Memory_Laws
begin

text \<open>
  The bus, \<^verbatim>\<open>src/Bus.cpp\<close> and \<^verbatim>\<open>include/Bus.h\<close>: an address in the window of a device goes to that
  device, every other address to the memory. The fuzzing build has no devices. The specification is
  a decoding of addresses into targets; the bus implements it and isolates the targets.
\<close>

unbundle bit_operations_syntax

subsection \<open>Definitions\<close>

record Bus =
  clint :: CLINT
  plic :: PLIC
  uart :: UART
  mmu :: MMU

definition Bus_new :: "bool \<Rightarrow> (u64 \<Rightarrow> u8) \<Rightarrow> (u64 \<Rightarrow> u8) \<Rightarrow> u64 \<Rightarrow> Bus" where
  "Bus_new flag mem perms mem_size =
     \<lparr>clint = CLINT_new, plic = PLIC_new, uart = UART_new flag, mmu = MMU_new mem perms mem_size\<rparr>"

definition Bus_copy :: "Bus \<Rightarrow> Bus" where
  "Bus_copy other =
     \<lparr>clint = clint other, plic = plic other, uart = UART_copy (uart other), mmu = MMU_copy (mmu other)\<rparr>"

text \<open>\<open>addr >= base && addr < base + size\<close>\<close>

definition in_window :: "u64 \<Rightarrow> u64 \<Rightarrow> u64 \<Rightarrow> bool" where
  "in_window addr base len \<longleftrightarrow> base \<le> addr \<and> addr < base + len"

definition Bus_load :: "config \<Rightarrow> Bus \<Rightarrow> u64 \<Rightarrow> nat \<Rightarrow> (u64 \<times> ReturnException \<times> Bus) res" where
  "Bus_load cfg b addr sz =
     (if build cfg \<noteq> FUZZ_ENV \<and> in_window addr CLINT_BASE CLINT_SIZE then
        (let (v, e, d) = CLINT_load (clint b) addr sz in Inr (v, e, b\<lparr>clint := d\<rparr>))
      else if build cfg \<noteq> FUZZ_ENV \<and> in_window addr PLIC_BASE PLIC_SIZE then
        (let (v, e, d) = PLIC_load (plic b) addr sz in Inr (v, e, b\<lparr>plic := d\<rparr>))
      else if build cfg \<noteq> FUZZ_ENV \<and> in_window addr UART_BASE UART_SIZE then
        (let (v, e, d) = UART_load (uart b) addr sz in Inr (v, e, b\<lparr>uart := d\<rparr>))
      else bind_res (MMU_load (mmu b) addr sz) (\<lambda>(v, e). Inr (v, e, b)))"

definition Bus_store :: "config \<Rightarrow> Bus \<Rightarrow> u64 \<Rightarrow> u64 \<Rightarrow> nat \<Rightarrow> (ReturnException \<times> Bus) res" where
  "Bus_store cfg b addr v sz =
     (if build cfg \<noteq> FUZZ_ENV \<and> in_window addr CLINT_BASE CLINT_SIZE then
        (let (e, d) = CLINT_store (clint b) addr v sz in Inr (e, b\<lparr>clint := d\<rparr>))
      else if build cfg \<noteq> FUZZ_ENV \<and> in_window addr PLIC_BASE PLIC_SIZE then
        (let (e, d) = PLIC_store (plic b) addr v sz in Inr (e, b\<lparr>plic := d\<rparr>))
      else if build cfg \<noteq> FUZZ_ENV \<and> in_window addr UART_BASE UART_SIZE then
        (let (e, d) = UART_store (uart b) addr v sz in Inr (e, b\<lparr>uart := d\<rparr>))
      else bind_res (MMU_store (mmu b) addr v sz) (\<lambda>(_, m).
           Inr (NormalExecutionReturn, b\<lparr>mmu := m\<rparr>)))"

definition uart_is_interrupting :: "Bus \<Rightarrow> bool \<times> Bus" where
  "uart_is_interrupting b =
     (let (i, d) = UART_is_interrupting (uart b) in (i, b\<lparr>uart := d\<rparr>))"

subsection \<open>Specification: one target per address\<close>

datatype target = To_CLINT | To_PLIC | To_UART | To_RAM

definition claims :: "u64 \<Rightarrow> target \<Rightarrow> bool" where
  "claims addr t = (case t of
       To_CLINT \<Rightarrow> in_window addr CLINT_BASE CLINT_SIZE
     | To_PLIC \<Rightarrow> in_window addr PLIC_BASE PLIC_SIZE
     | To_UART \<Rightarrow> in_window addr UART_BASE UART_SIZE
     | To_RAM \<Rightarrow> True)"

definition target_of :: "config \<Rightarrow> u64 \<Rightarrow> target" where
  "target_of cfg addr =
     (if build cfg = FUZZ_ENV then To_RAM
      else if claims addr To_CLINT then To_CLINT
      else if claims addr To_PLIC then To_PLIC
      else if claims addr To_UART then To_UART
      else To_RAM)"

lemma windows_disjoint:
  "claims addr s \<Longrightarrow> claims addr t \<Longrightarrow> s \<noteq> To_RAM \<Longrightarrow> t \<noteq> To_RAM \<Longrightarrow> s = t"
  by (cases s; cases t) (auto simp: claims_def in_window_def word_le_nat_alt word_less_nat_alt)

text \<open>The part of the bus that belongs to a target.\<close>

definition same_target :: "target \<Rightarrow> Bus \<Rightarrow> Bus \<Rightarrow> bool" where
  "same_target t b b' = (case t of
       To_CLINT \<Rightarrow> clint b' = clint b
     | To_PLIC \<Rightarrow> plic b' = plic b
     | To_UART \<Rightarrow> uart b' = uart b
     | To_RAM \<Rightarrow> mmu b' = mmu b)"

lemma bus_load_cases:
  "Bus_load cfg b addr sz = (case target_of cfg addr of
       To_CLINT \<Rightarrow> (let (v, e, d) = CLINT_load (clint b) addr sz in Inr (v, e, b\<lparr>clint := d\<rparr>))
     | To_PLIC \<Rightarrow> (let (v, e, d) = PLIC_load (plic b) addr sz in Inr (v, e, b\<lparr>plic := d\<rparr>))
     | To_UART \<Rightarrow> (let (v, e, d) = UART_load (uart b) addr sz in Inr (v, e, b\<lparr>uart := d\<rparr>))
     | To_RAM \<Rightarrow> bind_res (MMU_load (mmu b) addr sz) (\<lambda>(v, e). Inr (v, e, b)))"
  by (simp add: Bus_load_def target_of_def claims_def)

lemma bus_store_cases:
  "Bus_store cfg b addr v sz = (case target_of cfg addr of
       To_CLINT \<Rightarrow> (let (e, d) = CLINT_store (clint b) addr v sz in Inr (e, b\<lparr>clint := d\<rparr>))
     | To_PLIC \<Rightarrow> (let (e, d) = PLIC_store (plic b) addr v sz in Inr (e, b\<lparr>plic := d\<rparr>))
     | To_UART \<Rightarrow> (let (e, d) = UART_store (uart b) addr v sz in Inr (e, b\<lparr>uart := d\<rparr>))
     | To_RAM \<Rightarrow> bind_res (MMU_store (mmu b) addr v sz) (\<lambda>(_, m).
                   Inr (NormalExecutionReturn, b\<lparr>mmu := m\<rparr>)))"
  by (simp add: Bus_store_def target_of_def claims_def)

lemma bus_load_isolated:
  "Bus_load cfg b addr sz = Inr (v, e, b') \<Longrightarrow> t \<noteq> target_of cfg addr \<Longrightarrow> same_target t b b'"
  by (cases t) (auto simp: bus_load_cases same_target_def Let_def bind_res_eq_Inr
      split: target.splits prod.splits)

lemma bus_store_isolated:
  "Bus_store cfg b addr v sz = Inr (e, b') \<Longrightarrow> t \<noteq> target_of cfg addr \<Longrightarrow> same_target t b b'"
  by (cases t) (auto simp: bus_store_cases same_target_def Let_def bind_res_eq_Inr
      split: target.splits prod.splits)

text \<open>Loads change nothing but the receive flag of the serial port.\<close>

lemma bus_load_mmu [frame]: "Bus_load cfg b addr sz = Inr (v, e, b') \<Longrightarrow> mmu b' = mmu b"
  by (auto simp: bus_load_cases Let_def bind_res_eq_Inr split: target.splits prod.splits)

lemma bus_load_ram:
  "target_of cfg addr = To_RAM \<Longrightarrow>
     Bus_load cfg b addr sz = bind_res (MMU_load (mmu b) addr sz) (\<lambda>(v, e). Inr (v, e, b))"
  by (simp add: bus_load_cases)

lemma bus_store_ram:
  "target_of cfg addr = To_RAM \<Longrightarrow>
     Bus_store cfg b addr v sz = bind_res (MMU_store (mmu b) addr v sz) (\<lambda>(_, m).
        Inr (NormalExecutionReturn, b\<lparr>mmu := m\<rparr>))"
  by (simp add: bus_store_cases)

lemma bus_fuzz [simp]: "build cfg = FUZZ_ENV \<Longrightarrow> target_of cfg addr = To_RAM"
  by (simp add: target_of_def)

text \<open>(C29) The bus decodes every address to one target, on whose window alone the device order
  does not matter, and an access leaves the state of every other target as it was.\<close>

theorem bus_routing:
  "(\<forall>s t. claims addr s \<and> claims addr t \<and> s \<noteq> To_RAM \<and> t \<noteq> To_RAM \<longrightarrow> s = t) \<and>
   (\<forall>v e b'. Bus_load cfg b addr sz = Inr (v, e, b') \<longrightarrow>
      (\<forall>t. t \<noteq> target_of cfg addr \<longrightarrow> same_target t b b')) \<and>
   (\<forall>e b'. Bus_store cfg b addr w sz = Inr (e, b') \<longrightarrow>
      (\<forall>t. t \<noteq> target_of cfg addr \<longrightarrow> same_target t b b'))"
  using windows_disjoint bus_load_isolated bus_store_isolated by blast

lemma bus_access_abort:
  assumes "mmu_wf (mmu b)"
  shows "Bus_load cfg b addr sz = Inl a \<Longrightarrow> a = AssertionFailure"
    and "Bus_store cfg b addr v sz = Inl a \<Longrightarrow> a = AssertionFailure"
    and "Bus_store cfg b addr v sz = Inr (e, b') \<Longrightarrow> mmu_wf (mmu b')"
  using assms MMU_load_abort MMU_store_abort MMU_store_wf
  by (auto simp: bus_load_cases bus_store_cases Let_def bind_res_eq_Inl bind_res_eq_Inr
      split: target.splits prod.splits)

text \<open>The interrupt controllers behave as banks of registers through the bus: outside the
  fuzzing build a 64-bit load of one of their registers returns the last 64-bit value stored
  there.\<close>

theorem bus_register_roundtrip:
  assumes "build cfg \<noteq> FUZZ_ENV"
    and "addr \<in> {CLINT_MTIMECMP, CLINT_MTIME, PLIC_PENDING, PLIC_SENABLE, PLIC_SPRIORITY, PLIC_SCLAIM}"
  shows "\<exists>b'. Bus_store cfg b addr v 64 = Inr (NormalExecutionReturn, b') \<and>
              Bus_load cfg b' addr 64 = Inr (v, NormalExecutionReturn, b')"
proof -
  have t: "target_of cfg addr = (if addr \<in> {CLINT_MTIMECMP, CLINT_MTIME} then To_CLINT else To_PLIC)"
    using assms by (auto simp: target_of_def claims_def in_window_def)
  show ?thesis
    using assms(2) clint_dev.load_store_same [of addr "clint b" v] plic_dev.load_store_same [of addr "plic b" v]
    by (auto simp: bus_load_cases bus_store_cases t CLINT_load_def CLINT_store_def PLIC_load_def PLIC_store_def)
qed

end
