(* ===== verification/Vemu_State.thy ===== *)
theory Vemu_State
  imports Reg_File Vemu_Bus Decoder_Roundtrip
begin

text \<open>
  The state of the emulator, class \<open>VEmu\<close> of \<^verbatim>\<open>include/VEmu.h\<close>, with the operations of
  \<^verbatim>\<open>src/VEmu.cpp\<close> that the instruction handlers are built from: memory access through the bus,
  control and status registers, the constructors with the initial stack.
\<close>

unbundle bit_operations_syntax

subsection \<open>State\<close>

datatype FileType = Stdin | Stdout | Stderr | DiskFile

text \<open>\<open>fh_data\<close> is the buffer that \<open>data\<close> points to, \<open>None\<close> for the null pointer.\<close>

record FileHandle =
  fh_data :: "u8 list option"
  pathname :: "u8 list option"
  fh_fd :: u32
  fh_len :: u64
  fh_idx :: u64
  fh_type :: FileType

text \<open>What the emulator prints on \<open>std::cout\<close> while it goes on running.\<close>

datatype message = Passed | FailedTest u64 | CrashDetected | FaultyInstruction u32 u64

text \<open>
  The decoder is a singleton that all emulators share (\<open>InstructionDecoder::the()\<close>); it is part of
  the state of the one emulator modelled here. \<open>inst_funcs_set\<close> says whether \<open>init_func_map\<close>
  has filled the table of handlers; \<open>opened\<close> counts the calls of the host's \<open>open\<close>.
\<close>

record vemu =
  bin_file_name :: "u8 list"
  inst_funcs_set :: bool
  csrs :: "u64 \<Rightarrow> u64"
  mode :: Mode
  bus :: Bus
  iregs :: RegFile
  fregs :: FRegFile
  hex_instr :: u32
  curr_instr :: Instruction
  pc :: u64
  code_size :: u64
  ram_size :: u64
  file_table :: "FileHandle list"
  has_exited :: bool
  exit_code :: u8
  test_flag_done :: bool
  decoder :: InstructionDecoder
  opened :: nat
  console :: "message list"

type_synonym outcome = "(ReturnException \<times> vemu) res"

text \<open>The operands of the current instruction.\<close>

abbreviation f_rd :: "vemu \<Rightarrow> nat" where "f_rd s \<equiv> unat (rd (get_fields (curr_instr s)))"
abbreviation f_rs1 :: "vemu \<Rightarrow> nat" where "f_rs1 s \<equiv> unat (rs1 (get_fields (curr_instr s)))"
abbreviation f_rs2 :: "vemu \<Rightarrow> nat" where "f_rs2 s \<equiv> unat (rs2 (get_fields (curr_instr s)))"

text \<open>\<open>static_cast<int64_t>(static_cast<int32_t>(curr_instr.get_fields().imm))\<close>\<close>

definition imm64 :: "vemu \<Rightarrow> u64" where
  "imm64 s = scast (imm (get_fields (curr_instr s)))"

abbreviation ireg :: "vemu \<Rightarrow> nat \<Rightarrow> u64" where "ireg s i \<equiv> load_reg (iregs s) i"

definition set_ireg :: "nat \<Rightarrow> u64 \<Rightarrow> vemu \<Rightarrow> vemu" where
  "set_ireg i v s = s\<lparr>iregs := store_reg (iregs s) i v\<rparr>"

abbreviation get_mmu :: "vemu \<Rightarrow> MMU" where "get_mmu s \<equiv> mmu (bus s)"

definition set_mmu :: "MMU \<Rightarrow> vemu \<Rightarrow> vemu" where
  "set_mmu m s = s\<lparr>bus := (bus s)\<lparr>mmu := m\<rparr>\<rparr>"

subsection \<open>Memory and control registers\<close>

definition vload :: "config \<Rightarrow> vemu \<Rightarrow> u64 \<Rightarrow> nat \<Rightarrow> (u64 \<times> ReturnException \<times> vemu) res" where
  "vload cfg s addr sz =
     bind_res (Bus_load cfg (bus s) addr sz) (\<lambda>(v, e, b). Inr (v, e, s\<lparr>bus := b\<rparr>))"

definition vstore :: "config \<Rightarrow> vemu \<Rightarrow> u64 \<Rightarrow> u64 \<Rightarrow> nat \<Rightarrow> outcome" where
  "vstore cfg s addr data sz =
     bind_res (Bus_store cfg (bus s) addr data sz) (\<lambda>(e, b). Inr (e, s\<lparr>bus := b\<rparr>))"

definition get_4byte_aligned_instr :: "config \<Rightarrow> vemu \<Rightarrow> u64 \<Rightarrow> (u32 \<times> ReturnException \<times> vemu) res" where
  "get_4byte_aligned_instr cfg s i =
     (if build cfg = TEST_ENV then
        bind_res (vload cfg s i 32) (\<lambda>(v, e, s'). Inr (ucast v, e, s'))
      else bind_res (load_insn (get_mmu s) i) (\<lambda>(w, e). Inr (w, e, s)))"

definition load_csr :: "vemu \<Rightarrow> u64 \<Rightarrow> u64" where
  "load_csr s addr = (if addr = SIE then csrs s MIE AND csrs s MIDELEG else csrs s addr)"

text \<open>\<open>!x\<close> on an integer, converted back to \<open>uint64_t\<close>.\<close>

definition lnot :: "u64 \<Rightarrow> u64" where
  "lnot x = (if x = 0 then 1 else 0)"

definition store_csr :: "u64 \<Rightarrow> u64 \<Rightarrow> vemu \<Rightarrow> vemu" where
  "store_csr addr val s =
     (if addr = SIE then
        (let s1 = s\<lparr>csrs := (csrs s)(MIE := csrs s MIE AND lnot (csrs s MIDELEG))\<rparr> in
         s1\<lparr>csrs := (csrs s1)(MIE := csrs s1 MIE OR (val AND csrs s1 MIDELEG))\<rparr>)
      else s\<lparr>csrs := (csrs s)(addr := val)\<rparr>)"

definition init_misa :: "vemu \<Rightarrow> vemu" where
  "init_misa s =
     store_csr MISA (0 OR push_bit 20 1 OR push_bit 18 1 OR push_bit 12 1 OR push_bit 8 1
                     OR push_bit 5 1 OR push_bit 0 1) s"

definition push_to_stack :: "config \<Rightarrow> u64 \<Rightarrow> nat \<Rightarrow> vemu \<Rightarrow> vemu res" where
  "push_to_stack cfg data sz s =
     (let sp = ireg s REG_SP - of_nat (sz div 8) in
      bind_res (vstore cfg s sp data sz) (\<lambda>(_, s').
      Inr (set_ireg REG_SP sp s')))"

definition write_string_to_addr :: "u8 list \<Rightarrow> u64 \<Rightarrow> vemu \<Rightarrow> vemu res" where
  "write_string_to_addr arg addr s =
     bind_res (write_from (get_mmu s) (arg @ [0]) addr) (\<lambda>m. Inr (set_mmu m s))"

definition mmu_allocate :: "u64 \<Rightarrow> vemu \<Rightarrow> (u64 \<times> vemu) res" where
  "mmu_allocate n s = bind_res (allocate (get_mmu s) n) (\<lambda>(base, m). Inr (base, set_mmu m s))"

subsection \<open>Construction\<close>

text \<open>
  The members that a constructor leaves without an initialiser have indeterminate values, given by
  \<open>init\<close>: the storage of the memory, the control registers in the fuzzing build, the serial
  port's flag, the current word and instruction, the code size; in a copy also the mode.
\<close>

record uninit =
  u_mem :: "u64 \<Rightarrow> u8"
  u_perms :: "u64 \<Rightarrow> u8"
  u_csrs :: "u64 \<Rightarrow> u64"
  u_uart :: bool
  u_word :: u32
  u_instr :: Instruction
  u_mode :: Mode
  u_code_size :: u64

definition std_files :: "FileHandle list" where
  "std_files =
     [\<lparr>fh_data = None, pathname = None, fh_fd = 0, fh_len = 0, fh_idx = 0, fh_type = Stdin\<rparr>,
      \<lparr>fh_data = None, pathname = None, fh_fd = 1, fh_len = 0, fh_idx = 0, fh_type = Stdout\<rparr>,
      \<lparr>fh_data = None, pathname = None, fh_fd = 2, fh_len = 0, fh_idx = 0, fh_type = Stderr\<rparr>]"

text \<open>
  The part of the first constructor before \<open>read_file\<close>. \<open>d\<close> is the shared decoder as earlier
  emulators have left it.
\<close>

definition VEmu_base :: "config \<Rightarrow> uninit \<Rightarrow> InstructionDecoder \<Rightarrow> u8 list \<Rightarrow> u64 \<Rightarrow> u64 \<Rightarrow> vemu" where
  "VEmu_base cfg init d f_name start_pc mem_size =
     (let s = \<lparr>bin_file_name = f_name, inst_funcs_set = True, csrs = u_csrs init, mode = Machine,
               bus = Bus_new (u_uart init) (u_mem init) (u_perms init) mem_size,
               iregs = RegFile_new, fregs = FRegFile_new, hex_instr = u_word init,
               curr_instr = u_instr init, pc = start_pc,
               code_size = u_code_size init, ram_size = mem_size, file_table = std_files,
               has_exited = False, exit_code = 0, test_flag_done = False, decoder = d, opened = 0,
               console = []\<rparr>
      in if build cfg = FUZZ_ENV then s
         else init_misa (s\<lparr>mode := User, csrs := (\<lambda>_. 0)\<rparr>))"

text \<open>
  Placing the code of a flat binary: the end of \<open>read_file\<close> and the body of the constructor that
  takes the bytes.
\<close>

definition place_code :: "u8 list \<Rightarrow> vemu \<Rightarrow> vemu res" where
  "place_code bytes s =
     (let s1 = s\<lparr>code_size := of_nat (length bytes)\<rparr>;
          aligned_code_size = (code_size s1 + 0xFFFF) AND NOT 0xFFFF in
      bind_res (mmu_allocate aligned_code_size s1) (\<lambda>(base, s2).
      let s3 = s2\<lparr>pc := base\<rparr> in
      bind_res (set_perms (get_mmu s3) base (code_size s3) PERM_WRITE) (\<lambda>m1.
      bind_res (write_from m1 bytes base) (\<lambda>m2.
      bind_res (set_perms m2 base (code_size s3) (PERM_EXEC OR PERM_READ)) (\<lambda>m3.
      Inr (set_mmu m3 s3))))))"

text \<open>\<open>file\<close> is what the host's file system holds under the name, \<open>None\<close> if it cannot be opened.\<close>

definition read_file :: "u8 list option \<Rightarrow> vemu \<Rightarrow> vemu res" where
  "read_file file s = (case file of None \<Rightarrow> Inl ExitFailure | Some bytes \<Rightarrow> place_code bytes s)"

definition VEmu_file :: "config \<Rightarrow> uninit \<Rightarrow> InstructionDecoder \<Rightarrow> u8 list \<Rightarrow> u8 list option \<Rightarrow> u64 \<Rightarrow> u64
    \<Rightarrow> vemu res" where
  "VEmu_file cfg init d f_name file start_pc mem_size =
     (let s = VEmu_base cfg init d f_name start_pc mem_size in
      if f_name \<noteq> [] then read_file file s else Inr s)"

definition VEmu_bytes :: "config \<Rightarrow> uninit \<Rightarrow> InstructionDecoder \<Rightarrow> u8 list \<Rightarrow> u64 \<Rightarrow> u64 \<Rightarrow> vemu res" where
  "VEmu_bytes cfg init d bytes start_pc mem_size =
     place_code bytes (VEmu_base cfg init d [] start_pc mem_size)"

record FileInfo =
  fi_file_name :: "u8 list"
  entry_point :: u64
  segments :: "MemorySegment list"

abbreviation (input) STACK_SIZE :: u64 where "STACK_SIZE \<equiv> 0x100000"

definition push_arg :: "config \<Rightarrow> u8 list \<Rightarrow> vemu \<Rightarrow> vemu res" where
  "push_arg cfg arg s =
     bind_res (mmu_allocate 256 s) (\<lambda>(argval, s1).
     bind_res (write_string_to_addr arg argval s1) (\<lambda>s2.
     push_to_stack cfg argval 64 s2))"

definition VEmu_exec :: "config \<Rightarrow> uninit \<Rightarrow> InstructionDecoder \<Rightarrow> FileInfo \<Rightarrow> u8 list list \<Rightarrow> u64 \<Rightarrow> vemu res" where
  "VEmu_exec cfg init d info args mem_size =
     (let s0 = (VEmu_base cfg init d [] (entry_point info) mem_size)\<lparr>bin_file_name := fi_file_name info\<rparr> in
      bind_res (load_file (get_mmu s0) (segments info)) (\<lambda>m.
      bind_res (mmu_allocate STACK_SIZE (set_mmu m s0)) (\<lambda>(stack_base, s1).
      bind_res (push_to_stack cfg 0 64 (set_ireg REG_SP (stack_base + STACK_SIZE) s1)) (\<lambda>s2.
      bind_res (push_to_stack cfg 0 64 s2) (\<lambda>s3.
      bind_res (push_to_stack cfg 0 64 s3) (\<lambda>s4.
      bind_res (fold_res (push_arg cfg) (rev args) s4) (\<lambda>s5.
      bind_res (push_arg cfg (bin_file_name s5) s5) (\<lambda>s6.
      push_to_stack cfg (of_nat (length args) + 1) 64 s6))))))))"

text \<open>
  The copy constructor that \<open>fork\<close> uses: it copies the bus, the name, the program counter and the
  memory size, and leaves the rest to the default initialisers; the table of handlers stays empty.
\<close>

definition VEmu_copy :: "uninit \<Rightarrow> vemu \<Rightarrow> vemu" where
  "VEmu_copy init other =
     \<lparr>bin_file_name = bin_file_name other, inst_funcs_set = False, csrs = u_csrs init,
      mode = u_mode init, bus = Bus_copy (bus other), iregs = RegFile_new, fregs = FRegFile_new,
      hex_instr = u_word init, curr_instr = u_instr init,
      pc = pc other, code_size = u_code_size init, ram_size = ram_size other,
      file_table = std_files, has_exited = False, exit_code = 0, test_flag_done = False,
      decoder = decoder other, opened = opened other, console = console other\<rparr>"

subsection \<open>Reading back what was written\<close>

lemma set_ireg_simps [simp]:
  "ireg (set_ireg i v s) j = (if j = i \<and> i \<noteq> 0 then v else ireg s j)"
  "iregs (set_ireg i v s) = store_reg (iregs s) i v" "bus (set_ireg i v s) = bus s"
  "pc (set_ireg i v s) = pc s" "csrs (set_ireg i v s) = csrs s" "mode (set_ireg i v s) = mode s"
  "curr_instr (set_ireg i v s) = curr_instr s" "decoder (set_ireg i v s) = decoder s"
  "fregs (set_ireg i v s) = fregs s" "file_table (set_ireg i v s) = file_table s"
  "has_exited (set_ireg i v s) = has_exited s" "inst_funcs_set (set_ireg i v s) = inst_funcs_set s"
  by (simp_all add: set_ireg_def)

lemma set_mmu_simps [simp]:
  "get_mmu (set_mmu m s) = m" "iregs (set_mmu m s) = iregs s" "pc (set_mmu m s) = pc s"
  "csrs (set_mmu m s) = csrs s" "mode (set_mmu m s) = mode s" "decoder (set_mmu m s) = decoder s"
  "curr_instr (set_mmu m s) = curr_instr s" "inst_funcs_set (set_mmu m s) = inst_funcs_set s"
  "clint (bus (set_mmu m s)) = clint (bus s)" "plic (bus (set_mmu m s)) = plic (bus s)"
  "uart (bus (set_mmu m s)) = uart (bus s)"
  by (simp_all add: set_mmu_def)

lemma store_csr_simps [simp]:
  "iregs (store_csr a v s) = iregs s" "bus (store_csr a v s) = bus s" "pc (store_csr a v s) = pc s"
  "mode (store_csr a v s) = mode s" "curr_instr (store_csr a v s) = curr_instr s"
  "decoder (store_csr a v s) = decoder s" "inst_funcs_set (store_csr a v s) = inst_funcs_set s"
  "file_table (store_csr a v s) = file_table s" "has_exited (store_csr a v s) = has_exited s"
  "fregs (store_csr a v s) = fregs s" "exit_code (store_csr a v s) = exit_code s"
  by (simp_all add: store_csr_def Let_def)

lemma csrs_store_csr [simp]: "a \<noteq> SIE \<Longrightarrow> csrs (store_csr a v s) = (csrs s)(a := v)"
  by (simp add: store_csr_def)

lemma load_store_csr [simp]:
  "a \<noteq> SIE \<Longrightarrow> load_csr (store_csr a v s) a = v"
  "a \<noteq> SIE \<Longrightarrow> b \<noteq> a \<Longrightarrow> b \<noteq> SIE \<Longrightarrow> load_csr (store_csr a v s) b = load_csr s b"
  by (simp_all add: load_csr_def)

end
