(* ===== verification/RV_Base.thy ===== *)
theory RV_Base
  imports Vemu_State
begin

text \<open>
  The handlers of the base instruction set RV64I in \<^verbatim>\<open>src/VEmu.cpp\<close>: loads, stores, register and
  immediate arithmetic, branches and jumps. A handler that touches memory can stop the process and
  has its outcome in \<open>res\<close>; the others are total.
\<close>

unbundle bit_operations_syntax

subsection \<open>Common parts\<close>

text \<open>\<open>iregs.store_reg(rd, res); return NormalExecutionReturn;\<close>\<close>

definition write_rd :: "u64 \<Rightarrow> vemu \<Rightarrow> ReturnException \<times> vemu" where
  "write_rd res s = (NormalExecutionReturn, set_ireg (f_rd s) res s)"

text \<open>\<open>static_cast<int64_t>(static_cast<int32_t>(x))\<close>\<close>

definition sext_w :: "u32 \<Rightarrow> u64" where
  "sext_w x = scast x"

text \<open>\<open>sext_from<T>(w)\<close> for the three widths\<close>

definition sext_from8 :: "u8 \<Rightarrow> u64" where "sext_from8 w = scast w"
definition sext_from16 :: "u16 \<Rightarrow> u64" where "sext_from16 w = scast w"
definition sext_from32 :: "u32 \<Rightarrow> u64" where "sext_from32 w = scast w"

subsection \<open>Loads\<close>

text \<open>The common body of the unsigned loads and \<open>LD\<close>.\<close>

definition load_instr :: "nat \<Rightarrow> config \<Rightarrow> vemu \<Rightarrow> outcome" where
  "load_instr sz cfg s =
     (let mem_addr = ireg s (f_rs1 s) + imm64 s in
      bind_res (vload cfg s mem_addr sz) (\<lambda>(v, e, s').
      if e \<noteq> NormalExecutionReturn then Inr (e, s') else Inr (write_rd v s')))"

definition LBU :: "config \<Rightarrow> vemu \<Rightarrow> outcome" where "LBU = load_instr 8"
definition LHU :: "config \<Rightarrow> vemu \<Rightarrow> outcome" where "LHU = load_instr 16"
definition LWU :: "config \<Rightarrow> vemu \<Rightarrow> outcome" where "LWU = load_instr 32"
definition LD :: "config \<Rightarrow> vemu \<Rightarrow> outcome" where "LD = load_instr 64"

text \<open>The signed loads call the unsigned one, drop what it returns, and sign-extend \<open>rd\<close>.\<close>

definition LB :: "config \<Rightarrow> vemu \<Rightarrow> outcome" where
  "LB cfg s = bind_res (LBU cfg s) (\<lambda>(_, s').
     Inr (write_rd (sext_from8 (ucast (ireg s' (f_rd s') AND 0xFF))) s'))"

definition LH :: "config \<Rightarrow> vemu \<Rightarrow> outcome" where
  "LH cfg s = bind_res (LHU cfg s) (\<lambda>(_, s').
     Inr (write_rd (sext_from16 (ucast (ireg s' (f_rd s') AND 0xFFFF))) s'))"

definition LW :: "config \<Rightarrow> vemu \<Rightarrow> outcome" where
  "LW cfg s = bind_res (LWU cfg s) (\<lambda>(_, s').
     Inr (write_rd (sext_from32 (ucast (ireg s' (f_rd s') AND 0xFFFFFFFF))) s'))"

subsection \<open>Stores\<close>

definition SB :: "config \<Rightarrow> vemu \<Rightarrow> outcome" where
  "SB cfg s = (let data = ireg s (f_rs2 s) AND 0xFF in
     vstore cfg s (ireg s (f_rs1 s) + imm64 s) data 8)"

definition SH :: "config \<Rightarrow> vemu \<Rightarrow> outcome" where
  "SH cfg s = (let data = ireg s (f_rs2 s) AND 0xFFFF in
     vstore cfg s (ireg s (f_rs1 s) + imm64 s) data 16)"

definition SW :: "config \<Rightarrow> vemu \<Rightarrow> outcome" where
  "SW cfg s = (let data = ireg s (f_rs2 s) AND 0xFFFFFFFF in
     vstore cfg s (ireg s (f_rs1 s) + imm64 s) data 32)"

definition SD :: "config \<Rightarrow> vemu \<Rightarrow> outcome" where
  "SD cfg s = (let data = ireg s (f_rs2 s) in
     vstore cfg s (ireg s (f_rs1 s) + imm64 s) data 64)"


subsection \<open>Register and immediate arithmetic\<close>

definition ADDI :: "vemu \<Rightarrow> ReturnException \<times> vemu" where
  "ADDI s = write_rd (ireg s (f_rs1 s) + imm64 s) s"

definition ADDIW :: "vemu \<Rightarrow> ReturnException \<times> vemu" where
  "ADDIW s = (let res_32 = ucast ((ireg s (f_rs1 s) + imm64 s) AND 0xFFFFFFFF) in write_rd (sext_w res_32) s)"

definition SLTI :: "vemu \<Rightarrow> ReturnException \<times> vemu" where
  "SLTI s = write_rd (if ireg s (f_rs1 s) <s imm64 s then 1 else 0) s"

definition SLTIU :: "vemu \<Rightarrow> ReturnException \<times> vemu" where
  "SLTIU s = write_rd (if ireg s (f_rs1 s) < imm64 s then 1 else 0) s"

definition XORI :: "vemu \<Rightarrow> ReturnException \<times> vemu" where
  "XORI s = write_rd (ireg s (f_rs1 s) XOR imm64 s) s"

definition ORI :: "vemu \<Rightarrow> ReturnException \<times> vemu" where
  "ORI s = write_rd (ireg s (f_rs1 s) OR imm64 s) s"

definition ANDI :: "vemu \<Rightarrow> ReturnException \<times> vemu" where
  "ANDI s = write_rd (ireg s (f_rs1 s) AND imm64 s) s"

text \<open>The shift amounts are taken from the immediate: its low six or five bits.\<close>

definition shamt_imm64 :: "vemu \<Rightarrow> nat" where
  "shamt_imm64 s = unat (ucast (imm (get_fields (curr_instr s)) AND 0x3F) :: u8)"

definition shamt_imm32 :: "vemu \<Rightarrow> nat" where
  "shamt_imm32 s = unat (ucast (imm (get_fields (curr_instr s)) AND 0x1F) :: u8)"

definition SLLI :: "vemu \<Rightarrow> ReturnException \<times> vemu" where
  "SLLI s = write_rd (push_bit (shamt_imm64 s) (ireg s (f_rs1 s))) s"

definition SRLI :: "vemu \<Rightarrow> ReturnException \<times> vemu" where
  "SRLI s = write_rd (drop_bit (shamt_imm64 s) (ireg s (f_rs1 s))) s"

definition SRAI :: "vemu \<Rightarrow> ReturnException \<times> vemu" where
  "SRAI s = write_rd (signed_drop_bit (shamt_imm64 s) (ireg s (f_rs1 s))) s"

definition SLLIW :: "vemu \<Rightarrow> ReturnException \<times> vemu" where
  "SLLIW s = write_rd (sext_w (push_bit (shamt_imm32 s) (ucast (ireg s (f_rs1 s))))) s"

definition SRLIW :: "vemu \<Rightarrow> ReturnException \<times> vemu" where
  "SRLIW s = write_rd (sext_w (drop_bit (shamt_imm32 s) (ucast (ireg s (f_rs1 s))))) s"

definition SRAIW :: "vemu \<Rightarrow> ReturnException \<times> vemu" where
  "SRAIW s = write_rd (sext_w (signed_drop_bit (shamt_imm32 s) (ucast (ireg s (f_rs1 s))))) s"

definition ADD :: "vemu \<Rightarrow> ReturnException \<times> vemu" where
  "ADD s = write_rd (ireg s (f_rs1 s) + ireg s (f_rs2 s)) s"

definition ADDW :: "vemu \<Rightarrow> ReturnException \<times> vemu" where
  "ADDW s = write_rd (sext_w (ucast (ireg s (f_rs1 s)) + ucast (ireg s (f_rs2 s)))) s"

definition SUB :: "vemu \<Rightarrow> ReturnException \<times> vemu" where
  "SUB s = write_rd (ireg s (f_rs1 s) - ireg s (f_rs2 s)) s"

definition SUBW :: "vemu \<Rightarrow> ReturnException \<times> vemu" where
  "SUBW s = write_rd (sext_w (ucast (ireg s (f_rs1 s)) - ucast (ireg s (f_rs2 s)))) s"

definition shamt_reg64 :: "vemu \<Rightarrow> nat" where
  "shamt_reg64 s = unat (ucast (ireg s (f_rs2 s) AND 0x3F) :: u8)"

definition shamt_reg32 :: "vemu \<Rightarrow> nat" where
  "shamt_reg32 s = unat (ucast (ireg s (f_rs2 s) AND 0x1F) :: u8)"

definition SLL :: "vemu \<Rightarrow> ReturnException \<times> vemu" where
  "SLL s = write_rd (push_bit (shamt_reg64 s) (ireg s (f_rs1 s))) s"

definition SLLW :: "vemu \<Rightarrow> ReturnException \<times> vemu" where
  "SLLW s = write_rd (sext_w (push_bit (shamt_reg32 s) (ucast (ireg s (f_rs1 s))))) s"

definition SLT :: "vemu \<Rightarrow> ReturnException \<times> vemu" where
  "SLT s = write_rd (if ireg s (f_rs1 s) <s ireg s (f_rs2 s) then 1 else 0) s"

definition SLTU :: "vemu \<Rightarrow> ReturnException \<times> vemu" where
  "SLTU s = write_rd (if ireg s (f_rs1 s) < ireg s (f_rs2 s) then 1 else 0) s"

definition XOR_op :: "vemu \<Rightarrow> ReturnException \<times> vemu" where
  "XOR_op s = write_rd (ireg s (f_rs1 s) XOR ireg s (f_rs2 s)) s"

definition SRL :: "vemu \<Rightarrow> ReturnException \<times> vemu" where
  "SRL s = write_rd (drop_bit (shamt_reg64 s) (ireg s (f_rs1 s))) s"

definition SRLW :: "vemu \<Rightarrow> ReturnException \<times> vemu" where
  "SRLW s = write_rd (sext_w (drop_bit (shamt_reg32 s) (ucast (ireg s (f_rs1 s))))) s"

definition SRA :: "vemu \<Rightarrow> ReturnException \<times> vemu" where
  "SRA s = write_rd (signed_drop_bit (shamt_reg64 s) (ireg s (f_rs1 s))) s"

definition SRAW :: "vemu \<Rightarrow> ReturnException \<times> vemu" where
  "SRAW s = write_rd (sext_w (signed_drop_bit (shamt_reg32 s) (ucast (ireg s (f_rs1 s))))) s"

definition OR_op :: "vemu \<Rightarrow> ReturnException \<times> vemu" where
  "OR_op s = write_rd (ireg s (f_rs1 s) OR ireg s (f_rs2 s)) s"

definition AND_op :: "vemu \<Rightarrow> ReturnException \<times> vemu" where
  "AND_op s = write_rd (ireg s (f_rs1 s) AND ireg s (f_rs2 s)) s"

definition LUI :: "vemu \<Rightarrow> ReturnException \<times> vemu" where
  "LUI s = write_rd (imm64 s) s"

definition AUIPC :: "vemu \<Rightarrow> ReturnException \<times> vemu" where
  "AUIPC s = write_rd (pc s + imm64 s) s"

subsection \<open>Branches and jumps\<close>

text \<open>
  The run loop adds 4 to the program counter after every handler, so a taken branch leaves the
  target less 4. \<open>branch_if\<close> is the common end of the branch handlers.
\<close>

definition branch_if :: "bool \<Rightarrow> vemu \<Rightarrow> ReturnException \<times> vemu" where
  "branch_if c s =
     (NormalExecutionReturn, if c then s\<lparr>pc := pc s + imm64 s - 4\<rparr> else s)"

definition BEQ :: "vemu \<Rightarrow> ReturnException \<times> vemu" where
  "BEQ s = branch_if (ireg s (f_rs1 s) = ireg s (f_rs2 s)) s"

definition BNE :: "vemu \<Rightarrow> ReturnException \<times> vemu" where
  "BNE s = branch_if (ireg s (f_rs1 s) \<noteq> ireg s (f_rs2 s)) s"

definition BLT :: "vemu \<Rightarrow> ReturnException \<times> vemu" where
  "BLT s = branch_if (ireg s (f_rs1 s) <s ireg s (f_rs2 s)) s"

definition BGE :: "vemu \<Rightarrow> ReturnException \<times> vemu" where
  "BGE s = branch_if (ireg s (f_rs2 s) \<le>s ireg s (f_rs1 s)) s"

definition BLTU :: "vemu \<Rightarrow> ReturnException \<times> vemu" where
  "BLTU s = branch_if (ireg s (f_rs1 s) < ireg s (f_rs2 s)) s"

definition BGEU :: "vemu \<Rightarrow> ReturnException \<times> vemu" where
  "BGEU s = branch_if (ireg s (f_rs2 s) \<le> ireg s (f_rs1 s)) s"

definition JAL :: "vemu \<Rightarrow> ReturnException \<times> vemu" where
  "JAL s =
     (let s1 = set_ireg (f_rd s) (pc s + 4) s in
      (NormalExecutionReturn, s1\<lparr>pc := pc s1 + imm64 s - 4\<rparr>))"

definition JALR :: "vemu \<Rightarrow> ReturnException \<times> vemu" where
  "JALR s =
     (let rs1_val = ireg s (f_rs1 s);
          s1 = set_ireg (f_rd s) (pc s + 4) s in
      (NormalExecutionReturn, s1\<lparr>pc := ((rs1_val + imm64 s) AND NOT 1) - 4\<rparr>))"

lemmas base_pure_defs = ADDI_def ADDIW_def SLTI_def SLTIU_def XORI_def ORI_def ANDI_def SLLI_def
  SRLI_def SRAI_def SLLIW_def SRLIW_def SRAIW_def ADD_def ADDW_def SUB_def SUBW_def SLL_def SLLW_def
  SLT_def SLTU_def XOR_op_def SRL_def SRLW_def SRA_def SRAW_def OR_op_def AND_op_def LUI_def AUIPC_def
  BEQ_def BNE_def BLT_def BGE_def BLTU_def BGEU_def JAL_def JALR_def

end
