(* ===== verification/RV_Mul.thy ===== *)
theory RV_Mul
  imports RV_Base "HOL-Library.Signed_Division"
begin

text \<open>
  The handlers of the multiplication and division extension M. Signed division truncates towards
  zero (\<open>sdiv\<close>, \<open>smod\<close> on the integers that the words stand for); products of two 64-bit values
  are formed in 128 bits.
\<close>

unbundle bit_operations_syntax

subsection \<open>Multiplication\<close>

definition MUL :: "vemu \<Rightarrow> ReturnException \<times> vemu" where
  "MUL s = write_rd (ireg s (f_rs1 s) * ireg s (f_rs2 s)) s"

definition MULW :: "vemu \<Rightarrow> ReturnException \<times> vemu" where
  "MULW s =
     write_rd (sext_w (ucast (ireg s (f_rs1 s) AND 0xFFFFFFFF) * ucast (ireg s (f_rs2 s) AND 0xFFFFFFFF))) s"

definition MULH :: "vemu \<Rightarrow> ReturnException \<times> vemu" where
  "MULH s =
     write_rd (ucast (signed_drop_bit 64
       ((scast (ireg s (f_rs1 s)) :: u128) * scast (ireg s (f_rs2 s))))) s"

definition MULHU :: "vemu \<Rightarrow> ReturnException \<times> vemu" where
  "MULHU s =
     write_rd (ucast (drop_bit 64
       ((ucast (ireg s (f_rs1 s)) :: u128) * ucast (ireg s (f_rs2 s))))) s"

definition MULHSU :: "vemu \<Rightarrow> ReturnException \<times> vemu" where
  "MULHSU s =
     write_rd (ucast (drop_bit 64
       ((scast (ireg s (f_rs1 s)) :: u128) * ucast (ireg s (f_rs2 s))))) s"

subsection \<open>Division\<close>

text \<open>\<open>csrs[FFLAGS] |= 0x8\<close>\<close>

definition flag_div_by_zero :: "vemu \<Rightarrow> vemu" where
  "flag_div_by_zero s = s\<lparr>csrs := (csrs s)(FFLAGS := csrs s FFLAGS OR 0x8)\<rparr>"

definition sdiv_word :: "'a::len word \<Rightarrow> 'a word \<Rightarrow> 'a word" where
  "sdiv_word a b = of_int (sint a sdiv sint b)"

definition smod_word :: "'a::len word \<Rightarrow> 'a word \<Rightarrow> 'a word" where
  "smod_word a b = of_int (sint a smod sint b)"

abbreviation (input) INT64_MIN :: u64 where "INT64_MIN \<equiv> 0x8000000000000000"
abbreviation (input) INT32_MIN :: u32 where "INT32_MIN \<equiv> 0x80000000"

definition DIV :: "vemu \<Rightarrow> ReturnException \<times> vemu" where
  "DIV s =
     (if ireg s (f_rs2 s) = 0 then write_rd 0xFFFFFFFFFFFFFFFF (flag_div_by_zero s)
      else if ireg s (f_rs1 s) = INT64_MIN \<and> ireg s (f_rs2 s) = - 1 then write_rd (ireg s (f_rs1 s)) s
      else write_rd (sdiv_word (ireg s (f_rs1 s)) (ireg s (f_rs2 s))) s)"

definition DIVU :: "vemu \<Rightarrow> ReturnException \<times> vemu" where
  "DIVU s =
     (if ireg s (f_rs2 s) = 0 then write_rd 0xFFFFFFFFFFFFFFFF (flag_div_by_zero s)
      else write_rd (ireg s (f_rs1 s) div ireg s (f_rs2 s)) s)"

definition DIVW :: "vemu \<Rightarrow> ReturnException \<times> vemu" where
  "DIVW s =
     (let rs1_32 = ucast (ireg s (f_rs1 s)) :: u32; rs2_32 = ucast (ireg s (f_rs2 s)) in
      if rs2_32 = 0 then write_rd 0xFFFFFFFFFFFFFFFF (flag_div_by_zero s)
      else if rs2_32 = - 1 \<and> rs1_32 = INT32_MIN then write_rd (sext_w rs1_32) s
      else write_rd (sext_w (sdiv_word rs1_32 rs2_32)) s)"

definition DIVUW :: "vemu \<Rightarrow> ReturnException \<times> vemu" where
  "DIVUW s =
     (let rs1_32 = ucast (ireg s (f_rs1 s)) :: u32; rs2_32 = ucast (ireg s (f_rs2 s)) in
      if rs2_32 = 0 then write_rd 0xFFFFFFFFFFFFFFFF (flag_div_by_zero s)
      else write_rd (sext_w (rs1_32 div rs2_32)) s)"

definition REM :: "vemu \<Rightarrow> ReturnException \<times> vemu" where
  "REM s =
     (if ireg s (f_rs2 s) = 0 then write_rd (ireg s (f_rs1 s)) s
      else if ireg s (f_rs1 s) = INT64_MIN \<and> ireg s (f_rs2 s) = - 1 then write_rd 0 s
      else write_rd (smod_word (ireg s (f_rs1 s)) (ireg s (f_rs2 s))) s)"

definition REMU :: "vemu \<Rightarrow> ReturnException \<times> vemu" where
  "REMU s =
     (if ireg s (f_rs2 s) = 0 then write_rd (ireg s (f_rs1 s)) s
      else write_rd (ireg s (f_rs1 s) mod ireg s (f_rs2 s)) s)"

definition REMW :: "vemu \<Rightarrow> ReturnException \<times> vemu" where
  "REMW s =
     (let rs1_32 = ucast (ireg s (f_rs1 s)) :: u32; rs2_32 = ucast (ireg s (f_rs2 s)) in
      if rs2_32 = 0 then write_rd (sext_w rs1_32) s
      else if rs2_32 = - 1 \<and> rs1_32 = INT32_MIN then write_rd 0 s
      else write_rd (sext_w (smod_word rs1_32 rs2_32)) s)"

definition REMUW :: "vemu \<Rightarrow> ReturnException \<times> vemu" where
  "REMUW s =
     (let rs1_32 = ucast (ireg s (f_rs1 s)) :: u32; rs2_32 = ucast (ireg s (f_rs2 s)) in
      if rs2_32 = 0 then write_rd (sext_w rs1_32) s
      else write_rd (sext_w (rs1_32 mod rs2_32)) s)"

lemmas mul_defs = MUL_def MULW_def MULH_def MULHU_def MULHSU_def DIV_def DIVU_def DIVW_def DIVUW_def
  REM_def REMU_def REMW_def REMUW_def

end
