(* ===== verification/RV_Spec.thy ===== *)
theory RV_Spec
  imports RV_Mul
begin

text \<open>
  What the RISC-V specification says of the integer instructions, as functions on the integers that
  the registers stand for, and that the handlers compute them: the wrapping sums, the high halves
  of the signed, unsigned and mixed products, truncating division with its two special cases, the
  32-bit forms with their sign extension.
\<close>

unbundle bit_operations_syntax

subsection \<open>Specification\<close>

text \<open>The 32-bit views of a register, and the sign extension of a 32-bit result.\<close>

definition s32 :: "u64 \<Rightarrow> int" where "s32 a = sint (ucast a :: u32)"
definition u32_of :: "u64 \<Rightarrow> int" where "u32_of a = uint (ucast a :: u32)"
definition sext32 :: "int \<Rightarrow> u64" where "sext32 i = of_int (sint (of_int i :: u32))"

text \<open>
  Register-register operations: the handler and the value it must write, from the values of
  \<open>rs1\<close> and \<open>rs2\<close>.
\<close>

definition alu_ops :: "(IName \<times> (vemu \<Rightarrow> ReturnException \<times> vemu) \<times> (u64 \<Rightarrow> u64 \<Rightarrow> u64)) list" where
  "alu_ops = [
    (iADD, ADD, \<lambda>a b. of_int (sint a + sint b)),
    (iSUB, SUB, \<lambda>a b. of_int (sint a - sint b)),
    (iSLL, SLL, \<lambda>a b. of_int (uint a * 2 ^ (unat b mod 64))),
    (iSLT, SLT, \<lambda>a b. of_bool (sint a < sint b)),
    (iSLTU, SLTU, \<lambda>a b. of_bool (uint a < uint b)),
    (iXOR, XOR_op, \<lambda>a b. a XOR b),
    (iSRL, SRL, \<lambda>a b. of_int (uint a div 2 ^ (unat b mod 64))),
    (iSRA, SRA, \<lambda>a b. of_int (sint a div 2 ^ (unat b mod 64))),
    (iOR, OR_op, \<lambda>a b. a OR b),
    (iAND, AND_op, \<lambda>a b. a AND b),
    (iADDW, ADDW, \<lambda>a b. sext32 (s32 a + s32 b)),
    (iSUBW, SUBW, \<lambda>a b. sext32 (s32 a - s32 b)),
    (iSLLW, SLLW, \<lambda>a b. sext32 (u32_of a * 2 ^ (unat b mod 32))),
    (iSRLW, SRLW, \<lambda>a b. sext32 (u32_of a div 2 ^ (unat b mod 32))),
    (iSRAW, SRAW, \<lambda>a b. sext32 (s32 a div 2 ^ (unat b mod 32))),
    (iMUL, MUL, \<lambda>a b. of_int (sint a * sint b)),
    (iMULH, MULH, \<lambda>a b. of_int (sint a * sint b div 2 ^ 64)),
    (iMULHU, MULHU, \<lambda>a b. of_int (uint a * uint b div 2 ^ 64)),
    (iMULHSU, MULHSU, \<lambda>a b. of_int (sint a * uint b div 2 ^ 64)),
    (iMULW, MULW, \<lambda>a b. sext32 (s32 a * s32 b)),
    (iDIV, DIV, \<lambda>a b. of_int (if sint b = 0 then - 1 else sint a sdiv sint b)),
    (iDIVU, DIVU, \<lambda>a b. of_int (if uint b = 0 then - 1 else uint a div uint b)),
    (iREM, REM, \<lambda>a b. of_int (if sint b = 0 then sint a else sint a smod sint b)),
    (iREMU, REMU, \<lambda>a b. of_int (if uint b = 0 then uint a else uint a mod uint b)),
    (iDIVW, DIVW, \<lambda>a b. sext32 (if s32 b = 0 then - 1 else s32 a sdiv s32 b)),
    (iDIVUW, DIVUW, \<lambda>a b. sext32 (if u32_of b = 0 then - 1 else u32_of a div u32_of b)),
    (iREMW, REMW, \<lambda>a b. sext32 (if s32 b = 0 then s32 a else s32 a smod s32 b)),
    (iREMUW, REMUW, \<lambda>a b. sext32 (if u32_of b = 0 then u32_of a else u32_of a mod u32_of b))]"

text \<open>Register-immediate operations, from \<open>rs1\<close> and the sign-extended immediate.\<close>

definition imm_ops :: "(IName \<times> (vemu \<Rightarrow> ReturnException \<times> vemu) \<times> (u64 \<Rightarrow> u64 \<Rightarrow> u64)) list" where
  "imm_ops = [
    (iADDI, ADDI, \<lambda>a b. of_int (sint a + sint b)),
    (iADDIW, ADDIW, \<lambda>a b. sext32 (sint a + sint b)),
    (iSLTI, SLTI, \<lambda>a b. of_bool (sint a < sint b)),
    (iSLTIU, SLTIU, \<lambda>a b. of_bool (uint a < uint b)),
    (iXORI, XORI, \<lambda>a b. a XOR b),
    (iORI, ORI, \<lambda>a b. a OR b),
    (iANDI, ANDI, \<lambda>a b. a AND b),
    (iSLLI, SLLI, \<lambda>a b. of_int (uint a * 2 ^ (unat b mod 64))),
    (iSRLI, SRLI, \<lambda>a b. of_int (uint a div 2 ^ (unat b mod 64))),
    (iSRAI, SRAI, \<lambda>a b. of_int (sint a div 2 ^ (unat b mod 64))),
    (iSLLIW, SLLIW, \<lambda>a b. sext32 (u32_of a * 2 ^ (unat b mod 32))),
    (iSRLIW, SRLIW, \<lambda>a b. sext32 (u32_of a div 2 ^ (unat b mod 32))),
    (iSRAIW, SRAIW, \<lambda>a b. sext32 (s32 a div 2 ^ (unat b mod 32)))]"

subsection \<open>Words and the integers they stand for\<close>

lemma sext_w_spec: "sext_w w = of_int (sint w)"
  by (simp add: sext_w_def)

lemma sext32_of: "sext32 i = sext_w (of_int i)"
  by (simp add: sext32_def sext_w_def)

lemma push_bit_spec: "push_bit k (a :: 'a::len word) = of_int (uint a * 2 ^ k)"
  by (simp add: push_bit_eq_mult)

lemma drop_bit_spec: "drop_bit k (a :: 'a::len word) = of_int (uint a div 2 ^ k)"
proof -
  have "uint (drop_bit k a) = drop_bit k (uint a)"
    by (simp add: unsigned_drop_bit_eq take_bit_int_eq_self)
  then have "uint (drop_bit k a) = uint a div 2 ^ k" by (simp only: drop_bit_eq_div [of k "uint a"])
  then show ?thesis by (metis of_int_uint ucast_id)
qed

lemma signed_drop_bit_spec: "signed_drop_bit k (a :: 'a::len word) = of_int (sint a div 2 ^ k)"
  by (metis drop_bit_eq_div of_int_sint scast_id sint_signed_drop_bit_eq)

lemma unat_take_bit_u8:
  "k \<le> 8 \<Longrightarrow> unat (ucast (take_bit k b :: 'a::len word) :: u8) = unat b mod 2 ^ k"
  using take_bit_eq_mod [of k "unat b"]
  by (simp add: unsigned_ucast_eq unsigned_take_bit_eq min_def)

lemma shamt_mod:
  "unat (ucast (b AND 0x3F :: 'a::len word) :: u8) = unat b mod 64"
  "unat (ucast (b AND 0x1F :: 'a::len word) :: u8) = unat b mod 32"
  using unat_take_bit_u8 [of 6 b] unat_take_bit_u8 [of 5 b] by (simp_all add: and_low_mask)

lemma imm_shamt:
  "shamt_imm64 s = unat (imm64 s) mod 64" "shamt_imm32 s = unat (imm64 s) mod 32"
proof -
  have low: "unat (scast w :: u64) mod 2 ^ k = unat w mod 2 ^ k" if "k \<le> 6" for w :: u32 and k
  proof -
    have "take_bit k (scast w :: u64) = ucast (take_bit k w)"
      by (rule bit_word_eqI) (use that in \<open>auto simp: bit_simps\<close>)
    then have "unat (take_bit k (scast w :: u64)) = unat (ucast (take_bit k w) :: u64)" by simp
    then show ?thesis
      using take_bit_eq_mod [of k "unat (scast w :: u64)"] take_bit_eq_mod [of k "unat w"] that
      by (simp add: unsigned_take_bit_eq unsigned_ucast_eq min_def)
  qed
  show "shamt_imm64 s = unat (imm64 s) mod 64" "shamt_imm32 s = unat (imm64 s) mod 32"
    using low [of 6] low [of 5] by (simp_all add: shamt_imm64_def shamt_imm32_def shamt_mod imm64_def)
qed

lemma ucast_mask32: "(ucast (a AND 0xFFFFFFFF :: u64) :: u32) = ucast a"
  by (rule bit_word_eqI) (auto simp: and_low_mask bit_simps)

text \<open>The high half of a 128-bit product, whichever shift takes it.\<close>

lemma high_half:
  "(ucast (drop_bit 64 (of_int p :: u128)) :: u64) = of_int (p div 2 ^ 64)"
  "(ucast (signed_drop_bit 64 (of_int p :: u128)) :: u64) = of_int (p div 2 ^ 64)"
  unfolding drop_bit_eq_div [of 64 p, symmetric]
  by (rule bit_word_eqI, auto simp: bit_simps bit_word_of_int_iff add.commute)+

lemma u128_products:
  fixes a b :: u64
  shows "(ucast a :: u128) * ucast b = of_int (uint a * uint b)"
    "(scast a :: u128) * scast b = of_int (sint a * sint b)"
    "(scast a :: u128) * ucast b = of_int (sint a * uint b)"
  by simp_all

text \<open>The special case of signed division, its only overflow, is what wrapping gives.\<close>

lemma sdiv_min: "sint a sdiv - 1 = - sint a" "sint a smod - 1 = 0"
  by (simp_all add: signed_divide_int_def signed_modulo_int_def mult.commute [of "sgn _"] abs_mult_sgn)

lemma sdiv_minus_one:
  fixes a :: "'a::len word"
  shows "of_int (sint a sdiv sint (- 1 :: 'a word)) = - a" "of_int (sint a smod sint (- 1 :: 'a word)) = (0 :: 'a word)"
  by (simp_all only: signed_minus_1 sdiv_min) simp_all

lemma sdiv_overflow:
  "of_int (sint INT64_MIN sdiv sint (- 1 :: u64)) = INT64_MIN"
  "of_int (sint INT32_MIN sdiv sint (- 1 :: u32)) = INT32_MIN"
  by (simp_all only: sdiv_minus_one) simp_all

lemma sint_eq_0 [simp]: "sint (a :: 'a::len word) = 0 \<longleftrightarrow> a = 0"
  by (metis signed_0 word_eq_iff_signed)

lemma word_div_spec: "(a :: 'a::len word) div b = of_int (uint a div uint b)"
  "(a :: 'a::len word) mod b = of_int (uint a mod uint b)"
  by (simp_all add: word_div_def word_mod_def)

subsection \<open>The handlers meet the specification\<close>

definition writes_rd :: "(vemu \<Rightarrow> ReturnException \<times> vemu) \<Rightarrow> (vemu \<Rightarrow> u64) \<Rightarrow> bool" where
  "writes_rd h val \<longleftrightarrow> (\<forall>s. fst (h s) = NormalExecutionReturn \<and>
     iregs (snd (h s)) = store_reg (iregs s) (f_rd s) (val s) \<and>
     pc (snd (h s)) = pc s \<and> bus (snd (h s)) = bus s \<and> mode (snd (h s)) = mode s)"

lemma writes_rdI:
  "(\<And>s. h s = write_rd (val s) s) \<Longrightarrow> writes_rd h val"
  by (simp add: writes_rd_def write_rd_def)

lemma writes_rd_flagI:
  "(\<And>s. h s = write_rd (val s) s \<or> h s = write_rd (val s) (flag_div_by_zero s)) \<Longrightarrow> writes_rd h val"
  unfolding writes_rd_def
proof
  fix s assume "\<And>s. h s = write_rd (val s) s \<or> h s = write_rd (val s) (flag_div_by_zero s)"
  then have "h s = write_rd (val s) s \<or> h s = write_rd (val s) (flag_div_by_zero s)" .
  then show "fst (h s) = NormalExecutionReturn \<and>
     iregs (snd (h s)) = store_reg (iregs s) (f_rd s) (val s) \<and>
     pc (snd (h s)) = pc s \<and> bus (snd (h s)) = bus s \<and> mode (snd (h s)) = mode s"
    by (auto simp: write_rd_def flag_div_by_zero_def)
qed

lemma ucast_add_down: "(ucast (a + b :: u64) :: u32) = of_int (sint a + sint b)"
proof -
  have "(ucast (of_int i :: u64) :: u32) = of_int i" for i
    by (rule bit_word_eqI) (simp add: bit_simps bit_word_of_int_iff)
  from this [of "sint a + sint b"] show ?thesis by simp
qed

lemmas alu_spec_simps = shamt_reg64_def shamt_reg32_def shamt_mod imm_shamt push_bit_spec
  drop_bit_spec signed_drop_bit_spec sext32_of s32_def u32_of_def word_sless_alt word_less_def
  of_bool_def ucast_mask32

text \<open>The value of the division handlers, over words of either width.\<close>

lemma div_value64:
  "(if b = 0 then 0xFFFFFFFFFFFFFFFF else if a = INT64_MIN \<and> b = - 1 then a else sdiv_word a b) =
     of_int (if sint b = 0 then - 1 else sint a sdiv sint b)"
  "(if b = 0 then a else if a = INT64_MIN \<and> b = - 1 then 0 else smod_word a b) =
     of_int (if sint b = 0 then sint a else sint a smod sint b)"
  using sdiv_overflow(1) sdiv_minus_one(2) [of a] by (auto simp only: sdiv_word_def smod_word_def sint_eq_0 split: if_split) simp_all

lemma div_value32:
  "(if b = 0 then 0xFFFFFFFF else if b = - 1 \<and> a = INT32_MIN then a else sdiv_word a b) =
     of_int (if sint b = 0 then - 1 else sint a sdiv sint b)"
  "(if b = 0 then a else if b = - 1 \<and> a = INT32_MIN then 0 else smod_word a b) =
     of_int (if sint b = 0 then sint a else sint a smod sint b)"
  using sdiv_overflow(2) sdiv_minus_one(2) [of a] by (auto simp only: sdiv_word_def smod_word_def sint_eq_0 split: if_split) simp_all

lemma udiv_value:
  "(if b = 0 then - 1 else (a :: 'a::len word) div b) = of_int (if uint b = 0 then - 1 else uint a div uint b)"
  "(if b = 0 then a else (a :: 'a::len word) mod b) = of_int (if uint b = 0 then uint a else uint a mod uint b)"
  by (simp_all add: word_div_spec uint_0_iff)

lemma all_ones: "(0xFFFFFFFFFFFFFFFF :: u64) = - 1" "sext_w (- 1) = - 1" "(0xFFFFFFFF :: u32) = - 1"
  by (simp_all add: sext_w_def)


lemma alu_div:
  "writes_rd DIV (\<lambda>s. of_int (if sint (ireg s (f_rs2 s)) = 0 then - 1
     else sint (ireg s (f_rs1 s)) sdiv sint (ireg s (f_rs2 s))))"
  "writes_rd DIVU (\<lambda>s. of_int (if uint (ireg s (f_rs2 s)) = 0 then - 1
     else uint (ireg s (f_rs1 s)) div uint (ireg s (f_rs2 s))))"
  "writes_rd DIVW (\<lambda>s. sext32 (if s32 (ireg s (f_rs2 s)) = 0 then - 1
     else s32 (ireg s (f_rs1 s)) sdiv s32 (ireg s (f_rs2 s))))"
  "writes_rd DIVUW (\<lambda>s. sext32 (if u32_of (ireg s (f_rs2 s)) = 0 then - 1
     else u32_of (ireg s (f_rs1 s)) div u32_of (ireg s (f_rs2 s))))"
  unfolding sext32_of s32_def u32_of_def div_value64(1) [symmetric] div_value32(1) [symmetric]
    udiv_value(1) [symmetric]
  by (rule writes_rd_flagI, simp add: DIV_def DIVU_def DIVW_def DIVUW_def all_ones Let_def)+

lemma alu_rem:
  "writes_rd REM (\<lambda>s. of_int (if sint (ireg s (f_rs2 s)) = 0 then sint (ireg s (f_rs1 s))
     else sint (ireg s (f_rs1 s)) smod sint (ireg s (f_rs2 s))))"
  "writes_rd REMU (\<lambda>s. of_int (if uint (ireg s (f_rs2 s)) = 0 then uint (ireg s (f_rs1 s))
     else uint (ireg s (f_rs1 s)) mod uint (ireg s (f_rs2 s))))"
  "writes_rd REMW (\<lambda>s. sext32 (if s32 (ireg s (f_rs2 s)) = 0 then s32 (ireg s (f_rs1 s))
     else s32 (ireg s (f_rs1 s)) smod s32 (ireg s (f_rs2 s))))"
  "writes_rd REMUW (\<lambda>s. sext32 (if u32_of (ireg s (f_rs2 s)) = 0 then u32_of (ireg s (f_rs1 s))
     else u32_of (ireg s (f_rs1 s)) mod u32_of (ireg s (f_rs2 s))))"
  unfolding sext32_of s32_def u32_of_def div_value64(2) [symmetric] div_value32(2) [symmetric]
    udiv_value(2) [symmetric]
  by (rule writes_rdI, simp add: REM_def REMU_def REMW_def REMUW_def Let_def sext_w_def)+

lemma alu_mulh:
  "writes_rd MULH (\<lambda>s. of_int (sint (ireg s (f_rs1 s)) * sint (ireg s (f_rs2 s)) div 2 ^ 64))"
  "writes_rd MULHU (\<lambda>s. of_int (uint (ireg s (f_rs1 s)) * uint (ireg s (f_rs2 s)) div 2 ^ 64))"
  "writes_rd MULHSU (\<lambda>s. of_int (sint (ireg s (f_rs1 s)) * uint (ireg s (f_rs2 s)) div 2 ^ 64))"
  by (rule writes_rdI, simp only: mul_defs u128_products high_half)+

lemma alu_mulw: "writes_rd MULW (\<lambda>s. sext32 (s32 (ireg s (f_rs1 s)) * s32 (ireg s (f_rs2 s))))"
  by (rule writes_rdI) (simp add: MULW_def s32_def sext32_of ucast_mask32)

lemma alu_ops_ok:
  "list_all (\<lambda>(n, h, f). writes_rd h (\<lambda>s. f (ireg s (f_rs1 s)) (ireg s (f_rs2 s)))) alu_ops"
  unfolding alu_ops_def list.pred_inject prod.case
  by (intro conjI TrueI list.pred_inject(1) alu_div alu_rem alu_mulh alu_mulw;
      rule writes_rdI, simp add: base_pure_defs MUL_def alu_spec_simps)

lemma imm_ops_ok:
  "list_all (\<lambda>(n, h, f). writes_rd h (\<lambda>s. f (ireg s (f_rs1 s)) (imm64 s))) imm_ops"
  unfolding imm_ops_def list.pred_inject prod.case
  by (intro conjI TrueI list.pred_inject(1);
      rule writes_rdI, simp add: base_pure_defs alu_spec_simps ucast_add_down)

text \<open>(C6) The register-register handlers of RV64I and M compute what the instruction-set manual
  defines over the integers: for every row of \<open>alu_ops\<close> the handler returns normally, writes the
  specified function of \<open>rs1\<close> and \<open>rs2\<close> to \<open>rd\<close> (unless it is \<open>x0\<close>), and leaves the program
  counter, the bus and the mode alone; division by zero and the one signed overflow included.\<close>

theorem alu_handlers_correct:
  assumes "(n, h, f) \<in> set alu_ops"
  shows "fst (h s) = NormalExecutionReturn \<and>
    iregs (snd (h s)) = store_reg (iregs s) (f_rd s) (f (ireg s (f_rs1 s)) (ireg s (f_rs2 s))) \<and>
    pc (snd (h s)) = pc s \<and> bus (snd (h s)) = bus s \<and> mode (snd (h s)) = mode s"
  using alu_ops_ok assms by (auto simp: list_all_iff writes_rd_def)

text \<open>Likewise the register-immediate handlers, from \<open>rs1\<close> and the sign-extended immediate; the
  constant shifts use its low six or five bits.\<close>

theorem imm_handlers_correct:
  assumes "(n, h, f) \<in> set imm_ops"
  shows "fst (h s) = NormalExecutionReturn \<and>
    iregs (snd (h s)) = store_reg (iregs s) (f_rd s) (f (ireg s (f_rs1 s)) (imm64 s)) \<and>
    pc (snd (h s)) = pc s \<and> bus (snd (h s)) = bus s \<and> mode (snd (h s)) = mode s"
  using imm_ops_ok assms by (auto simp: list_all_iff writes_rd_def)

text \<open>Quotient and remainder agree: whatever the operands, zero divisor and overflow included,
  the values that \<open>DIV\<close> and \<open>REM\<close> write satisfy \<open>rs1 = rs2 * quotient + remainder\<close> modulo
  \<open>2 ^ 64\<close>, and so do those of \<open>DIVU\<close> and \<open>REMU\<close>.\<close>

theorem div_rem_agree:
  assumes "f_rd s \<noteq> 0"
  defines "a \<equiv> ireg s (f_rs1 s)" and "b \<equiv> ireg s (f_rs2 s)"
  shows "b * ireg (snd (DIV s)) (f_rd s) + ireg (snd (REM s)) (f_rd s) = a \<and>
         b * ireg (snd (DIVU s)) (f_rd s) + ireg (snd (REMU s)) (f_rd s) = a"
proof -
  have "b * of_int (sint a sdiv sint b) + of_int (sint a smod sint b) = of_int (sint b * (sint a sdiv sint b) + sint a smod sint b)"
    by simp
  then have "b * of_int (sint a sdiv sint b) + of_int (sint a smod sint b) = a"
    by (simp only: mult_sdiv_smod_eq) simp
  moreover have "b * (a div b) + a mod b = a" by (rule mult_div_mod_eq)
  ultimately show ?thesis
    using alu_div(1,2) alu_rem(1,2) assms(1)
    by (simp add: writes_rd_def a_def b_def word_div_spec uint_0_iff)
qed

end
