(* ===== verification/RV_Atomic.thy ===== *)
theory RV_Atomic
  imports RV_Base
begin

text \<open>
  The handlers of the atomic extension A. Every read-modify-write handler has the same shape:
  alignment, load, store of the combined value, old value to \<open>rd\<close>; \<open>amo\<close> is that shape, with
  the functions that combine the loaded value and \<open>rs2\<close>. A reservation is not kept: a conditional
  store always succeeds.
\<close>

unbundle bit_operations_syntax

subsection \<open>Load-reserved and store-conditional\<close>

definition LRW :: "config \<Rightarrow> vemu \<Rightarrow> outcome" where
  "LRW cfg s =
     (let addr = ireg s (f_rs1 s) in
      if addr mod 4 \<noteq> 0 then Inr (LoadAddressMisaligned, s)
      else bind_res (vload cfg s addr 32) (\<lambda>(v, e, s').
           if e \<noteq> NormalExecutionReturn then Inr (e, s') else Inr (write_rd v s')))"

definition LRD :: "config \<Rightarrow> vemu \<Rightarrow> outcome" where
  "LRD cfg s =
     (let addr = ireg s (f_rs1 s) in
      if addr mod 8 \<noteq> 0 then Inr (LoadAddressMisaligned, s)
      else bind_res (vload cfg s addr 64) (\<lambda>(v, e, s').
           if e \<noteq> NormalExecutionReturn then Inr (e, s') else Inr (write_rd v s')))"

definition SCW :: "config \<Rightarrow> vemu \<Rightarrow> outcome" where
  "SCW cfg s =
     (let addr = ireg s (f_rs1 s) in
      if addr mod 4 \<noteq> 0 then Inr (StoreAMOAddressMisaligned, s)
      else bind_res (vstore cfg s addr (ireg s (f_rs2 s)) 32) (\<lambda>(e, s').
           Inr (e, set_ireg (f_rd s) 0 s')))"

definition SCD :: "config \<Rightarrow> vemu \<Rightarrow> outcome" where
  "SCD cfg s =
     (let addr = ireg s (f_rs1 s) in
      if addr mod 8 \<noteq> 0 then Inr (StoreAMOAddressMisaligned, s)
      else bind_res (vstore cfg s addr (ireg s (f_rs2 s)) 64) (\<lambda>(e, s').
           Inr (e, set_ireg (f_rd s) 0 s')))"

subsection \<open>Read-modify-write\<close>

text \<open>
  \<open>comb v r\<close> is the value stored, from the loaded value and the value of \<open>rs2\<close>; \<open>res v\<close> is the
  value for \<open>rd\<close>.
\<close>

definition amo :: "nat \<Rightarrow> (u64 \<Rightarrow> u64 \<Rightarrow> u64) \<Rightarrow> (u64 \<Rightarrow> u64) \<Rightarrow> config \<Rightarrow> vemu \<Rightarrow> outcome" where
  "amo sz comb res cfg s =
     (let addr = ireg s (f_rs1 s) in
      if addr mod of_nat (sz div 8) \<noteq> 0 then Inr (LoadAddressMisaligned, s)
      else bind_res (vload cfg s addr sz) (\<lambda>(v, e, s1).
           if e \<noteq> NormalExecutionReturn then Inr (e, s1)
           else bind_res (vstore cfg s1 addr (comb v (ireg s1 (f_rs2 s1))) sz) (\<lambda>(e', s2).
                if e' \<noteq> NormalExecutionReturn then Inr (e', s2)
                else Inr (write_rd (res v) s2))))"

text \<open>The low word of a value, and its sign extension into \<open>rd\<close>.\<close>

definition low_w :: "u64 \<Rightarrow> u32" where
  "low_w v = ucast (v AND 0xFFFFFFFF)"


definition AMOSWAPW :: "config \<Rightarrow> vemu \<Rightarrow> outcome" where
  "AMOSWAPW = amo 32 (\<lambda>v r. sext_w (low_w r)) (\<lambda>v. sext_w (low_w v))"

definition AMOADDW :: "config \<Rightarrow> vemu \<Rightarrow> outcome" where
  "AMOADDW = amo 32 (\<lambda>v r. let tmp = low_w v; rs2_val = low_w r in ucast (tmp + rs2_val)) (\<lambda>v. sext_w (low_w v))"

definition AMOANDW :: "config \<Rightarrow> vemu \<Rightarrow> outcome" where
  "AMOANDW = amo 32 (\<lambda>v r. let tmp = low_w v; rs2_val = low_w r in sext_w (tmp AND rs2_val) AND 0xFFFFFFFF) (\<lambda>v. sext_w (low_w v))"

definition AMOORW :: "config \<Rightarrow> vemu \<Rightarrow> outcome" where
  "AMOORW = amo 32 (\<lambda>v r. let tmp = low_w v; rs2_val = low_w r in sext_w (tmp OR rs2_val) AND 0xFFFFFFFF) (\<lambda>v. sext_w (low_w v))"

definition AMOXORW :: "config \<Rightarrow> vemu \<Rightarrow> outcome" where
  "AMOXORW = amo 32 (\<lambda>v r. let tmp = low_w v; rs2_val = low_w r in sext_w (tmp XOR rs2_val) AND 0xFFFFFFFF) (\<lambda>v. sext_w (low_w v))"

definition AMOMINW :: "config \<Rightarrow> vemu \<Rightarrow> outcome" where
  "AMOMINW = amo 32 (\<lambda>v r. let tmp = low_w v; rs2_val = low_w r in if tmp <s rs2_val then ucast tmp else ucast rs2_val) (\<lambda>v. sext_w (low_w v))"

definition AMOMAXW :: "config \<Rightarrow> vemu \<Rightarrow> outcome" where
  "AMOMAXW = amo 32 (\<lambda>v r. let tmp = low_w v; rs2_val = low_w r in if rs2_val <s tmp then ucast tmp else ucast rs2_val) (\<lambda>v. sext_w (low_w v))"

definition AMOMINUW :: "config \<Rightarrow> vemu \<Rightarrow> outcome" where
  "AMOMINUW = amo 32 (\<lambda>v r. let tmp = ucast v :: u32; rs2_val = ucast r :: u32 in if tmp < rs2_val then ucast tmp else ucast rs2_val) (\<lambda>v. sext_from32 (ucast v))"

definition AMOMAXUW :: "config \<Rightarrow> vemu \<Rightarrow> outcome" where
  "AMOMAXUW = amo 32 (\<lambda>v r. let tmp = ucast v :: u32; rs2_val = ucast r :: u32 in ucast (if rs2_val < tmp then tmp else rs2_val)) (\<lambda>v. sext_from32 (ucast v))"

definition AMOSWAPD :: "config \<Rightarrow> vemu \<Rightarrow> outcome" where
  "AMOSWAPD = amo 64 (\<lambda>v r. r) (\<lambda>v. v)"

definition AMOADDD :: "config \<Rightarrow> vemu \<Rightarrow> outcome" where
  "AMOADDD = amo 64 (\<lambda>v r. v + r) (\<lambda>v. v)"

definition AMOXORD :: "config \<Rightarrow> vemu \<Rightarrow> outcome" where
  "AMOXORD = amo 64 (\<lambda>v r. v XOR r) (\<lambda>v. v)"

definition AMOANDD :: "config \<Rightarrow> vemu \<Rightarrow> outcome" where
  "AMOANDD = amo 64 (\<lambda>v r. v AND r) (\<lambda>v. v)"

definition AMOORD :: "config \<Rightarrow> vemu \<Rightarrow> outcome" where
  "AMOORD = amo 64 (\<lambda>v r. v OR r) (\<lambda>v. v)"

definition AMOMIND :: "config \<Rightarrow> vemu \<Rightarrow> outcome" where
  "AMOMIND = amo 64 (\<lambda>v r. if v <s r then v else r) (\<lambda>v. v)"

definition AMOMAXD :: "config \<Rightarrow> vemu \<Rightarrow> outcome" where
  "AMOMAXD = amo 64 (\<lambda>v r. if r <s v then v else r) (\<lambda>v. v)"

definition AMOMINUD :: "config \<Rightarrow> vemu \<Rightarrow> outcome" where
  "AMOMINUD = amo 64 (\<lambda>v r. if v < r then v else r) (\<lambda>v. v)"

definition AMOMAXUD :: "config \<Rightarrow> vemu \<Rightarrow> outcome" where
  "AMOMAXUD = amo 64 (\<lambda>v r. if r < v then v else r) (\<lambda>v. v)"

lemmas atomic_defs = LRW_def LRD_def SCW_def SCD_def AMOSWAPW_def AMOADDW_def AMOANDW_def AMOORW_def
  AMOXORW_def AMOMINW_def AMOMAXW_def AMOMINUW_def AMOMAXUW_def AMOSWAPD_def AMOADDD_def AMOXORD_def
  AMOANDD_def AMOORD_def AMOMIND_def AMOMAXD_def AMOMINUD_def AMOMAXUD_def

end
