(* ===== verification/RV_System.thy ===== *)
theory RV_System
  imports RV_Base
begin

text \<open>
  The system instructions: fences, breakpoints, access to the control and status registers, returns
  from traps and the illegal instruction.
\<close>

unbundle bit_operations_syntax

subsection \<open>Fences, breakpoints, illegal instructions\<close>

definition FENCE :: "vemu \<Rightarrow> ReturnException \<times> vemu" where
  "FENCE s = (NormalExecutionReturn, s)"

definition FENCEI :: "vemu \<Rightarrow> ReturnException \<times> vemu" where
  "FENCEI s = (NormalExecutionReturn, s)"

definition EBREAK :: "vemu \<Rightarrow> ReturnException \<times> vemu" where
  "EBREAK s = (InstructionAddressBreakpoint, s)"

definition XXX :: "vemu \<Rightarrow> ReturnException \<times> vemu" where
  "XXX s = (IllegalInstruction, s\<lparr>console := console s @ [FaultyInstruction (hex_instr s) (pc s)]\<rparr>)"

definition exit_emu :: "u8 \<Rightarrow> vemu \<Rightarrow> vemu" where
  "exit_emu code s = s\<lparr>has_exited := True, exit_code := code\<rparr>"

subsection \<open>Control and status registers\<close>

definition csr_addr :: "vemu \<Rightarrow> u64" where
  "csr_addr s = ucast (imm (get_fields (curr_instr s))) AND 0xFFF"

text \<open>\<open>static_cast<uint64_t>(curr_instr.get_fields().rs1)\<close>\<close>

definition csr_uimm :: "vemu \<Rightarrow> u64" where
  "csr_uimm s = ucast (rs1 (get_fields (curr_instr s)))"

definition CSRRW :: "vemu \<Rightarrow> ReturnException \<times> vemu" where
  "CSRRW s = (let csr_val = load_csr s (csr_addr s) in
     write_rd csr_val (store_csr (csr_addr s) (ireg s (f_rs1 s)) s))"

definition CSRRS :: "vemu \<Rightarrow> ReturnException \<times> vemu" where
  "CSRRS s = (let csr_val = load_csr s (csr_addr s) in
     write_rd csr_val (store_csr (csr_addr s) (csr_val OR ireg s (f_rs1 s)) s))"

definition CSRRC :: "vemu \<Rightarrow> ReturnException \<times> vemu" where
  "CSRRC s = (let csr_val = load_csr s (csr_addr s) in
     write_rd csr_val (store_csr (csr_addr s) (csr_val AND lnot (ireg s (f_rs1 s))) s))"

definition CSRRWI :: "vemu \<Rightarrow> ReturnException \<times> vemu" where
  "CSRRWI s = (let csr_val = load_csr s (csr_addr s) in
     write_rd csr_val (store_csr (csr_addr s) (csr_uimm s) s))"

definition CSRRSI :: "vemu \<Rightarrow> ReturnException \<times> vemu" where
  "CSRRSI s = (let csr_val = load_csr s (csr_addr s) in
     write_rd csr_val (store_csr (csr_addr s) (csr_val OR csr_uimm s) s))"

definition CSRRCI :: "vemu \<Rightarrow> ReturnException \<times> vemu" where
  "CSRRCI s = (let csr_val = load_csr s (csr_addr s) in
     write_rd csr_val (store_csr (csr_addr s) (csr_val AND lnot (csr_uimm s)) s))"

subsection \<open>Returns from traps\<close>

text \<open>
  \<open>MRET\<close> compares the two bits of \<open>MPP\<close> with \<open>0x00\<close>, \<open>0x01\<close> and \<open>0x11\<close>, which two bits
  cannot be.
\<close>

definition MRET :: "vemu \<Rightarrow> outcome" where
  "MRET s =
     (let s1 = s\<lparr>pc := load_csr s MEPC - 4\<rparr>;
          mb = ucast (drop_bit 11 (load_csr s1 MSTATUS) AND 0b11) :: u8 in
      bind_res (if mb = 0x00 then Inr (s1\<lparr>mode := User\<rparr>)
                else if mb = 0x01 then Inr (s1\<lparr>mode := Supervisor\<rparr>)
                else if mb = 0x11 then Inr (s1\<lparr>mode := Machine\<rparr>)
                else Inl AssertionFailure) (\<lambda>s2.
      let MPIE = ucast (drop_bit 7 (load_csr s2 MSTATUS) AND 0b1) :: u8;
          s3 = (if MPIE \<noteq> 0 then store_csr MSTATUS (load_csr s2 MSTATUS OR push_bit 3 1) s2
                else store_csr MSTATUS (load_csr s2 MSTATUS AND NOT (push_bit 3 1)) s2);
          s4 = store_csr MSTATUS (load_csr s3 MSTATUS OR push_bit 7 1) s3;
          s5 = store_csr MSTATUS (load_csr s4 MSTATUS AND NOT (push_bit 11 0b11)) s4
      in Inr (NormalExecutionReturn, s5)))"

definition SRET :: "vemu \<Rightarrow> ReturnException \<times> vemu" where
  "SRET s =
     (let s1 = s\<lparr>pc := load_csr s SEPC - 4\<rparr>;
          mb = ucast (drop_bit 8 (load_csr s1 SSTATUS) AND 0b1) :: u8;
          s2 = (if mb = 0 then s1\<lparr>mode := User\<rparr> else s1\<lparr>mode := Supervisor\<rparr>);
          SPIE = ucast (drop_bit 5 (load_csr s2 SSTATUS) AND 1) :: u8;
          s3 = (if SPIE \<noteq> 0 then store_csr SSTATUS (load_csr s2 SSTATUS OR push_bit 1 1) s2
                else store_csr SSTATUS (load_csr s2 SSTATUS AND NOT (push_bit 1 1)) s2);
          s4 = store_csr SSTATUS (load_csr s3 SSTATUS OR push_bit 5 1) s3;
          s5 = store_csr SSTATUS (load_csr s4 SSTATUS AND NOT (push_bit 8 1)) s4
      in (NormalExecutionReturn, s5))"

lemmas csr_defs = CSRRW_def CSRRS_def CSRRC_def CSRRWI_def CSRRSI_def CSRRCI_def

end
