(* ===== verification/Vemu_Trap.thy ===== *)
theory Vemu_Trap
  imports RV_System
begin

text \<open>
  Exceptions and interrupts: \<open>trap\<close>, \<open>take_interrupt\<close>, \<open>check_pending_interrupt\<close>,
  \<open>is_fatal\<close> and \<open>exit_fatally\<close> of \<^verbatim>\<open>src/VEmu.cpp\<close>. The masks written with an unsigned
  literal, as \<open>~(1U << k)\<close>, have 32 bits and are zero-extended before the \<open>&\<close>.
\<close>

unbundle bit_operations_syntax

subsection \<open>Entering a handler\<close>

text \<open>\<open>~w\<close> of an \<open>unsigned int\<close>, converted to \<open>uint64_t\<close>.\<close>

definition not32 :: "u32 \<Rightarrow> u64" where
  "not32 w = ucast (NOT w)"

text \<open>
  The two branches that \<open>trap\<close> and \<open>take_interrupt\<close> have in common, from the assignment of the
  mode on; \<open>target\<close> is the address of the handler, \<open>epc\<close> the interrupted program counter.
\<close>

definition enter_supervisor :: "u64 \<Rightarrow> u64 \<Rightarrow> u64 \<Rightarrow> Mode \<Rightarrow> vemu \<Rightarrow> vemu" where
  "enter_supervisor target epc cause prev_mode s =
     (let s1 = s\<lparr>mode := Supervisor, pc := target - 4\<rparr>;
          s2 = store_csr SEPC (epc AND not32 1) s1;
          s3 = store_csr SCAUSE cause s2;
          s4 = store_csr STVAL 0 s3;
          sie = ucast (drop_bit SSTATUS_SIE_POS (load_csr s4 SSTATUS) AND 1) :: u8;
          s5 = (if sie \<noteq> 0
                then store_csr SSTATUS (load_csr s4 SSTATUS OR push_bit SSTATUS_SPIE_POS 1) s4
                else store_csr SSTATUS (load_csr s4 SSTATUS AND not32 (push_bit SSTATUS_SPIE_POS 1)) s4);
          s6 = store_csr SSTATUS (load_csr s5 SSTATUS AND not32 (push_bit SSTATUS_SIE_POS 1)) s5
      in if prev_mode = User
         then store_csr SSTATUS (load_csr s6 SSTATUS AND not32 (push_bit SSTATUS_SPP_POS 1)) s6
         else store_csr SSTATUS (load_csr s6 SSTATUS OR push_bit SSTATUS_SPP_POS 1) s6)"

definition enter_machine :: "u64 \<Rightarrow> u64 \<Rightarrow> u64 \<Rightarrow> Mode \<Rightarrow> vemu \<Rightarrow> vemu" where
  "enter_machine target epc cause prev_mode s =
     (let s1 = s\<lparr>mode := Machine, pc := target - 4\<rparr>;
          s2 = store_csr MEPC (epc AND not32 1) s1;
          s3 = store_csr MCAUSE cause s2;
          s4 = store_csr MTVAL 0 s3;
          mie = ucast (drop_bit MSTATUS_MIE_POS (load_csr s4 MSTATUS) AND 1) :: u8;
          s5 = (if mie = 1
                then store_csr MSTATUS (load_csr s4 MSTATUS OR push_bit MSTATUS_MPIE_POS 1) s4
                else store_csr MSTATUS (load_csr s4 MSTATUS AND not32 (push_bit MSTATUS_MPIE_POS 1)) s4);
          s6 = store_csr MSTATUS (load_csr s5 MSTATUS AND not32 (push_bit MSTATUS_MIE_POS 1)) s5
      in case prev_mode of
           User \<Rightarrow> store_csr MSTATUS (load_csr s6 MSTATUS AND not32 (push_bit 11 0b11)) s6
         | Supervisor \<Rightarrow>
             (let s7 = store_csr MSTATUS (load_csr s6 MSTATUS AND not32 (push_bit 12 1)) s6
              in store_csr MSTATUS (load_csr s7 MSTATUS OR push_bit 11 1) s7)
         | Machine \<Rightarrow> store_csr MSTATUS (load_csr s6 MSTATUS OR push_bit 11 0b11) s6)"

subsection \<open>Exceptions\<close>

definition trap :: "config \<Rightarrow> ReturnException \<Rightarrow> vemu \<Rightarrow> vemu" where
  "trap cfg e s =
     (if build cfg = FUZZ_ENV then s
      else let exception_pc = pc s;
               cause = exception_code e;
               prev_mode = mode s;
               do_deleg = shr64 cfg (load_csr s MEDELEG) (ucast cause) AND 1 \<noteq> 0
           in if (prev_mode = User \<or> prev_mode = Supervisor) \<and> do_deleg
              then enter_supervisor (load_csr s STVEC AND not32 1) exception_pc (ucast cause) prev_mode s
              else enter_machine (load_csr s MTVEC AND not32 1) exception_pc (ucast cause) prev_mode s)"

definition is_fatal :: "ReturnException \<Rightarrow> bool" where
  "is_fatal e \<longleftrightarrow> e = LoadAccessFault \<or> e = InstructionAccessFault
     \<or> e = InstructionAddressMisaligned \<or> e = StoreAMOAddressMisaligned \<or> e = StoreAMOAccessFault"

definition stringify_exception :: "ReturnException \<Rightarrow> string" where
  "stringify_exception e = (case e of
       InstructionAddressMisaligned \<Rightarrow> ''InstructionAddressMisaligned''
     | InstructionAccessFault \<Rightarrow> ''InstructionAccessFault''
     | IllegalInstruction \<Rightarrow> ''IllegalInstruction''
     | InstructionAddressBreakpoint \<Rightarrow> ''InstructionAddressBreakpoint''
     | LoadAddressMisaligned \<Rightarrow> ''LoadAddressMisaligned''
     | LoadAccessFault \<Rightarrow> ''LoadAccessFault''
     | StoreAMOAddressMisaligned \<Rightarrow> ''StoreAMOAddressMisaligned''
     | StoreAMOAccessFault \<Rightarrow> ''StoreAMOAccessFault''
     | EnvironmentCallFromUserMode \<Rightarrow> ''EnvironmentCallFromUserMode''
     | EnvironmentCallFromSupervisorMode \<Rightarrow> ''EnvironmentCallFromSupervisorMode''
     | EnvironmentCallFromMachineMode \<Rightarrow> ''EnvironmentCallFromMachineMode''
     | InstructionPageFault \<Rightarrow> ''InstructionPageFault''
     | LoadPageFault \<Rightarrow> ''LoadPageFault''
     | StoreAMOPageFault \<Rightarrow> ''StoreAMOPageFault''
     | NormalExecutionReturn \<Rightarrow> ''NormalExecutionReturn''
     | UninitializedMemoryAccess \<Rightarrow> ''UninitializedMemoryAccess''
     | ReadMemoryWithNoPermission \<Rightarrow> ''ReadMemoryWithNoPermission'')"

text \<open>\<open>exit_fatally\<close> prints the exception and the registers and ends the process.\<close>

definition exit_fatally :: "ReturnException \<Rightarrow> vemu \<Rightarrow> vemu res" where
  "exit_fatally e s = Inl ExitFailure"

subsection \<open>Interrupts\<close>

text \<open>\<open>pending & (1U << interrupt_pos)\<close>\<close>

definition is_pending :: "vemu \<Rightarrow> nat \<Rightarrow> bool" where
  "is_pending s pos \<longleftrightarrow> (load_csr s MIE AND load_csr s MIP) AND push_bit pos 1 \<noteq> 0"

definition clear_pending :: "nat \<Rightarrow> vemu \<Rightarrow> vemu" where
  "clear_pending pos s = store_csr MIP (load_csr s MIP AND not32 (push_bit pos 1)) s"

definition select_interrupt :: "vemu \<Rightarrow> Interrupt \<times> vemu" where
  "select_interrupt s =
     (if is_pending s MIP_MEIP_POS then (MachineExternalInterrupt, clear_pending MIP_MEIP_POS s)
      else if is_pending s MIP_MSIP_POS then (MachineSoftwareInterrupt, clear_pending MIP_MSIP_POS s)
      else if is_pending s MIP_MTIP_POS then (MachineTimerInterrupt, clear_pending MIP_MTIP_POS s)
      else if is_pending s MIP_SEIP_POS then (SupervisorExternalInterrupt, clear_pending MIP_SEIP_POS s)
      else if is_pending s MIP_SSIP_POS then (SupervisorSoftwareInterrupt, clear_pending MIP_SSIP_POS s)
      else if is_pending s MIP_STIP_POS then (SupervisorTimerInterrupt, clear_pending MIP_STIP_POS s)
      else (NoInterrupt, s))"

abbreviation (input) UART_IRQ :: nat where "UART_IRQ \<equiv> 10"

text \<open>
  The call \<open>bus.store(PLIC_SCLAIM, 32, irq)\<close> passes 32 as the data and the interrupt number as the
  size.
\<close>

definition check_pending_interrupt :: "config \<Rightarrow> vemu \<Rightarrow> (Interrupt \<times> vemu) res" where
  "check_pending_interrupt cfg s =
     (if mode s = Machine \<and> drop_bit MSTATUS_MIE_POS (load_csr s MSTATUS) AND 1 = 0
      then Inr (NoInterrupt, s)
      else if mode s = Supervisor \<and> drop_bit SSTATUS_SIE_POS (load_csr s SSTATUS) AND 1 = 0
      then Inr (NoInterrupt, s)
      else
        let (i, b) = uart_is_interrupting (bus s);
            s1 = s\<lparr>bus := b\<rparr>;
            irq = (if i then UART_IRQ else 0)
        in bind_res
             (if irq = UART_IRQ then
                bind_res (vstore cfg s1 PLIC_SCLAIM 32 irq) (\<lambda>(_, s2).
                Inr (store_csr MIP (load_csr s2 MIP OR push_bit MIP_SEIP_POS 1) s2))
              else Inr s1) (\<lambda>s3.
           Inr (select_interrupt s3)))"

definition take_interrupt :: "config \<Rightarrow> Interrupt \<Rightarrow> vemu \<Rightarrow> vemu" where
  "take_interrupt cfg i s =
     (let current_pc = pc s;
          cause = push_bit 63 1 OR ucast (interrupt_code i);
          prev_mode = mode s;
          do_deleg = shr64 cfg (load_csr s MEDELEG) cause AND 1 \<noteq> 0
      in if (prev_mode = User \<or> prev_mode = Supervisor) \<and> do_deleg
         then let vector = (if load_csr s STVEC AND 1 \<noteq> 0 then 4 * cause else 0)
              in enter_supervisor ((load_csr s STVEC AND not32 1) + vector) current_pc cause prev_mode s
         else let vector = (if load_csr s MTVEC AND 1 \<noteq> 0 then cause * 4 else 0)
              in enter_machine ((load_csr s MTVEC AND not32 1) + vector) current_pc cause prev_mode s)"

end
