(* ===== verification/IEEE_Float.thy ===== *)
theory IEEE_Float
  imports Vemu_Prelude
begin

text \<open>
  The host's \<open>float\<close> and \<open>double\<close> as the floating-point handlers of \<^verbatim>\<open>src/VEmu.cpp\<close> use them:
  IEEE 754 bit patterns, conversion between the two formats and from and to integers, rounding to
  nearest with ties to even, comparison, sign manipulation, classification, \<open>std::round\<close> and
  \<open>std::fma\<close>. A format is given by the number \<open>p\<close> of significant bits, the exponent \<open>emin\<close> of its
  least positive number and the code \<open>infty\<close> of infinity.
\<close>

unbundle bit_operations_syntax

type_synonym f32 = u32
type_synonym f64 = u64

subsection \<open>Rounding to nearest\<close>

fun bit_length :: "nat \<Rightarrow> nat" where
  "bit_length n = (if n = 0 then 0 else Suc (bit_length (n div 2)))"

declare bit_length.simps [simp del]

text \<open>\<open>n / 2^k\<close> rounded to nearest, ties to even\<close>

definition shift_rne :: "nat \<Rightarrow> nat \<Rightarrow> nat" where
  "shift_rne n k =
     (let d = n div 2 ^ k; r = n mod 2 ^ k in
      if 2 * r < 2 ^ k \<or> (2 * r = 2 ^ k \<and> even d) then d else d + 1)"

text \<open>
  The code of the magnitude \<open>sig * 2^q\<close>: its least significant bit has exponent \<open>l\<close>; the hidden bit
  of a normal number adds one to the exponent field; what exceeds the format is infinity.
\<close>

definition fp_round :: "nat \<Rightarrow> int \<Rightarrow> nat \<Rightarrow> nat \<Rightarrow> int \<Rightarrow> nat" where
  "fp_round p emin infty sig q =
     (if sig = 0 then 0
      else
        let l = max (int (bit_length sig) + q - int p) emin;
            m = (if l \<le> q then sig * 2 ^ nat (q - l) else shift_rne sig (nat (l - q)))
        in min infty (nat (l - emin) * 2 ^ (p - 1) + m))"

subsection \<open>Single precision\<close>

definition f32_sign :: "f32 \<Rightarrow> bool" where "f32_sign x = bit x 31"
definition f32_mag :: "f32 \<Rightarrow> nat" where "f32_mag x = unat (take_bit 31 x)"
definition f32_exp :: "f32 \<Rightarrow> nat" where "f32_exp x = f32_mag x div 2 ^ 23"
definition f32_frac :: "f32 \<Rightarrow> nat" where "f32_frac x = f32_mag x mod 2 ^ 23"

definition f32_nan :: "f32 \<Rightarrow> bool" where "f32_nan x \<longleftrightarrow> f32_exp x = 255 \<and> f32_frac x \<noteq> 0"
definition f32_inf :: "f32 \<Rightarrow> bool" where "f32_inf x \<longleftrightarrow> f32_exp x = 255 \<and> f32_frac x = 0"
definition f32_zero :: "f32 \<Rightarrow> bool" where "f32_zero x \<longleftrightarrow> f32_mag x = 0"
definition f32_finite :: "f32 \<Rightarrow> bool" where "f32_finite x \<longleftrightarrow> f32_exp x < 255"

text \<open>A finite number is \<open>f32_sig x * 2 powi f32_q x\<close>, with its sign.\<close>

definition f32_sig :: "f32 \<Rightarrow> nat" where
  "f32_sig x = (if f32_exp x = 0 then f32_frac x else 2 ^ 23 + f32_frac x)"

definition f32_q :: "f32 \<Rightarrow> int" where
  "f32_q x = int (max 1 (f32_exp x)) - 150"

definition f32_make :: "bool \<Rightarrow> nat \<Rightarrow> f32" where
  "f32_make sign mag = of_nat mag OR (if sign then 0x80000000 else 0)"

abbreviation (input) round32 :: "bool \<Rightarrow> nat \<Rightarrow> int \<Rightarrow> f32" where
  "round32 sign sig q \<equiv> f32_make sign (fp_round 24 (- 149) 0x7F800000 sig q)"

subsection \<open>Double precision\<close>

definition f64_sign :: "f64 \<Rightarrow> bool" where "f64_sign x = bit x 63"
definition f64_mag :: "f64 \<Rightarrow> nat" where "f64_mag x = unat (take_bit 63 x)"
definition f64_exp :: "f64 \<Rightarrow> nat" where "f64_exp x = f64_mag x div 2 ^ 52"
definition f64_frac :: "f64 \<Rightarrow> nat" where "f64_frac x = f64_mag x mod 2 ^ 52"

definition f64_sig :: "f64 \<Rightarrow> nat" where
  "f64_sig x = (if f64_exp x = 0 then f64_frac x else 2 ^ 52 + f64_frac x)"

definition f64_q :: "f64 \<Rightarrow> int" where
  "f64_q x = int (max 1 (f64_exp x)) - 1075"

definition f64_make :: "bool \<Rightarrow> nat \<Rightarrow> f64" where
  "f64_make sign mag = of_nat mag OR (if sign then 0x8000000000000000 else 0)"

subsection \<open>Conversions\<close>

text \<open>
  \<open>static_cast<double>\<close> of a \<open>float\<close> is exact; a NaN keeps its sign and payload and becomes quiet.
  \<open>static_cast<float>\<close> of a \<open>double\<close> rounds.
\<close>

definition widen :: "f32 \<Rightarrow> f64" where
  "widen x = f64_make (f32_sign x)
     (if f32_nan x then 0x7FF8000000000000 + f32_frac x mod 2 ^ 22 * 2 ^ 29
      else if f32_inf x then 0x7FF0000000000000
      else fp_round 53 (- 1074) 0x7FF0000000000000 (f32_sig x) (f32_q x))"

definition narrow :: "f64 \<Rightarrow> f32" where
  "narrow x = f32_make (f64_sign x)
     (if f64_exp x = 2047 \<and> f64_frac x \<noteq> 0 then 0x7FC00000 + f64_frac x mod 2 ^ 51 div 2 ^ 29
      else if f64_exp x = 2047 then 0x7F800000
      else fp_round 24 (- 149) 0x7F800000 (f64_sig x) (f64_q x))"

text \<open>A conversion from an integer rounds; one to an integer truncates, and a NaN or infinity has none.\<close>

definition int_to_f32 :: "int \<Rightarrow> f32" where
  "int_to_f32 i = round32 (i < 0) (nat \<bar>i\<bar>) 0"

definition f32_to_int :: "f32 \<Rightarrow> int option" where
  "f32_to_int x =
     (if \<not> f32_finite x then None
      else let m = (if 0 \<le> f32_q x then f32_sig x * 2 ^ nat (f32_q x) else f32_sig x div 2 ^ nat (- f32_q x))
           in Some (if f32_sign x then - int m else int m))"

text \<open>\<open>std::round\<close>: to the nearest integer, halves away from zero\<close>

definition fround :: "f32 \<Rightarrow> f32" where
  "fround x =
     (if \<not> f32_finite x then x
      else round32 (f32_sign x)
        (if 0 \<le> f32_q x then f32_sig x * 2 ^ nat (f32_q x)
         else (f32_sig x + 2 ^ nat (- f32_q x - 1)) div 2 ^ nat (- f32_q x)) 0)"

subsection \<open>Signs, comparison, minimum and maximum\<close>

definition fneg :: "f32 \<Rightarrow> f32" where "fneg x = x XOR 0x80000000"
definition fabs :: "f32 \<Rightarrow> f32" where "fabs x = x AND 0x7FFFFFFF"
definition copysign :: "f32 \<Rightarrow> f32 \<Rightarrow> f32" where "copysign x y = (x AND 0x7FFFFFFF) OR (y AND 0x80000000)"

text \<open>Numbers are ordered like this key, which the two zeros share; a NaN compares with nothing.\<close>

definition f32_key :: "f32 \<Rightarrow> int" where
  "f32_key x = (if f32_sign x then - int (f32_mag x) else int (f32_mag x))"

definition feq :: "f32 \<Rightarrow> f32 \<Rightarrow> bool" where "feq x y \<longleftrightarrow> \<not> f32_nan x \<and> \<not> f32_nan y \<and> f32_key x = f32_key y"
definition flt :: "f32 \<Rightarrow> f32 \<Rightarrow> bool" where "flt x y \<longleftrightarrow> \<not> f32_nan x \<and> \<not> f32_nan y \<and> f32_key x < f32_key y"
definition fle :: "f32 \<Rightarrow> f32 \<Rightarrow> bool" where "fle x y \<longleftrightarrow> \<not> f32_nan x \<and> \<not> f32_nan y \<and> f32_key x \<le> f32_key y"

definition fminf :: "f32 \<Rightarrow> f32 \<Rightarrow> f32" where
  "fminf x y = (if f32_nan x then y else if f32_nan y then x else if flt x y then x else y)"

definition fmaxf :: "f32 \<Rightarrow> f32 \<Rightarrow> f32" where
  "fmaxf x y = (if f32_nan x then y else if f32_nan y then x else if flt y x then x else y)"

subsection \<open>Fused multiplication and addition\<close>

text \<open>
  One rounding of the exact \<open>x * y + z\<close>. The NaN that an invalid operation or a NaN operand yields is
  the host's choice, \<open>nan x y z\<close>.
\<close>

definition with_sign :: "bool \<Rightarrow> nat \<Rightarrow> int" where
  "with_sign sign n = (if sign then - int n else int n)"

definition fma :: "(f32 \<Rightarrow> f32 \<Rightarrow> f32 \<Rightarrow> f32) \<Rightarrow> f32 \<Rightarrow> f32 \<Rightarrow> f32 \<Rightarrow> f32" where
  "fma nan x y z =
     (let sp = (f32_sign x \<noteq> f32_sign y) in
      if f32_nan x \<or> f32_nan y \<or> f32_nan z \<or> (f32_inf x \<and> f32_zero y) \<or> (f32_zero x \<and> f32_inf y)
         \<or> ((f32_inf x \<or> f32_inf y) \<and> f32_inf z \<and> sp \<noteq> f32_sign z) then nan x y z
      else if f32_inf x \<or> f32_inf y then f32_make sp 0x7F800000
      else if f32_inf z then z
      else
        let qp = f32_q x + f32_q y; q = min qp (f32_q z);
            v = with_sign sp (f32_sig x * f32_sig y * 2 ^ nat (qp - q)) + with_sign (f32_sign z) (f32_sig z * 2 ^ nat (f32_q z - q))
        in if v = 0 then f32_make (sp \<and> f32_sign z) 0
           else round32 (v < 0) (nat \<bar>v\<bar>) q)"

subsection \<open>Classification\<close>

datatype fpclass = FP_INFINITE | FP_NAN | FP_ZERO | FP_SUBNORMAL | FP_NORMAL

definition fpclassify :: "f32 \<Rightarrow> fpclass" where
  "fpclassify x =
     (if f32_nan x then FP_NAN else if f32_inf x then FP_INFINITE
      else if f32_zero x then FP_ZERO else if f32_exp x = 0 then FP_SUBNORMAL else FP_NORMAL)"

end
