(* ===== verification/RV_Float.thy ===== *)
theory RV_Float
  imports Vemu_Trap IEEE_Float
begin

text \<open>
  The handlers of the single-precision extension, \<^verbatim>\<open>src/VEmu.cpp\<close>. A register holds a \<open>double\<close>; the
  handlers convert it to \<open>float\<close> and their result back. Without \<open>SUPPORT_SOFTFLOAT\<close> every handler
  reports an illegal instruction. A conversion of a number that the integer type cannot hold is undefined
  behaviour.
\<close>

unbundle bit_operations_syntax

subsection \<open>Registers and flags\<close>

definition with_softfloat :: "config \<Rightarrow> vemu \<Rightarrow> (softfloat \<Rightarrow> outcome) \<Rightarrow> outcome" where
  "with_softfloat cfg s body = (case softfloat cfg of
       None \<Rightarrow> Inr (IllegalInstruction, s)
     | Some sf \<Rightarrow> body sf)"

abbreviation f_rs3 :: "vemu \<Rightarrow> nat" where "f_rs3 s \<equiv> unat (rs3 (get_fields (curr_instr s)))"

text \<open>\<open>static_cast<float>(fregs.load_reg(i))\<close> and \<open>fregs.store_reg(i, static_cast<double>(x))\<close>\<close>

definition freg :: "vemu \<Rightarrow> nat \<Rightarrow> f32" where
  "freg s i = narrow (fload_reg (fregs s) i)"

definition set_freg :: "nat \<Rightarrow> f32 \<Rightarrow> vemu \<Rightarrow> vemu" where
  "set_freg i x s = s\<lparr>fregs := fstore_reg (fregs s) i (widen x)\<rparr>"

definition write_frd :: "f32 \<Rightarrow> vemu \<Rightarrow> outcome" where
  "write_frd x s = Inr (NormalExecutionReturn, set_freg (f_rd s) x s)"

text \<open>\<open>if (...) csrs[FFLAGS] |= mask; else csrs[FFLAGS] &= ~mask;\<close> on an \<open>unsigned\<close> mask\<close>

definition set_fflag :: "bool \<Rightarrow> u32 \<Rightarrow> vemu \<Rightarrow> vemu" where
  "set_fflag b m s = s\<lparr>csrs := (csrs s)(FFLAGS :=
     (if b then csrs s FFLAGS OR ucast m else csrs s FFLAGS AND not32 m))\<rparr>"

definition update_float_flags :: "u8 \<Rightarrow> vemu \<Rightarrow> vemu" where
  "update_float_flags flags s =
     (let s1 = set_fflag (flags AND 1 \<noteq> 0) 0x1 s;
          s2 = set_fflag (flags AND 2 \<noteq> 0) 0x2 s1;
          s3 = set_fflag (flags AND 4 \<noteq> 0) 0x4 s2
      in set_fflag (flags AND 16 \<noteq> 0) 0x10 s3)"

subsection \<open>Memory\<close>

text \<open>The offset is the 32-bit immediate, converted to 64 bits without its sign.\<close>

definition fp_addr :: "vemu \<Rightarrow> u64" where
  "fp_addr s = ireg s (f_rs1 s) + ucast (imm (get_fields (curr_instr s)))"

definition FLW :: "config \<Rightarrow> vemu \<Rightarrow> outcome" where
  "FLW cfg s = with_softfloat cfg s (\<lambda>_.
     bind_res (vload cfg s (fp_addr s) 32) (\<lambda>(v, e, s').
     if e \<noteq> NormalExecutionReturn then Inr (e, s') else write_frd (ucast v) s'))"

definition FSW :: "config \<Rightarrow> vemu \<Rightarrow> outcome" where
  "FSW cfg s = with_softfloat cfg s (\<lambda>_.
     let a = freg s (f_rs2 s) in
     vstore cfg s (fp_addr s) (ucast a) 32)"

subsection \<open>Fused operations\<close>

definition FMADDS :: "config \<Rightarrow> vemu \<Rightarrow> outcome" where
  "FMADDS cfg s = with_softfloat cfg s (\<lambda>sf.
     write_frd (fma (fma_nan sf) (freg s (f_rs1 s)) (freg s (f_rs2 s)) (freg s (f_rs3 s))) s)"

definition FMSUBS :: "config \<Rightarrow> vemu \<Rightarrow> outcome" where
  "FMSUBS cfg s = with_softfloat cfg s (\<lambda>sf.
     write_frd (fma (fma_nan sf) (freg s (f_rs1 s)) (freg s (f_rs2 s)) (fneg (freg s (f_rs3 s)))) s)"

definition FNMSUBS :: "config \<Rightarrow> vemu \<Rightarrow> outcome" where
  "FNMSUBS cfg s = with_softfloat cfg s (\<lambda>sf.
     write_frd (fma (fma_nan sf) (fneg (freg s (f_rs1 s))) (freg s (f_rs2 s)) (fneg (freg s (f_rs3 s)))) s)"

definition FNMADDS :: "config \<Rightarrow> vemu \<Rightarrow> outcome" where
  "FNMADDS cfg s = with_softfloat cfg s (\<lambda>sf.
     write_frd (fma (fma_nan sf) (fneg (freg s (f_rs1 s))) (freg s (f_rs2 s)) (freg s (f_rs3 s))) s)"

subsection \<open>Arithmetic\<close>

text \<open>
  \<open>softfloat_exceptionFlags\<close> is zero before the call, so that afterwards it holds the flags that the
  call raises.
\<close>

definition FADDS :: "config \<Rightarrow> vemu \<Rightarrow> outcome" where
  "FADDS cfg s = with_softfloat cfg s (\<lambda>sf.
     let (res, flags) = f32_add sf (freg s (f_rs1 s)) (freg s (f_rs2 s)) in
     Inr (NormalExecutionReturn, update_float_flags flags (set_freg (f_rd s) res s)))"

definition FSUBS :: "config \<Rightarrow> vemu \<Rightarrow> outcome" where
  "FSUBS cfg s = with_softfloat cfg s (\<lambda>sf.
     let op1 = freg s (f_rs1 s); op2 = freg s (f_rs2 s);
         (res, flags) = f32_sub sf op1 op2;
         res' = (if f32_inf op1 \<and> f32_inf op2 \<and> \<not> f32_sign op1 \<and> \<not> f32_sign op2 then fabs res else res) in
     Inr (NormalExecutionReturn, update_float_flags flags (set_freg (f_rd s) res' s)))"

definition FMULS :: "config \<Rightarrow> vemu \<Rightarrow> outcome" where
  "FMULS cfg s = with_softfloat cfg s (\<lambda>sf.
     let (res, flags) = f32_mul sf (freg s (f_rs1 s)) (freg s (f_rs2 s)) in
     Inr (NormalExecutionReturn, update_float_flags flags (set_freg (f_rd s) res s)))"

definition FDIVS :: "config \<Rightarrow> vemu \<Rightarrow> outcome" where
  "FDIVS cfg s = with_softfloat cfg s (\<lambda>sf.
     let op1 = freg s (f_rs1 s); op2 = freg s (f_rs2 s);
         (res, flags) = f32_div sf op1 op2;
         s1 = update_float_flags flags (set_freg (f_rd s) res s) in
     Inr (NormalExecutionReturn, set_fflag (feq (fabs op2) 0) 0x8 s1))"

definition FSQRTS :: "config \<Rightarrow> vemu \<Rightarrow> outcome" where
  "FSQRTS cfg s = with_softfloat cfg s (\<lambda>sf. write_frd (f32_sqrt sf (freg s (f_rs1 s))) s)"

subsection \<open>Sign injection, minimum and maximum\<close>

text \<open>Both operands of these five handlers come from the field \<open>rs1\<close>.\<close>

definition FSGNJS :: "config \<Rightarrow> vemu \<Rightarrow> outcome" where
  "FSGNJS cfg s = with_softfloat cfg s (\<lambda>_.
     let op1 = freg s (f_rs1 s); op2 = freg s (f_rs1 s) in write_frd (copysign op1 op2) s)"

definition FSGNJNS :: "config \<Rightarrow> vemu \<Rightarrow> outcome" where
  "FSGNJNS cfg s = with_softfloat cfg s (\<lambda>_.
     let op1 = freg s (f_rs1 s); op2 = freg s (f_rs1 s) in write_frd (copysign op1 (fneg op2)) s)"

definition FSGNJXS :: "config \<Rightarrow> vemu \<Rightarrow> outcome" where
  "FSGNJXS cfg s = with_softfloat cfg s (\<lambda>_.
     let op1 = freg s (f_rs1 s); op2 = freg s (f_rs1 s);
         s1 = flt op1 0; s2 = flt op2 0;
         tmp = (if s1 \<noteq> s2 then 0xBF800000 else 0x3F800000)
     in write_frd (copysign op1 tmp) s)"

definition is_negative_zero :: "f64 \<Rightarrow> bool" where
  "is_negative_zero d \<longleftrightarrow> f64_mag d = 0 \<and> d \<noteq> 0"

definition is_positive_zero :: "f64 \<Rightarrow> bool" where
  "is_positive_zero d \<longleftrightarrow> f64_mag d = 0 \<and> d = 0"

definition FMINS :: "config \<Rightarrow> vemu \<Rightarrow> outcome" where
  "FMINS cfg s = with_softfloat cfg s (\<lambda>_.
     let op1 = freg s (f_rs1 s); op2 = freg s (f_rs1 s) in
     if is_positive_zero (widen op1) \<and> is_negative_zero (widen op2) then write_frd op2 s
     else if is_negative_zero (widen op1) \<and> is_positive_zero (widen op2) then write_frd op1 s
     else write_frd (fminf op1 op2) s)"

definition FMAXS :: "config \<Rightarrow> vemu \<Rightarrow> outcome" where
  "FMAXS cfg s = with_softfloat cfg s (\<lambda>_.
     let op1 = freg s (f_rs1 s); op2 = freg s (f_rs1 s) in
     if is_positive_zero (widen op1) \<and> is_negative_zero (widen op2) then write_frd op1 s
     else if is_negative_zero (widen op1) \<and> is_positive_zero (widen op2) then write_frd op2 s
     else write_frd (fmaxf op1 op2) s)"

subsection \<open>Conversions to integers\<close>

text \<open>\<open>static_cast\<close> of a \<open>float\<close> to an integer type with values \<open>lo\<close> to \<open>hi\<close>, stored in \<open>rd\<close>\<close>

definition store_converted :: "int \<Rightarrow> int \<Rightarrow> f32 \<Rightarrow> vemu \<Rightarrow> outcome" where
  "store_converted lo hi x s = (case f32_to_int x of
       None \<Rightarrow> Inl UndefinedBehaviour
     | Some i \<Rightarrow> if lo \<le> i \<and> i \<le> hi then Inr (write_rd (of_int i) s) else Inl UndefinedBehaviour)"

definition FCVTWS :: "config \<Rightarrow> vemu \<Rightarrow> outcome" where
  "FCVTWS cfg s = with_softfloat cfg s (\<lambda>_.
     store_converted (- (2 ^ 31)) (2 ^ 31 - 1) (fround (freg s (f_rs1 s))) s)"

definition FCVTWUS :: "config \<Rightarrow> vemu \<Rightarrow> outcome" where
  "FCVTWUS cfg s = with_softfloat cfg s (\<lambda>_. store_converted 0 (2 ^ 64 - 1) (fround (freg s (f_rs1 s))) s)"

definition FCVTLS :: "config \<Rightarrow> vemu \<Rightarrow> outcome" where
  "FCVTLS cfg s = with_softfloat cfg s (\<lambda>_.
     store_converted (- (2 ^ 63)) (2 ^ 63 - 1) (fround (freg s (f_rs1 s))) s)"

definition FCVTLUS :: "config \<Rightarrow> vemu \<Rightarrow> outcome" where
  "FCVTLUS cfg s = with_softfloat cfg s (\<lambda>_. store_converted 0 (2 ^ 64 - 1) (fround (freg s (f_rs1 s))) s)"

definition FMVXW :: "config \<Rightarrow> vemu \<Rightarrow> outcome" where
  "FMVXW cfg s = with_softfloat cfg s (\<lambda>_. Inr (write_rd (sext_w (freg s (f_rs1 s))) s))"

subsection \<open>Comparison and classification\<close>

definition FEQS :: "config \<Rightarrow> vemu \<Rightarrow> outcome" where
  "FEQS cfg s = with_softfloat cfg s (\<lambda>_.
     Inr (write_rd (if feq (freg s (f_rs1 s)) (freg s (f_rs2 s)) then 1 else 0) s))"

definition FLTS :: "config \<Rightarrow> vemu \<Rightarrow> outcome" where
  "FLTS cfg s = with_softfloat cfg s (\<lambda>_.
     Inr (write_rd (if flt (freg s (f_rs1 s)) (freg s (f_rs2 s)) then 1 else 0) s))"

definition FLES :: "config \<Rightarrow> vemu \<Rightarrow> outcome" where
  "FLES cfg s = with_softfloat cfg s (\<lambda>_.
     Inr (write_rd (if fle (freg s (f_rs1 s)) (freg s (f_rs2 s)) then 1 else 0) s))"

definition FCLASSS :: "config \<Rightarrow> vemu \<Rightarrow> outcome" where
  "FCLASSS cfg s = with_softfloat cfg s (\<lambda>_.
     let op1 = freg s (f_rs1 s); sign = f32_sign op1;
         res = (case fpclassify op1 of
             FP_INFINITE \<Rightarrow> (if sign then 0 else 7)
           | FP_NORMAL \<Rightarrow> (if sign then 1 else 6)
           | FP_SUBNORMAL \<Rightarrow> (if sign then 2 else 5)
           | FP_ZERO \<Rightarrow> (if sign then 3 else 4)
           | FP_NAN \<Rightarrow> 9)
     in Inr (write_rd res s))"

subsection \<open>Conversions from integers\<close>

definition FCVTSW :: "config \<Rightarrow> vemu \<Rightarrow> outcome" where
  "FCVTSW cfg s = with_softfloat cfg s (\<lambda>_.
     let op1 = ucast (ireg s (f_rs1 s)) :: u32 in write_frd (int_to_f32 (sint op1)) s)"

definition FCVTSWU :: "config \<Rightarrow> vemu \<Rightarrow> outcome" where
  "FCVTSWU cfg s = with_softfloat cfg s (\<lambda>_.
     let op1 = ucast (ireg s (f_rs1 s)) :: u32 in write_frd (int_to_f32 (uint op1)) s)"

definition FCVTSL :: "config \<Rightarrow> vemu \<Rightarrow> outcome" where
  "FCVTSL cfg s = with_softfloat cfg s (\<lambda>_.
     let op1 = ucast (ireg s (f_rs1 s)) :: u32 in write_frd (int_to_f32 (sint op1)) s)"

definition FCVTSLU :: "config \<Rightarrow> vemu \<Rightarrow> outcome" where
  "FCVTSLU cfg s = with_softfloat cfg s (\<lambda>_.
     let op1 = ucast (ireg s (f_rs1 s)) :: u32 in write_frd (int_to_f32 (uint op1)) s)"

definition FMVWX :: "config \<Rightarrow> vemu \<Rightarrow> outcome" where
  "FMVWX cfg s = with_softfloat cfg s (\<lambda>_. write_frd (ucast (ireg s (f_rs1 s))) s)"

lemmas float_defs = FLW_def FSW_def FMADDS_def FMSUBS_def FNMSUBS_def FNMADDS_def FADDS_def FSUBS_def FMULS_def FDIVS_def
  FSQRTS_def FSGNJS_def FSGNJNS_def FSGNJXS_def FMINS_def FMAXS_def FCVTWS_def FCVTWUS_def FCVTLS_def FCVTLUS_def
  FMVXW_def FEQS_def FLTS_def FLES_def FCLASSS_def FCVTSW_def FCVTSWU_def FCVTSL_def FCVTSLU_def FMVWX_def

end
