(* ===== verification/Vemu_Syscalls.thy ===== *)
theory Vemu_Syscalls
  imports RV_System "HOL-Library.Signed_Division"
begin

text \<open>
  The handler of \<open>ECALL\<close> in the three builds: the system calls that the fuzzing build emulates, the
  end of a test in the testing build, and an environment-call exception otherwise. Each system call
  is one definition; \<open>None\<close> of a search loop is its end without a hit.
\<close>

unbundle bit_operations_syntax

subsection \<open>Searching the file table\<close>

fun update_first :: "('a \<Rightarrow> bool) \<Rightarrow> 'a \<Rightarrow> 'a list \<Rightarrow> 'a list" where
  "update_first P y [] = []"
| "update_first P y (x # xs) = (if P x then y # xs else x # update_first P y xs)"

fun erase_first :: "('a \<Rightarrow> bool) \<Rightarrow> 'a list \<Rightarrow> 'a list" where
  "erase_first P [] = []"
| "erase_first P (x # xs) = (if P x then xs else x # erase_first P xs)"

subsection \<open>System calls\<close>

definition sys_brk :: "vemu \<Rightarrow> vemu res" where
  "sys_brk s =
     (let addr = ireg s REG_A0;
          increment = (if addr = 0 then 0 else addr - alloc_ptr (get_mmu s)) in
      if increment <s 0 then Inr (set_ireg REG_A0 (- 1) s)
      else bind_res (mmu_allocate increment s) (\<lambda>(ret_base, s').
           Inr (set_ireg REG_A0 (ret_base + increment) s')))"

text \<open>\<open>VERBOSE_OUTPUT\<close> is false.\<close>

definition sys_write :: "vemu \<Rightarrow> vemu" where
  "sys_write s = set_ireg REG_A0 (ireg s REG_A2) s"

text \<open>
  The string read from the guest ends with its null character; \<open>c_str\<close> and \<open>strcpy\<close> stop there.
  The buffer has one byte more than the file, a null. The fuel is one more than the bytes of the
  memory, which is enough for every string that ends.
\<close>

definition sys_open :: "config \<Rightarrow> vemu \<Rightarrow> vemu res" where
  "sys_open cfg s =
     (let pname = ireg s REG_A0; flags = ireg s REG_A1; m = get_mmu s in
      case read_null_terminated_string (Suc (unat (mmu_ram_size m))) m pname of
        None \<Rightarrow> Inl UndefinedBehaviour
      | Some r \<Rightarrow>
          bind_res r (\<lambda>p.
          let s1 = s\<lparr>opened := Suc (opened s)\<rparr> in
          case host_open cfg (opened s) (butlast p) (ucast flags) of
            None \<Rightarrow> Inl AssertionFailure
          | Some (fd, content) \<Rightarrow>
              bind_res (assert_res (fd \<noteq> - 1)) (\<lambda>_.
              let fh = \<lparr>fh_data = Some (content @ [0]), pathname = Some (butlast p), fh_fd = fd,
                        fh_len = of_nat (length content), fh_idx = 0, fh_type = DiskFile\<rparr>
              in Inr (set_ireg REG_A0 (scast fd) (s1\<lparr>file_table := file_table s1 @ [fh]\<rparr>)))))"

definition sys_close :: "vemu \<Rightarrow> vemu" where
  "sys_close s =
     (let fd = ucast (ireg s REG_A0) :: u32 in
      if list_ex (\<lambda>fh. fh_fd fh = fd) (file_table s)
      then s\<lparr>file_table := erase_first (\<lambda>fh. fh_fd fh = fd) (file_table s)\<rparr>
      else exit_emu 12 s)"

definition sys_exit :: "vemu \<Rightarrow> vemu" where
  "sys_exit s =
     (let code = ucast (ireg s REG_A0) :: u32;
          s1 = (if code = 11 then s\<lparr>console := console s @ [CrashDetected]\<rparr> else s)
      in exit_emu (of_int (sint code smod 255)) s1)"

text \<open>The bytes of \<open>struct riscv_stat\<close>; the padding and the nanosecond fields are not assigned.\<close>

definition stat_bytes :: "config \<Rightarrow> u64 \<Rightarrow> u64 \<Rightarrow> u8 list" where
  "stat_bytes cfg fd len =
     (let t = fd = 1; indet = (\<lambda>off n. map (stack_byte cfg) [off..<off + n]);
          blksize = if t then 0x400 else 0x1000 in
      le_bytes 8 (if t then 0x18 else 0x802) @ le_bytes 8 (if t then 0x3 else 0x22068c)
      @ le_bytes 4 (if t then 0x2190 else 0x81fd) @ le_bytes 4 1 @ le_bytes 4 0x3e8
      @ le_bytes 4 (if t then 0x5 else 0x3e8) @ le_bytes 8 (if t then 0x8800 else 0) @ indet 40 8
      @ le_bytes 8 (if t then 0 else len) @ le_bytes 4 blksize @ indet 60 4
      @ le_bytes 8 (if t then 0 else len div blksize) @ le_bytes 8 0x6440824f @ indet 80 8
      @ le_bytes 8 0x6440824a @ indet 96 8 @ le_bytes 8 0x6440824a @ indet 112 8 @ indet 120 8)"

definition sys_fstat :: "config \<Rightarrow> vemu \<Rightarrow> vemu res" where
  "sys_fstat cfg s =
     (let fd = ireg s REG_A0; statbuf = ireg s REG_A1 in
      bind_res (assert_res (list_ex (\<lambda>fh. fh_fd fh = ucast fd) (file_table s))) (\<lambda>_.
      bind_res (write_from (get_mmu s) (stat_bytes cfg fd (fh_len (last (file_table s)))) statbuf) (\<lambda>m.
      Inr (set_ireg REG_A0 0 (set_mmu m s)))))"

text \<open>\<open>SEEK_SET\<close>, \<open>SEEK_CUR\<close> and \<open>SEEK_END\<close> are 0, 1 and 2.\<close>

definition sys_lseek :: "vemu \<Rightarrow> vemu res" where
  "sys_lseek s =
     (let file = ireg s REG_A0; offset = ireg s REG_A1; whence = ireg s REG_A2 in
      case List.find (\<lambda>fh. scast (fh_fd fh) = file) (file_table s) of
        None \<Rightarrow> Inr (set_ireg REG_A0 (- 1) s)
      | Some fh \<Rightarrow>
          bind_res (if whence = 0 then Inr offset
                    else if whence = 1 then Inr (fh_idx fh + offset)
                    else if whence = 2 then Inr (fh_len fh + offset)
                    else Inl AssertionFailure) (\<lambda>idx.
          Inr (set_ireg REG_A0 idx (s\<lparr>file_table :=
                 update_first (\<lambda>fh. scast (fh_fd fh) = file) (fh\<lparr>fh_idx := idx\<rparr>) (file_table s)\<rparr>))))"

text \<open>The bytes from \<open>idx\<close> on of the buffer, if they lie inside it.\<close>

definition buffer_slice :: "u8 list option \<Rightarrow> u64 \<Rightarrow> u64 \<Rightarrow> u8 list res" where
  "buffer_slice data idx count = (case data of
       None \<Rightarrow> Inl UndefinedBehaviour
     | Some bs \<Rightarrow>
         bind_res (defined_res (unat idx + unat count \<le> length bs)) (\<lambda>_.
         Inr (take (unat count) (drop (unat idx) bs))))"

text \<open>
  What a read takes from a handle: the bytes, none at the end of the file, and the handle with its
  position advanced.
\<close>

definition fh_read :: "FileHandle \<Rightarrow> u64 \<Rightarrow> (u8 list \<times> FileHandle) res" where
  "fh_read fh count =
     (let n = (if fh_len fh \<le> fh_idx fh + count then fh_len fh - fh_idx fh else count) in
      if n = 0 then Inr ([], fh)
      else bind_res (buffer_slice (fh_data fh) (fh_idx fh) n) (\<lambda>data.
           Inr (data, fh\<lparr>fh_idx := fh_idx fh + n\<rparr>)))"

definition sys_read :: "vemu \<Rightarrow> vemu res" where
  "sys_read s =
     (let fd = ireg s REG_A0; buf = ireg s REG_A1; count = ireg s REG_A2 in
      case List.find (\<lambda>fh. scast (fh_fd fh) = fd) (file_table s) of
        None \<Rightarrow> Inl AssertionFailure
      | Some fh \<Rightarrow>
          bind_res (fh_read fh count) (\<lambda>(data, fh').
          if data = [] then Inr s
          else let s1 = s\<lparr>file_table := update_first (\<lambda>fh. scast (fh_fd fh) = fd) fh' (file_table s)\<rparr> in
               bind_res (write_from (get_mmu s1) data buf) (\<lambda>m.
               Inr (set_ireg REG_A0 (of_nat (length data)) (set_mmu m s1)))))"

subsection \<open>The handler\<close>

definition ECALL_fuzz :: "config \<Rightarrow> vemu \<Rightarrow> outcome" where
  "ECALL_fuzz cfg s =
     (let nr = ireg s REG_A7 in
      bind_res
        (if nr = SYSCALL_NR_BRK then sys_brk s
         else if nr = SYSCALL_NR_WRITE then Inr (sys_write s)
         else if nr = SYSCALL_NR_OPEN then sys_open cfg s
         else if nr = SYSCALL_NR_CLOSE then Inr (sys_close s)
         else if nr = SYSCALL_NR_EXIT then Inr (sys_exit s)
         else if nr = SYSCALL_NR_FSTAT then sys_fstat cfg s
         else if nr = SYSCALL_NR_LSEEK then sys_lseek s
         else if nr = SYSCALL_NR_READ then sys_read s
         else Inl ExitFailure)
        (\<lambda>s'. Inr (NormalExecutionReturn, s')))"

definition ECALL_test :: "vemu \<Rightarrow> ReturnException \<times> vemu" where
  "ECALL_test s =
     (let s1 = (if ireg s REG_A0 = 0 then s\<lparr>console := console s @ [Passed]\<rparr>
                else s\<lparr>console := console s @ [FailedTest (signed_drop_bit 1 (ireg s REG_GP))]\<rparr>)
      in (NormalExecutionReturn, s1\<lparr>test_flag_done := True\<rparr>))"

definition ECALL_emu :: "vemu \<Rightarrow> ReturnException \<times> vemu" where
  "ECALL_emu s = (case mode s of
       User \<Rightarrow> (EnvironmentCallFromUserMode, s)
     | Supervisor \<Rightarrow> (EnvironmentCallFromSupervisorMode, s)
     | Machine \<Rightarrow> (EnvironmentCallFromMachineMode, s))"

definition ECALL :: "config \<Rightarrow> vemu \<Rightarrow> outcome" where
  "ECALL cfg s = (case build cfg of
       FUZZ_ENV \<Rightarrow> ECALL_fuzz cfg s
     | TEST_ENV \<Rightarrow> Inr (ECALL_test s)
     | EMU_ENV \<Rightarrow> Inr (ECALL_emu s))"

end
