(* ===== verification/Vemu_Run.thy ===== *)
theory Vemu_Run
  imports RV_Spec RV_Atomic RV_Float Vemu_Syscalls
begin

text \<open>
  The table of handlers and the run loop of \<^verbatim>\<open>src/VEmu.cpp\<close>: fetch, decode, dispatch, trap.
  \<open>run_iteration\<close> is one iteration of the loop; \<open>run\<close> iterates it, with a bound on the number of
  iterations, since the emulated program need not end; \<open>step\<close> and \<open>reachable\<close> are the same
  loop as a relation.
\<close>

unbundle bit_operations_syntax

subsection \<open>The table of handlers\<close>

definition pure_op :: "(vemu \<Rightarrow> ReturnException \<times> vemu) \<Rightarrow> vemu \<Rightarrow> outcome" where
  "pure_op h s = Inr (h s)"

definition func_rows :: "config \<Rightarrow> (IName \<times> (vemu \<Rightarrow> outcome)) list" where
  "func_rows cfg = [
    (iLB, LB cfg), (iLH, LH cfg), (iLW, LW cfg), (iLBU, LBU cfg), (iLHU, LHU cfg), (iLD, LD cfg),
    (iLWU, LWU cfg), (iADDI, pure_op ADDI), (iADDIW, pure_op ADDIW), (iSLTI, pure_op SLTI),
    (iSLTIU, pure_op SLTIU), (iXORI, pure_op XORI), (iORI, pure_op ORI), (iOR, pure_op OR_op),
    (iANDI, pure_op ANDI), (iAND, pure_op AND_op), (iSLLI, pure_op SLLI), (iSRLI, pure_op SRLI),
    (iSRA, pure_op SRA), (iSRAI, pure_op SRAI), (iSLLIW, pure_op SLLIW), (iSRLIW, pure_op SRLIW),
    (iSRAIW, pure_op SRAIW), (iSRAW, pure_op SRAW), (iSRLW, pure_op SRLW),
    (iFENCE, pure_op FENCE), (iFENCEI, pure_op FENCEI), (iECALL, ECALL cfg),
    (iEBREAK, pure_op EBREAK), (iCSRRW, pure_op CSRRW), (iCSRRS, pure_op CSRRS),
    (iCSRRC, pure_op CSRRC), (iCSRRWI, pure_op CSRRWI), (iCSRRSI, pure_op CSRRSI),
    (iCSRRCI, pure_op CSRRCI), (iBEQ, pure_op BEQ), (iBNE, pure_op BNE), (iBLT, pure_op BLT),
    (iBGE, pure_op BGE), (iBLTU, pure_op BLTU), (iBGEU, pure_op BGEU), (iSB, SB cfg),
    (iSH, SH cfg), (iSW, SW cfg), (iSD, SD cfg), (iADD, pure_op ADD), (iADDW, pure_op ADDW),
    (iSUB, pure_op SUB), (iSUBW, pure_op SUBW), (iSLL, pure_op SLL), (iSLLW, pure_op SLLW),
    (iSLT, pure_op SLT), (iSLTU, pure_op SLTU), (iXOR, pure_op XOR_op), (iSRL, pure_op SRL),
    (iSRLW, pure_op SRLW), (iLUI, pure_op LUI), (iAUIPC, pure_op AUIPC), (iJAL, pure_op JAL),
    (iJALR, pure_op JALR), (iMUL, pure_op MUL), (iMULH, pure_op MULH), (iMULHSU, pure_op MULHSU),
    (iMULHU, pure_op MULHU), (iDIV, pure_op DIV), (iDIVU, pure_op DIVU), (iREM, pure_op REM),
    (iREMU, pure_op REMU), (iMULW, pure_op MULW), (iDIVW, pure_op DIVW), (iDIVUW, pure_op DIVUW),
    (iREMW, pure_op REMW), (iREMUW, pure_op REMUW), (iAMOSWAPW, AMOSWAPW cfg),
    (iAMOADDW, AMOADDW cfg), (iAMOXORW, AMOXORW cfg), (iAMOANDW, AMOANDW cfg),
    (iAMOORW, AMOORW cfg), (iAMOMINW, AMOMINW cfg), (iAMOMAXW, AMOMAXW cfg),
    (iAMOMINUW, AMOMINUW cfg), (iAMOMAXUW, AMOMAXUW cfg), (iLRW, LRW cfg), (iSCW, SCW cfg),
    (iAMOSWAPD, AMOSWAPD cfg), (iAMOADDD, AMOADDD cfg), (iAMOXORD, AMOXORD cfg),
    (iAMOANDD, AMOANDD cfg), (iAMOORD, AMOORD cfg), (iAMOMIND, AMOMIND cfg),
    (iAMOMAXD, AMOMAXD cfg), (iAMOMINUD, AMOMINUD cfg), (iAMOMAXUD, AMOMAXUD cfg),
    (iLRD, LRD cfg), (iSCD, SCD cfg), (iMRET, MRET), (iSRET, pure_op SRET),
    (iFLW, FLW cfg), (iFSW, FSW cfg),
    (iFMADDS, FMADDS cfg), (iFMSUBS, FMSUBS cfg),
    (iFNMSUBS, FNMSUBS cfg), (iFNMADDS, FNMADDS cfg),
    (iFADDS, FADDS cfg), (iFSUBS, FSUBS cfg),
    (iFMULS, FMULS cfg), (iFDIVS, FDIVS cfg),
    (iFSGNJS, FSGNJS cfg), (iFSGNJNS, FSGNJNS cfg),
    (iFSGNJXS, FSGNJXS cfg), (iFMINS, FMINS cfg),
    (iFMAXS, FMAXS cfg), (iFCVTWS, FCVTWS cfg),
    (iFCVTWUS, FCVTWUS cfg), (iFMVXW, FMVXW cfg),
    (iFEQS, FEQS cfg), (iFLTS, FLTS cfg),
    (iFLES, FLES cfg), (iFCVTSW, FCVTSW cfg),
    (iFCVTSWU, FCVTSWU cfg), (iFMVWX, FMVWX cfg),
    (iFCVTLS, FCVTLS cfg), (iFCVTLUS, FCVTLUS cfg),
    (iFCVTSL, FCVTSL cfg), (iFCVTSLU, FCVTSLU cfg),
    (iFCLASSS, FCLASSS cfg), (iXXX, pure_op XXX)]"

definition inst_funcs :: "config \<Rightarrow> (IName \<times> (vemu \<Rightarrow> outcome)) list" where
  "inst_funcs cfg = map_init (func_rows cfg)"

text \<open>
  \<open>inst_funcs[instr_iname](this)\<close>: a missing key inserts an empty function, and calling it throws.
\<close>

definition dispatch :: "config \<Rightarrow> IName \<Rightarrow> vemu \<Rightarrow> outcome" where
  "dispatch cfg n s =
     (if inst_funcs_set s
      then case map_of (inst_funcs cfg) n of None \<Rightarrow> Inl BadFunctionCall | Some h \<Rightarrow> h s
      else Inl BadFunctionCall)"

subsection \<open>The run loop\<close>

datatype progress = Returned u32 | Running

definition interrupts :: "config \<Rightarrow> vemu \<Rightarrow> vemu res" where
  "interrupts cfg s =
     (if build cfg = FUZZ_ENV then Inr s
      else bind_res (check_pending_interrupt cfg s) (\<lambda>(i, s').
           Inr (if i \<noteq> NoInterrupt then take_interrupt cfg i s' else s')))"

text \<open>\<open>if (e != NormalExecutionReturn) trap(e); if (is_fatal(e)) exit_fatally(e);\<close>\<close>

definition after :: "config \<Rightarrow> ReturnException \<Rightarrow> vemu \<Rightarrow> vemu res" where
  "after cfg e s =
     (let s' = (if e \<noteq> NormalExecutionReturn then trap cfg e s else s) in
      if is_fatal e then exit_fatally e s' else Inr s')"

definition fetch :: "config \<Rightarrow> vemu \<Rightarrow> vemu res" where
  "fetch cfg s =
     bind_res (get_4byte_aligned_instr cfg s (pc s)) (\<lambda>(w, e, s1).
     bind_res (after cfg e s1) (\<lambda>s2. Inr (s2\<lparr>hex_instr := w\<rparr>)))"

definition decode_current :: "vemu \<Rightarrow> vemu res" where
  "decode_current s =
     bind_res (decode (decoder s) (hex_instr s)) (\<lambda>(i, d).
     Inr (s\<lparr>curr_instr := i, decoder := d\<rparr>))"

definition execute :: "config \<Rightarrow> vemu \<Rightarrow> vemu res" where
  "execute cfg s =
     bind_res (dispatch cfg (get_name (curr_instr s)) s) (\<lambda>(ret, s1). after cfg ret s1)"

definition run_iteration :: "config \<Rightarrow> vemu \<Rightarrow> (progress \<times> vemu) res" where
  "run_iteration cfg s =
     (if has_exited s then Inr (Returned (ucast (exit_code s)), s)
      else
        bind_res (interrupts cfg s) (\<lambda>s1.
        if build cfg = TEST_ENV \<and> test_flag_done s1 then Inr (Returned 0, s1)
        else
          bind_res (fetch cfg s1) (\<lambda>s2.
          bind_res (decode_current s2) (\<lambda>s3.
          bind_res (execute cfg s3) (\<lambda>s4.
          Inr (Running, s4\<lparr>pc := pc s4 + 4\<rparr>))))))"

fun run :: "nat \<Rightarrow> config \<Rightarrow> vemu \<Rightarrow> (u32 \<times> vemu) res option" where
  "run 0 cfg s = None"
| "run (Suc fuel) cfg s = (case run_iteration cfg s of
      Inl e \<Rightarrow> Some (Inl e)
    | Inr (Returned code, s') \<Rightarrow> Some (Inr (code, s'))
    | Inr (Running, s') \<Rightarrow> run fuel cfg s')"

inductive step :: "config \<Rightarrow> vemu \<Rightarrow> vemu \<Rightarrow> bool" for cfg where
  step: "run_iteration cfg s = Inr (Running, s') \<Longrightarrow> step cfg s s'"

inductive reachable :: "config \<Rightarrow> vemu \<Rightarrow> vemu \<Rightarrow> bool" for cfg s0 where
  start: "reachable cfg s0 s0"
| next_step: "reachable cfg s0 s \<Longrightarrow> step cfg s s' \<Longrightarrow> reachable cfg s0 s'"

inductive_simps step_iff: "step cfg s s'"

end
