(* ===== verification/Vemu_Invariant.thy ===== *)
theory Vemu_Invariant
  imports Vemu_Run Memory_Reset
begin

text \<open>
  An invariant of the machine and its preservation. The locale \<open>machine_invariant\<close> lists what a
  property of the state must be stable under, the primitive updates that the handlers are built
  from, and concludes that every handler, the trap mechanism and the run loop keep it and stop the
  process only in the ways allowed. Its interpretation is the well-formedness \<open>emu_ok\<close> of the
  emulator.
\<close>

unbundle bit_operations_syntax

subsection \<open>Operations that keep an invariant\<close>

text \<open>
  \<open>keeps I A r\<close>: the result \<open>r\<close> is a state with \<open>I\<close> (and whatever else the operation returns),
  or an abort in \<open>A\<close>.
\<close>

definition keeps :: "(vemu \<Rightarrow> bool) \<Rightarrow> abort set \<Rightarrow> ('a \<times> vemu) res \<Rightarrow> bool" where
  "keeps I A r \<longleftrightarrow> (case r of Inl a \<Rightarrow> a \<in> A | Inr (x, s) \<Rightarrow> I s)"

lemma keeps_Inr [simp]: "keeps I A (Inr (x, s)) \<longleftrightarrow> I s"
  by (simp add: keeps_def)

lemma keeps_Inr_pair: "I (snd p) \<Longrightarrow> keeps I A (Inr p)"
  by (cases p) simp

lemma keeps_Inl [simp]: "keeps I A (Inl a) \<longleftrightarrow> a \<in> A"
  by (simp add: keeps_def)

lemma keeps_bind:
  assumes "keeps I A r" "\<And>x s. r = Inr (x, s) \<Longrightarrow> I s \<Longrightarrow> keeps I A (f (x, s))"
  shows "keeps I A (bind_res r f)"
  using assms by (cases r) (auto simp: keeps_def)

text \<open>The same for an operation that returns the state alone.\<close>

definition keeps_state :: "(vemu \<Rightarrow> bool) \<Rightarrow> abort set \<Rightarrow> vemu res \<Rightarrow> bool" where
  "keeps_state I A r \<longleftrightarrow> (case r of Inl a \<Rightarrow> a \<in> A | Inr s \<Rightarrow> I s)"

lemma keeps_state_simps [simp]:
  "keeps_state I A (Inr s) \<longleftrightarrow> I s" "keeps_state I A (Inl a) \<longleftrightarrow> a \<in> A"
  by (simp_all add: keeps_state_def)

lemma keeps_state_bind:
  assumes "keeps I A r" "\<And>x s. I s \<Longrightarrow> keeps_state I A (f (x, s))"
  shows "keeps_state I A (bind_res r f)"
  using assms by (cases r) (auto simp: keeps_def)

lemma keeps_state_then:
  assumes "keeps_state I A r" "\<And>s. I s \<Longrightarrow> keeps I A (f s)"
  shows "keeps I A (bind_res r f)"
  using assms by (cases r) auto

lemma keeps_mono: "keeps I A r \<Longrightarrow> A \<subseteq> B \<Longrightarrow> keeps I B r"
  by (auto simp: keeps_def split: sum.splits)

subsection \<open>How decoding can fail\<close>

lemma map_at_abort: "map_at m k = Inl e \<Longrightarrow> e = OutOfRange"
  by (simp add: map_at_def split: option.splits)

lemma table_access_abort:
  "get_opcode n t = Inl e \<Longrightarrow> e = OutOfRange"
  "named_instr t n f = Inl e \<Longrightarrow> e = OutOfRange"
  "get_i_funct6 n = Inl e \<Longrightarrow> e = OutOfRange" "get_i_funct7 n = Inl e \<Longrightarrow> e = OutOfRange"
  by (auto simp: get_opcode_def named_instr_def get_string_name_def get_i_funct6_def get_i_funct7_def
      bind_res_eq_Inl dest: map_at_abort split: itype.splits if_splits)

lemmas access_abort = map_at_abort table_access_abort

lemma decode_loops_abort:
  "decode_r_loop f xs = Inl e \<Longrightarrow> e = OutOfRange"
  "decode_fp_with_f3_loop f xs = Inl e \<Longrightarrow> e = OutOfRange"
  "decode_fp_without_f3_loop f xs = Inl e \<Longrightarrow> e = OutOfRange"
  "decode_r4_loop f xs = Inl e \<Longrightarrow> e = OutOfRange"
  "decode_i_loop f xs = Inl e \<Longrightarrow> e = OutOfRange"
  "decode_f3_loop t f xs = Inl e \<Longrightarrow> e = OutOfRange"
  "decode_op_loop t f xs = Inl e \<Longrightarrow> e = OutOfRange"
  by (induction xs) (auto simp: bind_res_eq_Inl dest: access_abort split: if_splits)

lemma decode_spec_abort_kind: "decode_spec w = Inl e \<Longrightarrow> e = OutOfRange"
  by (auto simp: decode_spec_def decode_format_def bind_res_eq_Inl
      dest: decode_loops_abort table_access_abort split: itype.splits if_splits)

lemma decode_abort_kind: "decoder_ok d \<Longrightarrow> decode d w = Inl e \<Longrightarrow> e = OutOfRange"
  by (rule decode_spec_abort_kind) (rule decode_correct(2))

subsection \<open>Handlers and traps\<close>

text \<open>
  A build that can stop at undefined behaviour only if \<open>A\<close> allows it: the fetch of the other builds is
  unchecked, and the floating-point conversions are undefined on numbers out of range.
\<close>

definition harmless :: "config \<Rightarrow> abort set \<Rightarrow> bool" where
  "harmless cfg A \<longleftrightarrow> UndefinedBehaviour \<in> A \<or> (build cfg = TEST_ENV \<and> softfloat cfg = None)"

locale machine_invariant =
  fixes I :: "vemu \<Rightarrow> bool" and A :: "abort set"
  assumes set_ireg: "I s \<Longrightarrow> I (set_ireg i v s)"
    and set_pc: "I s \<Longrightarrow> I (s\<lparr>pc := p\<rparr>)"
    and set_mode: "I s \<Longrightarrow> I (s\<lparr>mode := md\<rparr>)"
    and set_csrs: "I s \<Longrightarrow> I (s\<lparr>csrs := c\<rparr>)"
    and set_fregs: "I s \<Longrightarrow> I (s\<lparr>fregs := fr\<rparr>)"
    and set_console: "I s \<Longrightarrow> I (s\<lparr>console := ms\<rparr>)"
    and set_test_flag: "I s \<Longrightarrow> I (s\<lparr>test_flag_done := b\<rparr>)"
    and load_keeps: "I s \<Longrightarrow> vload cfg s a sz = Inr (v, e, s') \<Longrightarrow> I s'"
    and load_abort: "I s \<Longrightarrow> vload cfg s a sz = Inl x \<Longrightarrow> x \<in> A"
    and store_keeps: "I s \<Longrightarrow> keeps I A (vstore cfg s a w sz)"
    and assertion: "AssertionFailure \<in> A"
begin

lemma csr: "I s \<Longrightarrow> I (store_csr a v s)"
  by (simp add: store_csr_def Let_def set_csrs)

lemma write_rd: "I s \<Longrightarrow> I (snd (write_rd v s))"
  by (simp add: write_rd_def set_ireg)

lemma vload_cases:
  assumes "I s"
  obtains x where "vload cfg s a sz = Inl x" "x \<in> A"
  | v e s' where "vload cfg s a sz = Inr (v, e, s')" "I s'"
  using load_abort [OF assms, of cfg a sz] load_keeps [OF assms, of cfg a sz]
  by (cases "vload cfg s a sz") auto

lemma vload_bind:
  assumes "I s" "\<And>v e s'. I s' \<Longrightarrow> keeps I A (f (v, e, s'))"
  shows "keeps I A (bind_res (vload cfg s a sz) f)"
  using assms(2) by (rule_tac vload_cases [OF assms(1), of cfg a sz]) auto

lemma vstore_bind:
  assumes "I s" "\<And>e s'. I s' \<Longrightarrow> keeps I A (f (e, s'))"
  shows "keeps I A (bind_res (vstore cfg s a w sz) f)"
  by (rule keeps_bind [OF store_keeps [OF assms(1)]]) (rule assms(2))

lemma loads:
  assumes "I s"
  shows "keeps I A (load_instr sz cfg s)" "keeps I A (LBU cfg s)" "keeps I A (LHU cfg s)"
    "keeps I A (LWU cfg s)" "keeps I A (LD cfg s)"
    "keeps I A (LB cfg s)" "keeps I A (LH cfg s)" "keeps I A (LW cfg s)"
proof -
  show load: "keeps I A (load_instr sz cfg s)" for sz
    unfolding load_instr_def Let_def
    by (rule vload_bind [OF assms]) (simp add: keeps_Inr_pair write_rd)
  then show u: "keeps I A (LBU cfg s)" "keeps I A (LHU cfg s)" "keeps I A (LWU cfg s)"
    "keeps I A (LD cfg s)" by (simp_all add: LBU_def LHU_def LWU_def LD_def)
  show "keeps I A (LB cfg s)" unfolding LB_def
    by (rule keeps_bind [OF u(1)]) (simp add: keeps_Inr_pair write_rd)
  show "keeps I A (LH cfg s)" unfolding LH_def
    by (rule keeps_bind [OF u(2)]) (simp add: keeps_Inr_pair write_rd)
  show "keeps I A (LW cfg s)" unfolding LW_def
    by (rule keeps_bind [OF u(3)]) (simp add: keeps_Inr_pair write_rd)
qed

lemma stores:
  assumes "I s"
  shows "keeps I A (SB cfg s)" "keeps I A (SH cfg s)" "keeps I A (SW cfg s)" "keeps I A (SD cfg s)"
  by (simp_all add: SB_def SH_def SW_def SD_def store_keeps [OF assms])

lemma amo:
  assumes "I s"
  shows "keeps I A (amo sz comb res cfg s)"
proof -
  have "keeps I A (bind_res (vstore cfg t a w sz) (\<lambda>(e', s2).
      if e' \<noteq> NormalExecutionReturn then Inr (e', s2) else Inr (RV_Base.write_rd v s2)))"
    if "I t" for t a w v
    by (rule vstore_bind [OF that]) (simp add: keeps_Inr_pair write_rd)
  then show ?thesis
    unfolding amo_def Let_def using assms by (auto intro!: vload_bind)
qed

lemma reserved:
  assumes "I s"
  shows "keeps I A (LRW cfg s)" "keeps I A (LRD cfg s)" "keeps I A (SCW cfg s)" "keeps I A (SCD cfg s)"
  unfolding LRW_def LRD_def SCW_def SCD_def Let_def
  using assms by (auto intro!: vload_bind vstore_bind simp: keeps_Inr_pair write_rd set_ireg)

lemma branch: "I s \<Longrightarrow> I (snd (branch_if c s))"
  by (simp add: branch_if_def set_pc)

lemma flag: "I s \<Longrightarrow> I (flag_div_by_zero s)"
  by (simp add: flag_div_by_zero_def set_csrs)

lemma base_pure:
  assumes "I s"
  shows "I (snd (JAL s))" "I (snd (JALR s))" "I (snd (XXX s))"
  by (simp_all add: JAL_def JALR_def XXX_def Let_def set_pc set_ireg set_console assms)

lemma division:
  assumes "I s"
  shows "I (snd (DIV s))" "I (snd (DIVU s))" "I (snd (DIVW s))" "I (snd (DIVUW s))"
    "I (snd (REM s))" "I (snd (REMU s))" "I (snd (REMW s))" "I (snd (REMUW s))"
  by (simp_all add: mul_defs Let_def write_rd flag assms)

lemma MRET: "I s \<Longrightarrow> keeps I A (MRET s)"
  unfolding MRET_def Let_def
  by (auto simp: bind_res_def assertion set_pc set_mode csr split: if_splits)

lemma SRET: "I s \<Longrightarrow> I (snd (SRET s))"
  unfolding SRET_def Let_def by (auto simp: set_pc set_mode csr)

lemma enter: "I s \<Longrightarrow> I (enter_supervisor t p c md s)" "I s \<Longrightarrow> I (enter_machine t p c md s)"
proof -
  assume "I s"
  then have s: "I (s\<lparr>mode := md', pc := p'\<rparr>)" for md' p'
    by (simp add: set_mode set_pc)
  show "I (enter_supervisor t p c md s)" unfolding enter_supervisor_def Let_def
    by (auto intro!: csr s)
  show "I (enter_machine t p c md s)" unfolding enter_machine_def Let_def
    by (cases md) (auto intro!: csr s)
qed

lemma trap: "I s \<Longrightarrow> I (trap cfg e s)"
  by (simp add: trap_def Let_def enter)

lemma take_interrupt: "I s \<Longrightarrow> I (take_interrupt cfg i s)"
  by (simp add: take_interrupt_def Let_def enter)

lemma alu:
  assumes "I s"
  shows "\<forall>h \<in> set [ADDI, ADDIW, SLTI, SLTIU, XORI, ORI, ANDI, SLLI, SRLI, SRAI, SLLIW, SRLIW, SRAIW,
    ADD, ADDW, SUB, SUBW, SLL, SLLW, SLT, SLTU, XOR_op, SRL, SRLW, SRA, SRAW, OR_op, AND_op, LUI, AUIPC,
    MUL, MULW, MULH, MULHU, MULHSU]. I (snd (h s))"
  by (simp add: base_pure_defs mul_defs Let_def write_rd assms)

lemma branches:
  assumes "I s"
  shows "\<forall>h \<in> set [BEQ, BNE, BLT, BGE, BLTU, BGEU]. I (snd (h s))"
  by (simp add: base_pure_defs branch assms)

lemma csr_access:
  assumes "I s"
  shows "\<forall>h \<in> set [CSRRW, CSRRS, CSRRC, CSRRWI, CSRRSI, CSRRCI]. I (snd (h s))"
  by (simp add: csr_defs Let_def write_rd csr assms)

lemma idle:
  assumes "I s"
  shows "\<forall>h \<in> set [FENCE, FENCEI, EBREAK]. I (snd (h s))"
  by (simp add: FENCE_def FENCEI_def EBREAK_def assms)

lemma pure_keeps: "I (snd (h s)) \<Longrightarrow> keeps I A (pure_op h s)"
  by (simp add: pure_op_def keeps_Inr_pair)

lemma amos:
  assumes "I s"
  shows "\<forall>h \<in> set [AMOSWAPW, AMOADDW, AMOXORW, AMOANDW, AMOORW, AMOMINW, AMOMAXW, AMOMINUW, AMOMAXUW,
    AMOSWAPD, AMOADDD, AMOXORD, AMOANDD, AMOORD, AMOMIND, AMOMAXD, AMOMINUD, AMOMAXUD]. keeps I A (h cfg s)"
  by (simp add: atomic_defs amo assms)

lemma write_frd_keeps: "I s \<Longrightarrow> keeps I A (write_frd x s)"
  by (simp add: write_frd_def set_freg_def set_fregs)

lemma float_flags: "I s \<Longrightarrow> I (set_fflag b m s)" "I s \<Longrightarrow> I (update_float_flags fl s)"
  by (simp_all add: set_fflag_def update_float_flags_def Let_def set_csrs)

lemma converted: "I s \<Longrightarrow> UndefinedBehaviour \<in> A \<Longrightarrow> keeps I A (store_converted lo hi x s)"
  by (simp add: store_converted_def keeps_Inr_pair write_rd split: option.splits)

lemma floats:
  assumes "I s" "softfloat cfg = None \<or> UndefinedBehaviour \<in> A"
  shows "\<forall>h \<in> set [FLW, FSW, FMADDS, FMSUBS, FNMSUBS, FNMADDS, FADDS, FSUBS, FMULS, FDIVS, FSGNJS, FSGNJNS, FSGNJXS,
    FMINS, FMAXS, FCVTWS, FCVTWUS, FMVXW, FEQS, FLTS, FLES, FCVTSW, FCVTSWU, FMVWX, FCVTLS, FCVTLUS, FCVTSL, FCVTSLU,
    FCLASSS]. keeps I A (h cfg s)"
proof (cases "softfloat cfg")
  case None
  then show ?thesis using assms(1) by (simp add: float_defs with_softfloat_def)
next
  case (Some sf)
  have flw: "keeps I A (FLW cfg s)"
    unfolding FLW_def with_softfloat_def using Some assms(1) by (auto intro!: vload_bind write_frd_keeps)
  show ?thesis using Some assms flw unfolding FLW_def [symmetric]
    by (simp add: float_defs(2-) with_softfloat_def Let_def write_frd_keeps converted store_keeps keeps_Inr_pair write_rd
        float_flags set_freg_def set_fregs case_prod_unfold)
qed

lemma ECALL_unemulated:
  "I s \<Longrightarrow> build cfg \<noteq> FUZZ_ENV \<Longrightarrow> keeps I A (ECALL cfg s)"
  by (cases "build cfg"; cases "mode s")
    (simp_all add: ECALL_def ECALL_test_def ECALL_emu_def Let_def set_console set_test_flag)

lemma handlers_keep:
  assumes "I s" "harmless cfg A" "n = iECALL \<Longrightarrow> keeps I A (ECALL cfg s)" "map_of (inst_funcs cfg) n = Some h"
  shows "keeps I A (h s)"
proof -
  have f: "softfloat cfg = None \<or> UndefinedBehaviour \<in> A" using assms(2) by (auto simp: harmless_def)
  note rows = alu [OF assms(1), simplified] branches [OF assms(1), simplified] csr_access [OF assms(1), simplified]
    idle [OF assms(1), simplified] amos [OF assms(1), of cfg, simplified] floats [OF assms(1) f, simplified]
  have "list_all (\<lambda>(m, h). (m = iECALL \<longrightarrow> keeps I A (ECALL cfg s)) \<longrightarrow> keeps I A (h s)) (func_rows cfg)"
    by (simp add: func_rows_def rows pure_keeps base_pure division SRET MRET loads stores reserved assms(1))
  moreover have "(n, h) \<in> set (func_rows cfg)"
    using assms(4) by (simp add: inst_funcs_def map_of_map_init map_of_SomeD)
  ultimately show ?thesis using assms(3) by (auto simp: list_all_iff)
qed

end

subsection \<open>The loop\<close>

locale loop_invariant = machine_invariant +
  assumes set_uart: "I s \<Longrightarrow> I (s\<lparr>bus := (bus s)\<lparr>uart := u\<rparr>\<rparr>)"
    and set_hex: "I s \<Longrightarrow> I (s\<lparr>hex_instr := w\<rparr>)"
    and decode_keeps: "I s \<Longrightarrow> decode (decoder s) w = Inr (i, d) \<Longrightarrow> I (s\<lparr>curr_instr := i, decoder := d\<rparr>)"
    and decode_abort: "I s \<Longrightarrow> decode (decoder s) w = Inl x \<Longrightarrow> x \<in> A"
    and dispatch_abort: "BadFunctionCall \<in> A"
    and fatal_abort: "ExitFailure \<in> A"
begin

lemma select: "I s \<Longrightarrow> I (snd (select_interrupt s))"
  by (simp add: select_interrupt_def clear_pending_def csr)

lemma check_pending: "I s \<Longrightarrow> keeps I A (check_pending_interrupt cfg s)"
  unfolding check_pending_interrupt_def uart_is_interrupting_def Let_def
  by (auto simp: bind_res_assoc keeps_Inr_pair select set_uart csr case_prod_unfold
      intro!: vstore_bind)

lemma interrupts: "I s \<Longrightarrow> keeps_state I A (interrupts cfg s)"
  unfolding interrupts_def
  by (auto intro!: keeps_state_bind [OF check_pending] simp: take_interrupt)

lemma after: "I s \<Longrightarrow> keeps_state I A (after cfg e s)"
  by (simp add: after_def exit_fatally_def Let_def trap fatal_abort)

lemma fetch:
  assumes "I s" "harmless cfg A"
  shows "keeps_state I A (fetch cfg s)"
proof -
  have tail: "keeps_state I A (bind_res (Vemu_Run.after cfg e t) (\<lambda>s2. Inr (s2\<lparr>hex_instr := w\<rparr>)))"
    if "I t" for e t w
    using after [OF that, of cfg e] by (cases "Vemu_Run.after cfg e t") (simp_all add: set_hex)
  show ?thesis
  proof (cases "build cfg = TEST_ENV")
    case True
    then show ?thesis unfolding fetch_def get_4byte_aligned_instr_def
      by (rule_tac vload_cases [OF assms(1), of cfg "pc s" 32]) (simp_all add: tail)
  next
    case False
    then show ?thesis unfolding fetch_def get_4byte_aligned_instr_def
      using assms tail
      by (auto simp: load_insn_def defined_res_def Let_def harmless_def)
  qed
qed

lemma decode_current: "I s \<Longrightarrow> keeps_state I A (decode_current s)"
  unfolding decode_current_def
  by (cases "decode (decoder s) (hex_instr s)") (auto simp: decode_keeps dest: decode_abort)

lemma dispatch:
  assumes "I s" "harmless cfg A" "keeps I A (ECALL cfg s)"
  shows "keeps I A (dispatch cfg n s)"
  using handlers_keep [OF assms(1,2), of n] assms(3) dispatch_abort by (simp add: dispatch_def split: option.splits)

lemma execute:
  assumes "I s" "harmless cfg A" "keeps I A (ECALL cfg s)"
  shows "keeps_state I A (execute cfg s)"
  unfolding execute_def by (rule keeps_state_bind [OF dispatch [OF assms]]) (simp add: after)

lemma iteration:
  assumes "I s" "\<And>t. I t \<Longrightarrow> keeps I A (ECALL cfg t)"
    and "harmless cfg A"
  shows "keeps I A (run_iteration cfg s)"
proof -
  have s4: "keeps I A (bind_res (execute cfg t) (\<lambda>s4. Inr (Running, s4\<lparr>pc := pc s4 + 4\<rparr>)))" if "I t" for t
    by (rule keeps_state_then [OF execute [OF that assms(3) assms(2) [OF that]]]) (simp add: set_pc)
  have s3: "keeps I A (bind_res (decode_current t) (\<lambda>s3. bind_res (execute cfg s3)
      (\<lambda>s4. Inr (Running, s4\<lparr>pc := pc s4 + 4\<rparr>))))" if "I t" for t
    by (rule keeps_state_then [OF decode_current [OF that] s4])
  have s2: "keeps I A (bind_res (fetch cfg t) (\<lambda>s2. bind_res (decode_current s2) (\<lambda>s3.
      bind_res (execute cfg s3) (\<lambda>s4. Inr (Running, s4\<lparr>pc := pc s4 + 4\<rparr>)))))" if "I t" for t
    by (rule keeps_state_then [OF fetch [OF that assms(3)] s3])
  show ?thesis unfolding run_iteration_def
    using assms(1) by (auto intro!: keeps_state_then [OF interrupts [OF assms(1)]] s2)
qed

lemma reachable_keeps:
  assumes "reachable cfg s0 s" "I s0" "\<And>t. I t \<Longrightarrow> keeps I A (ECALL cfg t)"
    and "harmless cfg A"
  shows "I s"
  using assms(1)
proof induction
  case start
  then show ?case by (rule assms(2))
next
  case (next_step s s')
  then have "run_iteration cfg s = Inr (Running, s')" by (simp add: step_iff)
  then show ?case using iteration [OF next_step.IH assms(3,4)] by (simp add: keeps_def)
qed

lemma run_keeps:
  assumes "I s" "\<And>t. I t \<Longrightarrow> keeps I A (ECALL cfg t)"
    and "harmless cfg A"
  shows "run fuel cfg s = Some r \<Longrightarrow> keeps I A r"
  using assms(1)
proof (induction fuel arbitrary: s)
  case 0
  then show ?case by simp
next
  case (Suc fuel)
  then show ?case using iteration [OF Suc.prems(2) assms(2,3)]
    by (auto simp: keeps_def split: sum.splits prod.splits progress.splits)
qed

end

subsection \<open>Well-formed emulators\<close>

definition emu_ok :: "vemu \<Rightarrow> bool" where
  "emu_ok s \<longleftrightarrow> x0_zero (iregs s) \<and> mmu_wf (get_mmu s) \<and> decoder_ok (decoder s) \<and> inst_funcs_set s"

lemma vload_mmu: "vload cfg s a sz = Inr (v, e, s') \<Longrightarrow>
  get_mmu s' = get_mmu s \<and> iregs s' = iregs s \<and> decoder s' = decoder s \<and> inst_funcs_set s' = inst_funcs_set s"
  by (auto simp: vload_def bind_res_eq_Inr frame)

lemma emu_ok_vstore: "emu_ok s \<Longrightarrow> keeps emu_ok {AssertionFailure} (vstore cfg s a w sz)"
  using bus_access_abort(2,3) [of "bus s" cfg a w sz]
  by (cases "Bus_store cfg (bus s) a w sz") (auto simp: vstore_def emu_ok_def)

lemma emu_ok_vload:
  assumes "emu_ok s"
  shows "vload cfg s a sz = Inr (v, e, s') \<Longrightarrow> emu_ok s'" "vload cfg s a sz = Inl x \<Longrightarrow> x = AssertionFailure"
  using assms vload_mmu [of cfg s a sz v e s'] bus_access_abort(1) [of "bus s" cfg a sz]
  by (auto simp: emu_ok_def vload_def bind_res_eq_Inl)

interpretation emu: machine_invariant emu_ok "{AssertionFailure}"
proof unfold_locales
  show "keeps emu_ok {AssertionFailure} (vstore cfg s a w sz)" if "emu_ok s" for cfg s a w sz
    using that by (rule emu_ok_vstore)
  show "x \<in> {AssertionFailure}" if "emu_ok s" "vload cfg s a sz = Inl x" for cfg s a sz x
    using emu_ok_vload(2) [OF that] by simp
  show "emu_ok s'" if "emu_ok s" "vload cfg s a sz = Inr (v, e, s')" for cfg s a sz v e s'
    using that by (rule emu_ok_vload(1))
qed (auto simp: emu_ok_def)

text \<open>The aborts of the run loop in a build that does not emulate system calls, and in the others.\<close>

abbreviation loop_aborts :: "abort set" where
  "loop_aborts \<equiv> {AssertionFailure, OutOfRange, BadFunctionCall, ExitFailure}"

lemma emu_loop_invariant:
  assumes "loop_aborts \<subseteq> A"
  shows "loop_invariant emu_ok A"
proof unfold_locales
  show "keeps emu_ok A (vstore cfg s a w sz)" if "emu_ok s" for cfg s a w sz
    using assms by (intro keeps_mono [OF emu_ok_vstore [OF that]]) auto
  show "x \<in> A" if "emu_ok s" "vload cfg s a sz = Inl x" for cfg s a sz x
    using emu_ok_vload(2) [OF that] assms by simp
  show "x \<in> A" if "emu_ok s" "decode (decoder s) w = Inl x" for s w x
    using that assms decode_abort_kind by (auto simp: emu_ok_def)
  show "emu_ok s'" if "emu_ok s" "vload cfg s a sz = Inr (v, e, s')" for cfg s a sz v e s'
    using that by (rule emu_ok_vload(1))
  show "emu_ok (s\<lparr>curr_instr := i, decoder := d\<rparr>)" if "emu_ok s" "decode (decoder s) w = Inr (i, d)"
    for s w i d
    using that decode_correct(1) by (simp add: emu_ok_def) blast
qed (use assms in \<open>auto simp: emu_ok_def\<close>)

interpretation emu_loop: loop_invariant emu_ok loop_aborts
  by (rule emu_loop_invariant) simp

interpretation emu_any: loop_invariant emu_ok UNIV
  by (rule emu_loop_invariant) simp

subsection \<open>System calls\<close>

lemma emu_ok_updates:
  "emu_ok s \<Longrightarrow> mmu_wf m \<Longrightarrow> emu_ok (set_mmu m s)" "emu_ok s \<Longrightarrow> emu_ok (set_ireg i v s)"
  "emu_ok s \<Longrightarrow> emu_ok (s\<lparr>file_table := ft\<rparr>)" "emu_ok s \<Longrightarrow> emu_ok (s\<lparr>opened := n\<rparr>)"
  "emu_ok s \<Longrightarrow> emu_ok (s\<lparr>console := ms\<rparr>)" "emu_ok s \<Longrightarrow> emu_ok (exit_emu c s)"
  by (simp_all add: emu_ok_def exit_emu_def set_mmu_def)

lemma emu_ok_mmu: "emu_ok s \<Longrightarrow> mmu_wf (get_mmu s)"
  by (simp add: emu_ok_def)

lemma allocate_wf: "mmu_wf m \<Longrightarrow> allocate m n = Inr (b, m') \<Longrightarrow> mmu_wf m'"
  by (auto simp: allocate_def Let_def bind_res_eq_Inr elim!: set_perms_wf [rotated] split: if_splits)

lemma syscalls_ok:
  assumes "emu_ok s"
  shows "sys_brk s = Inr s' \<Longrightarrow> emu_ok s'" "emu_ok (sys_write s)"
    "sys_open cfg s = Inr s' \<Longrightarrow> emu_ok s'" "emu_ok (sys_close s)" "emu_ok (sys_exit s)"
    "sys_fstat cfg s = Inr s' \<Longrightarrow> emu_ok s'" "sys_lseek s = Inr s' \<Longrightarrow> emu_ok s'"
    "sys_read s = Inr s' \<Longrightarrow> emu_ok s'"
proof -
  note up = emu_ok_updates [OF assms] and mm = emu_ok_mmu [OF assms]
  show "sys_brk s = Inr s' \<Longrightarrow> emu_ok s'"
    using allocate_wf [OF mm] by (auto simp: sys_brk_def mmu_allocate_def Let_def bind_res_eq_Inr
      emu_ok_updates assms split: if_splits)
  show "emu_ok (sys_write s)" "emu_ok (sys_close s)" "emu_ok (sys_exit s)"
    by (simp_all add: sys_write_def sys_close_def sys_exit_def Let_def up emu_ok_updates)
  show "sys_open cfg s = Inr s' \<Longrightarrow> emu_ok s'"
    by (auto simp: sys_open_def Let_def bind_res_eq_Inr emu_ok_updates assms split: option.splits prod.splits)
  show "sys_fstat cfg s = Inr s' \<Longrightarrow> emu_ok s'"
    using write_from_wf [OF mm] by (auto simp: sys_fstat_def Let_def bind_res_eq_Inr emu_ok_updates assms)
  show "sys_lseek s = Inr s' \<Longrightarrow> emu_ok s'"
    by (auto simp: sys_lseek_def Let_def bind_res_eq_Inr emu_ok_updates assms split: option.splits)
  show "sys_read s = Inr s' \<Longrightarrow> emu_ok s'"
    using write_from_wf [OF mm] assms by (auto simp: sys_read_def Let_def bind_res_eq_Inr emu_ok_updates
      split: option.splits if_splits)
qed

lemma emu_ok_ECALL: "emu_ok s \<Longrightarrow> keeps emu_ok UNIV (ECALL cfg s)"
proof (cases "build cfg = FUZZ_ENV")
  case True
  assume "emu_ok s"
  from syscalls_ok [OF this] True show ?thesis
    by (auto simp: ECALL_def ECALL_fuzz_def Let_def keeps_def bind_res_eq_Inr split: sum.splits)
qed (rule emu_any.ECALL_unemulated)

subsection \<open>Construction\<close>

lemma emu_ok_base: "decoder_ok d \<Longrightarrow> emu_ok (VEmu_base cfg init d f p n)"
  by (simp add: VEmu_base_def Let_def init_misa_def emu_ok_def x0_zero_new Bus_new_def MMU_new_def mmu_wf_def)

lemma emu_ok_allocate: "emu_ok s \<Longrightarrow> mmu_allocate n s = Inr (b, s') \<Longrightarrow> emu_ok s'"
  by (auto simp: mmu_allocate_def bind_res_eq_Inr intro: emu_ok_updates dest: allocate_wf [OF emu_ok_mmu])

lemma emu_ok_push: "emu_ok s \<Longrightarrow> push_to_stack cfg v sz s = Inr s' \<Longrightarrow> emu_ok s'"
  using emu_ok_vstore [of s cfg "ireg s REG_SP - of_nat (sz div 8)" v sz]
  by (auto simp: push_to_stack_def Let_def bind_res_eq_Inr intro: emu_ok_updates)

lemma emu_ok_write_string: "emu_ok s \<Longrightarrow> write_string_to_addr str a s = Inr s' \<Longrightarrow> emu_ok s'"
  by (auto simp: write_string_to_addr_def bind_res_eq_Inr intro: emu_ok_updates dest: write_from_wf [OF emu_ok_mmu])

lemma emu_ok_place_code: "emu_ok s \<Longrightarrow> place_code bytes s = Inr s' \<Longrightarrow> emu_ok s'"
proof -
  assume s: "emu_ok s" and p: "place_code bytes s = Inr s'"
  let ?s1 = "s\<lparr>code_size := of_nat (length bytes)\<rparr>"
  have s1: "emu_ok ?s1" using s by (simp add: emu_ok_def)
  from p obtain b s2 m1 m2 m3 where a: "mmu_allocate ((code_size ?s1 + 0xFFFF) AND NOT 0xFFFF) ?s1 = Inr (b, s2)"
    and m: "set_perms (get_mmu s2) b (code_size s2) PERM_WRITE = Inr m1" "write_from m1 bytes b = Inr m2"
      "set_perms m2 b (code_size s2) (PERM_EXEC OR PERM_READ) = Inr m3" "s' = set_mmu m3 (s2\<lparr>pc := b\<rparr>)"
    by (auto simp: place_code_def Let_def bind_res_eq_Inr)
  have s2: "emu_ok s2" using emu_ok_allocate [OF s1 a] .
  have "mmu_wf m3" using set_perms_wf write_from_wf m(1-3) emu_ok_mmu [OF s2] by blast
  then show "emu_ok s'" using s2 m(4) by (simp add: emu_ok_def)
qed

lemma emu_ok_push_arg: "emu_ok s \<Longrightarrow> push_arg cfg arg s = Inr s' \<Longrightarrow> emu_ok s'"
  by (auto simp: push_arg_def bind_res_eq_Inr)
    (meson emu_ok_allocate emu_ok_push emu_ok_write_string)

lemma emu_ok_exec:
  assumes "decoder_ok d" "VEmu_exec cfg init d info args n = Inr s"
  shows "emu_ok s"
proof -
  let ?s0 = "(VEmu_base cfg init d [] (entry_point info) n)\<lparr>bin_file_name := fi_file_name info\<rparr>"
  have s0: "emu_ok ?s0" using emu_ok_base [OF assms(1)] by (simp add: emu_ok_def)
  from assms(2) obtain m b s1 s2 s3 s4 s5 s6 where m: "load_file (get_mmu ?s0) (segments info) = Inr m"
    and a: "mmu_allocate STACK_SIZE (set_mmu m ?s0) = Inr (b, s1)"
    and p: "push_to_stack cfg 0 64 (set_ireg REG_SP (b + STACK_SIZE) s1) = Inr s2"
      "push_to_stack cfg 0 64 s2 = Inr s3" "push_to_stack cfg 0 64 s3 = Inr s4"
    and f: "fold_res (push_arg cfg) (rev args) s4 = Inr s5" "push_arg cfg (bin_file_name s5) s5 = Inr s6"
      "push_to_stack cfg (of_nat (length args) + 1) 64 s6 = Inr s"
    by (auto simp: VEmu_exec_def Let_def bind_res_eq_Inr)
  have "emu_ok (set_mmu m ?s0)"
    using load_file_wf [OF emu_ok_mmu [OF s0] m] s0 by (rule_tac emu_ok_updates)
  then have "emu_ok (set_ireg REG_SP (b + STACK_SIZE) s1)" using a by (blast intro: emu_ok_updates emu_ok_allocate)
  then have "emu_ok s4" using p emu_ok_push by blast
  then have "emu_ok s5"
    using fold_res_invariant [where I = emu_ok, OF f(1)] emu_ok_push_arg by blast
  then show ?thesis using f(2,3) emu_ok_push_arg emu_ok_push by blast
qed

interpretation live: machine_invariant "\<lambda>s. \<not> has_exited s" UNIV
  by unfold_locales (auto simp: vload_def vstore_def keeps_def bind_res_eq_Inr split: sum.splits)

interpretation forked: loop_invariant "\<lambda>s. \<not> inst_funcs_set s" UNIV
  by unfold_locales (auto simp: vload_def vstore_def keeps_def bind_res_eq_Inr split: sum.splits)

subsection \<open>Properties\<close>

text \<open>A fork of the emulator cannot run: the copy constructor leaves the table of handlers empty,
  so no iteration of the run loop of the copy completes an instruction, whatever the original
  was.\<close>

theorem fork_cannot_step: "\<not> step cfg (VEmu_copy init s) s'"
proof
  let ?t = "VEmu_copy init s"
  have t: "\<not> has_exited ?t" "\<not> inst_funcs_set ?t" by (simp_all add: VEmu_copy_def)
  assume "step cfg ?t s'"
  then have "run_iteration cfg ?t = Inr (Running, s')" by (simp add: step_iff)
  then obtain s1 s2 s3 s4 where s: "interrupts cfg ?t = Inr s1" "fetch cfg s1 = Inr s2"
    "decode_current s2 = Inr s3" "execute cfg s3 = Inr s4"
    using t(1) by (auto simp: run_iteration_def bind_res_eq_Inr split: if_splits)
  have "\<not> inst_funcs_set s1" using forked.interrupts [OF t(2), of cfg] s(1) by simp
  from forked.fetch [OF this, of cfg] have "\<not> inst_funcs_set s2" using s(2) by (simp add: harmless_def)
  from forked.decode_current [OF this] have "\<not> inst_funcs_set s3" using s(3) by simp
  then show False using s(4) by (simp add: execute_def dispatch_def)
qed

text \<open>(C5) The run loop keeps the emulator well formed: from a well-formed state, in every build, every
  state that the loop reaches has register \<open>x0\<close> equal to zero, a memory whose storage is as large as
  its size, a decoder whose caches agree with decoding, and its table of handlers.\<close>

theorem reachable_emu_ok:
  assumes "emu_ok s0" and "reachable cfg s0 s"
  shows "emu_ok s"
  using emu_any.reachable_keeps [OF assms(2,1) emu_ok_ECALL] by (simp add: harmless_def)

text \<open>(C4) Memory safety of the testing build without SoftFloat: from a well-formed state, no iteration of the run loop
  that the emulated program can reach accesses memory outside an object. Whatever stops the process is
  a failed assertion, a missing table entry, a missing handler or a fatal exception.\<close>

theorem run_iteration_safe:
  assumes "emu_ok s0" and "build cfg = TEST_ENV" and "softfloat cfg = None" and "reachable cfg s0 s"
  shows "run_iteration cfg s \<noteq> Inl UndefinedBehaviour"
proof -
  have e: "keeps emu_ok loop_aborts (ECALL cfg t)" if "emu_ok t" for t
    using that assms(2) by (intro emu_loop.ECALL_unemulated) simp_all
  have h: "harmless cfg loop_aborts" using assms(2,3) by (simp add: harmless_def)
  have "emu_ok s" using emu_loop.reachable_keeps [OF assms(4,1) e h] .
  then have "keeps emu_ok loop_aborts (run_iteration cfg s)"
    using emu_loop.iteration [OF _ e h] by simp
  then show ?thesis by (auto simp: keeps_def)
qed

end
