(* ===== verification/RV_ISA.thy ===== *)
theory RV_ISA
  imports Vemu_Invariant
begin

text \<open>
  The instruction set as an abstract machine, and the emulator as its implementation. The state of
  the abstract machine is what a program sees: program counter, registers, bytes of memory with
  their permissions. \<open>isa_exec\<close> gives the effect of an assembled instruction, \<open>isa_step\<close>
  fetches its word from memory. The run loop of the fuzzing build simulates every step and so every
  run of the abstract machine.
\<close>

unbundle bit_operations_syntax

subsection \<open>Architectural state\<close>

record arch =
  a_pc :: u64
  a_reg :: "nat \<Rightarrow> u64"
  a_mem :: "u64 \<Rightarrow> u8"
  a_perm :: "u64 \<Rightarrow> u8"
  a_size :: u64

definition reg_of :: "arch \<Rightarrow> reg \<Rightarrow> u64" where
  "reg_of \<sigma> r = a_reg \<sigma> (unat r)"

definition set_reg :: "reg \<Rightarrow> u64 \<Rightarrow> arch \<Rightarrow> arch" where
  "set_reg d v \<sigma> = \<sigma>\<lparr>a_reg := (\<lambda>j. if j = unat d \<and> d \<noteq> 0 then v else a_reg \<sigma> j)\<rparr>"

definition advance :: "arch \<Rightarrow> arch" where
  "advance \<sigma> = \<sigma>\<lparr>a_pc := a_pc \<sigma> + 4\<rparr>"

text \<open>The little-endian value of \<open>n\<close> bytes, and its sign extension.\<close>

definition mem_value :: "arch \<Rightarrow> u64 \<Rightarrow> nat \<Rightarrow> u64" where
  "mem_value \<sigma> a n = le_value (map (\<lambda>k. a_mem \<sigma> (a + of_nat k)) [0..<n])"

definition sext_bytes :: "nat \<Rightarrow> u64 \<Rightarrow> u64" where
  "sext_bytes n v = signed_take_bit (8 * n - 1) v"

text \<open>
  A write of the low \<open>n\<close> bytes of \<open>v\<close>; bytes that were allocated but not written become
  readable.
\<close>

definition mem_write :: "u64 \<Rightarrow> nat \<Rightarrow> u64 \<Rightarrow> arch \<Rightarrow> arch" where
  "mem_write a n v \<sigma> =
     \<sigma>\<lparr>a_mem := (\<lambda>i. if unat (i - a) < n then ucast (drop_bit (8 * unat (i - a)) v) else a_mem \<sigma> i),
       a_perm := (\<lambda>i. if unat (i - a) < n \<and> a_perm \<sigma> i AND PERM_RAW \<noteq> 0
          then (a_perm \<sigma> i OR PERM_READ) AND NOT PERM_RAW else a_perm \<sigma> i)\<rparr>"

definition inside :: "arch \<Rightarrow> u64 \<Rightarrow> nat \<Rightarrow> bool" where
  "inside \<sigma> a n \<longleftrightarrow> a \<le> a + of_nat n \<and> a + of_nat n < a_size \<sigma>"

definition readable :: "arch \<Rightarrow> u64 \<Rightarrow> nat \<Rightarrow> bool" where
  "readable \<sigma> a n \<longleftrightarrow> inside \<sigma> a n \<and>
     list_all (\<lambda>k. a_perm \<sigma> (a + of_nat k) AND PERM_RAW = 0 \<and> a_perm \<sigma> (a + of_nat k) AND PERM_READ \<noteq> 0) [0..<n]"

definition writable :: "arch \<Rightarrow> u64 \<Rightarrow> nat \<Rightarrow> bool" where
  "writable \<sigma> a n \<longleftrightarrow> inside \<sigma> a n \<and>
     list_all (\<lambda>k. a_perm \<sigma> (a + of_nat k) AND PERM_WRITE \<noteq> 0) [0..<n]"

subsection \<open>Instructions\<close>

definition branch_ops :: "(IName \<times> (vemu \<Rightarrow> ReturnException \<times> vemu) \<times> (u64 \<Rightarrow> u64 \<Rightarrow> bool)) list" where
  "branch_ops = [
    (iBEQ, BEQ, \<lambda>a b. a = b), (iBNE, BNE, \<lambda>a b. a \<noteq> b),
    (iBLT, BLT, \<lambda>a b. sint a < sint b), (iBGE, BGE, \<lambda>a b. sint b \<le> sint a),
    (iBLTU, BLTU, \<lambda>a b. uint a < uint b), (iBGEU, BGEU, \<lambda>a b. uint b \<le> uint a)]"

text \<open>Loads with their number of bytes and whether they sign-extend; stores with their number of bytes.\<close>

definition load_ops :: "(IName \<times> (config \<Rightarrow> vemu \<Rightarrow> outcome) \<times> nat \<times> bool) list" where
  "load_ops = [(iLB, LB, 1, True), (iLH, LH, 2, True), (iLW, LW, 4, True), (iLD, LD, 8, False),
     (iLBU, LBU, 1, False), (iLHU, LHU, 2, False), (iLWU, LWU, 4, False)]"

definition store_ops :: "(IName \<times> (config \<Rightarrow> vemu \<Rightarrow> outcome) \<times> nat) list" where
  "store_ops = [(iSB, SB, 1), (iSH, SH, 2), (iSW, SW, 4), (iSD, SD, 8)]"

text \<open>Read-modify-write: the number of bytes and the new value from the old one and \<open>rs2\<close>.\<close>

definition amo_ops :: "(IName \<times> (config \<Rightarrow> vemu \<Rightarrow> outcome) \<times> nat \<times> (u64 \<Rightarrow> u64 \<Rightarrow> u64)) list" where
  "amo_ops = [
    (iAMOSWAPW, AMOSWAPW, 4, \<lambda>v r. r), (iAMOADDW, AMOADDW, 4, \<lambda>v r. of_int (s32 v + s32 r)),
    (iAMOXORW, AMOXORW, 4, \<lambda>v r. v XOR r), (iAMOANDW, AMOANDW, 4, \<lambda>v r. v AND r),
    (iAMOORW, AMOORW, 4, \<lambda>v r. v OR r), (iAMOMINW, AMOMINW, 4, \<lambda>v r. of_int (min (s32 v) (s32 r))),
    (iAMOMAXW, AMOMAXW, 4, \<lambda>v r. of_int (max (s32 v) (s32 r))),
    (iAMOMINUW, AMOMINUW, 4, \<lambda>v r. of_int (min (u32_of v) (u32_of r))),
    (iAMOMAXUW, AMOMAXUW, 4, \<lambda>v r. of_int (max (u32_of v) (u32_of r))),
    (iAMOSWAPD, AMOSWAPD, 8, \<lambda>v r. r), (iAMOADDD, AMOADDD, 8, \<lambda>v r. of_int (sint v + sint r)),
    (iAMOXORD, AMOXORD, 8, \<lambda>v r. v XOR r), (iAMOANDD, AMOANDD, 8, \<lambda>v r. v AND r),
    (iAMOORD, AMOORD, 8, \<lambda>v r. v OR r), (iAMOMIND, AMOMIND, 8, \<lambda>v r. of_int (min (sint v) (sint r))),
    (iAMOMAXD, AMOMAXD, 8, \<lambda>v r. of_int (max (sint v) (sint r))),
    (iAMOMINUD, AMOMINUD, 8, \<lambda>v r. of_int (min (uint v) (uint r))),
    (iAMOMAXUD, AMOMAXUD, 8, \<lambda>v r. of_int (max (uint v) (uint r)))]"

text \<open>The specifications alone.\<close>

definition specs :: "('n \<times> 'h \<times> 'f) list \<Rightarrow> 'n \<Rightarrow> 'f option" where
  "specs tab = map_of (map (\<lambda>(n, h, f). (n, f)) tab)"

definition isa_load :: "nat \<times> bool \<Rightarrow> reg \<Rightarrow> u64 \<Rightarrow> arch \<Rightarrow> arch option" where
  "isa_load k d a \<sigma> = (if readable \<sigma> a (fst k)
     then Some (advance (set_reg d (if snd k then sext_bytes (fst k) (mem_value \<sigma> a (fst k))
                                    else mem_value \<sigma> a (fst k)) \<sigma>))
     else None)"

definition isa_store :: "nat \<Rightarrow> u64 \<Rightarrow> u64 \<Rightarrow> arch \<Rightarrow> arch option" where
  "isa_store n a v \<sigma> = (if writable \<sigma> a n then Some (advance (mem_write a n v \<sigma>)) else None)"

definition isa_amo :: "nat \<times> (u64 \<Rightarrow> u64 \<Rightarrow> u64) \<Rightarrow> reg \<Rightarrow> u64 \<Rightarrow> u64 \<Rightarrow> arch \<Rightarrow> arch option" where
  "isa_amo k d a r \<sigma> =
     (let n = fst k; v = mem_value \<sigma> a n in
      if a mod of_nat n = 0 \<and> readable \<sigma> a n \<and> writable \<sigma> a n
      then Some (advance (set_reg d (sext_bytes n v) (mem_write a n (snd k v r) \<sigma>)))
      else None)"

definition isa_jump :: "reg \<Rightarrow> u64 \<Rightarrow> arch \<Rightarrow> arch" where
  "isa_jump d target \<sigma> = (set_reg d (a_pc \<sigma> + 4) \<sigma>)\<lparr>a_pc := target\<rparr>"

fun isa_exec :: "asm \<Rightarrow> arch \<Rightarrow> arch option" where
  "isa_exec (AsmR n d r1 r2 aqrl) \<sigma> = (case specs alu_ops n of
      Some f \<Rightarrow> Some (advance (set_reg d (f (reg_of \<sigma> r1) (reg_of \<sigma> r2)) \<sigma>))
    | None \<Rightarrow> (case specs amo_ops n of
        Some k \<Rightarrow> isa_amo k d (reg_of \<sigma> r1) (reg_of \<sigma> r2) \<sigma>
      | None \<Rightarrow> None))"
| "isa_exec (AsmI n d r1 im) \<sigma> =
     (if n = iJALR then Some (isa_jump d ((reg_of \<sigma> r1 + scast im) AND NOT 1) \<sigma>)
      else case specs load_ops n of
        Some k \<Rightarrow> isa_load k d (reg_of \<sigma> r1 + scast im) \<sigma>
      | None \<Rightarrow> (case specs imm_ops n of
          Some f \<Rightarrow> Some (advance (set_reg d (f (reg_of \<sigma> r1) (scast im)) \<sigma>))
        | None \<Rightarrow> None))"
| "isa_exec (AsmShift n d r1 sh) \<sigma> = (case specs imm_ops n of
      Some f \<Rightarrow> Some (advance (set_reg d (f (reg_of \<sigma> r1) (ucast sh)) \<sigma>))
    | None \<Rightarrow> None)"
| "isa_exec (AsmShiftW n d r1 sh) \<sigma> = (case specs imm_ops n of
      Some f \<Rightarrow> Some (advance (set_reg d (f (reg_of \<sigma> r1) (ucast sh)) \<sigma>))
    | None \<Rightarrow> None)"
| "isa_exec (AsmS n r1 r2 im) \<sigma> = (case specs store_ops n of
      Some k \<Rightarrow> isa_store k (reg_of \<sigma> r1 + scast im) (reg_of \<sigma> r2) \<sigma>
    | None \<Rightarrow> None)"
| "isa_exec (AsmB n r1 r2 im) \<sigma> = (case specs branch_ops n of
      Some P \<Rightarrow> Some (if P (reg_of \<sigma> r1) (reg_of \<sigma> r2) then \<sigma>\<lparr>a_pc := a_pc \<sigma> + scast (im AND NOT 1)\<rparr>
                      else advance \<sigma>)
    | None \<Rightarrow> None)"
| "isa_exec (AsmU n d im) \<sigma> =
     (let v = scast (push_bit 12 (ucast im) :: u32) in
      if n = iLUI then Some (advance (set_reg d v \<sigma>))
      else if n = iAUIPC then Some (advance (set_reg d (a_pc \<sigma> + v) \<sigma>))
      else None)"
| "isa_exec (AsmJ n d im) \<sigma> =
     (if n = iJAL then Some (isa_jump d (a_pc \<sigma> + scast (im AND NOT 1)) \<sigma>) else None)"
| "isa_exec AsmMRET \<sigma> = None"
| "isa_exec AsmSRET \<sigma> = None"

text \<open>One step: the word at the program counter is that of an instruction, which can execute.\<close>

inductive isa_step :: "arch \<Rightarrow> arch \<Rightarrow> bool" where
  isa_step: "encode a = Some w \<Longrightarrow> list_all (\<lambda>k. a_pc \<sigma> + of_nat k < a_size \<sigma>) [0..<4] \<Longrightarrow>
     mem_value \<sigma> (a_pc \<sigma>) 4 = ucast w \<Longrightarrow> isa_exec a \<sigma> = Some \<sigma>' \<Longrightarrow> isa_step \<sigma> \<sigma>'"

definition arch_of :: "vemu \<Rightarrow> arch" where
  "arch_of s = \<lparr>a_pc = pc s, a_reg = load_reg (iregs s), a_mem = ram (get_mmu s),
     a_perm = byte_permission (get_mmu s), a_size = mmu_ram_size (get_mmu s)\<rparr>"

subsection \<open>Dispatch of the listed instructions\<close>

lemma specs_Some: "specs tab n = Some f \<Longrightarrow> \<exists>h. (n, h, f) \<in> set tab"
  unfolding specs_def by (drule map_of_SomeD) auto

lemmas func_lookup = inst_funcs_def map_of_map_init func_rows_def map_of_Cons_code

lemma alu_dispatch: "list_all (\<lambda>(n, h, f). map_of (inst_funcs cfg) n = Some (pure_op h)) alu_ops"
  by (simp add: alu_ops_def func_lookup)

lemma imm_dispatch: "list_all (\<lambda>(n, h, f). map_of (inst_funcs cfg) n = Some (pure_op h)) imm_ops"
  by (simp add: imm_ops_def func_lookup)

lemma branch_dispatch: "list_all (\<lambda>(n, h, f). map_of (inst_funcs cfg) n = Some (pure_op h)) branch_ops"
  by (simp add: branch_ops_def func_lookup)

lemma jump_dispatch:
  "map_of (inst_funcs cfg) iJAL = Some (pure_op JAL)" "map_of (inst_funcs cfg) iJALR = Some (pure_op JALR)"
  "map_of (inst_funcs cfg) iLUI = Some (pure_op LUI)" "map_of (inst_funcs cfg) iAUIPC = Some (pure_op AUIPC)"
  by (simp_all add: func_lookup)

lemma memory_dispatch:
  "list_all (\<lambda>(n, h, k). map_of (inst_funcs cfg) n = Some (h cfg)) load_ops"
  "list_all (\<lambda>(n, h, k). map_of (inst_funcs cfg) n = Some (h cfg)) store_ops"
  "list_all (\<lambda>(n, h, k). map_of (inst_funcs cfg) n = Some (h cfg)) amo_ops"
  by (simp_all add: load_ops_def store_ops_def amo_ops_def func_lookup)

end
