(* ===== verification/RV_Simulation.thy ===== *)
theory RV_Simulation
  imports RV_ISA
begin

text \<open>
  The run loop of the fuzzing build simulates the instruction set: every handler has the effect that
  \<open>isa_exec\<close> gives its instruction, and one iteration of the loop performs one step of the abstract
  machine. The locale \<open>forward_simulation\<close> lifts this to whole runs.
\<close>

unbundle bit_operations_syntax

subsection \<open>Simulations\<close>

locale forward_simulation =
  fixes absstep :: "'a \<Rightarrow> 'a \<Rightarrow> bool" and concstep :: "'c \<Rightarrow> 'c \<Rightarrow> bool"
    and abs :: "'c \<Rightarrow> 'a" and inv :: "'c \<Rightarrow> bool"
  assumes simulates: "inv s \<Longrightarrow> absstep (abs s) \<sigma> \<Longrightarrow> \<exists>s'. concstep s s' \<and> abs s' = \<sigma> \<and> inv s'"
begin

lemma simulates_run:
  "absstep\<^sup>*\<^sup>* (abs s) \<sigma> \<Longrightarrow> inv s \<Longrightarrow> \<exists>s'. concstep\<^sup>*\<^sup>* s s' \<and> abs s' = \<sigma> \<and> inv s'"
proof (induction rule: rtranclp_induct)
  case base
  then show ?case by blast
next
  case (step \<sigma> \<tau>)
  then obtain s' where s': "concstep\<^sup>*\<^sup>* s s'" "abs s' = \<sigma>" "inv s'" by blast
  then obtain s'' where "concstep s' s''" "abs s'' = \<tau>" "inv s''"
    using simulates step.hyps(2) by blast
  then show ?case using s'(1) rtranclp.rtrancl_into_rtrancl by metis
qed

end

subsection \<open>Register operands\<close>

lemma unat_ucast_reg [simp]: "unat (ucast (d :: reg) :: u8) = unat d"
  by (simp add: unsigned_ucast_eq take_bit_nat_eq_self_iff order.strict_trans [OF unsigned_less [of d]])

lemma arch_of_simps [simp]:
  "a_pc (arch_of s) = pc s" "a_reg (arch_of s) = load_reg (iregs s)" "a_mem (arch_of s) = ram (get_mmu s)"
  "a_perm (arch_of s) = byte_permission (get_mmu s)" "a_size (arch_of s) = mmu_ram_size (get_mmu s)"
  by (simp_all add: arch_of_def)

text \<open>The result of a handler, after the loop has added 4 to the program counter.\<close>

definition arch_after :: "vemu \<Rightarrow> arch" where
  "arch_after s = advance (arch_of s)"

lemma arch_after_writes:
  assumes "iregs s' = store_reg (iregs s) (unat d) v" "pc s' = pc s" "bus s' = bus s"
  shows "arch_after s' = advance (set_reg d v (arch_of s))"
  using assms by (simp add: arch_after_def advance_def set_reg_def arch_of_def fun_eq_iff unat_eq_0)

text \<open>\<open>executes cfg s \<sigma>\<close>: dispatching the current instruction succeeds and leads to \<open>\<sigma>\<close>.\<close>

definition executes :: "config \<Rightarrow> vemu \<Rightarrow> arch \<Rightarrow> bool" where
  "executes cfg s \<sigma> \<longleftrightarrow>
     (\<exists>s'. dispatch cfg (get_name (curr_instr s)) s = Inr (NormalExecutionReturn, s') \<and>
           arch_after s' = \<sigma>)"

lemma executesI:
  assumes "inst_funcs_set s" "map_of (inst_funcs cfg) (get_name (curr_instr s)) = Some h"
    "h s = Inr (NormalExecutionReturn, s')" "arch_after s' = \<sigma>"
  shows "executes cfg s \<sigma>"
  using assms by (simp add: executes_def dispatch_def)

lemma executes_pureI:
  assumes "inst_funcs_set s" "map_of (inst_funcs cfg) (get_name (curr_instr s)) = Some (pure_op h)"
    "fst (h s) = NormalExecutionReturn" "arch_after (snd (h s)) = \<sigma>"
  shows "executes cfg s \<sigma>"
  using assms by (intro executesI [of s cfg "pure_op h" "snd (h s)"]) (auto simp: pure_op_def prod_eq_iff)

subsection \<open>Computation and control transfer\<close>

lemma sim_alu:
  assumes "inst_funcs_set s" "denotes (curr_instr s) (AsmR n d r1 r2 q)" "specs alu_ops n = Some f"
  shows "executes cfg s (advance (set_reg d (f (ireg s (unat r1)) (ireg s (unat r2))) (arch_of s)))"
proof -
  obtain h where h: "(n, h, f) \<in> set alu_ops" using specs_Some [OF assms(3)] by blast
  then have "writes_rd h (\<lambda>s. f (ireg s (f_rs1 s)) (ireg s (f_rs2 s)))"
    "map_of (inst_funcs cfg) n = Some (pure_op h)"
    using alu_ops_ok alu_dispatch [of cfg] by (auto simp: list_all_iff)
  then show ?thesis
    using assms(1,2) by (intro executes_pureI [of s cfg h]) (auto simp: writes_rd_def intro!: arch_after_writes)
qed

lemma sim_imm:
  assumes "inst_funcs_set s" "get_name (curr_instr s) = n" "rd (get_fields (curr_instr s)) = ucast (d :: reg)"
    "rs1 (get_fields (curr_instr s)) = ucast (r1 :: reg)" "specs imm_ops n = Some f"
  shows "executes cfg s (advance (set_reg d (f (ireg s (unat r1)) (imm64 s)) (arch_of s)))"
proof -
  obtain h where h: "(n, h, f) \<in> set imm_ops" using specs_Some [OF assms(5)] by blast
  then have "writes_rd h (\<lambda>s. f (ireg s (f_rs1 s)) (imm64 s))"
    "map_of (inst_funcs cfg) n = Some (pure_op h)"
    using imm_ops_ok imm_dispatch [of cfg] by (auto simp: list_all_iff)
  then show ?thesis
    using assms(1-4) by (intro executes_pureI [of s cfg h]) (auto simp: writes_rd_def intro!: arch_after_writes)
qed

lemma branch_ops_ok:
  "list_all (\<lambda>(n, h, P). \<forall>s. h s = branch_if (P (ireg s (f_rs1 s)) (ireg s (f_rs2 s))) s) branch_ops"
  by (simp add: branch_ops_def base_pure_defs word_sless_alt word_sle_eq word_less_def word_le_def)

lemma sim_branch:
  assumes "inst_funcs_set s" "denotes (curr_instr s) (AsmB n r1 r2 im)" "specs branch_ops n = Some P"
  shows "executes cfg s (if P (ireg s (unat r1)) (ireg s (unat r2))
    then (arch_of s)\<lparr>a_pc := pc s + imm64 s\<rparr> else advance (arch_of s))"
proof -
  obtain h where h: "(n, h, P) \<in> set branch_ops" using specs_Some [OF assms(3)] by blast
  then have "h s = branch_if (P (ireg s (unat r1)) (ireg s (unat r2))) s"
    "map_of (inst_funcs cfg) n = Some (pure_op h)"
    using branch_ops_ok branch_dispatch [of cfg] assms(2) by (auto simp: list_all_iff)
  then show ?thesis
    using assms(1,2) by (intro executes_pureI [of s cfg h])
      (auto simp: branch_if_def arch_after_def advance_def arch_of_def)
qed

lemma sim_jump:
  assumes "inst_funcs_set s" "rd (get_fields (curr_instr s)) = ucast (d :: reg)"
  shows "get_name (curr_instr s) = iJAL \<Longrightarrow> executes cfg s (isa_jump d (pc s + imm64 s) (arch_of s))"
    and "get_name (curr_instr s) = iJALR \<Longrightarrow>
      executes cfg s (isa_jump d ((ireg s (f_rs1 s) + imm64 s) AND NOT 1) (arch_of s))"
  using assms jump_dispatch
  by (auto intro!: executes_pureI simp: JAL_def JALR_def Let_def arch_after_def advance_def isa_jump_def
      set_reg_def arch_of_def fun_eq_iff unat_eq_0)

lemma sim_upper:
  assumes "inst_funcs_set s" "rd (get_fields (curr_instr s)) = ucast (d :: reg)"
  shows "get_name (curr_instr s) = iLUI \<Longrightarrow> executes cfg s (advance (set_reg d (imm64 s) (arch_of s)))"
    and "get_name (curr_instr s) = iAUIPC \<Longrightarrow>
      executes cfg s (advance (set_reg d (pc s + imm64 s) (arch_of s)))"
  using assms jump_dispatch
  by (auto intro!: executes_pureI arch_after_writes simp: LUI_def AUIPC_def write_rd_def)

subsection \<open>Memory\<close>

lemma region_index:
  assumes "a \<le> a + of_nat n" "n < 2 ^ 64"
  shows "i \<in> region a (of_nat n) \<longleftrightarrow> unat (i - a) < n"
proof
  assume "i \<in> region a (of_nat n)"
  then have "a \<le> i" "i < a + of_nat n" by (simp_all add: region_def)
  then have "unat (i - a) = unat i - unat a" "unat i < unat a + n"
    using assms unat_add_no_wrap [OF assms(1)]
    by (simp_all add: unat_sub word_less_nat_alt unat_of_nat_u64)
  then show "unat (i - a) < n" using \<open>a \<le> i\<close> by (simp add: word_le_nat_alt)
next
  assume "unat (i - a) < n"
  then show "i \<in> region a (of_nat n)"
    using region_offset(1) [OF assms(1), of "unat (i - a)"] assms(2) by (simp add: unat_of_nat_u64)
qed

lemma ball_region:
  assumes "a \<le> a + of_nat n" "n < 2 ^ 64"
  shows "(\<forall>i \<in> region a (of_nat n). P i) \<longleftrightarrow> list_all (\<lambda>k. P (a + of_nat k)) [0..<n]"
proof
  assume "\<forall>i \<in> region a (of_nat n). P i"
  then show "list_all (\<lambda>k. P (a + of_nat k)) [0..<n]"
    using region_offset(1) [OF assms(1)] assms(2) by (auto simp: list_all_iff unat_of_nat_u64)
next
  assume l: "list_all (\<lambda>k. P (a + of_nat k)) [0..<n]"
  show "\<forall>i \<in> region a (of_nat n). P i"
  proof
    fix i assume "i \<in> region a (of_nat n)"
    then have "unat (i - a) < n" by (simp add: region_index [OF assms])
    then show "P i" using l by (auto simp: list_all_iff dest: bspec [of _ _ "unat (i - a)"])
  qed
qed

lemma inside_storage: "emu_ok s \<Longrightarrow> inside (arch_of s) a n \<Longrightarrow> i \<in> region a (of_nat n) \<Longrightarrow> i < ram_cap (get_mmu s)"
  by (auto simp: inside_def emu_ok_def mmu_wf_def region_def)

lemma sim_load:
  assumes "build cfg = FUZZ_ENV" "emu_ok s" "readable (arch_of s) a n" "n \<in> {1, 2, 4, 8}"
  shows "vload cfg s a (8 * n) = Inr (mem_value (arch_of s) a n, NormalExecutionReturn, s)"
proof -
  have i: "inside (arch_of s) a n" and n: "n < 2 ^ 64" using assms(3,4) by (auto simp: readable_def)
  then have nw: "a \<le> a + of_nat n" "a + of_nat n < mmu_ram_size (get_mmu s)" by (simp_all add: inside_def)
  have "read_exception (get_mmu s) (region a (of_nat n)) = NormalExecutionReturn"
    using assms(3) ball_region [OF nw(1) n, of "\<lambda>i. byte_permission (get_mmu s) i AND PERM_RAW = 0
        \<and> byte_permission (get_mmu s) i AND PERM_READ \<noteq> 0"]
    by (auto simp: readable_def read_exception_def)
  then have "read_to (get_mmu s) a (of_nat n) =
      Inr (map (\<lambda>k. ram (get_mmu s) (a + of_nat k)) [0..<n], NormalExecutionReturn)"
    using nw n inside_storage [OF assms(2) i] by (simp add: read_to_eq unat_of_nat_u64)
  then show ?thesis using assms(1,4)
    by (simp add: vload_def bus_load_ram mmu_load_bytes load_bytes_def mem_value_def)
qed

lemma sim_store:
  assumes "build cfg = FUZZ_ENV" "emu_ok s" "writable (arch_of s) a n" "n \<in> {1, 2, 4, 8}"
  shows "\<exists>m. vstore cfg s a v (8 * n) = Inr (NormalExecutionReturn, set_mmu m s) \<and>
    arch_of (set_mmu m s) = mem_write a n v (arch_of s)"
proof -
  let ?m = "get_mmu s" and ?bs = "le_bytes n v"
  have i: "inside (arch_of s) a n" and n: "n < 2 ^ 64" using assms(3,4) by (auto simp: writable_def)
  then have nw: "a \<le> a + of_nat n" "a + of_nat n < mmu_ram_size ?m" by (simp_all add: inside_def)
  have "\<forall>i \<in> region a (of_nat n). byte_permission ?m i AND PERM_WRITE \<noteq> 0"
    using assms(3) ball_region [OF nw(1) n, of "\<lambda>i. byte_permission ?m i AND PERM_WRITE \<noteq> 0"]
    by (simp add: writable_def)
  then have w: "write_from ?m ?bs a = Inr (written ?m ?bs a)"
    using nw inside_storage [OF assms(2) i] by (simp add: write_from_eq)
  define m where "m = (written ?m ?bs a)\<lparr>dirty_blocks := insert (a div BLOCK_SIZE) (dirty_blocks ?m)\<rparr>"
  have "MMU_store ?m a v (8 * n) = Inr (NormalExecutionReturn, m)"
    using assms(4) w by (auto simp: MMU_store_def store_as_bytes m_def)
  then have "vstore cfg s a v (8 * n) = Inr (NormalExecutionReturn, set_mmu m s)"
    using assms(1) by (simp add: vstore_def bus_store_ram set_mmu_def)
  moreover have "arch_of (set_mmu m s) = mem_write a n v (arch_of s)"
    using region_index [OF nw(1) n]
    by (auto simp: arch_of_def mem_write_def m_def written_def le_bytes_def fun_eq_iff)
  ultimately show ?thesis by blast
qed

lemma sext_bytes_8: "sext_bytes 8 v = v"
proof (rule bit_word_eqI)
  fix n assume "n < LENGTH(64)"
  then have "63 \<le> n \<Longrightarrow> n = 63" by simp
  then show "bit (sext_bytes 8 v) n = bit v n"
    by (auto simp: sext_bytes_def bit_simps min_def)
qed

lemma sext_bytes_casts:
  "sext_from8 (ucast v) = sext_bytes 1 v" "sext_from16 (ucast v) = sext_bytes 2 v"
  "sext_from32 (ucast v) = sext_bytes 4 v" "sext_w (ucast v) = sext_bytes 4 v"
  by (rule bit_word_eqI, simp add: sext_from8_def sext_from16_def sext_from32_def sext_w_def sext_bytes_def
      bit_simps min_def)+

lemma low_casts:
  fixes v :: u64
  shows "(ucast (v AND 0xFF) :: u8) = ucast v" "(ucast (v AND 0xFFFF) :: u16) = ucast v"
    "(ucast (v AND 0xFFFFFFFF) :: u32) = ucast v"
  by (rule bit_word_eqI, auto simp: and_low_mask bit_simps)+

lemma load_instr_eq:
  assumes "build cfg = FUZZ_ENV" "emu_ok s" "readable (arch_of s) (ireg s (f_rs1 s) + imm64 s) n"
    "n \<in> {1, 2, 4, 8}"
  shows "load_instr (8 * n) cfg s =
    Inr (write_rd (mem_value (arch_of s) (ireg s (f_rs1 s) + imm64 s) n) s)"
  using sim_load [OF assms] by (simp add: load_instr_def Let_def)

text \<open>The signed loads sign-extend what the unsigned load has written; \<open>x0\<close> stays zero.\<close>

lemma signed_loads_eq:
  assumes "x0_zero (iregs s)"
  shows "LBU cfg s = Inr (write_rd v s) \<Longrightarrow> LB cfg s = Inr (write_rd (sext_bytes 1 v) s)"
    and "LHU cfg s = Inr (write_rd v s) \<Longrightarrow> LH cfg s = Inr (write_rd (sext_bytes 2 v) s)"
    and "LWU cfg s = Inr (write_rd v s) \<Longrightarrow> LW cfg s = Inr (write_rd (sext_bytes 4 v) s)"
proof -
  have again: "set_ireg i w (set_ireg i v t) = set_ireg i w t" for i v w t
    by (simp add: set_ireg_def store_reg_def)
  have zero: "set_ireg 0 w t = t" for w t by (simp add: set_ireg_def store_reg_def)
  show "LBU cfg s = Inr (write_rd v s) \<Longrightarrow> LB cfg s = Inr (write_rd (sext_bytes 1 v) s)"
    "LHU cfg s = Inr (write_rd v s) \<Longrightarrow> LH cfg s = Inr (write_rd (sext_bytes 2 v) s)"
    "LWU cfg s = Inr (write_rd v s) \<Longrightarrow> LW cfg s = Inr (write_rd (sext_bytes 4 v) s)"
    by (cases "f_rd s = 0",
        simp_all add: LB_def LH_def LW_def write_rd_def again zero low_casts sext_bytes_casts)+
qed

lemma sim_loads:
  assumes "build cfg = FUZZ_ENV" "emu_ok s" "denotes (curr_instr s) (AsmI n d r1 im)"
    "specs load_ops n = Some k" "isa_load k d (ireg s (unat r1) + imm64 s) (arch_of s) = Some \<sigma>"
  shows "executes cfg s \<sigma>"
proof -
  let ?a = "ireg s (unat r1) + imm64 s"
  let ?v = "mem_value (arch_of s) ?a (fst k)"
  let ?w = "if snd k then sext_bytes (fst k) ?v else ?v"
  obtain h where h: "(n, h, k) \<in> set load_ops" using specs_Some [OF assms(4)] by blast
  then have k: "fst k \<in> {1, 2, 4, 8}" by (auto simp: load_ops_def)
  from assms(5) have r: "readable (arch_of s) ?a (fst k)"
    and \<sigma>: "\<sigma> = advance (set_reg d ?w (arch_of s))"
    by (auto simp: isa_load_def split: if_splits)
  have l: "load_instr (8 * fst k) cfg s = Inr (write_rd ?v s)"
    using load_instr_eq [OF assms(1,2) _ k] r assms(3) by simp
  have "h cfg s = Inr (write_rd ?w s)"
    using h l signed_loads_eq [of s cfg ?v] assms(2)
    by (auto simp: load_ops_def LBU_def LHU_def LWU_def LD_def emu_ok_def)
  moreover have "map_of (inst_funcs cfg) n = Some (h cfg)"
    using memory_dispatch(1) [of cfg] h by (auto simp: list_all_iff)
  ultimately show ?thesis
    using assms(2,3) arch_after_writes [of "set_ireg (unat d) ?w s" s d ?w]
    by (intro executesI [of s cfg "h cfg" "set_ireg (unat d) ?w s"]) (simp_all add: write_rd_def emu_ok_def \<sigma>)
qed

lemma mem_write_take: "mem_write a n (take_bit (8 * n) v) \<sigma> = mem_write a n v \<sigma>"
proof -
  have "(ucast (drop_bit (8 * k) (take_bit (8 * n) v)) :: u8) = ucast (drop_bit (8 * k) v)" if "k < n" for k
    by (rule bit_word_eqI) (use that in \<open>auto simp: bit_simps\<close>)
  then show ?thesis by (auto simp: mem_write_def fun_eq_iff)
qed

lemma sim_stores:
  assumes "build cfg = FUZZ_ENV" "emu_ok s" "denotes (curr_instr s) (AsmS n r1 r2 im)"
    "specs store_ops n = Some k" "isa_store k (ireg s (unat r1) + imm64 s) (ireg s (unat r2)) (arch_of s) = Some \<sigma>"
  shows "executes cfg s \<sigma>"
proof -
  let ?a = "ireg s (unat r1) + imm64 s" and ?v = "ireg s (unat r2)"
  obtain h where h: "(n, h, k) \<in> set store_ops" using specs_Some [OF assms(4)] by blast
  then have k: "k \<in> {1, 2, 4, 8}" by (auto simp: store_ops_def)
  from assms(5) have w: "writable (arch_of s) ?a k" and \<sigma>: "\<sigma> = advance (mem_write ?a k ?v (arch_of s))"
    by (auto simp: isa_store_def split: if_splits)
  obtain m where m: "vstore cfg s ?a (take_bit (8 * k) ?v) (8 * k) = Inr (NormalExecutionReturn, set_mmu m s)"
    "arch_of (set_mmu m s) = mem_write ?a k ?v (arch_of s)"
    using sim_store [OF assms(1,2) w k, of "take_bit (8 * k) ?v"] by (auto simp: mem_write_take)
  have "h cfg s = vstore cfg s ?a (take_bit (8 * k) ?v) (8 * k)"
    using h assms(3) by (auto simp: store_ops_def SB_def SH_def SW_def SD_def and_low_mask)
  moreover have "map_of (inst_funcs cfg) n = Some (h cfg)"
    using memory_dispatch(2) [of cfg] h by (auto simp: list_all_iff)
  ultimately show ?thesis
    using assms(2,3) m
    by (intro executesI [of s cfg "h cfg" "set_mmu m s"]) (auto simp: emu_ok_def \<sigma> arch_after_def)
qed

subsection \<open>Atomic operations\<close>

lemma mem_write_cong:
  "take_bit (8 * n) v = take_bit (8 * n) w \<Longrightarrow> mem_write a n v \<sigma> = mem_write a n w \<sigma>"
  by (metis mem_write_take)

text \<open>Each handler stores, up to the width of the access, the specified value, and returns the old one.\<close>

definition stores_like :: "nat \<Rightarrow> (u64 \<Rightarrow> u64 \<Rightarrow> u64) \<Rightarrow> (u64 \<Rightarrow> u64 \<Rightarrow> u64) \<Rightarrow> bool" where
  "stores_like k g f \<longleftrightarrow> (\<forall>v r. take_bit (8 * k) (g v r) = take_bit (8 * k) (f v r))"

definition amo_like :: "(config \<Rightarrow> vemu \<Rightarrow> outcome) \<Rightarrow> nat \<Rightarrow> (u64 \<Rightarrow> u64 \<Rightarrow> u64) \<Rightarrow> bool" where
  "amo_like h k f \<longleftrightarrow> k \<in> {4, 8} \<and>
     (\<exists>comb res. h = amo (8 * k) comb res \<and> stores_like k comb f \<and> (\<forall>v. res v = sext_bytes k v))"

lemma amo_like_W: "stores_like 4 comb f \<Longrightarrow> (\<And>v. res v = sext_bytes 4 v) \<Longrightarrow> amo_like (amo 32 comb res) 4 f"
  by (auto simp: amo_like_def intro!: exI [of _ comb] exI [of _ res])

lemma amo_like_D: "stores_like 8 comb f \<Longrightarrow> amo_like (amo 64 comb (\<lambda>v. v)) 8 f"
  by (auto simp: amo_like_def sext_bytes_8 intro!: exI [of _ comb] exI [of _ "\<lambda>v. v"])

lemma stores_like_W: "stores_like 4 g f \<longleftrightarrow> (\<forall>v r. (ucast (g v r) :: u32) = ucast (f v r))"
proof -
  have "ucast (ucast a :: u32) = take_bit 32 a" "(ucast (take_bit 32 a) :: u32) = ucast a" for a :: u64
    by (rule bit_word_eqI, auto simp: bit_simps)+
  then have "take_bit 32 a = take_bit 32 b \<longleftrightarrow> (ucast a :: u32) = ucast b" for a b :: u64
    by metis
  then show ?thesis by (simp add: stores_like_def)
qed

lemma word_minmax:
  fixes a b :: "'a::len word"
  shows "of_int (min (sint a) (sint b)) = (if a <s b then a else b)"
    "of_int (max (sint a) (sint b)) = (if b <s a then a else b)"
    "of_int (min (uint a) (uint b)) = (if a < b then a else b)"
    "of_int (max (uint a) (uint b)) = (if b < a then a else b)"
  using signed_word_eqI [of a b] unsigned_word_eqI [of a b]
  by (auto simp: min_def max_def word_sless_alt word_less_def dest: antisym)

lemma ucast_of_int: "(ucast (of_int i :: u64) :: u32) = of_int i"
  by (rule bit_word_eqI) (auto simp: bit_simps bit_word_of_int_iff)

lemma word32_casts:
  "(ucast (ucast w :: u64) :: u32) = w"
  "(ucast (v AND r :: u64) :: u32) = ucast v AND ucast r" "(ucast (v OR r :: u64) :: u32) = ucast v OR ucast r"
  "(ucast (v XOR r :: u64) :: u32) = ucast v XOR ucast r" "(w AND 0xFFFFFFFF :: u32) = w"
  by (rule bit_word_eqI, auto simp: bit_simps and_low_mask)+

lemma word32_arith:
  "(ucast (scast w :: u64) :: u32) = w" "(ucast (v + r :: u64) :: u32) = ucast v + ucast r"
  using ucast_of_int [of "sint w"] ucast_of_int [of "uint v + uint r"] by simp_all

lemma low_w_ucast: "low_w v = ucast v"
  by (simp add: low_w_def low_casts)

lemma amo_result: "sext_w (low_w v) = sext_bytes 4 v" "sext_from32 (ucast v) = sext_bytes 4 v"
  by (simp_all add: low_w_ucast sext_bytes_casts)

lemmas amo_simps = stores_like_W low_w_ucast Let_def ucast_of_int word32_casts word32_arith s32_def u32_of_def
  word_minmax sext_w_def

lemma amo_ops_ok: "list_all (\<lambda>(n, h, k, f). amo_like h k f) amo_ops"
  unfolding amo_ops_def atomic_defs list.pred_inject prod.case
  by (intro conjI TrueI list.pred_inject(1) amo_like_W amo_like_D amo_result)
    (simp_all add: amo_simps, simp_all add: stores_like_def word_minmax)

lemma sim_amo:
  assumes "build cfg = FUZZ_ENV" "emu_ok s" "denotes (curr_instr s) (AsmR n d r1 r2 q)"
    "specs amo_ops n = Some k" "isa_amo k d (ireg s (unat r1)) (ireg s (unat r2)) (arch_of s) = Some \<sigma>"
  shows "executes cfg s \<sigma>"
proof -
  let ?a = "ireg s (unat r1)" and ?r = "ireg s (unat r2)"
  let ?v = "mem_value (arch_of s) ?a (fst k)"
  obtain h where h: "(n, h, k) \<in> set amo_ops" using specs_Some [OF assms(4)] by blast
  then have "amo_like h (fst k) (snd k)" using amo_ops_ok by (cases k) (auto simp: list_all_iff)
  then obtain comb res where k: "fst k \<in> {4, 8}" and amo: "h = amo (8 * fst k) comb res"
    and comb: "take_bit (8 * fst k) (comb ?v ?r) = take_bit (8 * fst k) (snd k ?v ?r)"
    and res: "res ?v = sext_bytes (fst k) ?v"
    by (auto simp: amo_like_def stores_like_def)
  from assms(5) have al: "?a mod of_nat (fst k) = 0" and r: "readable (arch_of s) ?a (fst k)"
    and w: "writable (arch_of s) ?a (fst k)"
    and \<sigma>: "\<sigma> = advance (set_reg d (sext_bytes (fst k) ?v) (mem_write ?a (fst k) (snd k ?v ?r) (arch_of s)))"
    by (auto simp: isa_amo_def Let_def split: if_splits)
  have l: "vload cfg s ?a (8 * fst k) = Inr (?v, NormalExecutionReturn, s)"
    using sim_load [OF assms(1,2) r] k by auto
  obtain m where m: "vstore cfg s ?a (comb ?v ?r) (8 * fst k) = Inr (NormalExecutionReturn, set_mmu m s)"
    "arch_of (set_mmu m s) = mem_write ?a (fst k) (snd k ?v ?r) (arch_of s)"
    using sim_store [OF assms(1,2) w, of "comb ?v ?r"] k mem_write_cong [OF comb] by auto
  let ?s' = "set_ireg (unat d) (sext_bytes (fst k) ?v) (set_mmu m s)"
  have "h cfg s = Inr (NormalExecutionReturn, ?s')"
    using assms(3) al l m(1) res by (simp add: amo amo_def Let_def write_rd_def)
  moreover have "map_of (inst_funcs cfg) n = Some (h cfg)"
    using memory_dispatch(3) [of cfg] h by (auto simp: list_all_iff)
  ultimately show ?thesis
    using assms(2,3) m(2) arch_after_writes [of ?s' "set_mmu m s" d "sext_bytes (fst k) ?v"]
    by (intro executesI [of s cfg "h cfg" ?s']) (auto simp: emu_ok_def \<sigma>)
qed

subsection \<open>Execution\<close>

lemma imm64_scast:
  "imm (get_fields (curr_instr s)) = scast (im :: 12 word) \<Longrightarrow> imm64 s = scast im"
  "imm (get_fields (curr_instr s)) = scast (jm :: 13 word) \<Longrightarrow> imm64 s = scast jm"
  "imm (get_fields (curr_instr s)) = scast (km :: 21 word) \<Longrightarrow> imm64 s = scast km"
  by (simp_all add: imm64_def, (rule bit_word_eqI, auto simp: bit_simps min_def)+)

lemma shift_amounts:
  "take_bit 6 (imm (get_fields (curr_instr s))) = ucast (sh :: 6 word) \<Longrightarrow>
     unat (imm64 s) mod 64 = unat (ucast sh :: u64) mod 64"
  "take_bit 5 (imm (get_fields (curr_instr s))) = ucast (shw :: 5 word) \<Longrightarrow>
     unat (imm64 s) mod 32 = unat (ucast shw :: u64) mod 32"
proof -
  have u: "unat (ucast (ucast sh :: u32) :: u8) = unat sh" "unat (ucast sh :: u64) = unat sh" "unat sh < 64" for sh :: "6 word"
  proof -
    have "unat sh < 2 ^ LENGTH(6)" by (rule unsigned_less)
    then show "unat (ucast (ucast sh :: u32) :: u8) = unat sh" "unat (ucast sh :: u64) = unat sh" "unat sh < 64"
      by (simp_all add: unsigned_ucast_eq unsigned_take_bit_eq take_bit_nat_eq_self_iff)
  qed
  have v: "unat (ucast (ucast sh :: u32) :: u8) = unat sh" "unat (ucast sh :: u64) = unat sh" "unat sh < 32" for sh :: "5 word"
  proof -
    have "unat sh < 2 ^ LENGTH(5)" by (rule unsigned_less)
    then show "unat (ucast (ucast sh :: u32) :: u8) = unat sh" "unat (ucast sh :: u64) = unat sh" "unat sh < 32"
      by (simp_all add: unsigned_ucast_eq unsigned_take_bit_eq take_bit_nat_eq_self_iff)
  qed
  show "take_bit 6 (imm (get_fields (curr_instr s))) = ucast (sh :: 6 word) \<Longrightarrow>
     unat (imm64 s) mod 64 = unat (ucast sh :: u64) mod 64"
    using imm_shamt(1) [of s] u [of sh] by (simp add: shamt_imm64_def and_low_mask)
  show "take_bit 5 (imm (get_fields (curr_instr s))) = ucast (shw :: 5 word) \<Longrightarrow>
     unat (imm64 s) mod 32 = unat (ucast shw :: u64) mod 32"
    using imm_shamt(2) [of s] v [of shw] by (simp add: shamt_imm32_def and_low_mask)
qed

lemma shift_encoded:
  "encode (AsmShift n d r1 sh) = Some w \<Longrightarrow> n \<in> fst ` set rv_shift"
  "encode (AsmShiftW n d r1 shw) = Some w \<Longrightarrow> n \<in> fst ` set rv_shiftw"
  by (auto split: option.splits dest!: map_of_SomeD) (force+)

lemma sim_shift:
  assumes "inst_funcs_set s" "denotes (curr_instr s) (AsmShift n d r1 sh)" "n \<in> fst ` set rv_shift"
    "specs imm_ops n = Some f"
  shows "executes cfg s (advance (set_reg d (f (ireg s (unat r1)) (ucast sh)) (arch_of s)))"
proof -
  have "unat (imm64 s) mod 64 = unat (ucast sh :: u64) mod 64"
    using assms(2) shift_amounts(1) by simp
  then have "f a (imm64 s) = f a (ucast sh)" for a
    using assms(3,4) by (auto simp: rv_shift_def specs_def imm_ops_def)
  then show ?thesis using sim_imm [OF assms(1) _ _ _ assms(4), of d r1 cfg] assms(2) by simp
qed

lemma sim_shiftw:
  assumes "inst_funcs_set s" "denotes (curr_instr s) (AsmShiftW n d r1 sh)" "n \<in> fst ` set rv_shiftw"
    "specs imm_ops n = Some f"
  shows "executes cfg s (advance (set_reg d (f (ireg s (unat r1)) (ucast sh)) (arch_of s)))"
proof -
  have "unat (imm64 s) mod 32 = unat (ucast sh :: u64) mod 32"
    using assms(2) shift_amounts(2) by simp
  then have "f a (imm64 s) = f a (ucast sh)" for a
    using assms(3,4) by (auto simp: rv_shiftw_def specs_def imm_ops_def)
  then show ?thesis using sim_imm [OF assms(1) _ _ _ assms(4), of d r1 cfg] assms(2) by simp
qed

lemma sim_exec:
  assumes "build cfg = FUZZ_ENV" "emu_ok s" "denotes (curr_instr s) a" "encode a = Some w"
    "isa_exec a (arch_of s) = Some \<sigma>"
  shows "executes cfg s \<sigma>"
proof -
  have i: "inst_funcs_set s" using assms(2) by (simp add: emu_ok_def)
  show ?thesis
  proof (cases a)
    case (AsmR n d r1 r2 q)
    then show ?thesis
      using assms sim_alu [OF i, of n d r1 r2 q _ cfg] sim_amo [OF assms(1,2), of n d r1 r2 q]
      by (auto simp: reg_of_def split: option.splits)
  next
    case (AsmI n d r1 im)
    have im: "imm64 s = scast im" using assms(3) AsmI imm64_scast(1) by simp
    show ?thesis
      using AsmI assms(3,5) sim_jump(2) [OF i, of d cfg] sim_loads [OF assms(1,2), of n d r1 im]
        sim_imm [OF i _ _ _, of n d r1 _ cfg] im
      by (auto simp: reg_of_def split: option.splits if_splits)
  next
    case (AsmShift n d r1 sh)
    then have "n \<in> fst ` set rv_shift" using assms(4) shift_encoded by blast
    then show ?thesis
      using AsmShift assms(3,5) sim_shift [OF i, of n d r1 sh _ cfg]
      by (auto simp: reg_of_def split: option.splits)
  next
    case (AsmShiftW n d r1 sh)
    then have "n \<in> fst ` set rv_shiftw" using assms(4) shift_encoded by blast
    then show ?thesis
      using AsmShiftW assms(3,5) sim_shiftw [OF i, of n d r1 sh _ cfg]
      by (auto simp: reg_of_def split: option.splits)
  next
    case (AsmS n r1 r2 im)
    then show ?thesis
      using assms(3,5) sim_stores [OF assms(1,2), of n r1 r2 im] imm64_scast(1) [of s im]
      by (auto simp: reg_of_def split: option.splits)
  next
    case (AsmB n r1 r2 im)
    then show ?thesis
      using assms(3,5) sim_branch [OF i, of n r1 r2 im _ cfg] imm64_scast(2) [of s "im AND NOT 1"]
      by (auto simp: reg_of_def split: option.splits)
  next
    case (AsmU n d im)
    then show ?thesis
      using assms(3,5) sim_upper [OF i, of d cfg] by (auto simp: imm64_def Let_def split: if_splits)
  next
    case (AsmJ n d im)
    then show ?thesis
      using assms(3,5) sim_jump(1) [OF i, of d cfg] imm64_scast(3) [of s "im AND NOT 1"]
      by (auto split: if_splits)
  qed (use assms in simp_all)
qed

subsection \<open>One iteration of the loop\<close>

lemma sim_fetch:
  assumes "build cfg = FUZZ_ENV" "emu_ok s" "list_all (\<lambda>k. pc s + of_nat k < mmu_ram_size (get_mmu s)) [0..<4]"
    "mem_value (arch_of s) (pc s) 4 = ucast w"
  shows "fetch cfg s = Inr (s\<lparr>hex_instr := w\<rparr>)"
proof -
  have u: "[0..<4] = [0, 1, 2, 3 :: nat]" by (simp add: upt_rec)
  have "load_insn (get_mmu s) (pc s) = Inr (ucast (mem_value (arch_of s) (pc s) 4), NormalExecutionReturn)"
    using assms(2,3) by (simp add: load_insn_def Let_def in_storage_def defined_res_def emu_ok_def mmu_wf_def
        mem_value_def u push_bit_or ac_simps)
  then have "load_insn (get_mmu s) (pc s) = Inr (w, NormalExecutionReturn)"
    by (simp add: assms(4) word32_casts)
  then show ?thesis
    using assms(1) by (simp add: fetch_def get_4byte_aligned_instr_def after_def is_fatal_def)
qed

lemma isa_not_ecall: "isa_exec a \<sigma> = Some \<sigma>' \<Longrightarrow> denotes i a \<Longrightarrow> get_name i \<noteq> iECALL"
proof (cases a)
  case (AsmR n d r1 r2 q)
  assume "isa_exec a \<sigma> = Some \<sigma>'" "denotes i a"
  with AsmR show ?thesis by (auto simp: specs_def alu_ops_def amo_ops_def)
qed (auto simp: specs_def imm_ops_def load_ops_def store_ops_def branch_ops_def Let_def split: if_splits)

lemma sim_step:
  assumes b: "build cfg = FUZZ_ENV" and ok: "emu_ok s" and live: "\<not> has_exited s"
    and st: "isa_step (arch_of s) \<sigma>"
  shows "\<exists>s'. step cfg s s' \<and> arch_of s' = \<sigma> \<and> emu_ok s' \<and> \<not> has_exited s'"
proof -
  from st obtain a w where a: "encode a = Some w" "isa_exec a (arch_of s) = Some \<sigma>"
    and w: "list_all (\<lambda>k. pc s + of_nat k < mmu_ram_size (get_mmu s)) [0..<4]" "mem_value (arch_of s) (pc s) 4 = ucast w"
    by (auto elim: isa_step.cases)
  have "decoder_ok (decoder s)" using ok by (simp add: emu_ok_def)
  then obtain i d where i: "decode (decoder s) w = Inr (i, d)" "denotes i a" "decoder_ok d"
    using decode_spec_encode [OF a(1)] decode_correct by blast
  let ?s3 = "s\<lparr>hex_instr := w, curr_instr := i, decoder := d\<rparr>"
  have s3: "emu_ok ?s3" "\<not> has_exited ?s3" "arch_of ?s3 = arch_of s" "denotes (curr_instr ?s3) a"
    using ok live i by (simp_all add: emu_ok_def arch_of_def)
  obtain s4 where s4: "dispatch cfg (get_name i) ?s3 = Inr (NormalExecutionReturn, s4)" "arch_after s4 = \<sigma>"
    using sim_exec [OF b s3(1,4) a(1)] a(2) s3(3) by (auto simp: executes_def)
  then obtain h where h: "map_of (inst_funcs cfg) (get_name i) = Some h" "h ?s3 = Inr (NormalExecutionReturn, s4)"
    by (auto simp: dispatch_def split: if_splits option.splits)
  have n: "get_name i \<noteq> iECALL" using isa_not_ecall [OF a(2) i(2)] .
  have "emu_ok s4" using emu_any.handlers_keep [OF s3(1) _ _ h(1)] n h(2) by (simp add: harmless_def)
  moreover have "\<not> has_exited s4" using live.handlers_keep [OF s3(2) _ _ h(1)] n h(2) by (simp add: harmless_def)
  moreover have "run_iteration cfg s = Inr (Running, s4\<lparr>pc := pc s4 + 4\<rparr>)"
    using b live sim_fetch [OF b ok w] i(1) s4(1)
    by (simp add: run_iteration_def interrupts_def decode_current_def execute_def after_def is_fatal_def)
  moreover have "arch_of (s4\<lparr>pc := pc s4 + 4\<rparr>) = \<sigma>"
    using s4(2) by (simp add: arch_after_def advance_def arch_of_def)
  ultimately show ?thesis by (auto simp: step_iff emu_ok_def intro!: exI [of _ "s4\<lparr>pc := pc s4 + 4\<rparr>"])
qed

definition fuzzing :: "config \<Rightarrow> config" where
  "fuzzing cfg = cfg\<lparr>build := FUZZ_ENV\<rparr>"

interpretation isa: forward_simulation isa_step "step (fuzzing cfg)" arch_of "\<lambda>s. emu_ok s \<and> \<not> has_exited s"
  for cfg
  using sim_step [of "fuzzing cfg"] by unfold_locales (auto simp: fuzzing_def)

lemma reachable_rtranclp: "(step cfg)\<^sup>*\<^sup>* s s' \<Longrightarrow> reachable cfg s s'"
  by (induction rule: rtranclp_induct) (auto intro: reachable.intros)

subsection \<open>Properties\<close>

text \<open>(C1) The emulator implements the instruction set: in the fuzzing build, from a well-formed state
  that has not exited, for every run of the abstract machine (fetching assembled words of the RV64IM
  computations, loads, stores, branches, jumps and read-modify-write operations from memory and
  executing them) the run loop reaches a state with exactly the resulting program counter, registers,
  memory bytes and permissions, and that state is well formed again.\<close>

theorem run_loop_implements_isa:
  assumes "build cfg = FUZZ_ENV" and "emu_ok s" and "\<not> has_exited s" and "isa_step\<^sup>*\<^sup>* (arch_of s) \<sigma>"
  shows "\<exists>s'. reachable cfg s s' \<and> arch_of s' = \<sigma> \<and> emu_ok s' \<and> \<not> has_exited s'"
proof -
  have "fuzzing cfg = cfg" using assms(1) by (simp add: fuzzing_def)
  then show ?thesis
    using isa.simulates_run [OF assms(4), of cfg] assms(2,3) reachable_rtranclp by auto
qed

text \<open>(C7) Every read-modify-write handler of the atomic extension, in the fuzzing build, at an aligned
  address whose bytes may be read and written, puts the old value, sign-extended, into \<open>rd\<close> and
  stores the specified combination of the old value and \<open>rs2\<close> (swap, sum, bitwise operation,
  signed or unsigned minimum or maximum) in the bytes of the access and nowhere else; at a misaligned
  address it changes nothing and reports a misaligned load.\<close>

theorem amo_handlers_correct:
  assumes "(n, h, k, f) \<in> set amo_ops" and "build cfg = FUZZ_ENV" and "emu_ok s"
  defines "a \<equiv> ireg s (f_rs1 s)" and "v \<equiv> mem_value (arch_of s) (ireg s (f_rs1 s)) k"
  shows "(a mod of_nat k = 0 \<and> readable (arch_of s) a k \<and> writable (arch_of s) a k \<longrightarrow>
     (\<exists>s'. h cfg s = Inr (NormalExecutionReturn, s') \<and> pc s' = pc s \<and>
       iregs s' = store_reg (iregs s) (f_rd s) (sext_bytes k v) \<and>
       arch_of (s'\<lparr>iregs := iregs s\<rparr>) = mem_write a k (f v (ireg s (f_rs2 s))) (arch_of s))) \<and>
   (a mod of_nat k \<noteq> 0 \<longrightarrow> h cfg s = Inr (LoadAddressMisaligned, s))"
proof -
  have "amo_like h k f" using amo_ops_ok assms(1) by (auto simp: list_all_iff)
  then obtain comb res where k: "k \<in> {4, 8}" and h: "h = amo (8 * k) comb res"
    and comb: "\<And>v r. take_bit (8 * k) (comb v r) = take_bit (8 * k) (f v r)"
    and res: "\<And>v. res v = sext_bytes k v"
    by (auto simp: amo_like_def stores_like_def)
  have k8: "k \<in> {1, 2, 4, 8}" using k by auto
  show ?thesis
  proof (intro conjI impI)
    assume ok: "a mod of_nat k = 0 \<and> readable (arch_of s) a k \<and> writable (arch_of s) a k"
    obtain m where m: "vstore cfg s a (comb v (ireg s (f_rs2 s))) (8 * k) = Inr (NormalExecutionReturn, set_mmu m s)"
      "arch_of (set_mmu m s) = mem_write a k (f v (ireg s (f_rs2 s))) (arch_of s)"
      using sim_store [OF assms(2,3) _ k8, of a "comb v (ireg s (f_rs2 s))"] ok mem_write_cong [OF comb] by auto
    have "h cfg s = Inr (NormalExecutionReturn, set_ireg (f_rd s) (sext_bytes k v) (set_mmu m s))"
      using sim_load [OF assms(2,3) _ k8, of a] ok m(1)
      by (simp add: h amo_def Let_def write_rd_def res a_def v_def)
    then show "\<exists>s'. h cfg s = Inr (NormalExecutionReturn, s') \<and> pc s' = pc s \<and>
       iregs s' = store_reg (iregs s) (f_rd s) (sext_bytes k v) \<and>
       arch_of (s'\<lparr>iregs := iregs s\<rparr>) = mem_write a k (f v (ireg s (f_rs2 s))) (arch_of s)"
      using m(2) by (intro exI [of _ "set_ireg (f_rd s) (sext_bytes k v) (set_mmu m s)"]) (simp add: arch_of_def)
  next
    assume "a mod of_nat k \<noteq> 0"
    then show "h cfg s = Inr (LoadAddressMisaligned, s)" by (simp add: h amo_def Let_def a_def)
  qed
qed

text \<open>(C28) Signed loads lose faults: when the memory refuses a load (uninitialised bytes, no read
  permission), \<open>LBU\<close>, \<open>LHU\<close>, \<open>LWU\<close> report the exception and leave the registers alone, but
  \<open>LB\<close>, \<open>LH\<close>, \<open>LW\<close> report success and sign-extend whatever \<open>rd\<close> held.\<close>

theorem signed_loads_mask_faults:
  assumes "vload cfg s (ireg s (f_rs1 s) + imm64 s) (8 * n) = Inr (v, e, s')" and "e \<noteq> NormalExecutionReturn"
  shows "(n = 1 \<longrightarrow> LBU cfg s = Inr (e, s') \<and>
            LB cfg s = Inr (NormalExecutionReturn, set_ireg (f_rd s') (sext_bytes 1 (ireg s' (f_rd s'))) s')) \<and>
         (n = 2 \<longrightarrow> LHU cfg s = Inr (e, s') \<and>
            LH cfg s = Inr (NormalExecutionReturn, set_ireg (f_rd s') (sext_bytes 2 (ireg s' (f_rd s'))) s')) \<and>
         (n = 4 \<longrightarrow> LWU cfg s = Inr (e, s') \<and>
            LW cfg s = Inr (NormalExecutionReturn, set_ireg (f_rd s') (sext_bytes 4 (ireg s' (f_rd s'))) s'))"
proof -
  have "load_instr (8 * n) cfg s = Inr (e, s')" using assms by (simp add: load_instr_def Let_def)
  then show ?thesis
    by (auto simp: LB_def LH_def LW_def LBU_def LHU_def LWU_def write_rd_def low_casts sext_bytes_casts)
qed

end
