(* ===== verification/RV_Privileged.thy ===== *)
theory RV_Privileged
  imports Vemu_Invariant
begin

text \<open>
  The privileged part: what a trap followed by the return instruction restores, how a pending interrupt is
  chosen, and what the instructions on control and status registers do.
\<close>

unbundle bit_operations_syntax

subsection \<open>Bits of the status registers\<close>

lemma not32_bit: "bit (not32 w) n \<longleftrightarrow> n < 32 \<and> \<not> bit w n"
  by (auto simp: not32_def bit_simps)

lemma low_bit_test: "(drop_bit k w AND 1 :: 'a::len word) = of_bool (bit w k)"
  by (rule bit_word_eqI) (auto simp: bit_simps bit_1_iff)

lemma flag_u8: "(ucast (drop_bit k (w :: u64) AND 1) :: u8) = of_bool (bit w k)"
  by (simp add: low_bit_test)

lemma status_and_not32: "bit (w AND not32 (push_bit k 1)) n \<longleftrightarrow> bit w n \<and> n < 32 \<and> n \<noteq> k"
  by (auto simp: bit_and_iff not32_bit bit_push_bit_iff bit_1_iff bit_exp_iff)

lemma status_set: "bit (w OR push_bit k 1 :: u64) n \<longleftrightarrow> bit w n \<or> (n = k \<and> n < 64)"
  by (auto simp: bit_or_iff bit_push_bit_iff bit_1_iff bit_exp_iff)

lemma status_clear: "bit (w AND NOT (push_bit k 1) :: u64) n \<longleftrightarrow> bit w n \<and> n \<noteq> k"
  by (auto simp: bit_and_iff bit_not_iff bit_push_bit_iff bit_1_iff bit_exp_iff dest: bit_imp_le_length)

lemma status_bit1:
  "bit (w AND not32 2) n \<longleftrightarrow> bit w n \<and> n < 32 \<and> n \<noteq> Suc 0"
  "bit (w OR 2 :: u64) n \<longleftrightarrow> bit w n \<or> n = Suc 0"
  "bit (w AND - 3 :: u64) n \<longleftrightarrow> bit w n \<and> n \<noteq> Suc 0"
  using status_and_not32 [of w 1 n] status_set [of w 1 n] status_clear [of w 1 n] by auto

text \<open>The two bits of \<open>MPP\<close>\<close>

lemma bit_3: "bit (3 :: 'a::len word) k \<longleftrightarrow> k < LENGTH('a) \<and> k < 2"
proof -
  have "(mask 2 :: 'a word) = 3" by (simp add: mask_eq_exp_minus_1)
  then show ?thesis using bit_mask_iff [of 2 k, where 'a = "'a word"] by simp
qed

lemma status_mpp:
  "bit (w AND not32 (push_bit 11 3)) n \<longleftrightarrow> bit w n \<and> n < 32 \<and> n \<noteq> 11 \<and> n \<noteq> 12"
  "bit (w OR push_bit 11 3 :: u64) n \<longleftrightarrow> bit w n \<or> n = 11 \<or> n = 12"
  "bit (w AND NOT (push_bit 11 3) :: u64) n \<longleftrightarrow> bit w n \<and> n \<noteq> 11 \<and> n \<noteq> 12"
proof -
  have m: "bit (push_bit 11 3 :: 'a::len word) n \<longleftrightarrow> n < LENGTH('a) \<and> (n = 11 \<or> n = 12)"
    by (simp only: bit_push_bit_iff possible_bit_word bit_3) arith
  show "bit (w AND not32 (push_bit 11 3)) n \<longleftrightarrow> bit w n \<and> n < 32 \<and> n \<noteq> 11 \<and> n \<noteq> 12"
    "bit (w OR push_bit 11 3 :: u64) n \<longleftrightarrow> bit w n \<or> n = 11 \<or> n = 12"
    "bit (w AND NOT (push_bit 11 3) :: u64) n \<longleftrightarrow> bit w n \<and> n \<noteq> 11 \<and> n \<noteq> 12"
    by (auto simp: bit_and_iff bit_or_iff bit_not_iff not32_bit m simp del: push_bit_numeral
        dest: bit_imp_le_length)
qed

lemmas status_bits = status_bit1 status_mpp not32_bit low_bit_test flag_u8 status_and_not32 status_set status_clear

subsection \<open>Supervisor traps\<close>

lemma enter_supervisor_effect:
  assumes s': "s' = enter_supervisor target epc cause md s"
  shows "mode s' = Supervisor" "pc s' = target - 4" "csrs s' SEPC = epc AND not32 1" "csrs s' SCAUSE = cause"
    "bit (csrs s' SSTATUS) SSTATUS_SPIE_POS = bit (csrs s SSTATUS) SSTATUS_SIE_POS"
    "\<not> bit (csrs s' SSTATUS) SSTATUS_SIE_POS"
    "bit (csrs s' SSTATUS) SSTATUS_SPP_POS = (md \<noteq> User)"
    "iregs s' = iregs s" "bus s' = bus s"
  unfolding s' enter_supervisor_def Let_def
  by (simp_all add: load_csr_def status_bits del: push_bit_of_1)


lemma enter_machine_effect:
  assumes s': "s' = enter_machine target epc cause md s"
  shows "mode s' = Machine" "pc s' = target - 4" "csrs s' MEPC = epc AND not32 1" "csrs s' MCAUSE = cause"
    "bit (csrs s' MSTATUS) MSTATUS_MPIE_POS = bit (csrs s MSTATUS) MSTATUS_MIE_POS"
    "\<not> bit (csrs s' MSTATUS) MSTATUS_MIE_POS"
    "bit (csrs s' MSTATUS) 11 = (md \<noteq> User)" "bit (csrs s' MSTATUS) 12 = (md = Machine)"
    "iregs s' = iregs s" "bus s' = bus s"
  unfolding s' enter_machine_def Let_def
  by (cases md; simp add: load_csr_def status_bits del: push_bit_of_1 push_bit_numeral)+

lemma SRET_effect:
  assumes s': "s' = snd (SRET s)"
  shows "fst (SRET s) = NormalExecutionReturn" "mode s' = (if bit (csrs s SSTATUS) SSTATUS_SPP_POS then Supervisor else User)"
    "pc s' = csrs s SEPC - 4" "bit (csrs s' SSTATUS) SSTATUS_SIE_POS = bit (csrs s SSTATUS) SSTATUS_SPIE_POS"
    "bit (csrs s' SSTATUS) SSTATUS_SPIE_POS" "\<not> bit (csrs s' SSTATUS) SSTATUS_SPP_POS"
    "iregs s' = iregs s" "bus s' = bus s"
  unfolding s' SRET_def Let_def
  by (simp_all add: load_csr_def status_bits del: push_bit_of_1)

lemma mpp_value:
  "(ucast (drop_bit 11 (w :: u64) AND 3) :: u8) = (if bit w 12 then 2 else 0) OR (if bit w 11 then 1 else 0)"
proof (rule bit_word_eqI)
  fix n :: nat
  have b: "bit (ucast (drop_bit 11 w AND 3) :: u8) n \<longleftrightarrow> n < 2 \<and> bit w (11 + n)"
    by (simp only: bit_unsigned_iff bit_and_iff bit_drop_bit_eq bit_3 possible_bit_word comp_apply) auto
  have "n = 0 \<or> n = 1 \<or> 2 \<le> n" by arith
  then show "bit (ucast (drop_bit 11 w AND 3) :: u8) n =
      bit ((if bit w 12 then 2 else 0) OR (if bit w 11 then 1 else 0) :: u8) n"
    unfolding b by (elim disjE) (auto simp: bit_or_iff bit_1_iff bit_2_iff)
qed

lemma MRET_effect:
  assumes "\<not> bit (csrs s MSTATUS) 12"
  shows "\<exists>s'. MRET s = Inr (NormalExecutionReturn, s') \<and>
    mode s' = (if bit (csrs s MSTATUS) 11 then Supervisor else User) \<and> pc s' = csrs s MEPC - 4 \<and>
    bit (csrs s' MSTATUS) MSTATUS_MIE_POS = bit (csrs s MSTATUS) MSTATUS_MPIE_POS \<and>
    iregs s' = iregs s \<and> bus s' = bus s"
  using assms unfolding MRET_def Let_def
  by (simp add: load_csr_def mpp_value status_bits del: push_bit_of_1 push_bit_numeral)

lemma MRET_machine:
  assumes "bit (csrs s MSTATUS) 12"
  shows "MRET s = Inl AssertionFailure"
  using assms by (simp add: MRET_def Let_def load_csr_def mpp_value)

subsection \<open>Traps and returns\<close>

lemma not32_1: "not32 1 = 0xFFFFFFFE"
  by (simp add: not32_def)

text \<open>(C21) An exception that is delegated to supervisor mode and the \<open>SRET\<close> that ends its handler are
  inverse, outside the fuzzing build: the mode, the integer registers, the devices and memory and the
  interrupt-enable bit \<open>SIE\<close> come back, and the loop resumes at the interrupted instruction,
  provided its address is even and fits in 32 bits: \<open>SEPC\<close> keeps \<open>pc & 0xFFFFFFFE\<close>.\<close>

theorem supervisor_trap_return:
  assumes "build cfg \<noteq> FUZZ_ENV" and "mode s \<noteq> Machine"
    and "shr64 cfg (load_csr s MEDELEG) (ucast (exception_code e)) AND 1 \<noteq> 0"
  defines "s1 \<equiv> trap cfg e s" and "s2 \<equiv> snd (SRET (trap cfg e s))"
  shows "mode s1 = Supervisor \<and> load_csr s1 SCAUSE = ucast (exception_code e) \<and>
    \<not> bit (load_csr s1 SSTATUS) SSTATUS_SIE_POS \<and>
    fst (SRET s1) = NormalExecutionReturn \<and> mode s2 = mode s \<and> pc s2 + 4 = pc s AND 0xFFFFFFFE \<and>
    bit (load_csr s2 SSTATUS) SSTATUS_SIE_POS = bit (load_csr s SSTATUS) SSTATUS_SIE_POS \<and>
    iregs s2 = iregs s \<and> bus s2 = bus s"
proof -
  have s1: "s1 = enter_supervisor (load_csr s STVEC AND not32 1) (pc s) (ucast (exception_code e)) (mode s) s"
    using assms(1-3) by (cases "mode s") (simp_all add: s1_def trap_def Let_def)
  have s2: "s2 = snd (SRET s1)" by (simp add: s1_def s2_def)
  show ?thesis
    using assms(2) enter_supervisor_effect [OF s1] SRET_effect [OF s2]
    by (cases "mode s") (simp_all add: load_csr_def not32_1)
qed

text \<open>(C22) An exception taken in machine mode from user or supervisor mode and the \<open>MRET\<close> that ends its
  handler are inverse in the same sense; but after an exception that machine mode itself raises,
  \<open>MRET\<close> fails an assertion and stops the emulator: \<open>MPP\<close> is compared with \<open>0x11\<close>.\<close>

theorem machine_trap_return:
  assumes "build cfg \<noteq> FUZZ_ENV"
    and "mode s = Machine \<or> shr64 cfg (load_csr s MEDELEG) (ucast (exception_code e)) AND 1 = 0"
  defines "s1 \<equiv> trap cfg e s"
  shows "mode s1 = Machine \<and> load_csr s1 MCAUSE = ucast (exception_code e) \<and>
    (mode s = Machine \<longrightarrow> MRET s1 = Inl AssertionFailure) \<and>
    (mode s \<noteq> Machine \<longrightarrow> (\<exists>s2. MRET s1 = Inr (NormalExecutionReturn, s2) \<and> mode s2 = mode s \<and>
      pc s2 + 4 = pc s AND 0xFFFFFFFE \<and>
      bit (load_csr s2 MSTATUS) MSTATUS_MIE_POS = bit (load_csr s MSTATUS) MSTATUS_MIE_POS \<and>
      iregs s2 = iregs s \<and> bus s2 = bus s))"
proof -
  have s1: "s1 = enter_machine (load_csr s MTVEC AND not32 1) (pc s) (ucast (exception_code e)) (mode s) s"
    using assms(1,2) by (auto simp: s1_def trap_def Let_def)
  note effect = enter_machine_effect [OF s1]
  show ?thesis
  proof (cases "mode s = Machine")
    case True
    then show ?thesis using effect MRET_machine [of s1] by (simp add: load_csr_def)
  next
    case False
    then obtain s2 where "MRET s1 = Inr (NormalExecutionReturn, s2)"
      "mode s2 = (if bit (csrs s1 MSTATUS) 11 then Supervisor else User)" "pc s2 = csrs s1 MEPC - 4"
      "bit (csrs s2 MSTATUS) MSTATUS_MIE_POS = bit (csrs s1 MSTATUS) MSTATUS_MPIE_POS"
      "iregs s2 = iregs s1" "bus s2 = bus s1"
      using effect MRET_effect [of s1] by auto
    then show ?thesis using False effect by (cases "mode s") (auto simp: load_csr_def not32_1)
  qed
qed

subsection \<open>Pending interrupts\<close>

definition priority :: "(nat \<times> Interrupt) list" where
  "priority = [(MIP_MEIP_POS, MachineExternalInterrupt), (MIP_MSIP_POS, MachineSoftwareInterrupt),
     (MIP_MTIP_POS, MachineTimerInterrupt), (MIP_SEIP_POS, SupervisorExternalInterrupt),
     (MIP_SSIP_POS, SupervisorSoftwareInterrupt), (MIP_STIP_POS, SupervisorTimerInterrupt)]"

definition highest :: "u64 \<Rightarrow> u64 \<Rightarrow> (nat \<times> Interrupt) option" where
  "highest mie mip = List.find (\<lambda>(p, i). bit mie p \<and> bit mip p) priority"

lemma is_pending_bit: "is_pending s p \<longleftrightarrow> bit (csrs s MIE) p \<and> bit (csrs s MIP) p"
  using and_exp_eq_0_iff_not_bit [of "csrs s MIE AND csrs s MIP" p]
  by (simp add: is_pending_def load_csr_def bit_and_iff)

lemma select_interrupt_highest:
  "select_interrupt s = (case highest (csrs s MIE) (csrs s MIP) of
      None \<Rightarrow> (NoInterrupt, s) | Some (p, i) \<Rightarrow> (i, clear_pending p s))"
  by (simp add: select_interrupt_def highest_def priority_def is_pending_bit)

text \<open>(C23) Interrupts are taken in the order of the specification: outside machine and supervisor mode,
  or when the mode's enable bit is set, and while the serial port is quiet, the loop picks the first
  interrupt of the priority list (external, software, timer; machine before supervisor) that is both
  enabled in \<open>MIE\<close> and pending in \<open>MIP\<close>, and resets exactly its pending bit among the low
  32; when none is pending, or interrupts are disabled, nothing changes but the serial port's
  flag.\<close>

theorem interrupt_priority:
  assumes "\<not> interrupting (uart (bus s))"
  defines "masked \<equiv> (mode s = Machine \<and> \<not> bit (load_csr s MSTATUS) MSTATUS_MIE_POS) \<or>
                    (mode s = Supervisor \<and> \<not> bit (load_csr s SSTATUS) SSTATUS_SIE_POS)"
  shows "\<exists>i s'. check_pending_interrupt cfg s = Inr (i, s') \<and>
    (case highest (csrs s MIE) (csrs s MIP) of
       None \<Rightarrow> i = NoInterrupt \<and> csrs s' = csrs s
     | Some (p, j) \<Rightarrow> (if masked then i = NoInterrupt \<and> csrs s' = csrs s
         else i = j \<and> csrs s' = (csrs s)(MIP := csrs s' MIP) \<and>
              (\<forall>n < 32. bit (csrs s' MIP) n = (bit (csrs s MIP) n \<and> n \<noteq> p))))"
proof (cases masked)
  case True
  then have "check_pending_interrupt cfg s = Inr (NoInterrupt, s)"
    by (auto simp: check_pending_interrupt_def masked_def status_bits)
  then show ?thesis using True by (auto split: option.splits)
next
  case False
  let ?s1 = "s\<lparr>bus := snd (uart_is_interrupting (bus s))\<rparr>"
  have "check_pending_interrupt cfg s = Inr (select_interrupt ?s1)"
    using False assms(1)
    by (auto simp: check_pending_interrupt_def masked_def status_bits uart_is_interrupting_def
        UART_is_interrupting_def Let_def split: prod.splits)
  then show ?thesis using False
    by (auto simp: select_interrupt_highest clear_pending_def load_csr_def status_bits
        simp del: push_bit_of_1 split: option.splits)
qed

text \<open>An interrupt of the serial port is never claimed: outside the fuzzing build, when the port
  interrupts and interrupts are not masked, the emulator sets \<open>SEIP\<close> but leaves the interrupt
  controller as it was, because it passes the data and the size of the store to \<open>PLIC_SCLAIM\<close> in
  the wrong order.\<close>

theorem uart_interrupt_unclaimed:
  assumes "build cfg \<noteq> FUZZ_ENV" and "interrupting (uart (bus s))" and "mode s = User"
  shows "\<exists>i s'. check_pending_interrupt cfg s = Inr (i, s') \<and> plic (bus s') = plic (bus s) \<and>
    \<not> interrupting (uart (bus s')) \<and>
    (i, csrs s') = (let (j, t) = select_interrupt (store_csr MIP (load_csr s MIP OR push_bit MIP_SEIP_POS 1) s)
                    in (j, csrs t))"
proof -
  let ?b = "(bus s)\<lparr>uart := (uart (bus s))\<lparr>interrupting := False\<rparr>\<rparr>"
  have "target_of cfg PLIC_SCLAIM = To_PLIC"
    using assms(1) by (simp add: target_of_def claims_def in_window_def)
  then have v: "vstore cfg (s\<lparr>bus := ?b\<rparr>) PLIC_SCLAIM 32 UART_IRQ = Inr (StoreAMOAccessFault, s\<lparr>bus := ?b\<rparr>)"
    by (simp add: vstore_def bus_store_cases PLIC_store_def)
  have i: "uart_is_interrupting (bus s) = (True, ?b)"
    using assms(2) by (simp add: uart_is_interrupting_def UART_is_interrupting_def)
  let ?mip = "load_csr s MIP OR push_bit MIP_SEIP_POS 1"
  let ?s2 = "store_csr MIP ?mip (s\<lparr>bus := ?b\<rparr>)"
  have c: "check_pending_interrupt cfg s = Inr (select_interrupt ?s2)"
    using assms(3) v by (simp add: check_pending_interrupt_def i load_csr_def Let_def del: push_bit_of_1)
  have "(fst (select_interrupt ?s2), csrs (snd (select_interrupt ?s2))) =
      (let (j, t) = select_interrupt (store_csr MIP ?mip s) in (j, csrs t))"
    "bus (snd (select_interrupt ?s2)) = ?b"
    by (simp_all add: select_interrupt_highest clear_pending_def load_csr_def Let_def del: push_bit_of_1
        split: option.splits prod.splits)
  then show ?thesis using c by (intro exI [of _ "fst (select_interrupt ?s2)"] exI [of _ "snd (select_interrupt ?s2)"]) simp
qed

subsection \<open>Faults while fetching\<close>

text \<open>A fetch that faults without being fatal is not abandoned: in the testing build, after a load
  of the instruction word that reports uninitialised or unreadable memory, the loop enters the trap
  handler and still takes the word for decoding and execution.\<close>

theorem faulty_fetch_still_executes:
  assumes "build cfg = TEST_ENV" and "vload cfg s (pc s) 32 = Inr (v, e, s1)"
    and "e = UninitializedMemoryAccess \<or> e = ReadMemoryWithNoPermission"
  shows "fetch cfg s = Inr ((trap cfg e s1)\<lparr>hex_instr := ucast v\<rparr>)"
  using assms by (auto simp: fetch_def get_4byte_aligned_instr_def after_def is_fatal_def)

subsection \<open>Control and status registers\<close>

text \<open>
  What each instruction writes to the register, from its old value and the operand; the two that
  clear bits use the logical negation of the operand.
\<close>

definition csr_ops :: "(IName \<times> (vemu \<Rightarrow> ReturnException \<times> vemu) \<times> (vemu \<Rightarrow> u64) \<times> (u64 \<Rightarrow> u64 \<Rightarrow> u64)) list" where
  "csr_ops = [
    (iCSRRW, CSRRW, \<lambda>s. ireg s (f_rs1 s), \<lambda>old x. x), (iCSRRS, CSRRS, \<lambda>s. ireg s (f_rs1 s), \<lambda>old x. old OR x),
    (iCSRRC, CSRRC, \<lambda>s. ireg s (f_rs1 s), \<lambda>old x. if x = 0 then old AND 1 else 0),
    (iCSRRWI, CSRRWI, csr_uimm, \<lambda>old x. x), (iCSRRSI, CSRRSI, csr_uimm, \<lambda>old x. old OR x),
    (iCSRRCI, CSRRCI, csr_uimm, \<lambda>old x. if x = 0 then old AND 1 else 0)]"

text \<open>(C24) The instructions on control and status registers: on every register but \<open>SIE\<close> they return
  the old value in \<open>rd\<close> and write, to that register alone, the operand, its union with the old
  value, or for the clearing forms zero, or the lowest bit of the old value when the operand is zero
  (where the instruction set has the old value without the bits of the operand).\<close>

theorem csr_instructions:
  assumes "(n, h, operand, f) \<in> set csr_ops" and "csr_addr s \<noteq> SIE"
  shows "h s = (NormalExecutionReturn, set_ireg (f_rd s) (csrs s (csr_addr s))
      (s\<lparr>csrs := (csrs s)(csr_addr s := f (csrs s (csr_addr s)) (operand s))\<rparr>))"
  using assms
  by (auto simp: csr_ops_def csr_defs Let_def write_rd_def load_csr_def store_csr_def lnot_def)

text \<open>Writing \<open>SIE\<close> does not preserve the other interrupt enables: \<open>SIE\<close> reads back as the
  delegated part of the value written, but a write to it, when some interrupt is delegated, clears every
  bit of \<open>MIE\<close> that is not delegated, where it should keep them.\<close>

theorem sie_write_clears_mie:
  assumes "csrs s MIDELEG \<noteq> 0"
  shows "load_csr (store_csr SIE v s) SIE = v AND csrs s MIDELEG \<and>
    csrs (store_csr SIE v s) MIE = v AND csrs s MIDELEG"
  using assms by (simp add: load_csr_def store_csr_def lnot_def Let_def ac_simps)

end
