(* ===== verification/Vemu_Process.thy ===== *)
theory Vemu_Process
  imports RV_Simulation
begin

text \<open>
  The emulated process as a whole: its system calls (files as byte streams, the program break, the
  exit) and its run (when it ends, what it returns, when it does not end).
\<close>

unbundle bit_operations_syntax

subsection \<open>Byte streams\<close>

text \<open>A sequence of reads, and what they deliver together.\<close>

fun read_all :: "('s \<Rightarrow> u64 \<Rightarrow> (u8 list \<times> 's) res) \<Rightarrow> 's \<Rightarrow> u64 list \<Rightarrow> (u8 list \<times> 's) res" where
  "read_all get s [] = Inr ([], s)"
| "read_all get s (n # ns) =
     bind_res (get s n) (\<lambda>(bs, s'). bind_res (read_all get s' ns) (\<lambda>(cs, s''). Inr (bs @ cs, s'')))"

locale byte_stream =
  fixes get :: "'s \<Rightarrow> u64 \<Rightarrow> (u8 list \<times> 's) res" and rest :: "'s \<Rightarrow> u8 list" and ok :: "'s \<Rightarrow> bool"
    and bound :: nat
  assumes get: "ok s \<Longrightarrow> unat n < bound \<Longrightarrow>
    \<exists>s'. get s n = Inr (take (unat n) (rest s), s') \<and> rest s' = drop (unat n) (rest s) \<and> ok s'"
begin

lemma reads:
  "ok s \<Longrightarrow> list_all (\<lambda>n. unat n < bound) ns \<Longrightarrow>
   \<exists>s'. read_all get s ns = Inr (take (sum_list (map unat ns)) (rest s), s') \<and>
        rest s' = drop (sum_list (map unat ns)) (rest s) \<and> ok s'"
proof (induction ns arbitrary: s)
  case Nil
  then show ?case by simp
next
  case (Cons n ns)
  then obtain s1 where s1: "get s n = Inr (take (unat n) (rest s), s1)" "rest s1 = drop (unat n) (rest s)" "ok s1"
    using get [of s n] by auto
  with Cons obtain s2 where "read_all get s1 ns = Inr (take (sum_list (map unat ns)) (rest s1), s2)"
    "rest s2 = drop (sum_list (map unat ns)) (rest s1)" "ok s2"
    by force
  then show ?case using s1 by (simp add: take_add add.commute)
qed

end

subsection \<open>File handles\<close>

text \<open>A handle on a file of the given content: the buffer has the content and a null byte.\<close>

definition holds :: "u8 list \<Rightarrow> FileHandle \<Rightarrow> bool" where
  "holds content fh \<longleftrightarrow> fh_data fh = Some (content @ [0]) \<and> length content < 2 ^ 63 \<and>
     fh_len fh = of_nat (length content) \<and> fh_idx fh \<le> fh_len fh"

definition remaining :: "FileHandle \<Rightarrow> u8 list" where
  "remaining fh = (case fh_data fh of None \<Rightarrow> []
     | Some bs \<Rightarrow> drop (unat (fh_idx fh)) (take (unat (fh_len fh)) bs))"

lemma fh_read_holds:
  assumes "holds content fh" "unat n < 2 ^ 63"
  shows "\<exists>fh'. fh_read fh n = Inr (take (unat n) (remaining fh), fh') \<and>
    remaining fh' = drop (unat n) (remaining fh) \<and> holds content fh' \<and>
    (\<exists>i. fh' = fh\<lparr>fh_idx := i\<rparr>)"
proof -
  let ?len = "length content" and ?idx = "unat (fh_idx fh)"
  have len: "?len < 2 ^ 63" "unat (fh_len fh) = ?len" and d: "fh_data fh = Some (content @ [0])"
    and i: "?idx \<le> ?len"
    using assms(1) by (auto simp: holds_def unat_of_nat_u64 word_le_nat_alt)
  define k where "k = (if fh_len fh \<le> fh_idx fh + n then fh_len fh - fh_idx fh else n)"
  have sum: "unat (fh_idx fh + n) = ?idx + unat n"
    using i len(1) assms(2) by (intro unat_add_lem [THEN iffD1]) simp
  have k: "unat k = min (unat n) (?len - ?idx)"
    using i len(2) sum by (auto simp: k_def word_le_nat_alt unat_sub)
  have rest: "remaining fh = drop ?idx content" by (simp add: remaining_def d len(2))
  let ?fh = "fh\<lparr>fh_idx := fh_idx fh + k\<rparr>"
  have ik: "unat (fh_idx fh + k) = ?idx + unat k"
    using i len(1) k by (intro unat_add_lem [THEN iffD1]) simp
  have "fh_read fh n = Inr (take (unat n) (remaining fh), ?fh)"
  proof (cases "k = 0")
    case True
    then have "min (unat n) (?len - ?idx) = 0" using k by simp
    then have "take (unat n) (remaining fh) = []" by (auto simp: rest min_def split: if_splits)
    then show ?thesis using True by (simp add: fh_read_def k_def Let_def)
  next
    case False
    have "buffer_slice (fh_data fh) (fh_idx fh) k = Inr (take (unat k) (drop ?idx (content @ [0])))"
      using i k by (simp add: buffer_slice_def d defined_res_def)
    moreover have "take (unat k) (drop ?idx (content @ [0])) = take (unat n) (remaining fh)"
      using i k by (auto simp: rest min_def)
    ultimately show ?thesis using False by (simp add: fh_read_def Let_def flip: k_def)
  qed
  moreover have "remaining ?fh = drop (unat n) (remaining fh)"
  proof -
    have "remaining ?fh = drop (?idx + unat k) content" by (simp add: remaining_def d len(2) ik)
    also have "\<dots> = drop (?idx + unat n) content" using i k by (auto simp: min_def)
    also have "\<dots> = drop (unat n) (remaining fh)" by (simp add: rest add.commute)
    finally show ?thesis .
  qed
  moreover have "holds content ?fh"
    using assms(1) i k ik len by (auto simp: holds_def word_le_nat_alt unat_of_nat_u64)
  ultimately show ?thesis by blast
qed

interpretation stream: byte_stream fh_read remaining "holds content" "2 ^ 63" for content
  by unfold_locales (meson fh_read_holds)

subsection \<open>The file system calls\<close>

lemma find_update_first:
  "List.find P xs = Some x \<Longrightarrow> P y \<Longrightarrow> List.find P (update_first P y xs) = Some y"
  by (induction xs) (auto split: if_splits)

lemma find_append: "List.find P xs = None \<Longrightarrow> List.find P (xs @ ys) = List.find P ys"
  by (induction xs) (auto split: if_splits)

text \<open>(C15) Reading a file in pieces delivers the file: any sequence of reads from a handle on a file,
  whatever their sizes (below \<open>2 ^ 63\<close>), returns together exactly the next bytes of the content, as
  many as were asked for or as there are, and never touches memory outside the buffer.\<close>

theorem file_reads_deliver_content:
  assumes "holds content fh" and "list_all (\<lambda>n. unat n < 2 ^ 63) ns"
  shows "\<exists>fh'. read_all fh_read fh ns = Inr (take (sum_list (map unat ns)) (remaining fh), fh') \<and>
    remaining fh' = drop (sum_list (map unat ns)) (remaining fh) \<and> holds content fh'"
  using stream.reads [OF assms] .

text \<open>What a \<open>read\<close> does\<close>

lemma sys_read_result:
  assumes "List.find (\<lambda>fh. scast (fh_fd fh) = ireg s REG_A0) (file_table s) = Some fh" and "holds content fh"
    and "unat (ireg s REG_A2) < 2 ^ 63" and "emu_ok s"
  defines "chunk \<equiv> take (unat (ireg s REG_A2)) (remaining fh)" and "buf \<equiv> ireg s REG_A1"
  shows "(chunk = [] \<longrightarrow> sys_read s = Inr s) \<and>
    (chunk \<noteq> [] \<and> writable (arch_of s) buf (length chunk) \<longrightarrow>
      (\<exists>s' fh'. sys_read s = Inr s' \<and> ireg s' REG_A0 = of_nat (length chunk) \<and>
        map (\<lambda>k. ram (get_mmu s') (buf + of_nat k)) [0..<length chunk] = chunk \<and>
        (\<forall>i. i \<notin> region buf (of_nat (length chunk)) \<longrightarrow> ram (get_mmu s') i = ram (get_mmu s) i) \<and>
        List.find (\<lambda>fh. scast (fh_fd fh) = ireg s REG_A0) (file_table s') = Some fh' \<and>
        remaining fh' = drop (unat (ireg s REG_A2)) (remaining fh)))"
proof -
  obtain fh' i where r: "fh_read fh (ireg s REG_A2) = Inr (chunk, fh')"
    "remaining fh' = drop (unat (ireg s REG_A2)) (remaining fh)" "fh' = fh\<lparr>fh_idx := i\<rparr>"
    using fh_read_holds [OF assms(2,3)] by (auto simp: chunk_def)
  have fd: "scast (fh_fd fh) = ireg s REG_A0" using assms(1) by (auto simp: find_Some_iff)
  have len: "length chunk < 2 ^ 64"
    using assms(3) unat_u64_bound [of "ireg s REG_A2"] by (simp add: chunk_def min_def)
  show ?thesis
  proof (intro conjI impI)
    assume "chunk = []"
    then show "sys_read s = Inr s" using assms(1) r(1) by (simp add: sys_read_def Let_def)
  next
    assume c: "chunk \<noteq> [] \<and> writable (arch_of s) buf (length chunk)"
    let ?m = "get_mmu s" and ?n = "of_nat (length chunk) :: u64"
    from c have i: "inside (arch_of s) buf (length chunk)" by (simp add: writable_def)
    then have nw: "buf \<le> buf + ?n" "buf + ?n < mmu_ram_size ?m" by (simp_all add: inside_def)
    have "\<forall>i \<in> region buf ?n. byte_permission ?m i AND PERM_WRITE \<noteq> 0"
      using c ball_region [OF nw(1) len, of "\<lambda>i. byte_permission ?m i AND PERM_WRITE \<noteq> 0"]
      by (simp add: writable_def)
    then have "write_from ?m chunk buf = Inr (written ?m chunk buf)"
      using nw inside_storage [OF assms(4) i] by (simp add: write_from_eq)
    then have "sys_read s = Inr (set_ireg REG_A0 ?n (set_mmu (written ?m chunk buf)
        (s\<lparr>file_table := update_first (\<lambda>fh. scast (fh_fd fh) = ireg s REG_A0) fh' (file_table s)\<rparr>)))"
      using assms(1) r(1) c by (simp add: sys_read_def Let_def buf_def)
    then show "\<exists>s' fh'. sys_read s = Inr s' \<and> ireg s' REG_A0 = of_nat (length chunk) \<and>
        map (\<lambda>k. ram (get_mmu s') (buf + of_nat k)) [0..<length chunk] = chunk \<and>
        (\<forall>i. i \<notin> region buf (of_nat (length chunk)) \<longrightarrow> ram (get_mmu s') i = ram (get_mmu s) i) \<and>
        List.find (\<lambda>fh. scast (fh_fd fh) = ireg s REG_A0) (file_table s') = Some fh' \<and>
        remaining fh' = drop (unat (ireg s REG_A2)) (remaining fh)"
      using r fd ram_written [OF len nw(1), of ?m] find_update_first [OF assms(1), of fh']
      by (auto simp: written_def set_mmu_def)
  qed
qed

text \<open>(C16) The \<open>read\<close> system call: for the first handle with the descriptor, at a writable buffer, it
  copies the next bytes of the file to guest memory, returns their number and advances the handle; the
  rest of memory keeps its bytes. At the end of the file it returns without setting the result register,
  which still holds the descriptor.\<close>

theorem sys_read_effect:
  assumes "List.find (\<lambda>fh. scast (fh_fd fh) = ireg s REG_A0) (file_table s) = Some fh" and "holds content fh"
    and "unat (ireg s REG_A2) < 2 ^ 63" and "emu_ok s"
  defines "chunk \<equiv> take (unat (ireg s REG_A2)) (remaining fh)" and "buf \<equiv> ireg s REG_A1"
  shows "(chunk = [] \<longrightarrow> sys_read s = Inr s) \<and>
    (chunk \<noteq> [] \<and> writable (arch_of s) buf (length chunk) \<longrightarrow>
      (\<exists>s' fh'. sys_read s = Inr s' \<and> ireg s' REG_A0 = of_nat (length chunk) \<and>
        map (\<lambda>k. ram (get_mmu s') (buf + of_nat k)) [0..<length chunk] = chunk \<and>
        (\<forall>i. i \<notin> region buf (of_nat (length chunk)) \<longrightarrow> ram (get_mmu s') i = ram (get_mmu s) i) \<and>
        List.find (\<lambda>fh. scast (fh_fd fh) = ireg s REG_A0) (file_table s') = Some fh' \<and>
        remaining fh' = drop (unat (ireg s REG_A2)) (remaining fh)))"
  using sys_read_result [OF assms(1-4)] by (simp add: chunk_def buf_def)

text \<open>Opening a file makes its content readable: when the host opens the path that the guest's
  string names and its descriptor is not in use, the \<open>open\<close> system call returns that descriptor,
  and the handle found under it delivers exactly the content of the file from its start.\<close>

theorem sys_open_effect:
  assumes "read_null_terminated_string (Suc (unat (mmu_ram_size (get_mmu s)))) (get_mmu s) (ireg s REG_A0) = Some (Inr p)"
    and "host_open cfg (opened s) (butlast p) (ucast (ireg s REG_A1)) = Some (fd, content)" and "fd \<noteq> - 1"
    and "List.find (\<lambda>fh. scast (fh_fd fh) = (scast fd :: u64)) (file_table s) = None" and "length content < 2 ^ 63"
  shows "\<exists>s' fh. sys_open cfg s = Inr s' \<and> ireg s' REG_A0 = scast fd \<and>
    List.find (\<lambda>fh. scast (fh_fd fh) = ireg s' REG_A0) (file_table s') = Some fh \<and>
    holds content fh \<and> remaining fh = content"
  using assms
  by (auto simp: sys_open_def Let_def assert_res_def find_append holds_def remaining_def unat_of_nat_u64)

text \<open>(C20) The program break: a request of zero returns the current break, a request below it (as a
  signed difference) fails with \<open>-1\<close> and changes no memory, and a request at or above it that lies
  inside the memory moves the break exactly there, returns it, and makes the new bytes writable and
  uninitialised.\<close>

theorem sys_brk_effect:
  assumes "alloc_ptr (get_mmu s) < mmu_ram_size (get_mmu s)" and "mmu_wf (get_mmu s)"
  defines "old \<equiv> alloc_ptr (get_mmu s)" and "addr \<equiv> ireg s REG_A0"
  shows "(addr = 0 \<longrightarrow> (\<exists>s'. sys_brk s = Inr s' \<and> ireg s' REG_A0 = old \<and> alloc_ptr (get_mmu s') = old)) \<and>
    (addr \<noteq> 0 \<and> addr - old <s 0 \<longrightarrow> sys_brk s = Inr (set_ireg REG_A0 (- 1) s)) \<and>
    (addr \<noteq> 0 \<and> \<not> addr - old <s 0 \<and> old \<le> addr \<and> addr < mmu_ram_size (get_mmu s) \<longrightarrow>
      (\<exists>s'. sys_brk s = Inr s' \<and> ireg s' REG_A0 = addr \<and> alloc_ptr (get_mmu s') = addr \<and>
        ram (get_mmu s') = ram (get_mmu s) \<and>
        (\<forall>i. byte_permission (get_mmu s') i =
           (if old \<le> i \<and> i < addr then PERM_RAW OR PERM_WRITE else byte_permission (get_mmu s) i))))"
proof -
  have alloc: "\<exists>m. allocate (get_mmu s) n = Inr (old, m)"
    if "old + n < mmu_ram_size (get_mmu s)" "old \<le> old + n" for n
    using that assms(2)
    by (simp add: allocate_def set_perms_def Let_def old_def assert_res_def defined_res_def mmu_wf_def add.commute)
  have pos: "sys_brk s = Inr (set_ireg REG_A0 (old + n) (set_mmu m s))"
    if "n = (if addr = 0 then 0 else addr - old)" "\<not> n <s 0" "allocate (get_mmu s) n = Inr (old, m)" for n m
    using that by (cases "ireg s REG_A0 = 0") (simp_all add: sys_brk_def mmu_allocate_def Let_def old_def addr_def)
  show ?thesis
  proof (intro conjI impI)
    assume "addr = 0"
    moreover obtain m where m: "allocate (get_mmu s) 0 = Inr (old, m)"
      using alloc [of 0] assms(1) by (auto simp: old_def)
    ultimately show "\<exists>s'. sys_brk s = Inr s' \<and> ireg s' REG_A0 = old \<and> alloc_ptr (get_mmu s') = old"
      using pos [of 0 m] allocate_eq(1,2) [OF m] by simp
  next
    assume "addr \<noteq> 0 \<and> addr - old <s 0"
    then show "sys_brk s = Inr (set_ireg REG_A0 (- 1) s)"
      by (simp add: sys_brk_def Let_def old_def addr_def)
  next
    assume a: "addr \<noteq> 0 \<and> \<not> addr - old <s 0 \<and> old \<le> addr \<and> addr < mmu_ram_size (get_mmu s)"
    then obtain m where m: "allocate (get_mmu s) (addr - old) = Inr (old, m)"
      using alloc [of "addr - old"] by auto
    then show "\<exists>s'. sys_brk s = Inr s' \<and> ireg s' REG_A0 = addr \<and> alloc_ptr (get_mmu s') = addr \<and>
        ram (get_mmu s') = ram (get_mmu s) \<and>
        (\<forall>i. byte_permission (get_mmu s') i =
           (if old \<le> i \<and> i < addr then PERM_RAW OR PERM_WRITE else byte_permission (get_mmu s) i))"
      using a pos [of "addr - old" m] allocate_eq [OF m] by (auto simp: region_def)
  qed
qed

subsection \<open>When a run ends\<close>

lemma run_Suc: "run fuel cfg s = Some r \<Longrightarrow> run (Suc fuel) cfg s = Some r"
proof (induction fuel arbitrary: s)
  case 0
  then show ?case by simp
next
  case (Suc fuel)
  show ?case
  proof (cases "\<exists>s'. run_iteration cfg s = Inr (Running, s')")
    case True
    then show ?thesis using Suc by fastforce
  next
    case False
    then show ?thesis using Suc.prems
      by (cases "run_iteration cfg s") (auto split: progress.splits)
  qed
qed

lemma run_mono: "fuel \<le> fuel' \<Longrightarrow> run fuel cfg s = Some r \<Longrightarrow> run fuel' cfg s = Some r"
  by (induction fuel' rule: dec_induct) (auto intro: run_Suc simp del: run.simps)

lemma run_step: "step cfg s s' \<Longrightarrow> run (Suc fuel) cfg s = run fuel cfg s'"
  by (simp add: step_iff)

lemma run_reachable: "reachable cfg s t \<Longrightarrow> run fuel cfg t = Some r \<Longrightarrow> \<exists>fuel'. run fuel' cfg s = Some r"
proof (induction arbitrary: fuel rule: reachable.induct)
  case start
  then show ?case by blast
next
  case (next_step t t')
  then show ?case using run_step [OF next_step.hyps(2)] by metis
qed

lemma reachable_first: "step cfg s s' \<Longrightarrow> reachable cfg s' t \<Longrightarrow> reachable cfg s t"
  by (rotate_tac, induction rule: reachable.induct) (auto intro: reachable.intros)

lemma run_ends_reachable:
  "run fuel cfg s = Some (Inr (c, s')) \<Longrightarrow> \<exists>t. reachable cfg s t \<and> run_iteration cfg t = Inr (Returned c, s')"
proof (induction fuel arbitrary: s)
  case 0
  then show ?case by simp
next
  case (Suc fuel)
  show ?case
  proof (cases "\<exists>s1. run_iteration cfg s = Inr (Running, s1)")
    case True
    then obtain s1 where s1: "run_iteration cfg s = Inr (Running, s1)" by blast
    then show ?thesis using Suc reachable_first [of cfg s s1] by (auto simp: step_iff)
  next
    case False
    then show ?thesis using Suc.prems
      by (auto split: sum.splits prod.splits progress.splits intro: reachable.start)
  qed
qed

text \<open>
  What the fuel of \<open>run\<close> means: some bound makes it return a code exactly if the loop reaches a state whose
  next iteration returns it, and then every larger bound gives the same result.
\<close>

lemma run_adequate:
  "(\<exists>fuel. run fuel cfg s = Some (Inr (c, s'))) =
     (\<exists>t. reachable cfg s t \<and> run_iteration cfg t = Inr (Returned c, s')) \<and>
   (\<forall>fuel fuel' r. run fuel cfg s = Some r \<and> fuel \<le> fuel' \<longrightarrow> run fuel' cfg s = Some r)"
proof -
  have "\<exists>fuel. run fuel cfg s = Some (Inr (c, s'))"
    if "reachable cfg s t" "run_iteration cfg t = Inr (Returned c, s')" for t
    using run_reachable [OF that(1), of 1 "Inr (c, s')"] that(2) by simp
  then show ?thesis using run_ends_reachable run_mono by blast
qed

text \<open>(C14) The \<open>exit\<close> system call ends the process: in the fuzzing build, when a well-formed emulator
  that has not exited is at an \<open>ECALL\<close> with the number of \<open>exit\<close> in \<open>a7\<close>, the run returns
  within two iterations, with the exit status modulo 255 (truncated towards zero, as a byte).\<close>

theorem exit_ends_run:
  assumes "build cfg = FUZZ_ENV" and "emu_ok s" and "\<not> has_exited s"
    and "list_all (\<lambda>k. pc s + of_nat k < mmu_ram_size (get_mmu s)) [0..<4]"
    and "mem_value (arch_of s) (pc s) 4 = 0x73" and "ireg s REG_A7 = SYSCALL_NR_EXIT"
  shows "\<exists>s'. run 2 cfg s =
    Some (Inr (ucast (of_int (sint (ucast (ireg s REG_A0) :: u32) smod 255) :: u8), s'))"
proof -
  have e: "encode (AsmI iECALL 0 0 0) = Some 0x73"
    by (simp add: rv_I_def rv_shift_def rv_shiftw_def enc_I_def enc_R_def)
  have "decoder_ok (decoder s)" using assms(2) by (simp add: emu_ok_def)
  then obtain i d where i: "decode (decoder s) 0x73 = Inr (i, d)" "get_name i = iECALL"
    using decode_spec_encode [OF e] decode_correct(3) by fastforce
  let ?s3 = "s\<lparr>hex_instr := 0x73, curr_instr := i, decoder := d\<rparr>"
  have "map_of (inst_funcs cfg) iECALL = Some (ECALL cfg)" by (simp add: func_lookup)
  then have "dispatch cfg iECALL ?s3 = Inr (NormalExecutionReturn, sys_exit ?s3)"
    using assms(1,2,6) by (simp add: dispatch_def emu_ok_def ECALL_def ECALL_fuzz_def)
  moreover have "fetch cfg s = Inr (s\<lparr>hex_instr := 0x73\<rparr>)"
    using sim_fetch [OF assms(1,2,4), of "0x73"] assms(5) by simp
  ultimately have "run_iteration cfg s = Inr (Running, (sys_exit ?s3)\<lparr>pc := pc (sys_exit ?s3) + 4\<rparr>)"
    using assms(1,3) i by (simp add: run_iteration_def interrupts_def decode_current_def execute_def
        after_def is_fatal_def)
  moreover have "has_exited (sys_exit ?s3)"
    "exit_code (sys_exit ?s3) = of_int (sint (ucast (ireg s REG_A0) :: u32) smod 255)"
    by (simp_all add: sys_exit_def Let_def exit_emu_def)
  ultimately show ?thesis by (simp add: run_iteration_def numeral_2_eq_2)
qed

text \<open>(C13) The emulator stops only when the program makes it: if the abstract machine can go on for ever
  from the state of a well-formed emulator that has not exited, in the fuzzing build, then the run never
  returns, never stops the process, and makes progress: for every number of iterations there is a state
  it reaches, which stands for a state of the abstract machine.\<close>

theorem run_goes_on:
  assumes "build cfg = FUZZ_ENV" and "emu_ok s" and "\<not> has_exited s"
    and "\<forall>\<sigma>. isa_step\<^sup>*\<^sup>* (arch_of s) \<sigma> \<longrightarrow> (\<exists>\<sigma>'. isa_step \<sigma> \<sigma>')"
  shows "run fuel cfg s = None \<and> (\<exists>t. (step cfg ^^ fuel) s t \<and> isa_step\<^sup>*\<^sup>* (arch_of s) (arch_of t))"
  using assms(2-4)
proof (induction fuel arbitrary: s)
  case 0
  then show ?case by simp
next
  case (Suc fuel)
  then obtain \<sigma> where \<sigma>: "isa_step (arch_of s) \<sigma>" by blast
  then obtain s' where s': "step cfg s s'" "arch_of s' = \<sigma>" "emu_ok s'" "\<not> has_exited s'"
    using sim_step [OF assms(1) Suc.prems(1,2)] by blast
  have "\<forall>\<tau>. isa_step\<^sup>*\<^sup>* (arch_of s') \<tau> \<longrightarrow> (\<exists>\<tau>'. isa_step \<tau> \<tau>')"
    using Suc.prems(3) \<sigma> s'(2) converse_rtranclp_into_rtranclp by metis
  from Suc.IH [OF s'(3,4) this] show ?case
    using run_step [OF s'(1)] s'(1,2) \<sigma> by (metis converse_rtranclp_into_rtranclp relpowp_Suc_I2)
qed

end
