(* ===== verification/Shared_Decoder.thy ===== *)
theory Shared_Decoder
  imports Vemu_Invariant
begin

text \<open>
  The decoder is a singleton that all emulators of a process share, and it remembers what it has decoded. This
  theory shows that no emulator can tell: the handlers do not touch it, and its caches never change a result, so
  that the run loop behaves the same whatever earlier emulators have left in it.
\<close>

unbundle bit_operations_syntax

subsection \<open>Operations that do not touch the decoder\<close>

text \<open>The same state with another decoder, and the results of operations with another decoder in their state\<close>

definition redecode :: "InstructionDecoder \<Rightarrow> vemu \<Rightarrow> vemu" where
  "redecode d s = s\<lparr>decoder := d\<rparr>"

definition with_decoder :: "InstructionDecoder \<Rightarrow> ('a \<times> vemu) res \<Rightarrow> ('a \<times> vemu) res" where
  "with_decoder d r = map_sum id (map_prod id (redecode d)) r"

definition state_with_decoder :: "InstructionDecoder \<Rightarrow> vemu res \<Rightarrow> vemu res" where
  "state_with_decoder d r = map_sum id (redecode d) r"

definition pair_with_decoder :: "InstructionDecoder \<Rightarrow> 'a \<times> vemu \<Rightarrow> 'a \<times> vemu" where
  "pair_with_decoder d p = map_prod id (redecode d) p"

named_theorems undecoded \<open>operations that commute with a change of the decoder\<close>

lemma redecode_fields [undecoded]:
  "has_exited (redecode d s) = has_exited s" "exit_code (redecode d s) = exit_code s" "csrs (redecode d s) = csrs s"
  "mode (redecode d s) = mode s" "bus (redecode d s) = bus s" "iregs (redecode d s) = iregs s"
  "fregs (redecode d s) = fregs s" "hex_instr (redecode d s) = hex_instr s" "curr_instr (redecode d s) = curr_instr s"
  "pc (redecode d s) = pc s" "file_table (redecode d s) = file_table s" "test_flag_done (redecode d s) = test_flag_done s"
  "opened (redecode d s) = opened s" "console (redecode d s) = console s" "inst_funcs_set (redecode d s) = inst_funcs_set s"
  "decoder (redecode d s) = d" "redecode d (redecode d' s) = redecode d s" "redecode (decoder s) s = s"
  "bin_file_name (redecode d s) = bin_file_name s" "code_size (redecode d s) = code_size s"
  by (simp_all add: redecode_def)

lemma redecode_updates [undecoded]:
  "(redecode d s)\<lparr>csrs := c\<rparr> = redecode d (s\<lparr>csrs := c\<rparr>)" "(redecode d s)\<lparr>mode := md\<rparr> = redecode d (s\<lparr>mode := md\<rparr>)"
  "(redecode d s)\<lparr>bus := b\<rparr> = redecode d (s\<lparr>bus := b\<rparr>)" "(redecode d s)\<lparr>iregs := r\<rparr> = redecode d (s\<lparr>iregs := r\<rparr>)"
  "(redecode d s)\<lparr>fregs := fr\<rparr> = redecode d (s\<lparr>fregs := fr\<rparr>)" "(redecode d s)\<lparr>hex_instr := w\<rparr> = redecode d (s\<lparr>hex_instr := w\<rparr>)"
  "(redecode d s)\<lparr>pc := p\<rparr> = redecode d (s\<lparr>pc := p\<rparr>)" "(redecode d s)\<lparr>file_table := ft\<rparr> = redecode d (s\<lparr>file_table := ft\<rparr>)"
  "(redecode d s)\<lparr>has_exited := x\<rparr> = redecode d (s\<lparr>has_exited := x\<rparr>)"
  "(redecode d s)\<lparr>exit_code := y\<rparr> = redecode d (s\<lparr>exit_code := y\<rparr>)" "(redecode d s)\<lparr>test_flag_done := x\<rparr> = redecode d (s\<lparr>test_flag_done := x\<rparr>)"
  "(redecode d s)\<lparr>opened := n\<rparr> = redecode d (s\<lparr>opened := n\<rparr>)" "(redecode d s)\<lparr>console := ms\<rparr> = redecode d (s\<lparr>console := ms\<rparr>)"
  "(redecode d s)\<lparr>code_size := sz\<rparr> = redecode d (s\<lparr>code_size := sz\<rparr>)"
  "(redecode d s)\<lparr>curr_instr := i, decoder := d'\<rparr> = s\<lparr>curr_instr := i, decoder := d'\<rparr>"
  by (simp_all add: redecode_def)

lemma redecode_if [undecoded]: "(if b then redecode d s else redecode d t) = redecode d (if b then s else t)"
  by simp

lemma let_redecode [undecoded]:
  "Let (redecode d s) f = Let s (\<lambda>t. f (redecode d t))" "redecode d (Let z k) = Let z (\<lambda>x. redecode d (k x))"
  by (simp_all add: Let_def)

lemma with_decoder_simps [undecoded]:
  "with_decoder d (Inl e) = Inl e" "with_decoder d (Inr p) = Inr (pair_with_decoder d p)"
  "with_decoder d (bind_res r f) = bind_res r (\<lambda>x. with_decoder d (f x))"
  "with_decoder d (if b then r1 else r2) = (if b then with_decoder d r1 else with_decoder d r2)"
  "with_decoder d (case q of (x, y) \<Rightarrow> g x y) = (case q of (x, y) \<Rightarrow> with_decoder d (g x y))"
  "with_decoder d (case_option r1 h v) = case_option (with_decoder d r1) (\<lambda>x. with_decoder d (h x)) v"
  "with_decoder d (Let z k) = Let z (\<lambda>x. with_decoder d (k x))"
  by (cases r; cases q; cases v; simp add: with_decoder_def pair_with_decoder_def)+

lemma pair_with_decoder_simps [undecoded]:
  "pair_with_decoder d (x, s) = (x, redecode d s)"
  "pair_with_decoder d (if b then p1 else p2) = (if b then pair_with_decoder d p1 else pair_with_decoder d p2)"
  "pair_with_decoder d (case q of (x, y) \<Rightarrow> h x y) = (case q of (x, y) \<Rightarrow> pair_with_decoder d (h x y))"
  "pair_with_decoder d (Let z k) = Let z (\<lambda>x. pair_with_decoder d (k x))"
  by (cases q; simp add: pair_with_decoder_def)+

lemma state_with_decoder_simps [undecoded]:
  "state_with_decoder d (Inl e) = Inl e" "state_with_decoder d (Inr s) = Inr (redecode d s)"
  "state_with_decoder d (bind_res r f) = bind_res r (\<lambda>x. state_with_decoder d (f x))"
  "state_with_decoder d (if b then r1 else r2) = (if b then state_with_decoder d r1 else state_with_decoder d r2)"
  "state_with_decoder d (case q of (x, y) \<Rightarrow> g x y) = (case q of (x, y) \<Rightarrow> state_with_decoder d (g x y))"
  "state_with_decoder d (case_option r1 h v) = case_option (state_with_decoder d r1) (\<lambda>x. state_with_decoder d (h x)) v"
  "state_with_decoder d (Let z k) = Let z (\<lambda>x. state_with_decoder d (k x))"
  by (cases r; cases q; cases v; simp add: state_with_decoder_def)+

lemma bind_with_decoder [undecoded]:
  "bind_res (with_decoder d r) f = bind_res r (\<lambda>(x, s). f (x, redecode d s))"
  "bind_res (state_with_decoder d q) g = bind_res q (\<lambda>s. g (redecode d s))"
  by (cases r; cases q; simp add: with_decoder_def state_with_decoder_def split: prod.splits)+

lemma bind_if: "bind_res (if b then r1 else r2) f = (if b then bind_res r1 f else bind_res r2 f)"
  by simp

lemma bind_case_prod: "bind_res (case q of (x, y) \<Rightarrow> g x y) f = (case q of (x, y) \<Rightarrow> bind_res (g x y) f)"
  by (cases q) simp

lemmas res_congs = if_cong prod.case_cong option.case_cong let_cong

lemma bus_access_decoder [undecoded]:
  "bind_res (vload cfg (redecode d s) a sz) f = bind_res (vload cfg s a sz) (\<lambda>(v, e, t). f (v, e, redecode d t))"
  "vstore cfg (redecode d s) a w sz = with_decoder d (vstore cfg s a w sz)"
  by (cases "Bus_load cfg (bus s) a sz"; simp add: vload_def undecoded split: prod.splits)
    (cases "Bus_store cfg (bus s) a w sz"; simp add: vstore_def undecoded split: prod.splits)

lemma store_csr_decoder [undecoded]: "store_csr a v (redecode d s) = redecode d (store_csr a v s)"
  by (simp add: store_csr_def undecoded)

lemma observers_decoder [undecoded]:
  "load_csr (redecode d s) a = load_csr s a" "imm64 (redecode d s) = imm64 s"
  "csr_addr (redecode d s) = csr_addr s" "csr_uimm (redecode d s) = csr_uimm s"
  "freg (redecode d s) i = freg s i" "fp_addr (redecode d s) = fp_addr s"
  "shamt_imm64 (redecode d s) = shamt_imm64 s" "shamt_imm32 (redecode d s) = shamt_imm32 s"
  "shamt_reg64 (redecode d s) = shamt_reg64 s" "shamt_reg32 (redecode d s) = shamt_reg32 s"
  by (simp_all add: load_csr_def imm64_def csr_addr_def csr_uimm_def freg_def fp_addr_def
      shamt_imm64_def shamt_imm32_def shamt_reg64_def shamt_reg32_def undecoded)

lemma updates_decoder [undecoded]:
  "set_ireg i v (redecode d s) = redecode d (set_ireg i v s)"
  "set_mmu m (redecode d s) = redecode d (set_mmu m s)"
  "set_freg i x (redecode d s) = redecode d (set_freg i x s)"
  "set_fflag b w (redecode d s) = redecode d (set_fflag b w s)"
  "flag_div_by_zero (redecode d s) = redecode d (flag_div_by_zero s)"
  "exit_emu c (redecode d s) = redecode d (exit_emu c s)"
  "is_pending (redecode d s) n = is_pending s n"
  "clear_pending n (redecode d s) = redecode d (clear_pending n s)"
  by (simp_all add: set_ireg_def set_mmu_def set_freg_def set_fflag_def flag_div_by_zero_def exit_emu_def
      is_pending_def clear_pending_def undecoded)

lemma flags_decoder [undecoded]: "update_float_flags fl (redecode d s) = redecode d (update_float_flags fl s)"
  by (simp add: update_float_flags_def undecoded cong: res_congs)

lemma results_decoder [undecoded]:
  "write_rd v (redecode d s) = pair_with_decoder d (write_rd v s)"
  "write_frd x (redecode d s) = with_decoder d (write_frd x s)"
  "branch_if b (redecode d s) = pair_with_decoder d (branch_if b s)"
  "store_converted lo hi x (redecode d s) = with_decoder d (store_converted lo hi x s)"
  by (simp_all add: write_rd_def write_frd_def branch_if_def store_converted_def undecoded split: option.splits)

subsection \<open>The handlers\<close>

lemma loads_decoder:
  "\<forall>h \<in> set [load_instr sz, LBU, LHU, LWU, LD, LB, LH, LW]. h cfg (redecode d s) = with_decoder d (h cfg s)"
proof -
  have l: "load_instr sz cfg (redecode d s) = with_decoder d (load_instr sz cfg s)" for sz
    by (simp add: load_instr_def undecoded cong: res_congs)
  then show ?thesis
    by (simp add: LBU_def LHU_def LWU_def LD_def LB_def LH_def LW_def undecoded cong: res_congs)
qed

lemma stores_decoder: "\<forall>h \<in> set [SB, SH, SW, SD]. h cfg (redecode d s) = with_decoder d (h cfg s)"
  by (simp add: SB_def SH_def SW_def SD_def undecoded)

lemma pure_decoder:
  "\<forall>h \<in> set [ADDI, ADDIW, SLTI, SLTIU, XORI, ORI, ANDI, SLLI, SRLI, SRAI, SLLIW, SRLIW, SRAIW,
    ADD, ADDW, SUB, SUBW, SLL, SLLW, SLT, SLTU, XOR_op, SRL, SRLW, SRA, SRAW, OR_op, AND_op, LUI, AUIPC,
    MUL, MULW, MULH, MULHU, MULHSU, BEQ, BNE, BLT, BGE, BLTU, BGEU, JAL, JALR].
    h (redecode d s) = pair_with_decoder d (h s)"
  by (simp add: base_pure_defs mul_defs JAL_def JALR_def undecoded cong: res_congs)

lemma division_decoder:
  "\<forall>h \<in> set [DIV, DIVU, DIVW, DIVUW, REM, REMU, REMW, REMUW]. h (redecode d s) = pair_with_decoder d (h s)"
  by (simp add: mul_defs undecoded cong: res_congs)

lemma amo_decoder: "amo sz comb res cfg (redecode d s) = with_decoder d (amo sz comb res cfg s)"
  by (simp add: amo_def undecoded cong: res_congs)

lemma atomics_decoder:
  "\<forall>h \<in> set [LRW, LRD, SCW, SCD, AMOSWAPW, AMOADDW, AMOXORW, AMOANDW, AMOORW, AMOMINW, AMOMAXW, AMOMINUW, AMOMAXUW,
    AMOSWAPD, AMOADDD, AMOXORD, AMOANDD, AMOORD, AMOMIND, AMOMAXD, AMOMINUD, AMOMAXUD].
    h cfg (redecode d s) = with_decoder d (h cfg s)"
  by (simp add: atomic_defs amo_decoder) (simp add: undecoded cong: res_congs)

lemma system_decoder:
  "\<forall>h \<in> set [FENCE, FENCEI, EBREAK, XXX, CSRRW, CSRRS, CSRRC, CSRRWI, CSRRSI, CSRRCI, SRET].
    h (redecode d s) = pair_with_decoder d (h s)"
  by (simp add: FENCE_def FENCEI_def EBREAK_def XXX_def csr_defs SRET_def undecoded cong: res_congs)

lemma MRET_decoder: "MRET (redecode d s) = with_decoder d (MRET s)"
  by (simp add: MRET_def bind_if undecoded cong: res_congs)

lemma floats_decoder:
  "\<forall>h \<in> set [FLW, FSW, FMADDS, FMSUBS, FNMSUBS, FNMADDS, FADDS, FSUBS, FMULS, FDIVS, FSGNJS, FSGNJNS, FSGNJXS,
    FMINS, FMAXS, FCVTWS, FCVTWUS, FMVXW, FEQS, FLTS, FLES, FCVTSW, FCVTSWU, FMVWX, FCVTLS, FCVTLUS, FCVTSL, FCVTSLU,
    FCLASSS]. h cfg (redecode d s) = with_decoder d (h cfg s)"
  by (cases "softfloat cfg") (simp_all add: float_defs with_softfloat_def undecoded cong: res_congs)

subsection \<open>System calls\<close>

lemma mmu_allocate_decoder [undecoded]: "mmu_allocate n (redecode d s) = with_decoder d (mmu_allocate n s)"
  by (simp add: mmu_allocate_def undecoded)

lemma syscalls_decoder:
  "sys_brk (redecode d s) = state_with_decoder d (sys_brk s)" "sys_write (redecode d s) = redecode d (sys_write s)"
  "sys_open cfg (redecode d s) = state_with_decoder d (sys_open cfg s)" "sys_close (redecode d s) = redecode d (sys_close s)"
  "sys_exit (redecode d s) = redecode d (sys_exit s)" "sys_fstat cfg (redecode d s) = state_with_decoder d (sys_fstat cfg s)"
  "sys_lseek (redecode d s) = state_with_decoder d (sys_lseek s)" "sys_read (redecode d s) = state_with_decoder d (sys_read s)"
  by (simp_all add: sys_brk_def sys_write_def sys_open_def sys_close_def sys_exit_def sys_fstat_def sys_lseek_def
      sys_read_def bind_if undecoded cong: res_congs)

lemma ECALL_decoder: "ECALL cfg (redecode d s) = with_decoder d (ECALL cfg s)"
  by (cases "build cfg"; cases "mode s")
    (simp_all add: ECALL_def ECALL_fuzz_def ECALL_test_def ECALL_emu_def bind_if syscalls_decoder undecoded cong: res_congs)

lemma dispatch_decoder: "dispatch cfg n (redecode d s) = with_decoder d (dispatch cfg n s)"
proof -
  note rows = loads_decoder [simplified] stores_decoder [simplified] pure_decoder [simplified] division_decoder [simplified]
    atomics_decoder [simplified] system_decoder [simplified] MRET_decoder floats_decoder [simplified] ECALL_decoder
  have "list_all (\<lambda>(m, h). h (redecode d s) = with_decoder d (h s)) (func_rows cfg)"
    by (simp add: func_rows_def rows pure_op_def with_decoder_simps(2))
  then have "h (redecode d s) = with_decoder d (h s)" if "map_of (inst_funcs cfg) n = Some h" for h
    using that by (auto simp: list_all_iff inst_funcs_def map_of_map_init dest!: map_of_SomeD)
  then show ?thesis by (simp add: dispatch_def undecoded split: option.splits)
qed

subsection \<open>The loop\<close>

lemma enter_decoder [undecoded]:
  "enter_supervisor t p c md (redecode d s) = redecode d (enter_supervisor t p c md s)"
  "enter_machine t p c md (redecode d s) = redecode d (enter_machine t p c md s)"
  by (cases md; simp add: enter_supervisor_def enter_machine_def undecoded cong: res_congs)+

lemma trap_decoder [undecoded]: "trap cfg e (redecode d s) = redecode d (trap cfg e s)"
  "take_interrupt cfg i (redecode d s) = redecode d (take_interrupt cfg i s)"
  by (simp_all add: trap_def take_interrupt_def Let_def undecoded)

lemma after_decoder [undecoded]: "after cfg e (redecode d s) = state_with_decoder d (after cfg e s)"
  by (simp add: after_def exit_fatally_def Let_def undecoded)

lemma select_decoder [undecoded]: "select_interrupt (redecode d s) = pair_with_decoder d (select_interrupt s)"
  by (simp add: select_interrupt_def undecoded)

lemma check_pending_decoder [undecoded]:
  "check_pending_interrupt cfg (redecode d s) = with_decoder d (check_pending_interrupt cfg s)"
  by (simp add: check_pending_interrupt_def uart_is_interrupting_def bind_if bind_res_assoc bind_case_prod undecoded cong: res_congs)

lemma interrupts_decoder [undecoded]: "interrupts cfg (redecode d s) = state_with_decoder d (interrupts cfg s)"
  by (simp add: interrupts_def undecoded cong: res_congs)

lemma fetch_decoder [undecoded]: "fetch cfg (redecode d s) = state_with_decoder d (fetch cfg s)"
  by (simp add: fetch_def get_4byte_aligned_instr_def bind_res_assoc case_prod_unfold bind_if undecoded cong: res_congs)

lemma execute_decoder [undecoded]: "execute cfg (redecode d s) = state_with_decoder d (execute cfg s)"
  by (simp add: execute_def dispatch_decoder undecoded cong: res_congs)

text \<open>An operation that commutes with every change of the decoder keeps the decoder.\<close>

lemma state_with_decoder_keeps:
  assumes "\<And>d. f (redecode d s) = state_with_decoder d (f s)" "f s = Inr t"
  shows "decoder t = decoder s"
proof -
  have "f s = state_with_decoder (decoder s) (f s)" using assms(1) [of "decoder s"] by (simp add: redecode_fields)
  then have "t = redecode (decoder s) t" using assms(2) by (simp add: state_with_decoder_def)
  then show ?thesis by (metis redecode_fields(16))
qed

text \<open>Two results that differ in the decoder only, both decoders being sound\<close>

definition agree :: "('a \<times> vemu) res \<Rightarrow> ('a \<times> vemu) res \<Rightarrow> bool" where
  "agree r r' \<longleftrightarrow> (case (r, r') of
       (Inl e, Inl e') \<Rightarrow> e = e'
     | (Inr (x, s), Inr (x', s')) \<Rightarrow> x = x' \<and> decoder_ok (decoder s) \<and> decoder_ok (decoder s') \<and> s' = redecode (decoder s') s
     | _ \<Rightarrow> False)"

lemma agree_simps:
  "agree (Inl e) r' \<longleftrightarrow> r' = Inl e"
  "agree (Inr (x, s)) r' \<longleftrightarrow> (\<exists>d. r' = Inr (x, redecode d s) \<and> decoder_ok (decoder s) \<and> decoder_ok d)"
proof -
  show "agree (Inl e) r' \<longleftrightarrow> r' = Inl e" by (cases r') (auto simp: agree_def)
  show "agree (Inr (x, s)) r' \<longleftrightarrow> (\<exists>d. r' = Inr (x, redecode d s) \<and> decoder_ok (decoder s) \<and> decoder_ok d)"
  proof (cases r')
    case (Inr p)
    have "snd p = redecode d s \<Longrightarrow> decoder (snd p) = d" for d by (simp add: redecode_fields)
    then show ?thesis using Inr by (cases p) (auto simp: agree_def)
  qed (simp add: agree_def)
qed

lemma decode_agrees:
  assumes "decoder_ok (decoder s)" "decoder_ok d"
  obtains (abort) e where "decode_current s = Inl e" "decode_current (redecode d s) = Inl e"
  | (decoded) u d' where "decode_current s = Inr u" "decode_current (redecode d s) = Inr (redecode d' u)"
      "decoder_ok (decoder u)" "decoder_ok d'"
proof (cases "decode_spec (hex_instr s)")
  case (Inl e)
  have "decode d' (hex_instr s) = Inl e" if "decoder_ok d'" for d'
    using decode_correct(1,2) [OF that, of "hex_instr s"] Inl by (cases "decode d' (hex_instr s)") auto
  then show ?thesis using assms abort by (simp add: decode_current_def undecoded)
next
  case (Inr i)
  have "\<exists>d''. decode d' (hex_instr s) = Inr (i, d'') \<and> decoder_ok d''" if "decoder_ok d'" for d'
    using decode_correct(1,3) [OF that] Inr by blast
  then obtain a b where a: "decode (decoder s) (hex_instr s) = Inr (i, a)" "decoder_ok a"
    and b: "decode d (hex_instr s) = Inr (i, b)" "decoder_ok b"
    using assms by metis
  then have "decode_current (redecode d s) = Inr (redecode b (s\<lparr>curr_instr := i, decoder := a\<rparr>))"
    by (simp add: decode_current_def undecoded) (simp add: redecode_def)
  then show ?thesis using a b decoded by (simp add: decode_current_def)
qed

lemma after_fetch_agrees:
  assumes "decoder_ok (decoder s)" "decoder_ok d"
  shows "agree (bind_res (decode_current s) (\<lambda>s3. bind_res (execute cfg s3) (\<lambda>s4. Inr (Running, s4\<lparr>pc := pc s4 + 4\<rparr>))))
    (bind_res (decode_current (redecode d s)) (\<lambda>s3. bind_res (execute cfg s3) (\<lambda>s4. Inr (Running, s4\<lparr>pc := pc s4 + 4\<rparr>))))"
proof (rule decode_agrees [OF assms])
  fix u d' assume u: "decode_current s = Inr u" "decode_current (redecode d s) = Inr (redecode d' u)"
    "decoder_ok (decoder u)" "decoder_ok d'"
  show ?thesis
  proof (cases "execute cfg u")
    case (Inr v)
    then have "decoder v = decoder u" by (rule state_with_decoder_keeps [OF execute_decoder])
    then show ?thesis using u Inr by (simp add: agree_def undecoded)
  qed (use u in \<open>simp add: agree_def undecoded\<close>)
qed (simp add: agree_def)

lemma iteration_agrees:
  assumes "decoder_ok (decoder s)" "decoder_ok d"
  shows "agree (run_iteration cfg s) (run_iteration cfg (redecode d s))"
proof (cases "has_exited s")
  case True
  then show ?thesis using assms by (simp add: run_iteration_def agree_def undecoded)
next
  case live: False
  show ?thesis
  proof (cases "interrupts cfg s")
    case (Inr s1)
    note s1 = this
    have d1: "decoder s1 = decoder s" using state_with_decoder_keeps [OF interrupts_decoder s1] .
    show ?thesis
    proof (cases "build cfg = TEST_ENV \<and> test_flag_done s1")
      case go: False
      show ?thesis
      proof (cases "fetch cfg s1")
        case (Inr s2)
        have "decoder s2 = decoder s" using state_with_decoder_keeps [OF fetch_decoder Inr] d1 by simp
        then show ?thesis using live s1 go Inr after_fetch_agrees [of s2 d cfg] assms by (auto simp: run_iteration_def undecoded)
      qed (use live s1 go in \<open>auto simp: run_iteration_def agree_def undecoded\<close>)
    qed (use live s1 d1 assms in \<open>simp add: run_iteration_def agree_def undecoded\<close>)
  qed (use live in \<open>simp add: run_iteration_def agree_def undecoded\<close>)
qed

lemma run_agrees:
  assumes "decoder_ok (decoder s)" "decoder_ok d"
  shows "rel_option agree (run fuel cfg s) (run fuel cfg (redecode d s))"
  using assms
proof (induction fuel arbitrary: s d)
  case (Suc fuel)
  note i = iteration_agrees [OF Suc.prems, of cfg]
  show ?case
  proof (cases "run_iteration cfg s")
    case (Inl e)
    then show ?thesis using i by (simp add: agree_simps)
  next
    case (Inr r)
    obtain x u where r: "r = (x, u)" by fastforce
    with Inr i obtain d' where u: "run_iteration cfg (redecode d s) = Inr (x, redecode d' u)"
      "decoder_ok (decoder u)" "decoder_ok d'"
      by (auto simp: agree_simps)
    show ?thesis
    proof (cases x)
      case Running
      then show ?thesis using Suc.IH [OF u(2,3)] Inr u(1) by (simp add: r)
    qed (use Inr u in \<open>auto simp: r agree_simps\<close>)
  qed
qed simp

text \<open>What can be observed of a run: its result, with the state less the decoder\<close>

definition observed :: "('a \<times> vemu) res \<Rightarrow> ('a \<times> vemu) res" where
  "observed r = with_decoder InstructionDecoder_new r"

lemma agree_observed: "agree r r' \<Longrightarrow> observed r' = observed r"
  by (cases r) (auto simp: agree_simps observed_def undecoded)

subsection \<open>Construction\<close>

lemma construction_decoder [undecoded]:
  "push_to_stack cfg v sz (redecode d s) = state_with_decoder d (push_to_stack cfg v sz s)"
  "write_string_to_addr str a (redecode d s) = state_with_decoder d (write_string_to_addr str a s)"
  "push_arg cfg arg (redecode d s) = state_with_decoder d (push_arg cfg arg s)"
  by (simp_all add: push_to_stack_def write_string_to_addr_def push_arg_def bind_res_assoc bind_case_prod undecoded cong: res_congs)

lemma push_args_decoder [undecoded]:
  "fold_res (push_arg cfg) args (redecode d s) = state_with_decoder d (fold_res (push_arg cfg) args s)"
  by (induction args arbitrary: s) (simp_all add: undecoded)

lemma base_decoder: "VEmu_base cfg init d f p n = redecode d (VEmu_base cfg init d' f p n)"
  by (simp add: VEmu_base_def init_misa_def Let_def undecoded redecode_def store_csr_def)

lemma exec_decoder: "VEmu_exec cfg init d info args n = state_with_decoder d (VEmu_exec cfg init d' info args n)"
proof -
  let ?b = "\<lambda>d. (VEmu_base cfg init d [] (entry_point info) n)\<lparr>bin_file_name := fi_file_name info\<rparr>"
  have "?b d = redecode d (?b d')" by (simp add: base_decoder [of cfg init d _ _ _ d'] redecode_def)
  then show ?thesis unfolding VEmu_exec_def by (simp add: Let_def bind_res_assoc bind_case_prod undecoded cong: res_congs)
qed

subsection \<open>Properties\<close>

text \<open>(C12) Emulators do not influence each other through the decoder that they share: in every build, a run
  from a state ends, stops the process or goes on, prints, and leaves the registers, the memory, the devices
  and the files, in the same way whichever sound contents the caches of the decoder have, among them the
  empty ones of a process that has not decoded anything yet.\<close>

theorem run_ignores_decoder:
  assumes "decoder_ok (decoder s)" and "decoder_ok d"
  shows "map_option observed (run fuel cfg (s\<lparr>decoder := d\<rparr>)) = map_option observed (run fuel cfg s)"
  using run_agrees [OF assms, of fuel cfg]
  by (cases "run fuel cfg s"; cases "run fuel cfg (redecode d s)") (auto simp: redecode_def intro: agree_observed)

end
