(* ===== verification/Vemu_Fuzz.thy ===== *)
theory Vemu_Fuzz
  imports Vemu_Run "HOL-Library.Product_Lexorder"
begin

text \<open>
  The programs around the emulator: the executable reader, the random numbers, the corpus and the mutations
  of \<^verbatim>\<open>src/util.cpp\<close>, the fuzzing thread of \<^verbatim>\<open>src/FuzzThread.cpp\<close>, the test driver of
  \<^verbatim>\<open>src/Tester.cpp\<close> and \<^verbatim>\<open>src/main.cpp\<close>.
\<close>

unbundle bit_operations_syntax

subsection \<open>Reading executables\<close>

text \<open>
  What the ELF library returns for a file: its segments, in order, with their types, and the entry
  point. \<open>host_elf\<close> gives it by path, \<open>None\<close> when the library cannot load the file; \<open>host_dir\<close>
  lists a directory.
\<close>

record elf_segment =
  p_type :: u32
  p_flags :: u32
  p_vaddr :: u64
  p_memsz :: u64
  p_filesz :: u64
  p_data :: "u8 list"

record elf =
  elf_segments :: "elf_segment list"
  elf_entry :: u64

record host =
  host_elf :: "u8 list \<Rightarrow> elf option"
  host_dir :: "u8 list \<Rightarrow> u8 list list"

abbreviation (input) PT_LOAD :: u32 where "PT_LOAD \<equiv> 1"

definition read_segment :: "elf_segment \<Rightarrow> MemorySegment list \<Rightarrow> MemorySegment list res" where
  "read_segment pseg segs =
     (if p_type pseg \<noteq> PT_LOAD then Inr segs
      else bind_res (defined_res (unat (p_filesz pseg) \<le> length (p_data pseg))) (\<lambda>_.
           let dat = take (unat (p_filesz pseg)) (p_data pseg) in
           Inr (segs @ [\<lparr>seg_perms = ucast (p_flags pseg), seg_start_addr = p_vaddr pseg,
                         seg_mem_size = p_memsz pseg, seg_file_size = p_filesz pseg, seg_data = dat\<rparr>])))"

definition read_elf :: "host \<Rightarrow> u8 list \<Rightarrow> bool \<Rightarrow> FileInfo res" where
  "read_elf h fname fatally = (case host_elf h fname of
       None \<Rightarrow>
         if fatally then Inl ExitFailure
         else Inr \<lparr>fi_file_name = [], entry_point = NOT 0, segments = []\<rparr>
     | Some e \<Rightarrow>
         bind_res (fold_res read_segment (elf_segments e) []) (\<lambda>segs.
         Inr \<lparr>fi_file_name = fname, entry_point = elf_entry e, segments = segs\<rparr>))"

subsection \<open>Command lines\<close>

text \<open>The characters of a string up to its first null, as \<open>c_str\<close> and \<open>strcpy\<close> see it.\<close>

definition c_str :: "u8 list \<Rightarrow> u8 list" where
  "c_str s = takeWhile (\<lambda>c. c \<noteq> 0) s"

definition substitute_input :: "u8 list list \<Rightarrow> u8 list \<Rightarrow> u8 list list" where
  "substitute_input args input_name = map (\<lambda>arg. if arg = [0x7B, 0x7D] then input_name else arg) args"

subsection \<open>Random numbers\<close>

text \<open>The static \<open>seed\<close> is threaded through: \<open>gen_rand\<close> returns the number and the new seed.\<close>

definition gen_rand :: "u64 \<Rightarrow> u64 \<times> u64" where
  "gen_rand seed =
     (let x1 = seed XOR drop_bit 12 seed;
          x2 = x1 XOR push_bit 25 x1;
          x3 = x2 XOR drop_bit 27 x2
      in (x3 * 0x2545F4914F6CDD1D, x3))"

abbreviation (input) initial_seed :: u64 where "initial_seed \<equiv> 123456789"

subsection \<open>The corpus\<close>

text \<open>Each file of the corpus with whether its mutex is locked.\<close>

type_synonym corpus = "(FileInfo \<times> bool) list"

definition Corpus_new :: "host \<Rightarrow> u8 list \<Rightarrow> corpus res" where
  "Corpus_new h dir_path =
     fold_res (\<lambda>entry fs. bind_res (read_elf h entry True) (\<lambda>info. Inr (fs @ [(info, False)])))
       (host_dir h dir_path) []"

text \<open>
  The loop ends when \<open>try_lock\<close> succeeds; \<open>fuel\<close> bounds its iterations and \<open>None\<close> is a loop that
  is still running. \<open>try_lock\<close> on a locked mutex returns false. An empty corpus divides by zero.
\<close>

fun get_random_free_file :: "nat \<Rightarrow> corpus \<Rightarrow> u64 \<Rightarrow> (nat \<times> corpus \<times> u64) res option" where
  "get_random_free_file 0 fs seed = None"
| "get_random_free_file (Suc fuel) fs seed =
     (if fs = [] then Some (Inl UndefinedBehaviour)
      else
        let (r, seed') = gen_rand seed;
            idx = unat (r mod of_nat (length fs)); f = fs ! idx in
        if \<not> snd f then Some (Inr (idx, fs[idx := (fst f, True)], seed'))
        else get_random_free_file fuel fs seed')"

subsection \<open>Mutations\<close>

type_synonym MutationHistory = "((u64 \<times> u64) \<times> u8) list"

definition get_byte :: "FileInfo \<Rightarrow> u64 \<times> u64 \<Rightarrow> u8 res" where
  "get_byte info pos =
     bind_res (defined_res (unat (fst pos) < length (segments info) \<and>
        unat (snd pos) < length (seg_data (segments info ! unat (fst pos))))) (\<lambda>_.
     Inr (seg_data (segments info ! unat (fst pos)) ! unat (snd pos)))"

definition set_byte :: "u64 \<times> u64 \<Rightarrow> u8 \<Rightarrow> FileInfo \<Rightarrow> FileInfo res" where
  "set_byte pos v info =
     bind_res (defined_res (unat (fst pos) < length (segments info) \<and>
        unat (snd pos) < length (seg_data (segments info ! unat (fst pos))))) (\<lambda>_.
     let i = unat (fst pos); seg = segments info ! i in
     Inr (info\<lparr>segments := (segments info)[i := seg\<lparr>seg_data := (seg_data seg)[unat (snd pos) := v]\<rparr>]\<rparr>))"

text \<open>\<open>history\<close> is a map in key order; an entry is made only for a position that has none.\<close>

fun push_mutate :: "nat \<Rightarrow> FileInfo \<Rightarrow> MutationHistory \<Rightarrow> u64 \<Rightarrow> (FileInfo \<times> MutationHistory \<times> u64) res" where
  "push_mutate 0 info history seed = Inr (info, history, seed)"
| "push_mutate (Suc n_bytes) info history seed =
     bind_res (defined_res (segments info \<noteq> [])) (\<lambda>_.
     let (r1, seed1) = gen_rand seed;
         seg_idx = r1 mod of_nat (length (segments info));
         file_size = seg_file_size (segments info ! unat seg_idx) in
     bind_res (defined_res (file_size \<noteq> 0)) (\<lambda>_.
     let (r2, seed2) = gen_rand seed1;
         byte_idx = r2 mod file_size in
     bind_res (if map_of history (seg_idx, byte_idx) = None
               then bind_res (get_byte info (seg_idx, byte_idx)) (\<lambda>b.
                    Inr (map_insert (seg_idx, byte_idx) b history))
               else Inr history) (\<lambda>history'.
     let (r3, seed3) = gen_rand seed2 in
     bind_res (set_byte (seg_idx, byte_idx) (ucast (r3 mod 255)) info) (\<lambda>info'.
     push_mutate n_bytes info' history' seed3))))"

definition pop_mutate :: "FileInfo \<Rightarrow> MutationHistory \<Rightarrow> FileInfo res" where
  "pop_mutate info history = fold_res (\<lambda>(pos, byte_val) info. set_byte pos byte_val info) history info"

subsection \<open>The fuzzing thread\<close>

text \<open>
  The thread works on the target and the corpus; the seed and the decoder are global. \<open>init\<close> gives
  the indeterminate values of the emulator that run \<open>k\<close> constructs.
\<close>

record fuzz =
  target :: FileInfo
  corpus_files :: corpus
  seed :: u64
  shared_decoder :: InstructionDecoder

abbreviation (input) default_mem_size :: u64 where "default_mem_size \<equiv> 0x8000000"

definition fuzz_once :: "nat \<Rightarrow> config \<Rightarrow> uninit \<Rightarrow> u8 list list \<Rightarrow> fuzz \<Rightarrow> fuzz res option" where
  "fuzz_once fuel cfg init fuzz_opts st =
     (case get_random_free_file fuel (corpus_files st) (seed st) of
        None \<Rightarrow> None
      | Some (Inl e) \<Rightarrow> Some (Inl e)
      | Some (Inr (idx, fs, seed1)) \<Rightarrow>
          (let input_info = fst (fs ! idx); (r, seed2) = gen_rand seed1 in
           case (bind_res (push_mutate (unat (r mod 8)) (target st) [] seed2) (\<lambda>(target', hist, seed3).
                 bind_res (VEmu_exec cfg init (shared_decoder st) target'
                             (substitute_input fuzz_opts (c_str (fi_file_name input_info))) default_mem_size) (\<lambda>em.
                 bind_res (pop_mutate input_info hist) (\<lambda>input_info'.
                 Inr (em, st\<lparr>target := target', corpus_files := fs[idx := (input_info', snd (fs ! idx))],
                             seed := seed3\<rparr>))))) of
             Inl e \<Rightarrow> Some (Inl e)
           | Inr (em, st') \<Rightarrow>
               (case run fuel cfg em of
                  None \<Rightarrow> None
                | Some (Inl e) \<Rightarrow> Some (Inl e)
                | Some (Inr (exit_status, em')) \<Rightarrow> Some (Inr (st'\<lparr>shared_decoder := decoder em'\<rparr>)))))"

fun fuzz_dispatch :: "nat \<Rightarrow> config \<Rightarrow> (nat \<Rightarrow> uninit) \<Rightarrow> u8 list list \<Rightarrow> nat \<Rightarrow> fuzz \<Rightarrow> fuzz res option" where
  "fuzz_dispatch fuel cfg init fuzz_opts 0 st = Some (Inr st)"
| "fuzz_dispatch fuel cfg init fuzz_opts (Suc runs) st =
     (case fuzz_once fuel cfg (init runs) fuzz_opts st of
        None \<Rightarrow> None
      | Some (Inl e) \<Rightarrow> Some (Inl e)
      | Some (Inr st') \<Rightarrow> fuzz_dispatch fuel cfg init fuzz_opts runs st')"

subsection \<open>The test driver\<close>

record TestCase =
  tc_bin_file_name :: "u8 list"
  skip :: bool

text \<open>A string literal of the source.\<close>

definition literal :: "string \<Rightarrow> u8 list" where
  "literal str = map (\<lambda>c. of_nat (of_char c)) str"

definition test_cases :: "TestCase list" where
  "test_cases = map (\<lambda>str. \<lparr>tc_bin_file_name = literal str, skip = False\<rparr>) [
    ''../tests/elf/rv64ui-p-add'', ''../tests/elf/rv64ui-p-addi'', ''../tests/elf/rv64ui-p-addiw'',
    ''../tests/elf/rv64ui-p-addw'', ''../tests/elf/rv64ui-p-and'', ''../tests/elf/rv64ui-p-andi'',
    ''../tests/elf/rv64ui-p-auipc'', ''../tests/elf/rv64ui-p-beq'', ''../tests/elf/rv64ui-p-bge'',
    ''../tests/elf/rv64ui-p-bgeu'', ''../tests/elf/rv64ui-p-blt'', ''../tests/elf/rv64ui-p-bltu'',
    ''../tests/elf/rv64ui-p-bne'', ''../tests/elf/rv64ui-p-fence_i'', ''../tests/elf/rv64ui-p-jal'',
    ''../tests/elf/rv64ui-p-jalr'', ''../tests/elf/rv64ui-p-lb'', ''../tests/elf/rv64ui-p-lbu'',
    ''../tests/elf/rv64ui-p-ld'', ''../tests/elf/rv64ui-p-lh'', ''../tests/elf/rv64ui-p-lhu'',
    ''../tests/elf/rv64ui-p-lui'', ''../tests/elf/rv64ui-p-lw'', ''../tests/elf/rv64ui-p-lwu'',
    ''../tests/elf/rv64ui-p-or'', ''../tests/elf/rv64ui-p-ori'', ''../tests/elf/rv64ui-p-sb'',
    ''../tests/elf/rv64ui-p-sd'', ''../tests/elf/rv64ui-p-sh'', ''../tests/elf/rv64ui-p-sll'',
    ''../tests/elf/rv64ui-p-slli'', ''../tests/elf/rv64ui-p-slliw'', ''../tests/elf/rv64ui-p-sllw'',
    ''../tests/elf/rv64ui-p-slt'', ''../tests/elf/rv64ui-p-slti'', ''../tests/elf/rv64ui-p-sltiu'',
    ''../tests/elf/rv64ui-p-sltu'', ''../tests/elf/rv64ui-p-sra'', ''../tests/elf/rv64ui-p-srai'',
    ''../tests/elf/rv64ui-p-sraiw'', ''../tests/elf/rv64ui-p-sraw'', ''../tests/elf/rv64ui-p-srl'',
    ''../tests/elf/rv64ui-p-srli'', ''../tests/elf/rv64ui-p-srliw'', ''../tests/elf/rv64ui-p-srlw'',
    ''../tests/elf/rv64ui-p-sub'', ''../tests/elf/rv64ui-p-subw'', ''../tests/elf/rv64ui-p-sw'',
    ''../tests/elf/rv64ui-p-xor'', ''../tests/elf/rv64ui-p-xori'']"

datatype test_event = SkippedTest "u8 list" | StartedTest "u8 list" | CannotLoad "u8 list" | Emulator "message list"

abbreviation (input) test_mem_size :: u64 where "test_mem_size \<equiv> 0x200000"

fun Tester_run :: "nat \<Rightarrow> config \<Rightarrow> host \<Rightarrow> (nat \<Rightarrow> uninit) \<Rightarrow> TestCase list \<Rightarrow> InstructionDecoder
    \<Rightarrow> (test_event list \<times> InstructionDecoder) res option" where
  "Tester_run fuel cfg h init [] d = Some (Inr ([], d))"
| "Tester_run fuel cfg h init (tcase # rest) d =
     (let name = tc_bin_file_name tcase;
          go = (\<lambda>evs d'. map_option (map_sum id (map_prod (\<lambda>more. evs @ more) id)) (Tester_run fuel cfg h init rest d')) in
      if skip tcase then go [SkippedTest name] d
      else case read_elf h name False of
        Inl e \<Rightarrow> Some (Inl e)
      | Inr info \<Rightarrow>
          if entry_point info = NOT 0
          then go ([StartedTest name] @ (if host_elf h name = None then [CannotLoad name] else [])) d
          else case VEmu_exec cfg (init (length rest)) d info [] test_mem_size of
            Inl e \<Rightarrow> Some (Inl e)
          | Inr em \<Rightarrow>
              (case run fuel cfg em of
                 None \<Rightarrow> None
               | Some (Inl e) \<Rightarrow> Some (Inl e)
               | Some (Inr (code, em')) \<Rightarrow> go [StartedTest name, Emulator (console em')] (decoder em')))"

subsection \<open>The main program\<close>

text \<open>The testing build; it shares the decoder that the first use of the singleton constructs.\<close>

definition main_test :: "nat \<Rightarrow> config \<Rightarrow> host \<Rightarrow> (nat \<Rightarrow> uninit) \<Rightarrow> (test_event list \<times> InstructionDecoder) res option" where
  "main_test fuel cfg h init = Tester_run fuel cfg h init test_cases InstructionDecoder_new"

text \<open>The fuzzing build. \<open>argv\<close> without the program's name; fewer than three arguments print the usage and exit.\<close>

definition main_fuzz :: "nat \<Rightarrow> config \<Rightarrow> host \<Rightarrow> (nat \<Rightarrow> uninit) \<Rightarrow> u8 list list \<Rightarrow> fuzz res option" where
  "main_fuzz fuel cfg h init argv =
     (if length argv < 3 then Some (Inl ExitFailure)
      else case bind_res (Corpus_new h (argv ! 0)) (\<lambda>corpus.
                bind_res (read_elf h (argv ! 1) True) (\<lambda>fuzz_info.
                Inr \<lparr>target = fuzz_info, corpus_files = corpus, seed = initial_seed,
                     shared_decoder = InstructionDecoder_new\<rparr>)) of
             Inl e \<Rightarrow> Some (Inl e)
           | Inr st \<Rightarrow> fuzz_dispatch fuel cfg init (drop 2 argv) 100 st)"

end
