(* ===== verification/Fuzz_Laws.thy ===== *)
theory Fuzz_Laws
  imports Vemu_Fuzz
begin

text \<open>
  What the fuzzing harness does and fails to do. The mutations with their history are an instance of an
  undo log: the locale \<open>undo_log\<close> states the contract of a store of cells, shows that replaying the
  first old value of every changed cell restores the store, and is interpreted on the segments of an
  executable.
\<close>

unbundle bit_operations_syntax

subsection \<open>Undo logs\<close>

definition recorded :: "('s \<Rightarrow> 'k \<Rightarrow> 'v option) \<Rightarrow> ('s \<Rightarrow> 's \<Rightarrow> bool) \<Rightarrow> 's \<Rightarrow> ('k \<times> 'v) list \<Rightarrow> 's \<Rightarrow> bool" where
  "recorded look alike s0 h s \<longleftrightarrow> alike s0 s \<and>
     (\<forall>k. map_of h k = None \<longrightarrow> look s k = look s0 k) \<and>
     (\<forall>k v. map_of h k = Some v \<longrightarrow> look s0 k = Some v \<and> look s k \<noteq> None)"

locale undo_log =
  fixes look :: "'s \<Rightarrow> 'k \<Rightarrow> 'v option" and put :: "'k \<Rightarrow> 'v \<Rightarrow> 's \<Rightarrow> 's res" and alike :: "'s \<Rightarrow> 's \<Rightarrow> bool"
  assumes put_ok: "look s k \<noteq> None \<Longrightarrow> \<exists>s'. put k v s = Inr s'"
    and put_undefined: "look s k = None \<Longrightarrow> put k v s = Inl UndefinedBehaviour"
    and look_put: "put k v s = Inr s' \<Longrightarrow> look s' j = (if j = k then Some v else look s j)"
    and alike_put: "put k v s = Inr s' \<Longrightarrow> alike r s \<Longrightarrow> alike r s'"
    and alike_ext: "alike s t \<Longrightarrow> (\<And>k. look s k = look t k) \<Longrightarrow> s = t"
begin

lemma put_changed: "put k v s = Inr s' \<Longrightarrow> look s k \<noteq> None"
  using put_undefined [of s k v] by auto

lemma recorded_start: "alike s s \<Longrightarrow> recorded look alike s [] s"
  by (simp add: recorded_def)

lemma recorded_again:
  assumes "recorded look alike s0 h s" "put k v s = Inr s'" "map_of h k \<noteq> None"
  shows "recorded look alike s0 h s'"
  using assms look_put [OF assms(2)] alike_put [OF assms(2)]
  by (auto simp: recorded_def)

lemma recorded_first:
  assumes "recorded look alike s0 h s" "put k v s = Inr s'" "map_of h k = None" "look s k = Some u"
    "map_of h' = (map_of h)(k \<mapsto> u)"
  shows "recorded look alike s0 h' s'"
  using assms look_put [OF assms(2)] alike_put [OF assms(2)]
  by (auto simp: recorded_def)

lemma replay:
  assumes "alike s0 s" "\<And>k v. (k, v) \<in> set h \<Longrightarrow> look s0 k = Some v \<and> look s k \<noteq> None"
    "\<And>k. k \<notin> fst ` set h \<Longrightarrow> look s k = look s0 k"
  shows "fold_res (\<lambda>(k, v) s. put k v s) h s = Inr s0"
  using assms
proof (induction h arbitrary: s)
  case Nil
  then show ?case using alike_ext [of s0 s] by simp
next
  case (Cons kv h)
  obtain k v where kv: "kv = (k, v)" by fastforce
  then obtain s1 where s1: "put k v s = Inr s1" using put_ok [of s k v] Cons.prems(2) by force
  have "fold_res (\<lambda>(k, v) s. put k v s) h s1 = Inr s0"
  proof (rule Cons.IH)
    show "alike s0 s1" using alike_put [OF s1 Cons.prems(1)] .
    show "look s0 j = Some u \<and> look s1 j \<noteq> None" if "(j, u) \<in> set h" for j u
      using Cons.prems(2) [of j u] that look_put [OF s1] by simp
    show "look s1 j = look s0 j" if "j \<notin> fst ` set h" for j
      using Cons.prems(2) [of k v] Cons.prems(3) [of j] that look_put [OF s1] kv by auto
  qed
  then show ?case using s1 kv by simp
qed

lemma undo:
  assumes "recorded look alike s0 h s" "distinct (map fst h)"
  shows "fold_res (\<lambda>(k, v) s. put k v s) h s = Inr s0"
proof (rule replay)
  show "alike s0 s" using assms(1) by (simp add: recorded_def)
  show "look s0 k = Some v \<and> look s k \<noteq> None" if "(k, v) \<in> set h" for k v
    using assms map_of_is_SomeI [OF assms(2) that] by (simp add: recorded_def)
  show "look s k = look s0 k" if "k \<notin> fst ` set h" for k
    using assms(1) that by (simp add: recorded_def map_of_eq_None_iff)
qed

end

subsection \<open>The bytes of an executable\<close>

definition byte_at :: "FileInfo \<Rightarrow> u64 \<times> u64 \<Rightarrow> u8 option" where
  "byte_at info pos =
     (if unat (fst pos) < length (segments info) \<and> unat (snd pos) < length (seg_data (segments info ! unat (fst pos)))
      then Some (seg_data (segments info ! unat (fst pos)) ! unat (snd pos)) else None)"

definition seg_alike :: "MemorySegment \<Rightarrow> MemorySegment \<Rightarrow> bool" where
  "seg_alike a b \<longleftrightarrow> length (seg_data a) = length (seg_data b) \<and> a\<lparr>seg_data := []\<rparr> = b\<lparr>seg_data := []\<rparr>"

text \<open>Executables that are the same up to the data, which 64-bit indices reach.\<close>

definition small :: "FileInfo \<Rightarrow> bool" where
  "small info \<longleftrightarrow> length (segments info) < 2 ^ 64 \<and> (\<forall>seg \<in> set (segments info). length (seg_data seg) < 2 ^ 64)"

definition info_alike :: "FileInfo \<Rightarrow> FileInfo \<Rightarrow> bool" where
  "info_alike a b \<longleftrightarrow> small a \<and> a\<lparr>segments := []\<rparr> = b\<lparr>segments := []\<rparr> \<and>
     list_all2 seg_alike (segments a) (segments b)"

lemma get_byte_at: "get_byte info pos = (case byte_at info pos of None \<Rightarrow> Inl UndefinedBehaviour | Some b \<Rightarrow> Inr b)"
  by (simp add: get_byte_def byte_at_def defined_res_def)

lemma info_alike_refl: "small info \<Longrightarrow> info_alike info info"
  by (simp add: info_alike_def seg_alike_def list.rel_refl)

lemma set_byte_eq:
  assumes "set_byte pos v info = Inr info'"
  obtains i where "i = unat (fst pos)" "i < length (segments info)"
    "unat (snd pos) < length (seg_data (segments info ! i))"
    "info' = info\<lparr>segments := (segments info)[i := (segments info ! i)
        \<lparr>seg_data := (seg_data (segments info ! i))[unat (snd pos) := v]\<rparr>]\<rparr>"
  using assms by (auto simp: set_byte_def bind_res_eq_Inr defined_res_def Let_def split: if_splits)

lemma info_ext:
  assumes "info_alike a b" "\<And>pos. byte_at a pos = byte_at b pos"
  shows "a = b"
proof -
  have l: "length (segments a) = length (segments b)"
    and al: "\<And>i. i < length (segments a) \<Longrightarrow> seg_alike (segments a ! i) (segments b ! i)"
    using assms(1) by (auto simp: info_alike_def list_all2_conv_all_nth)
  have "segments a = segments b"
  proof (rule nth_equalityI [OF l])
    fix i assume i: "i < length (segments a)"
    let ?x = "segments a ! i" and ?y = "segments b ! i"
    have sm: "i < 2 ^ 64" "length (seg_data ?x) < 2 ^ 64"
      using assms(1) i by (auto simp: info_alike_def small_def)
    have "seg_data ?x = seg_data ?y"
    proof (rule nth_equalityI)
      show "length (seg_data ?x) = length (seg_data ?y)" using al [OF i] by (simp add: seg_alike_def)
      fix k assume "k < length (seg_data ?x)"
      then show "seg_data ?x ! k = seg_data ?y ! k"
        using assms(2) [of "(of_nat i, of_nat k)"] i l sm al [OF i]
        by (simp add: byte_at_def unat_of_nat_u64 seg_alike_def)
    qed
    then show "?x = ?y" using al [OF i] by (cases ?x, cases ?y) (simp add: seg_alike_def)
  qed
  then show ?thesis using assms(1) by (cases a, cases b) (simp add: info_alike_def)
qed

lemma byte_at_set:
  assumes "set_byte pos v info = Inr info'"
  shows "byte_at info' q = (if q = pos then Some v else byte_at info q)"
  using assms
  by (elim set_byte_eq) (auto simp: byte_at_def nth_list_update prod_eq_iff word_unat_eq_iff)

lemma info_alike_set:
  assumes "set_byte pos v info = Inr info'" "info_alike r info"
  shows "info_alike r info'"
  using assms
  by (elim set_byte_eq)
    (auto simp: info_alike_def seg_alike_def list_all2_conv_all_nth nth_list_update)

interpretation bytes: undo_log byte_at set_byte info_alike
  by unfold_locales (auto simp: byte_at_set info_alike_set info_ext, auto simp: set_byte_def byte_at_def
    defined_res_def Let_def split: if_splits)

subsection \<open>Mutations\<close>

lemma sorted_distinct: "sorted_wrt (<) (map fst m) \<Longrightarrow> distinct (map fst (m :: ('k::linorder \<times> 'v) list))"
  by (simp add: strict_sorted_iff)

text \<open>One round of the loop of \<open>push_mutate\<close>.\<close>

lemma push_mutate_Suc:
  assumes "push_mutate (Suc n) info h seed0 = Inr r"
  obtains pos v info' h' seed' where "set_byte pos v info = Inr info'" "push_mutate n info' h' seed' = Inr r"
    "h' = h \<and> map_of h pos \<noteq> None \<or> (\<exists>b. map_of h pos = None \<and> byte_at info pos = Some b \<and> h' = map_insert pos b h)"
proof -
  obtain r1 seed1 where 1: "gen_rand seed0 = (r1, seed1)" by fastforce
  obtain r2 seed2 where 2: "gen_rand seed1 = (r2, seed2)" by fastforce
  obtain r3 seed3 where 3: "gen_rand seed2 = (r3, seed3)" by fastforce
  let ?g = "r1 mod of_nat (length (segments info))"
  let ?pos = "(?g, r2 mod seg_file_size (segments info ! unat ?g))"
  from assms obtain h' info' where "set_byte ?pos (ucast (r3 mod 255)) info = Inr info'"
    "push_mutate n info' h' seed3 = Inr r"
    "(if map_of h ?pos = None then bind_res (get_byte info ?pos) (\<lambda>b. Inr (map_insert ?pos b h)) else Inr h) = Inr h'"
    by (auto simp: 1 2 3 bind_res_eq_Inr Let_def)
  then show thesis
    by (intro that [of ?pos _ info' h' seed3]) (auto simp: get_byte_at bind_res_eq_Inr split: if_splits option.splits)
qed

lemma push_mutate_recorded:
  "push_mutate n info h seed0 = Inr (info', h', seed') \<Longrightarrow> recorded byte_at info_alike info0 h info \<Longrightarrow>
   sorted_wrt (<) (map fst h) \<Longrightarrow> recorded byte_at info_alike info0 h' info' \<and> sorted_wrt (<) (map fst h')"
proof (induction n arbitrary: info h seed0)
  case 0
  then show ?case by simp
next
  case (Suc n)
  from Suc.prems(1) obtain pos v info1 h1 seed1 where s: "set_byte pos v info = Inr info1"
    and p: "push_mutate n info1 h1 seed1 = Inr (info', h', seed')"
    and h: "h1 = h \<and> map_of h pos \<noteq> None \<or>
      (\<exists>b. map_of h pos = None \<and> byte_at info pos = Some b \<and> h1 = map_insert pos b h)"
    by (rule push_mutate_Suc)
  show ?case
  proof (rule Suc.IH [OF p])
    show "recorded byte_at info_alike info0 h1 info1"
      using h bytes.recorded_again [OF Suc.prems(2) s] bytes.recorded_first [OF Suc.prems(2) s]
      by (auto simp: map_of_map_insert [OF Suc.prems(3)] fun_eq_iff)
    show "sorted_wrt (<) (map fst h1)" using h Suc.prems(3) by (auto intro: sorted_map_insert)
  qed
qed

text \<open>(C35) Undoing the mutations of an executable restores it: if \<open>push_mutate\<close> with an empty history
  changes an executable, whatever the number of bytes and the seed and however often it hits the same
  byte, then \<open>pop_mutate\<close> with the history it has made gives back the original.\<close>

theorem mutation_roundtrip:
  assumes "push_mutate n info [] seed0 = Inr (info', history, seed')" and "small info"
  shows "pop_mutate info' history = Inr info"
proof -
  have "recorded byte_at info_alike info history info' \<and> sorted_wrt (<) (map fst history)"
    using push_mutate_recorded [OF assms(1) bytes.recorded_start] info_alike_refl [OF assms(2)] by simp
  then show ?thesis
    unfolding pop_mutate_def using bytes.undo sorted_distinct by blast
qed

text \<open>Executables whose every segment has a buffer of its file size, which is not zero.\<close>

definition mutable_info :: "FileInfo \<Rightarrow> bool" where
  "mutable_info info \<longleftrightarrow> segments info \<noteq> [] \<and> length (segments info) < 2 ^ 64 \<and>
     list_all (\<lambda>seg. seg_file_size seg \<noteq> 0 \<and> length (seg_data seg) = unat (seg_file_size seg)) (segments info)"

lemma mutable_set_byte:
  assumes "set_byte pos v info = Inr info'" "mutable_info info"
  shows "mutable_info info'"
  using assms by (elim set_byte_eq) (auto simp: mutable_info_def list_all_length nth_list_update)

lemma unat_mod_bound: "(n :: u64) \<noteq> 0 \<Longrightarrow> unat (r mod n) < unat n"
  by (simp add: unat_mod unat_gt_0)

text \<open>Mutating is safe on executables whose segments all have data: every byte that is read or
  written lies inside its segment's buffer and no remainder has a zero divisor, for every number of
  bytes, history and seed.\<close>

theorem push_mutate_safe:
  assumes "mutable_info info"
  shows "\<exists>info' history' seed'. push_mutate n info history seed0 = Inr (info', history', seed') \<and> mutable_info info'"
  using assms
proof (induction n arbitrary: info history seed0)
  case 0
  then show ?case by simp
next
  case (Suc n)
  obtain r1 seed1 where 1: "gen_rand seed0 = (r1, seed1)" by fastforce
  obtain r2 seed2 where 2: "gen_rand seed1 = (r2, seed2)" by fastforce
  obtain r3 seed3 where 3: "gen_rand seed2 = (r3, seed3)" by fastforce
  let ?g = "r1 mod of_nat (length (segments info))"
  let ?seg = "segments info ! unat ?g"
  let ?pos = "(?g, r2 mod seg_file_size ?seg)"
  have l: "0 < length (segments info)" "length (segments info) < 2 ^ 64"
    using Suc.prems by (simp_all add: mutable_info_def)
  then have "of_nat (length (segments info)) \<noteq> (0 :: u64)" by (simp add: word_unat_eq_iff unat_of_nat_u64)
  then have g: "unat ?g < length (segments info)"
    using unat_mod_bound [of "of_nat (length (segments info))" r1] l(2) by (simp add: unat_of_nat_u64)
  then have seg: "seg_file_size ?seg \<noteq> 0" "length (seg_data ?seg) = unat (seg_file_size ?seg)"
    using Suc.prems by (auto simp: mutable_info_def list_all_length)
  then have k: "unat (r2 mod seg_file_size ?seg) < length (seg_data ?seg)" using unat_mod_bound by simp
  obtain info1 where i1: "set_byte ?pos (ucast (r3 mod 255)) info = Inr info1"
    using g k by (simp add: set_byte_def defined_res_def Let_def)
  have "\<exists>b. get_byte info ?pos = Inr b" using g k by (simp add: get_byte_def defined_res_def)
  then obtain h1 where "(if map_of history ?pos = None then bind_res (get_byte info ?pos)
      (\<lambda>b. Inr (map_insert ?pos b history)) else Inr history) = Inr h1"
    by (cases "map_of history ?pos = None") auto
  then have "push_mutate (Suc n) info history seed0 = push_mutate n info1 h1 seed3"
    using l(1) seg(1) i1 by (simp add: 1 2 3 Let_def defined_res_def)
  then show ?case using Suc.IH [OF mutable_set_byte [OF i1 Suc.prems]] by simp
qed

subsection \<open>Random numbers\<close>

lemma drop_bit_fixed:
  assumes "z = drop_bit k z" "0 < k"
  shows "z = (0 :: 'a::len word)"
proof (rule bit_word_eqI)
  fix n assume "n < LENGTH('a)"
  have "bit z n \<Longrightarrow> bit z (n + k * j)" for j
  proof (induction j)
    case (Suc j)
    then have "bit (drop_bit k z) (n + k * j)" using assms(1) by simp
    then show ?case by (simp add: bit_drop_bit_eq ac_simps)
  qed simp
  from this [of "LENGTH('a)"] have "bit z n \<Longrightarrow> n + k * LENGTH('a) < LENGTH('a)"
    by (auto dest: bit_imp_le_length)
  then show "bit z n = bit 0 n" using assms(2) by (cases k) auto
qed

lemma push_bit_fixed:
  assumes "z = push_bit k z" "0 < k"
  shows "z = (0 :: 'a::len word)"
proof (rule bit_word_eqI)
  fix n assume n: "n < LENGTH('a)"
  have "\<not> bit z n"
  proof (induction n rule: less_induct)
    case (less n)
    have "bit z n \<Longrightarrow> bit (push_bit k z) n" using assms(1) by simp
    then show ?case using less [of "n - k"] assms(2) by (auto simp: bit_push_bit_iff)
  qed
  then show "bit z n = bit 0 n" by simp
qed

lemma xor_zero: "x XOR y = 0 \<Longrightarrow> x = (y :: 'a::len word)"
  by (auto simp: bit_eq_iff bit_simps)

lemma xorshift_inj:
  assumes "0 < k"
  shows "inj (\<lambda>x :: 'a::len word. x XOR drop_bit k x)" "inj (\<lambda>x :: 'a word. x XOR push_bit k x)"
proof -
  have swap: "x XOR y = a XOR b" if "x XOR a = y XOR b" for x y a b :: "'a word"
    using that by (metis (no_types) xor.assoc xor.left_commute xor.right_neutral xor_self_eq)
  show "inj (\<lambda>x :: 'a word. x XOR drop_bit k x)"
  proof (rule injI)
    fix x y :: "'a word" assume "x XOR drop_bit k x = y XOR drop_bit k y"
    then have "x XOR y = drop_bit k (x XOR y)" by (subst drop_bit_xor, rule swap)
    then show "x = y" by (rule xor_zero [OF drop_bit_fixed [OF _ assms]])
  qed
  show "inj (\<lambda>x :: 'a word. x XOR push_bit k x)"
  proof (rule injI)
    fix x y :: "'a word" assume "x XOR push_bit k x = y XOR push_bit k y"
    then have "x XOR y = push_bit k (x XOR y)" by (subst push_bit_xor, rule swap)
    then show "x = y" by (rule xor_zero [OF push_bit_fixed [OF _ assms]])
  qed
qed

definition next_seed :: "u64 \<Rightarrow> u64" where
  "next_seed x = snd (gen_rand x)"

lemma next_seed_inj: "inj next_seed"
proof -
  have "next_seed = (\<lambda>x. x XOR drop_bit 27 x) \<circ> (\<lambda>x. x XOR push_bit 25 x) \<circ> (\<lambda>x. x XOR drop_bit 12 x)"
    by (simp add: fun_eq_iff next_seed_def gen_rand_def Let_def)
  moreover have "inj \<dots>" by (intro inj_compose xorshift_inj) simp_all
  ultimately show ?thesis by simp
qed

text \<open>The generator never degenerates: its seeds are permuted, so that from a nonzero seed it never
  reaches zero in any number of calls, and every number it returns is nonzero; the numbers determine
  the seeds.\<close>

theorem gen_rand_permutes:
  "bij next_seed \<and> (seed0 \<noteq> 0 \<longrightarrow> (next_seed ^^ n) seed0 \<noteq> 0 \<and> fst (gen_rand ((next_seed ^^ n) seed0)) \<noteq> 0) \<and>
   inj (\<lambda>x. fst (gen_rand x))"
proof (intro conjI impI)
  show "bij next_seed" using next_seed_inj by (simp add: bij_def finite_UNIV_inj_surj)
  have z: "next_seed 0 = 0" by (simp add: next_seed_def gen_rand_def)
  have out: "fst (gen_rand x) = next_seed x * 0x2545F4914F6CDD1D" for x
    by (simp add: next_seed_def gen_rand_def Let_def)
  have inv: "(w * 0x2545F4914F6CDD1D) * 0x59071d96d81ecd35 = w" for w :: u64
  proof -
    have "(0x2545F4914F6CDD1D * 0x59071d96d81ecd35 :: u64) = 1" by simp
    then show ?thesis by (simp only: mult.assoc mult_1_right)
  qed
  show nz: "(next_seed ^^ n) seed0 \<noteq> 0" if "seed0 \<noteq> 0" for n
    using that by (induction n) (auto dest: injD [OF next_seed_inj, of _ 0, unfolded z])
  show "fst (gen_rand ((next_seed ^^ n) seed0)) \<noteq> 0" if "seed0 \<noteq> 0"
  proof
    assume "fst (gen_rand ((next_seed ^^ n) seed0)) = 0"
    then have "next_seed ((next_seed ^^ n) seed0) = 0"
      using inv [of "next_seed ((next_seed ^^ n) seed0)"] by (simp only: out mult_zero_left)
    then show False using nz [OF that, of "Suc n"] by simp
  qed
  show "inj (\<lambda>x. fst (gen_rand x))"
    unfolding out by (intro injI) (metis inv injD [OF next_seed_inj])
qed

subsection \<open>The corpus\<close>

definition free_count :: "corpus \<Rightarrow> nat" where
  "free_count fs = length (filter (\<lambda>f. \<not> snd f) fs)"

lemma random_index:
  assumes "fs \<noteq> []" "length fs < 2 ^ 64"
  shows "unat (r mod of_nat (length fs) :: u64) < length fs"
proof -
  have "of_nat (length fs) \<noteq> (0 :: u64)" using assms by (simp add: word_unat_eq_iff unat_of_nat_u64)
  from unat_mod_bound [OF this, of r] show ?thesis using assms(2) by (simp add: unat_of_nat_u64)
qed

lemma get_random_free_file_result:
  "get_random_free_file fuel fs seed0 = Some (Inr (idx, fs', seed')) \<Longrightarrow> length fs < 2 ^ 64 \<Longrightarrow>
     idx < length fs \<and> \<not> snd (fs ! idx) \<and> fs' = fs[idx := (fst (fs ! idx), True)]"
proof (induction fuel arbitrary: seed0)
  case 0
  then show ?case by simp
next
  case (Suc fuel)
  obtain r seed1 where "gen_rand seed0 = (r, seed1)" by fastforce
  then show ?case using Suc random_index [of fs r] by (auto simp: Let_def split: if_splits)
qed

lemma no_free_file:
  assumes "fs \<noteq> []" "length fs < 2 ^ 64" "free_count fs = 0"
  shows "get_random_free_file fuel fs seed0 = None"
proof (induction fuel arbitrary: seed0)
  case 0
  then show ?case by simp
next
  case (Suc fuel)
  obtain r seed1 where "gen_rand seed0 = (r, seed1)" by fastforce
  moreover have "snd (fs ! unat (r mod of_nat (length fs)))"
    using assms(3) nth_mem [OF random_index [OF assms(1,2), of r]] by (auto simp: free_count_def filter_empty_conv)
  ultimately show ?case using Suc assms(1) by (simp add: Let_def)
qed

lemma free_count_lock:
  assumes "i < length fs" "\<not> snd (fs ! i)"
  shows "free_count fs = Suc (free_count (fs[i := (x, True)]))"
proof -
  have "fs = take i fs @ fs ! i # drop (Suc i) fs" using assms(1) by (rule id_take_nth_drop)
  then have "free_count fs = length (filter (\<lambda>f. \<not> snd f) (take i fs)) + Suc (length (filter (\<lambda>f. \<not> snd f) (drop (Suc i) fs)))"
    unfolding free_count_def using assms(2) by (metis (no_types, lifting) filter.simps(2) filter_append length_Cons length_append)
  then show ?thesis using assms(1) by (simp add: free_count_def upd_conv_take_nth_drop)
qed

text \<open>\<open>get_random_free_file\<close> returns a file that was free and locks it and no other; when every file
  of the corpus is locked it never returns, whatever the bound on its iterations.\<close>

theorem free_file_locked:
  assumes "fs \<noteq> []" and "length fs < 2 ^ 64"
  shows "(\<forall>idx fs' seed'. get_random_free_file fuel fs seed0 = Some (Inr (idx, fs', seed')) \<longrightarrow>
      idx < length fs \<and> \<not> snd (fs ! idx) \<and> fs' = fs[idx := (fst (fs ! idx), True)] \<and>
      free_count fs = Suc (free_count fs')) \<and>
    (free_count fs = 0 \<longrightarrow> get_random_free_file fuel fs seed0 = None)"
  using get_random_free_file_result [OF _ assms(2), of fuel seed0] no_free_file [OF assms] free_count_lock
  by blast

lemma fuzz_once_effect:
  assumes "fuzz_once fuel cfg init opts st = Some (Inr st')" "length (corpus_files st) < 2 ^ 64"
  obtains idx fs seed1 hist seed3 input' where
    "get_random_free_file fuel (corpus_files st) (seed st) = Some (Inr (idx, fs, seed1))"
    "push_mutate (unat (fst (gen_rand seed1) mod 8)) (target st) [] (snd (gen_rand seed1)) = Inr (target st', hist, seed3)"
    "pop_mutate (fst (fs ! idx)) hist = Inr input'" "corpus_files st' = fs[idx := (input', snd (fs ! idx))]"
  using assms(1)
  by (auto simp: fuzz_once_def Let_def bind_res_eq_Inr split: option.splits sum.splits prod.splits)

lemma fuzz_once_free:
  assumes "fuzz_once fuel cfg init opts st = Some (Inr st')" "length (corpus_files st) < 2 ^ 64"
  shows "free_count (corpus_files st) = Suc (free_count (corpus_files st'))"
    and "length (corpus_files st') = length (corpus_files st)"
proof -
  obtain idx fs seed1 input' where
    g: "get_random_free_file fuel (corpus_files st) (seed st) = Some (Inr (idx, fs, seed1))"
    and c: "corpus_files st' = fs[idx := (input', snd (fs ! idx))]"
    using assms by (rule fuzz_once_effect)
  from get_random_free_file_result [OF g assms(2)]
  have i: "idx < length (corpus_files st)" "\<not> snd (corpus_files st ! idx)"
    "fs = (corpus_files st)[idx := (fst (corpus_files st ! idx), True)]" by auto
  then show "free_count (corpus_files st) = Suc (free_count (corpus_files st'))"
    "length (corpus_files st') = length (corpus_files st)"
    using free_count_lock [OF i(1,2), of input'] c by simp_all
qed

text \<open>(C37) The fuzzing thread gets stuck: locks of the corpus are never released, so a dispatch of more
  runs than the corpus has free files never completes, whatever the bounds; in particular the 100 runs of
  the main program with a corpus of fewer than 100 files.\<close>

theorem fuzz_dispatch_stuck:
  assumes "length (corpus_files st) < 2 ^ 64" and "free_count (corpus_files st) < runs"
  shows "fuzz_dispatch fuel cfg init opts runs st \<noteq> Some (Inr st')"
  using assms
proof (induction runs arbitrary: st)
  case 0
  then show ?case by simp
next
  case (Suc runs)
  show ?case
  proof (cases "\<exists>st1. fuzz_once fuel cfg (init runs) opts st = Some (Inr st1)")
    case True
    then obtain st1 where st1: "fuzz_once fuel cfg (init runs) opts st = Some (Inr st1)" by blast
    then show ?thesis
      using Suc.IH [of st1] Suc.prems fuzz_once_free [OF st1 Suc.prems(1)] by simp
  next
    case False
    then show ?thesis by (auto split: option.splits sum.splits)
  qed
qed

text \<open>Mutations are undone in the wrong place: after a run the fuzzed target keeps all its mutated
  bytes, and the old bytes of the target are written into the input file instead.\<close>

theorem fuzz_mutations_stay:
  assumes "fuzz_once fuel cfg init opts st = Some (Inr st')" and "length (corpus_files st) < 2 ^ 64"
  shows "\<exists>n seed0 hist seed' idx input. push_mutate n (target st) [] seed0 = Inr (target st', hist, seed') \<and>
    idx < length (corpus_files st) \<and> pop_mutate (fst (corpus_files st ! idx)) hist = Inr input \<and>
    corpus_files st' = (corpus_files st)[idx := (input, True)]"
proof -
  obtain idx fs seed1 hist seed3 input' where
    g: "get_random_free_file fuel (corpus_files st) (seed st) = Some (Inr (idx, fs, seed1))"
    and p: "push_mutate (unat (fst (gen_rand seed1) mod 8)) (target st) [] (snd (gen_rand seed1)) = Inr (target st', hist, seed3)"
    and q: "pop_mutate (fst (fs ! idx)) hist = Inr input'" "corpus_files st' = fs[idx := (input', snd (fs ! idx))]"
    using assms by (rule fuzz_once_effect)
  from get_random_free_file_result [OF g assms(2)]
  have i: "idx < length (corpus_files st)" "fs = (corpus_files st)[idx := (fst (corpus_files st ! idx), True)]"
    by auto
  have "pop_mutate (fst (corpus_files st ! idx)) hist = Inr input'"
    "corpus_files st' = (corpus_files st)[idx := (input', True)]"
    using q i by simp_all
  then show ?thesis using p i(1) by blast
qed

end
