(* ===== verification/Tester_Laws.thy ===== *)
theory Tester_Laws
  imports Vemu_Fuzz Shared_Decoder
begin

text \<open>
  The test driver of \<^verbatim>\<open>src/Tester.cpp\<close>: what it reports, and that the tests do not influence each other
  although their emulators share the decoder.
\<close>

subsection \<open>Reports and isolated tests\<close>










subsection \<open>Properties\<close>


end
