(* ===== verification/UART_Reader.thy ===== *)
theory UART_Reader
  imports Vemu_Devices "HOL-Library.Sublist"
begin

text \<open>
  The thread that the constructor of \<open>UART\<close> starts (\<^verbatim>\<open>src/UART.cpp\<close>), interleaved with the guest's
  accesses. The thread reads a character from standard input, spins until the receive flag is clear,
  writes the character and sets the flag; it does not take the mutex that the guest's accesses hold. At
  the end of the input the character keeps its value and is delivered again.
\<close>

unbundle bit_operations_syntax

subsection \<open>The reader thread\<close>

datatype reader_phase = Reading | Waiting | Flagging

text \<open>
  \<open>stdin\<close> is what has not been read yet, \<open>held\<close> the variable \<open>c\<close> of the thread; \<open>received\<close>
  collects what the guest's loads of the receive register return while the flag is set.
\<close>

record serial =
  dev :: UART
  stdin :: "u8 list"
  held :: u8
  reader :: reader_phase
  received :: "u8 list"

definition rx :: "UART \<Rightarrow> bool" where
  "rx d \<longleftrightarrow> uart_mem d (uart_reg UART_LSR) AND UART_LSR_RX = 1"

definition read_char :: "serial \<Rightarrow> serial" where
  "read_char s = (case stdin s of
       [] \<Rightarrow> s\<lparr>reader := Waiting\<rparr>
     | c # cs \<Rightarrow> s\<lparr>stdin := cs, held := c, reader := Waiting\<rparr>)"

definition deliver :: "serial \<Rightarrow> serial" where
  "deliver s = s\<lparr>dev := (dev s)\<lparr>uart_mem := (uart_mem (dev s))(uart_reg UART_RHR := held s)\<rparr>, reader := Flagging\<rparr>"

definition raise_flag :: "serial \<Rightarrow> serial" where
  "raise_flag s = s\<lparr>dev := (dev s)\<lparr>uart_mem := (uart_mem (dev s))(uart_reg UART_LSR :=
      uart_mem (dev s) (uart_reg UART_LSR) OR UART_LSR_RX)\<rparr>, reader := Reading\<rparr>"

subsection \<open>Interleaving with atomic accesses\<close>

text \<open>
  The guest loads any register, counting what it receives, and stores to any register but the status
  register.
\<close>

definition guest_load :: "u64 \<Rightarrow> serial \<Rightarrow> serial" where
  "guest_load addr s = (let (v, d) = UART_load8 (dev s) addr in
     s\<lparr>dev := d, received := (if addr = UART_RHR \<and> rx (dev s) then received s @ [ucast v] else received s)\<rparr>)"

inductive serial_step :: "serial \<Rightarrow> serial \<Rightarrow> bool" where
  reads: "reader s = Reading \<Longrightarrow> serial_step s (read_char s)"
| delivers: "reader s = Waiting \<Longrightarrow> \<not> rx (dev s) \<Longrightarrow> serial_step s (deliver s)"
| flags: "reader s = Flagging \<Longrightarrow> serial_step s (raise_flag s)"
| loads: "UART_BASE \<le> addr \<Longrightarrow> addr < UART_BASE + UART_SIZE \<Longrightarrow> serial_step s (guest_load addr s)"
| stores: "UART_BASE \<le> addr \<Longrightarrow> addr < UART_BASE + UART_SIZE \<Longrightarrow> addr \<noteq> UART_LSR \<Longrightarrow>
     serial_step s (s\<lparr>dev := UART_store8 (dev s) addr v\<rparr>)"

definition serial_start :: "UART \<Rightarrow> u8 \<Rightarrow> u8 list \<Rightarrow> serial" where
  "serial_start d c input = \<lparr>dev = d, stdin = input, held = c, reader = Reading, received = []\<rparr>"

text \<open>The characters on their way: in the receive register, or held by the thread.\<close>

definition in_flight :: "serial \<Rightarrow> u8 list" where
  "in_flight s = (if rx (dev s) then [uart_mem (dev s) (uart_reg UART_RHR)] else []) @
     (if reader s = Reading then [] else [held s])"

definition serial_inv :: "u8 list \<Rightarrow> serial \<Rightarrow> bool" where
  "serial_inv input s \<longleftrightarrow>
     (\<exists>n. received s @ in_flight s @ stdin s = input @ replicate n (last input) \<and> (stdin s \<noteq> [] \<longrightarrow> n = 0)) \<and>
     (reader s = Flagging \<longrightarrow> \<not> rx (dev s) \<and> uart_mem (dev s) (uart_reg UART_RHR) = held s) \<and>
     (stdin s = [] \<longrightarrow> held s = last input)"

subsection \<open>Delivery in order\<close>

lemma rx_bit: "rx d \<longleftrightarrow> bit (uart_mem d 5) 0"
  by (simp add: rx_def and_one_eq odd_iff_mod_2_eq_one bit_0)

lemma rx_updates:
  "rx (d\<lparr>uart_mem := (uart_mem d)(5 := uart_mem d 5 OR 1)\<rparr>)"
  "\<not> rx (d\<lparr>uart_mem := (uart_mem d)(5 := uart_mem d 5 AND NOT 1)\<rparr>)"
  "i \<noteq> 5 \<Longrightarrow> rx (d\<lparr>uart_mem := (uart_mem d)(i := v)\<rparr>) = rx d"
  "rx (d\<lparr>tx := ys\<rparr>) = rx d"
proof -
  have "bit (w OR 1 :: u8) 0" "\<not> bit (w AND NOT 1 :: u8) 0" for w :: u8
    by (simp_all only: bit_or_iff bit_and_iff bit_not_iff bit_1_iff) simp_all
  then show "rx (d\<lparr>uart_mem := (uart_mem d)(5 := uart_mem d 5 OR 1)\<rparr>)"
    "\<not> rx (d\<lparr>uart_mem := (uart_mem d)(5 := uart_mem d 5 AND NOT 1)\<rparr>)"
    by (simp_all add: rx_bit)
qed (simp_all add: rx_bit)

lemma uart_reg_eq:
  assumes "UART_BASE \<le> addr" "addr < UART_BASE + UART_SIZE"
  shows "uart_reg addr = 0 \<longleftrightarrow> addr = UART_RHR" "uart_reg addr = 5 \<longleftrightarrow> addr = UART_LSR"
proof -
  have "uart_reg addr = unat addr - unat UART_BASE" using assms(1) by (simp add: unat_sub)
  then show "uart_reg addr = 0 \<longleftrightarrow> addr = UART_RHR" "uart_reg addr = 5 \<longleftrightarrow> addr = UART_LSR"
    using assms(1) by (auto simp: word_unat_eq_iff word_le_nat_alt)
qed

lemma load_effect:
  "rx (snd (UART_load8 d addr)) = (rx d \<and> addr \<noteq> UART_RHR)"
  "uart_mem (snd (UART_load8 d addr)) 0 = uart_mem d 0"
  "fst (UART_load8 d UART_RHR) = ucast (uart_mem d 0)"
  using rx_updates(2) [of d] by (simp_all add: UART_load8_def Let_def)

lemma store_effect:
  assumes "UART_BASE \<le> addr" "addr < UART_BASE + UART_SIZE" "addr \<noteq> UART_LSR"
  shows "rx (UART_store8 d addr v) = rx d" "uart_mem (UART_store8 d addr v) 0 = uart_mem d 0"
  using uart_reg_eq [OF assms(1,2)] assms(3) rx_updates(3) [of "uart_reg addr" d]
  by (auto simp: UART_store8_def rx_updates)

lemma byte_of_word: "ucast (ucast w :: u64) = (w :: u8)"
  by (rule bit_word_eqI) (simp add: bit_unsigned_iff)

lemma guest_load_proj:
  "stdin (guest_load addr s) = stdin s" "held (guest_load addr s) = held s" "reader (guest_load addr s) = reader s"
  "dev (guest_load addr s) = snd (UART_load8 (dev s) addr)"
  "received (guest_load addr s) =
     (if addr = UART_RHR \<and> rx (dev s) then received s @ [uart_mem (dev s) 0] else received s)"
  using load_effect(3) [of "dev s"] by (simp_all add: guest_load_def case_prod_beta byte_of_word)

lemma guest_load_frame:
  "received (guest_load addr s) @ in_flight (guest_load addr s) = received s @ in_flight s"
proof -
  have "uart_reg UART_RHR = 0" by simp
  then show ?thesis unfolding in_flight_def guest_load_proj load_effect(1) by (simp add: load_effect(2))
qed

lemma serial_inv_cong:
  assumes "serial_inv input s" "received s' @ in_flight s' = received s @ in_flight s"
    "stdin s' = stdin s" "held s' = held s" "reader s' = reader s"
    "uart_mem (dev s') 0 = uart_mem (dev s) 0" "rx (dev s') \<Longrightarrow> rx (dev s)"
  shows "serial_inv input s'"
proof -
  obtain n where n: "received s @ in_flight s @ stdin s = input @ replicate n (last input)"
    "stdin s \<noteq> [] \<longrightarrow> n = 0"
    using assms(1) unfolding serial_inv_def by blast
  have "received s' @ in_flight s' @ stdin s' = received s @ in_flight s @ stdin s"
    using assms(2,3) by (metis append_assoc)
  then have m: "received s' @ in_flight s' @ stdin s' = input @ replicate n (last input)" using n by metis
  have "uart_mem (dev s') (uart_reg UART_RHR) = uart_mem (dev s) (uart_reg UART_RHR)" using assms(6) by simp
  then show ?thesis using assms(1,3-5,7) n(2) m unfolding serial_inv_def by metis
qed

lemma serial_inv_step:
  assumes "serial_step s s'" "serial_inv input s" "input \<noteq> []"
  shows "serial_inv input s'"
  using assms(1)
proof cases
  case reads
  then show ?thesis
  proof (cases "stdin s")
    case Nil
    then obtain n where n: "received s @ in_flight s = input @ replicate n (last input)" "held s = last input"
      using assms(2) by (auto simp: serial_inv_def)
    have "received s @ in_flight s @ [held s] = (received s @ in_flight s) @ [held s]" by simp
    also have "\<dots> = input @ replicate (Suc n) (last input)"
      unfolding n by (simp add: replicate_append_same)
    finally have "received s @ in_flight s @ [held s] = input @ replicate (Suc n) (last input)" .
    then show ?thesis using reads Nil assms(2)
      by (auto simp: read_char_def serial_inv_def in_flight_def intro!: exI [of _ "Suc n"])
  next
    case (Cons c cs)
    then have "received s @ in_flight s @ c # cs = input" using assms(2) by (auto simp: serial_inv_def)
    moreover from this have "cs = [] \<Longrightarrow> c = last input" by auto
    ultimately show ?thesis using reads Cons
      by (auto simp: read_char_def serial_inv_def in_flight_def intro!: exI [of _ 0])
  qed
next
  case delivers
  then show ?thesis using assms(2)
    by (auto simp: deliver_def serial_inv_def in_flight_def rx_updates)
next
  case flags
  then show ?thesis using assms(2) rx_updates(1) [of "dev s"]
    by (auto simp: raise_flag_def serial_inv_def in_flight_def)
next
  case (loads addr)
  have "uart_mem (dev (guest_load addr s)) 0 = uart_mem (dev s) 0"
    "rx (dev (guest_load addr s)) \<Longrightarrow> rx (dev s)"
    unfolding guest_load_proj load_effect by simp_all
  then show ?thesis
    using loads(1) serial_inv_cong [OF assms(2) guest_load_frame guest_load_proj(1-3)] by blast
next
  case (stores addr v)
  then show ?thesis using assms(2) store_effect [OF stores(2-4)]
    by (auto simp: serial_inv_def in_flight_def)
qed


text \<open>(C39) With accesses that are not interrupted, the serial port delivers its input in order: whatever the
  interleaving of the reader thread with the guest's loads and its stores to other registers, what the
  guest has received from a nonempty input is a prefix of that input, followed, after its end, by
  repetitions of the last character.\<close>

theorem serial_delivers_in_order:
  assumes "serial_step\<^sup>*\<^sup>* (serial_start d c input) s" and "input \<noteq> []" and "\<not> rx d"
  shows "\<exists>n. prefix (received s) (input @ replicate n (last input))"
proof -
  have "serial_inv input (serial_start d c input)"
    using assms(2,3) by (auto simp: serial_inv_def serial_start_def in_flight_def intro!: exI [of _ 0])
  with assms(1) have "serial_inv input s"
    by (induction rule: rtranclp_induct) (auto intro: serial_inv_step [OF _ _ assms(2)])
  then obtain n where "received s @ in_flight s @ stdin s = input @ replicate n (last input)"
    by (auto simp: serial_inv_def)
  then show ?thesis by (metis prefixI)
qed

subsection \<open>The race\<close>

text \<open>
  A load of the receive register clears the flag and then reads the register. The thread, which does not
  take the mutex, can write the next character in between.
\<close>

definition clear_flag :: "serial \<Rightarrow> serial" where
  "clear_flag s = s\<lparr>dev := snd (UART_load8 (dev s) UART_RHR)\<rparr>"

definition take_register :: "serial \<Rightarrow> serial" where
  "take_register s = s\<lparr>received := received s @ [uart_mem (dev s) (uart_reg UART_RHR)]\<rparr>"

lemma load_in_two_steps:
  "rx (dev s) \<Longrightarrow> take_register (clear_flag s) = guest_load UART_RHR s"
  using load_effect(2,3) [of "dev s"]
  by (simp add: take_register_def clear_flag_def guest_load_def case_prod_beta byte_of_word)

text \<open>(C40) The reader thread and a load of the receive register race: when a character waits in the
  register and the thread holds the next one, a load that the thread interrupts between clearing the
  flag and reading the register returns the next character and leaves it in the register with the flag
  set, so that the first character is lost and the next one is received twice.\<close>

theorem serial_race_loses_character:
  assumes "rx (dev s)" and "reader s = Waiting"
  defines "t \<equiv> clear_flag s"
  defines "u \<equiv> take_register (raise_flag (deliver t))"
  shows "serial_step t (deliver t) \<and> serial_step (deliver t) (raise_flag (deliver t)) \<and>
    received u = received s @ [held s] \<and> rx (dev u) \<and>
    received (guest_load UART_RHR u) = received s @ [held s, held s] \<and>
    received (guest_load UART_RHR s) = received s @ [uart_mem (dev s) (uart_reg UART_RHR)]"
proof -
  have "\<not> rx (dev t)" "reader t = Waiting"
    using assms(2) load_effect(1) [of "dev s" UART_RHR] by (simp_all add: t_def clear_flag_def)
  then have "serial_step t (deliver t)" "serial_step (deliver t) (raise_flag (deliver t))"
    using serial_step.delivers [of t] serial_step.flags [of "deliver t"] by (simp_all add: deliver_def)
  moreover have u: "received u = received s @ [held s]" "rx (dev u)" "uart_mem (dev u) 0 = held s"
    using rx_updates(1) [of "dev (deliver t)"]
    by (simp_all add: u_def take_register_def raise_flag_def deliver_def t_def clear_flag_def)
  ultimately show ?thesis using assms(1) unfolding guest_load_proj by simp
qed

end
