(* ===== verification/Float_Laws.thy ===== *)
theory Float_Laws
  imports IEEE_Float
begin

text \<open>
  Rounding is the identity on the numbers of a format, whatever their representation, and a single is a
  double: converting to \<open>double\<close> and back changes nothing but the quiet bit of a NaN. The locale
  \<open>binary_format\<close> has what the two formats share.
\<close>

unbundle bit_operations_syntax

subsection \<open>Length of a number\<close>

lemma bit_length_0 [simp]: "bit_length 0 = 0"
  by (subst bit_length.simps) simp

lemma bit_length_pos: "0 < n \<Longrightarrow> bit_length n = Suc (bit_length (n div 2))"
  by (subst bit_length.simps) simp

lemma bit_length_bounds: "n < 2 ^ bit_length n" "0 < n \<Longrightarrow> 2 ^ bit_length n \<le> 2 * n"
proof -
  have "n < 2 ^ bit_length n \<and> (0 < n \<longrightarrow> 2 ^ bit_length n \<le> 2 * n)"
  proof (induction n rule: less_induct)
    case (less n)
    show ?case
    proof (cases "n \<le> 1")
      case True
      then have "n = 0 \<or> n = 1" by auto
      then show ?thesis using bit_length_pos [of 1] by auto
    next
      case False
      then show ?thesis using less.IH [of "n div 2"] bit_length_pos [of n] by auto
    qed
  qed
  then show "n < 2 ^ bit_length n" "0 < n \<Longrightarrow> 2 ^ bit_length n \<le> 2 * n" by blast+
qed

lemma power_2_less: "(2 :: nat) ^ a < 2 ^ b \<longleftrightarrow> a < b"
  by simp

lemma bit_length_eq:
  assumes "2 ^ k \<le> n" "n < 2 ^ Suc k"
  shows "bit_length n = Suc k"
proof -
  have "0 < n" using assms(1) by (metis less_le_trans zero_less_numeral zero_less_power)
  have "(2 :: nat) ^ k < 2 ^ bit_length n" using assms(1) bit_length_bounds(1) [of n] by linarith
  moreover have "(2 :: nat) ^ bit_length n < 2 ^ Suc (Suc k)"
    using assms(2) bit_length_bounds(2) [OF \<open>0 < n\<close>] by simp
  ultimately show ?thesis unfolding power_2_less by simp
qed

lemma bit_length_shift:
  assumes "0 < n"
  shows "bit_length (n * 2 ^ k) = bit_length n + k"
proof -
  obtain j where j: "bit_length n = Suc j" using bit_length_pos [OF assms] by blast
  have "2 ^ j \<le> n" "n < 2 ^ Suc j" using bit_length_bounds [of n] assms j by simp_all
  then have "2 ^ (j + k) \<le> n * 2 ^ k" "n * 2 ^ k < 2 ^ Suc (j + k)" by (simp_all add: power_add)
  then show ?thesis using bit_length_eq [of "j + k" "n * 2 ^ k"] j by simp
qed

lemma shift_rne_exact: "shift_rne (n * 2 ^ k) k = n"
  by (simp add: shift_rne_def)

text \<open>Rounding errs by at most half a unit of the last place.\<close>

lemma shift_rne_error: "2 * \<bar>int n - int (shift_rne n k) * 2 ^ k\<bar> \<le> 2 ^ k"
proof -
  define d r P where "d = n div 2 ^ k" and "r = n mod 2 ^ k" and "P = (2 :: nat) ^ k"
  have n: "n = d * P + r" and r: "r < P"
    unfolding d_def r_def P_def by (rule div_mult_mod_eq [symmetric], simp)
  have m: "shift_rne n k = (if 2 * r < P \<or> (2 * r = P \<and> even d) then d else d + 1)"
    by (simp add: shift_rne_def d_def r_def P_def Let_def)
  have "int n = int d * int P + int r" using n by (metis of_nat_add of_nat_mult)
  then have "2 * \<bar>int n - int (shift_rne n k) * int P\<bar> \<le> int P"
    unfolding m using r by (auto simp: algebra_simps)
  then show ?thesis by (simp add: P_def)
qed

subsection \<open>Binary formats\<close>

text \<open>The significand and exponent of the number that a finite code stands for\<close>

definition code_sig :: "nat \<Rightarrow> nat \<Rightarrow> nat" where
  "code_sig p c = (if c div 2 ^ (p - 1) = 0 then c mod 2 ^ (p - 1) else 2 ^ (p - 1) + c mod 2 ^ (p - 1))"

definition code_q :: "nat \<Rightarrow> int \<Rightarrow> nat \<Rightarrow> int" where
  "code_q p emin c = int (max 1 (c div 2 ^ (p - 1))) - 1 + emin"

locale binary_format =
  fixes p :: nat and emin :: int and infty :: nat
  assumes precision: "1 < p"
begin

lemma hidden: "(2 :: nat) ^ p = 2 * 2 ^ (p - 1)"
  using precision by (cases p) auto

text \<open>Rounding gives back the code of its number, also from a significand with more digits.\<close>

lemma round_code:
  assumes "c \<le> infty"
  shows "fp_round p emin infty (code_sig p c * 2 ^ k) (code_q p emin c - int k) = c"
proof (cases "code_sig p c = 0")
  case True
  then have "c div 2 ^ (p - 1) = 0" "c mod 2 ^ (p - 1) = 0" by (simp_all add: code_sig_def split: if_splits)
  then have "c = 0" by (metis div_mult_mod_eq add_0 mult_0)
  then show ?thesis using True by (simp add: fp_round_def)
next
  case False
  let ?E = "c div 2 ^ (p - 1)" and ?F = "c mod 2 ^ (p - 1)" and ?s = "code_sig p c"
  have c: "?E * 2 ^ (p - 1) + ?F = c" by (rule div_mult_mod_eq)
  have F: "?F < 2 ^ (p - 1)" by simp
  have bl: "bit_length (?s * 2 ^ k) = bit_length ?s + k" using False by (simp add: bit_length_shift)
  have l: "max (int (bit_length ?s + k) + (code_q p emin c - int k) - int p) emin = code_q p emin c"
  proof (cases "?E = 0")
    case True
    then have "?s < 2 ^ (p - 1)" using F by (simp add: code_sig_def)
    then have "(2 :: nat) ^ bit_length ?s < 2 ^ p" using bit_length_bounds(2) [of ?s] False hidden by simp
    then have "bit_length ?s < p" by simp
    then show ?thesis using True by (simp add: code_q_def)
  next
    case nz: False
    then have "2 ^ (p - 1) \<le> ?s" "?s < 2 ^ Suc (p - 1)" using F by (simp_all add: code_sig_def)
    then have "bit_length ?s = p" using bit_length_eq [of "p - 1" ?s] precision by simp
    then show ?thesis using nz by (simp add: code_q_def)
  qed
  have m: "(if code_q p emin c \<le> code_q p emin c - int k then ?s * 2 ^ k * 2 ^ nat (code_q p emin c - int k - code_q p emin c)
      else shift_rne (?s * 2 ^ k) (nat (code_q p emin c - (code_q p emin c - int k)))) = ?s"
    using shift_rne_exact [of ?s k] by (cases "k = 0") simp_all
  have "nat (code_q p emin c - emin) * 2 ^ (p - 1) + ?s = c"
  proof (cases "?E = 0")
    case True
    then show ?thesis using c by (simp add: code_q_def code_sig_def)
  next
    case nz: False
    then have "nat (code_q p emin c - emin) = ?E - 1" by (simp add: code_q_def)
    then show ?thesis using nz c by (cases ?E) (simp_all add: code_sig_def)
  qed
  then show ?thesis using False assms unfolding fp_round_def bl Let_def l m by simp
qed

text \<open>A number with few digits and a large exponent is a normal number of the format.\<close>

lemma round_normal:
  assumes "0 < sig" "bit_length sig \<le> p" "emin \<le> int (bit_length sig) + q - int p"
    and "nat (int (bit_length sig) + q - int p - emin) * 2 ^ (p - 1) + 2 ^ p \<le> infty"
  defines "c \<equiv> fp_round p emin infty sig q" and "k \<equiv> p - bit_length sig"
  shows "c < infty" "code_sig p c = sig * 2 ^ k" "code_q p emin c = q - int k"
proof -
  let ?l = "int (bit_length sig) + q - int p" and ?h = "2 ^ (p - 1) :: nat"
  have k: "int (bit_length sig) = int p - int k" "bit_length sig + k = p" using assms(2) by (simp_all add: k_def)
  obtain j where j: "bit_length sig = Suc j" using bit_length_pos [OF assms(1)] by blast
  have "2 ^ j \<le> sig" "sig < 2 ^ Suc j" using bit_length_bounds [of sig] assms(1) j by simp_all
  then have "2 ^ j * 2 ^ k \<le> sig * 2 ^ k" "sig * 2 ^ k < 2 * (2 ^ j * 2 ^ k)" by simp_all
  moreover have "2 ^ j * 2 ^ k = ?h" using k(2) j by (metis add_Suc diff_Suc_1 power_add)
  ultimately have m: "?h \<le> sig * 2 ^ k" "sig * 2 ^ k < 2 * ?h" by simp_all
  have l: "max ?l emin = ?l" "?l \<le> q" "q - ?l = int k" using assms(3) k by simp_all
  have "c = min infty (nat (?l - emin) * ?h + sig * 2 ^ k)"
    using assms(1) l by (simp add: c_def fp_round_def Let_def)
  then have c: "c = nat (?l - emin) * ?h + sig * 2 ^ k" and lt: "c < infty"
    using assms(4) m(2) hidden by (simp_all add: min_def)
  obtain f where f: "sig * 2 ^ k = ?h + f" "f < ?h" using m by (metis le_Suc_ex less_add_eq_less mult_2 nat_add_left_cancel_less)
  have "c = Suc (nat (?l - emin)) * ?h + f" using c f by simp
  moreover have "(a * h + f) div h = a" "(a * h + f) mod h = f" if "f < h" for a h :: nat using that by simp_all
  ultimately have E: "c div ?h = Suc (nat (?l - emin))" and F: "c mod ?h = f" using f(2) by metis+
  show "c < infty" by (rule lt)
  show "code_sig p c = sig * 2 ^ k" using E F f by (simp add: code_sig_def)
  show "code_q p emin c = q - int k" using E assms(3) k by (simp add: code_q_def)
qed

end

interpretation single: binary_format 24 "- 149" "0x7F800000"
  by unfold_locales simp

interpretation double: binary_format 53 "- 1074" "0x7FF0000000000000"
  by unfold_locales simp

subsection \<open>A single is a double\<close>

lemma f32_mag_lt: "f32_mag x < 2 ^ 31"
  using take_bit_nat_less_exp [of 31 "unat x"] by (simp add: f32_mag_def unsigned_take_bit_eq)

lemma f32_parts:
  "f32_sig x = code_sig 24 (f32_mag x)" "f32_q x = code_q 24 (- 149) (f32_mag x)"
  by (simp_all add: f32_sig_def f32_q_def f32_exp_def f32_frac_def code_sig_def code_q_def)

lemma f64_parts:
  "f64_sig x = code_sig 53 (f64_mag x)" "f64_q x = code_q 53 (- 1074) (f64_mag x)"
  by (simp_all add: f64_sig_def f64_q_def f64_exp_def f64_frac_def code_sig_def code_q_def)

lemma f32_make_parts: "f32_make (f32_sign x) (f32_mag x) = x"
proof (rule bit_word_eqI)
  fix n assume "n < LENGTH(32)"
  moreover have "bit (0x80000000 :: u32) n \<longleftrightarrow> n = 31" if "n < 32"
    using that bit_exp_iff [of 31 n, where 'a = u32] by simp
  ultimately show "bit (f32_make (f32_sign x) (f32_mag x)) n = bit x n"
    by (cases "n = 31") (auto simp: f32_make_def f32_sign_def f32_mag_def bit_or_iff bit_take_bit_iff)
qed

lemma f64_make_parts:
  assumes "m < 2 ^ 63"
  shows "f64_sign (f64_make b m) = b" "f64_mag (f64_make b m) = m"
proof -
  have h: "bit (0x8000000000000000 :: u64) n \<longleftrightarrow> n = 63" if "n < 64" for n
    using that bit_exp_iff [of 63 n, where 'a = u64] by simp
  have m: "bit (of_nat m :: u64) n \<longleftrightarrow> bit m n" "bit m n \<Longrightarrow> n < 63" if "n < 64" for n
  proof -
    show "bit (of_nat m :: u64) n \<longleftrightarrow> bit m n" using that by (simp add: bit_of_nat_iff)
    have "m = take_bit 63 m" using assms by (simp add: take_bit_nat_eq_self)
    then show "bit m n \<Longrightarrow> n < 63" by (metis bit_take_bit_iff)
  qed
  show "f64_sign (f64_make b m) = b"
    using h [of 63] m [of 63] by (auto simp: f64_sign_def f64_make_def bit_or_iff)
  have "take_bit 63 (f64_make b m) = of_nat m"
    by (rule bit_word_eqI) (use h m in \<open>auto simp: f64_make_def bit_take_bit_iff bit_or_iff\<close>)
  then show "f64_mag (f64_make b m) = m" using assms by (simp add: f64_mag_def unat_of_nat_u64)
qed

lemma widen_finite:
  assumes "f32_finite x"
  shows "f64_sign (widen x) = f32_sign x" "f64_exp (widen x) < 2047"
    "\<exists>k. f64_sig (widen x) = f32_sig x * 2 ^ k \<and> f64_q (widen x) = f32_q x - int k \<or> f32_sig x = 0 \<and> f64_sig (widen x) = 0"
proof -
  let ?s = "f32_sig x" and ?q = "f32_q x"
  define c where "c = fp_round 53 (- 1074) 0x7FF0000000000000 ?s ?q"
  have w: "widen x = f64_make (f32_sign x) c" using assms by (simp add: widen_def c_def f32_nan_def f32_inf_def f32_finite_def)
  have "f32_frac x < 2 ^ 23" by (simp add: f32_frac_def)
  then have s: "?s < 2 ^ 24" and q: "- 149 \<le> ?q" "?q \<le> 104"
    using assms by (simp_all add: f32_sig_def f32_q_def f32_finite_def)
  have c: "c < 0x7FF0000000000000 \<and> (\<exists>k. code_sig 53 c = ?s * 2 ^ k \<and> code_q 53 (- 1074) c = ?q - int k \<or> ?s = 0 \<and> c = 0)"
  proof (cases "?s = 0")
    case True
    then show ?thesis by (simp add: c_def fp_round_def)
  next
    case False
    have b: "0 < bit_length ?s" "bit_length ?s \<le> 24"
    proof -
      show "0 < bit_length ?s" using False bit_length_pos by simp
      have "(2 :: nat) ^ bit_length ?s < 2 ^ 25" using False s bit_length_bounds(2) [of ?s] by simp
      then show "bit_length ?s \<le> 24" by (simp only: power_2_less)
    qed
    have "nat (int (bit_length ?s) + ?q - 53 + 1074) \<le> 1149" using b q by simp
    then have "nat (int (bit_length ?s) + ?q - 53 + 1074) * 2 ^ 52 + 2 ^ 53 \<le> 0x7FF0000000000000"
      using mult_le_mono1 [of "nat (int (bit_length ?s) + ?q - 53 + 1074)" 1149 "2 ^ 52"] by simp
    then show ?thesis
      using double.round_normal [of ?s ?q] b q False unfolding c_def by auto
  qed
  then have lt: "c < 2 ^ 63" by simp
  note parts = f64_make_parts [OF lt, of "f32_sign x"]
  show "f64_sign (widen x) = f32_sign x" by (simp add: w parts)
  show "f64_exp (widen x) < 2047" using c by (simp add: f64_exp_def w parts div_less_iff_less_mult)
  show "\<exists>k. f64_sig (widen x) = ?s * 2 ^ k \<and> f64_q (widen x) = ?q - int k \<or> ?s = 0 \<and> f64_sig (widen x) = 0"
    using c by (auto simp: f64_parts w parts code_sig_def)
qed

lemma f32_mag_parts: "f32_mag x = f32_exp x * 2 ^ 23 + f32_frac x"
  unfolding f32_exp_def f32_frac_def by (rule div_mult_mod_eq [symmetric])

lemma f32_exp_le: "f32_exp x \<le> 255"
proof -
  have "f32_mag x div 2 ^ 23 < 256" using f32_mag_lt [of x] by (simp add: div_less_iff_less_mult)
  then show ?thesis by (simp add: f32_exp_def)
qed

lemma narrow_widen_finite:
  assumes "f32_finite x"
  shows "narrow (widen x) = x"
proof -
  note w = widen_finite [OF assms]
  have "f32_mag x < 255 * 2 ^ 23" using assms by (simp add: f32_finite_def f32_exp_def div_less_iff_less_mult)
  then have le: "f32_mag x \<le> 0x7F800000" by simp
  have "fp_round 24 (- 149) 0x7F800000 (f64_sig (widen x)) (f64_q (widen x)) = f32_mag x"
  proof (cases "f32_sig x = 0")
    case True
    then have "f64_sig (widen x) = 0" "f32_mag x = 0" using w(3) by (auto simp: f32_sig_def f32_mag_parts split: if_splits)
    then show ?thesis by (simp add: fp_round_def)
  next
    case False
    then show ?thesis using w(3) single.round_code [OF le] by (auto simp: f32_parts)
  qed
  then show ?thesis using w(1,2) by (simp add: narrow_def f32_make_parts)
qed

lemma set_bit_22: "(n :: nat) OR 2 ^ 22 = n + of_bool (even (n div 2 ^ 22)) * 2 ^ 22"
  using set_bit_eq [of 22 n] by (simp add: set_bit_eq_or bit_iff_odd)

lemma f32_quiet:
  assumes "f32_nan x"
  shows "f32_make (f32_sign x) (0x7FC00000 + f32_frac x mod 2 ^ 22) = x OR 0x00400000"
proof -
  let ?y = "x OR 0x00400000" and ?F = "f32_frac x"
  have b: "bit (0x00400000 :: u32) n \<longleftrightarrow> n = 22" if "n < 32" for n
    using that bit_exp_iff [of 22 n, where 'a = u32] by simp
  have sg: "f32_sign ?y = f32_sign x" using b [of 31] by (simp add: f32_sign_def bit_or_iff)
  have "take_bit 31 ?y = take_bit 31 x OR 0x00400000"
    by (rule bit_word_eqI) (use b in \<open>auto simp: bit_take_bit_iff bit_or_iff\<close>)
  then have "f32_mag ?y = f32_mag x OR 2 ^ 22" by (simp add: f32_mag_def unsigned_or_eq)
  also have "\<dots> = 0x7FC00000 + ?F mod 2 ^ 22"
  proof -
    have F: "?F < 2 ^ 23" by (simp add: f32_frac_def)
    have n: "f32_mag x = 510 * 2 ^ 22 + ?F" using assms f32_mag_parts [of x] by (simp add: f32_nan_def)
    have "f32_mag x div 2 ^ 22 = 510 + ?F div 2 ^ 22" unfolding n by simp
    moreover have d: "?F div 2 ^ 22 = 0 \<or> ?F div 2 ^ 22 = 1" using F by (simp add: div_eq_0_iff) linarith
    ultimately have "even (f32_mag x div 2 ^ 22) \<longleftrightarrow> ?F div 2 ^ 22 = 0" by auto
    moreover have "F + of_bool (a = 0) * P = P + g" if "a * P + g = F" "a = 0 \<or> a = 1" for a P g F :: nat
      using that by auto
    then have "?F + of_bool (?F div 2 ^ 22 = 0) * 2 ^ 22 = 2 ^ 22 + ?F mod 2 ^ 22"
      using d div_mult_mod_eq by blast
    ultimately show ?thesis unfolding set_bit_22 n by simp
  qed
  finally show ?thesis using f32_make_parts [of ?y] sg by simp
qed

text \<open>The \<open>double\<close> of a register keeps a single exactly, except that a NaN becomes quiet.\<close>

lemma narrow_widen: "narrow (widen x) = (if f32_nan x then x OR 0x00400000 else x)"
proof -
  have cover: "f32_finite x \<or> f32_nan x \<or> f32_inf x" "f32_finite x \<Longrightarrow> \<not> f32_nan x"
    using f32_exp_le [of x] by (auto simp: f32_finite_def f32_nan_def f32_inf_def)
  consider (finite) "f32_finite x" | (inf) "f32_inf x" "\<not> f32_nan x" | (nan) "f32_nan x"
    using cover by (auto simp: f32_inf_def f32_nan_def)
  then show ?thesis
  proof cases
    case finite
    then show ?thesis using narrow_widen_finite cover(2) by simp
  next
    case inf
    then have "f32_mag x = 0x7F800000" by (simp add: f32_mag_parts f32_inf_def)
    then show ?thesis using inf f32_make_parts [of x] f64_make_parts [of "0x7FF0000000000000"]
      by (simp add: widen_def narrow_def f64_exp_def f64_frac_def)
  next
    case nan
    let ?g = "f32_frac x mod 2 ^ 22"
    have g: "?g < 2 ^ 22" by simp
    then have "0x7FF8000000000000 + ?g * 2 ^ 29 < (2 :: nat) ^ 63" by simp
    note parts = f64_make_parts [OF this, of "f32_sign x"]
    have "(0x7FF8000000000000 + ?g * 2 ^ 29) div 2 ^ 52 = (2047 :: nat)"
      "(0x7FF8000000000000 + ?g * 2 ^ 29) mod 2 ^ 52 = (2 ^ 51 + ?g * 2 ^ 29 :: nat)"
      using g by (simp_all add: div_nat_eqI mod_nat_eqI)
    moreover have "(2 ^ 51 + ?g * 2 ^ 29) mod 2 ^ 51 div 2 ^ 29 = ?g"
      using g by simp
    ultimately have "narrow (widen x) = f32_make (f32_sign x) (0x7FC00000 + ?g)"
      using nan parts by (simp add: widen_def narrow_def f64_exp_def f64_frac_def)
    then show ?thesis using f32_quiet [OF nan] nan by simp
  qed
qed

subsection \<open>Codes are ordered like their numbers\<close>

text \<open>The number of a code in units of the least positive number of its format\<close>

definition code_units :: "nat \<Rightarrow> nat \<Rightarrow> nat" where
  "code_units p c = code_sig p c * 2 ^ (c div 2 ^ (p - 1) - 1)"

lemma code_units_mono: "c < d \<Longrightarrow> code_units p c < code_units p d"
proof (rule lift_Suc_mono_less [where f = "code_units p"])
  fix n
  define h E F where "h = (2 :: nat) ^ (p - 1)" and "E = n div h" and "F = n mod h"
  have h: "0 < h" "F < h" by (simp_all add: h_def F_def)
  have u: "code_units p m = (if m div h = 0 then m mod h else h + m mod h) * 2 ^ (m div h - 1)" for m
    by (simp add: code_units_def code_sig_def h_def)
  have "code_units p n = (if E = 0 then F else h + F) * 2 ^ (E - 1)" by (simp add: u E_def F_def)
  moreover have "code_units p (Suc n) = (if Suc F = h then h * 2 ^ E else (if E = 0 then Suc F else h + Suc F) * 2 ^ (E - 1))"
    unfolding u by (simp add: div_Suc mod_Suc E_def F_def)
  moreover have "(h + F) * 2 ^ (E - 1) < h * 2 ^ E" if "0 < E"
  proof -
    have "(2 :: nat) ^ E = 2 * 2 ^ (E - 1)" using that by (cases E) auto
    moreover have "(h + F) * 2 ^ (E - 1) < 2 * h * 2 ^ (E - 1)" using h by simp
    ultimately show ?thesis by simp
  qed
  ultimately show "code_units p n < code_units p (Suc n)" using h by (cases "E = 0") auto
qed

definition f32_value :: "f32 \<Rightarrow> int" where
  "f32_value x = with_sign (f32_sign x) (code_units 24 (f32_mag x))"

lemma with_sign_compare:
  "with_sign a m < with_sign b n \<longleftrightarrow> (if a then (if b then n < m else m \<noteq> 0 \<or> n \<noteq> 0) else \<not> b \<and> m < n)"
  "with_sign a m = with_sign b n \<longleftrightarrow> (if a = b then m = n else m = 0 \<and> n = 0)"
  by (auto simp: with_sign_def)

lemma f32_key_value:
  "f32_key x < f32_key y \<longleftrightarrow> f32_value x < f32_value y" "f32_key x = f32_key y \<longleftrightarrow> f32_value x = f32_value y"
proof -
  have k: "f32_key z = with_sign (f32_sign z) (f32_mag z)" for z by (simp add: f32_key_def with_sign_def)
  have mono: "strict_mono (code_units 24)" by (simp add: strict_mono_def code_units_mono)
  have "code_units 24 0 = 0" by (simp add: code_units_def code_sig_def)
  then have z: "code_units 24 c = 0 \<longleftrightarrow> c = 0" for c using strict_mono_eq [OF mono, of c 0] by simp
  show "f32_key x < f32_key y \<longleftrightarrow> f32_value x < f32_value y" "f32_key x = f32_key y \<longleftrightarrow> f32_value x = f32_value y"
    unfolding k f32_value_def with_sign_compare z strict_mono_less [OF mono] strict_mono_eq [OF mono] by simp_all
qed

subsection \<open>Small integers are singles\<close>

lemma f32_make_fields:
  assumes "m < 2 ^ 31"
  shows "f32_sign (f32_make b m) = b" "f32_mag (f32_make b m) = m"
proof -
  have h: "bit (0x80000000 :: u32) n \<longleftrightarrow> n = 31" if "n < 32" for n
    using that bit_exp_iff [of 31 n, where 'a = u32] by simp
  have m: "bit (of_nat m :: u32) n \<longleftrightarrow> bit m n" "bit m n \<Longrightarrow> n < 31" if "n < 32" for n
  proof -
    show "bit (of_nat m :: u32) n \<longleftrightarrow> bit m n" using that by (simp add: bit_of_nat_iff)
    have "m = take_bit 31 m" using assms by (simp add: take_bit_nat_eq_self)
    then show "bit m n \<Longrightarrow> n < 31" by (metis bit_take_bit_iff)
  qed
  show "f32_sign (f32_make b m) = b"
    using h [of 31] m [of 31] by (auto simp: f32_sign_def f32_make_def bit_or_iff)
  have "take_bit 31 (f32_make b m) = of_nat m"
    by (rule bit_word_eqI) (use h m in \<open>auto simp: f32_make_def bit_take_bit_iff bit_or_iff\<close>)
  then show "f32_mag (f32_make b m) = m" using assms by (simp add: f32_mag_def take_bit_nat_eq_self unsigned_of_nat)
qed

lemma int_f32_parts:
  assumes "\<bar>i\<bar> < 2 ^ 24"
  defines "x \<equiv> int_to_f32 i"
  shows "f32_finite x" "f32_sign x = (i < 0)" "\<exists>k. f32_sig x = nat \<bar>i\<bar> * 2 ^ k \<and> f32_q x = - int k"
proof -
  let ?n = "nat \<bar>i\<bar>"
  define c where "c = fp_round 24 (- 149) 0x7F800000 ?n 0"
  have x: "x = f32_make (i < 0) c" by (simp add: x_def int_to_f32_def c_def)
  have c: "c < 0x7F800000 \<and> (\<exists>k. code_sig 24 c = ?n * 2 ^ k \<and> code_q 24 (- 149) c = - int k)"
  proof (cases "i = 0")
    case True
    then show ?thesis by (auto simp: c_def fp_round_def code_sig_def code_q_def intro!: exI [of _ 149])
  next
    case False
    have "(2 :: nat) ^ bit_length ?n < 2 ^ 25" using False assms(1) bit_length_bounds(2) [of ?n] by simp
    then have b: "bit_length ?n \<le> 24" by (simp only: power_2_less)
    then have "nat (int (bit_length ?n) + 0 - 24 + 149) \<le> 149" by simp
    then have "nat (int (bit_length ?n) + 0 - 24 + 149) * 2 ^ 23 + 2 ^ 24 \<le> 0x7F800000"
      using mult_le_mono1 [of "nat (int (bit_length ?n) + 0 - 24 + 149)" 149 "2 ^ 23"] by simp
    then show ?thesis
      using single.round_normal [of ?n 0] b False unfolding c_def by auto
  qed
  then have lt: "c < 2 ^ 31" by simp
  note parts = f32_make_fields [OF lt, of "i < 0"]
  have mag: "f32_mag x = c" by (simp add: x parts)
  show "f32_finite x" using c by (simp add: f32_finite_def f32_exp_def mag div_less_iff_less_mult)
  show "f32_sign x = (i < 0)" by (simp add: x parts)
  show "\<exists>k. f32_sig x = ?n * 2 ^ k \<and> f32_q x = - int k" using c unfolding f32_parts mag by blast
qed

lemma round_half_exact: "0 < k \<Longrightarrow> (n * 2 ^ k + 2 ^ (k - 1)) div 2 ^ k = (n :: nat)"
  by (cases k) (simp_all add: div_nat_eqI)

lemma int_f32_roundtrip:
  assumes "\<bar>i\<bar> < 2 ^ 24"
  shows "fround (int_to_f32 i) = int_to_f32 i" "f32_to_int (int_to_f32 i) = Some i"
proof -
  let ?x = "int_to_f32 i"
  note parts = int_f32_parts [OF assms]
  from parts(3) obtain k where s: "f32_sig ?x = nat \<bar>i\<bar> * 2 ^ k" "f32_q ?x = - int k" by blast
  have k: "nat (- f32_q ?x - 1) = k - 1" "nat (- f32_q ?x) = k" "0 \<le> f32_q ?x \<longleftrightarrow> k = 0" using s(2) by simp_all
  have "fround ?x = f32_make (f32_sign ?x) (fp_round 24 (- 149) 0x7F800000 (nat \<bar>i\<bar>) 0)"
    unfolding fround_def k s(1) using parts(1) s(2) round_half_exact [of k] by simp
  then show "fround ?x = ?x" using parts(2) by (simp add: int_to_f32_def)
  show "f32_to_int ?x = Some i"
    unfolding f32_to_int_def Let_def k s(1) using parts(1,2) s(2) by auto
qed

end
