(* ===== verification/Float_Handlers.thy ===== *)
theory Float_Handlers
  imports RV_Simulation Float_Laws
begin

text \<open>
  The floating-point handlers in a build with \<open>SUPPORT_SOFTFLOAT\<close>: words pass through the registers
  unchanged, small integers survive conversion, comparisons compare the numbers; and where the handlers
  differ from the instruction set.
\<close>

unbundle bit_operations_syntax

lemma freg_set_freg:
  "freg (set_freg i x s) j = (if j = i then (if f32_nan x then x OR 0x00400000 else x) else freg s j)"
  by (simp add: freg_def set_freg_def fload_reg_def fstore_reg_def narrow_widen)

lemma with_softfloat_Some: "softfloat cfg = Some sf \<Longrightarrow> with_softfloat cfg s body = body sf"
  by (simp add: with_softfloat_def)

lemma set_freg_arch: "arch_of (set_freg i x s) = arch_of s"
  by (simp add: set_freg_def arch_of_def)

lemma emu_ok_set_freg: "emu_ok s \<Longrightarrow> emu_ok (set_freg i x s)"
  by (simp add: emu_ok_def set_freg_def)

text \<open>What the memory holds after a write of four bytes, read back as a word\<close>

lemma mem_value_write:
  "mem_value (mem_write a 4 v \<sigma>) a 4 = take_bit 32 v"
proof -
  have "map (\<lambda>k. a_mem (mem_write a 4 v \<sigma>) (a + of_nat k)) [0..<4] = le_bytes 4 v"
    by (simp add: mem_write_def le_bytes_def upt_rec)
  then show ?thesis unfolding mem_value_def using le_value_le_bytes [of 4 v] by simp
qed

subsection \<open>Loads and stores\<close>

text \<open>(C25) A word that is loaded into a floating-point register and stored from it arrives unchanged: in the
  fuzzing build with SoftFloat, \<open>FLW\<close> from a readable address followed by \<open>FSW\<close> of the same register to a
  writable address copies the word, through the conversion to \<open>double\<close> and back; only a NaN arrives with its
  quiet bit set, where the instruction set preserves it.\<close>

theorem float_load_store_copies:
  assumes "build cfg = FUZZ_ENV" and "softfloat cfg = Some sf" and "emu_ok s"
    and "readable (arch_of s) (fp_addr s) 4"
  defines "w \<equiv> ucast (mem_value (arch_of s) (fp_addr s) 4) :: f32"
  shows "\<exists>s'. FLW cfg s = Inr (NormalExecutionReturn, s') \<and> arch_of s' = arch_of s \<and>
    (\<forall>i. let t = s'\<lparr>curr_instr := i\<rparr> in f_rs2 t = f_rd s \<and> writable (arch_of t) (fp_addr t) 4 \<longrightarrow>
      (\<exists>t'. FSW cfg t = Inr (NormalExecutionReturn, t') \<and>
        mem_value (arch_of t') (fp_addr t) 4 = ucast (if f32_nan w then w OR 0x00400000 else w)))"
proof -
  have "vload cfg s (fp_addr s) 32 = Inr (mem_value (arch_of s) (fp_addr s) 4, NormalExecutionReturn, s)"
    using sim_load [OF assms(1,3,4)] by simp
  then have "FLW cfg s = Inr (NormalExecutionReturn, set_freg (f_rd s) w s)"
    by (simp add: FLW_def with_softfloat_Some [OF assms(2)] write_frd_def w_def)
  moreover have "\<exists>t'. FSW cfg t = Inr (NormalExecutionReturn, t') \<and>
      mem_value (arch_of t') (fp_addr t) 4 = ucast (if f32_nan w then w OR 0x00400000 else w)"
    if t: "t = (set_freg (f_rd s) w s)\<lparr>curr_instr := i\<rparr>" "f_rs2 t = f_rd s" "writable (arch_of t) (fp_addr t) 4" for t i
  proof -
    have "emu_ok t" using emu_ok_set_freg [OF assms(3)] by (simp add: t(1) emu_ok_def)
    then obtain m where "vstore cfg t (fp_addr t) (ucast (freg t (f_rs2 t))) 32 = Inr (NormalExecutionReturn, set_mmu m t)"
      "arch_of (set_mmu m t) = mem_write (fp_addr t) 4 (ucast (freg t (f_rs2 t))) (arch_of t)"
      using sim_store [OF assms(1) _ t(3), of "ucast (freg t (f_rs2 t))"] by auto
    moreover have "freg t (f_rs2 t) = (if f32_nan w then w OR 0x00400000 else w)"
      using freg_set_freg [of "f_rd s" w s "f_rd s"] t(2) by (simp add: t(1) freg_def)
    moreover have "take_bit 32 (ucast (y :: f32) :: u64) = ucast y" for y
      by (rule bit_word_eqI) (auto simp: bit_simps dest: bit_imp_le_length)
    ultimately show ?thesis by (simp add: FSW_def with_softfloat_Some [OF assms(2)] mem_value_write)
  qed
  ultimately show ?thesis by (auto simp: set_freg_arch Let_def)
qed

text \<open>The offset of a floating-point load or store is not sign-extended: where the instruction set adds a
  negative offset, the address is 4 GiB too high.\<close>

theorem float_offset_unsigned:
  "fp_addr s = ireg s (f_rs1 s) + imm64 s + (if imm (get_fields (curr_instr s)) <s 0 then 0x100000000 else 0)"
proof -
  have "(ucast w :: u64) = scast w + (if w <s 0 then 0x100000000 else 0)" for w :: u32
  proof -
    have "uint w = sint w + (if sint w < 0 then 2 ^ 32 else 0)"
    proof -
      have u: "uint w = sint w mod 2 ^ 32" using uint_sint [of w] by (simp add: take_bit_eq_mod)
      have "- (2 ^ 31) \<le> sint w" "sint w < 2 ^ 31" using sint_ge [of w] sint_lt [of w] by simp_all
      then show ?thesis unfolding u
        using mod_pos_pos_trivial [of "sint w" "2 ^ 32"] mod_pos_pos_trivial [of "sint w + 2 ^ 32" "2 ^ 32"] by auto
    qed
    then have "(of_int (uint w) :: u64) = of_int (sint w) + of_int (if sint w < 0 then 2 ^ 32 else 0)" by simp
    then show ?thesis by (auto simp: word_sless_alt)
  qed
  then show ?thesis by (simp add: fp_addr_def imm64_def)
qed

subsection \<open>Sign injection, minimum, maximum\<close>

lemma copysign_simps:
  "copysign x x = x" "copysign x (fneg x) = fneg x" "copysign x 0x3F800000 = fabs x"
proof -
  have m: "bit (0x7FFFFFFF :: u32) n \<longleftrightarrow> n < 31" "bit (0x80000000 :: u32) n \<longleftrightarrow> n = 31" if "n < 32" for n
    using that bit_exp_iff [of 31 n, where 'a = u32] bit_mask_iff [of 31 n, where 'a = u32]
    by (simp_all add: mask_eq_exp_minus_1)
  show "copysign x x = x" "copysign x (fneg x) = fneg x"
    by (rule bit_word_eqI, use m in \<open>auto simp: copysign_def fneg_def bit_simps\<close>)+
  show "copysign x 0x3F800000 = fabs x" by (simp add: copysign_def fabs_def)
qed

text \<open>Sign injection, minimum and maximum ignore their second operand: both operands are read from
  \<open>rs1\<close>, so that \<open>FSGNJ.S\<close>, \<open>FMIN.S\<close> and \<open>FMAX.S\<close> copy that register, \<open>FSGNJN.S\<close> negates it and
  \<open>FSGNJX.S\<close> takes its absolute value.\<close>

theorem sign_injection_ignores_rs2:
  fixes s :: vemu
  assumes "softfloat cfg = Some sf"
  defines "x \<equiv> freg s (f_rs1 s)"
  shows "FSGNJS cfg s = write_frd x s \<and> FSGNJNS cfg s = write_frd (fneg x) s \<and> FSGNJXS cfg s = write_frd (fabs x) s \<and>
    FMINS cfg s = write_frd x s \<and> FMAXS cfg s = write_frd x s"
  by (simp add: FSGNJS_def FSGNJNS_def FSGNJXS_def FMINS_def FMAXS_def with_softfloat_Some [OF assms(1)]
      Let_def copysign_simps fminf_def fmaxf_def x_def)

subsection \<open>Conversions\<close>

text \<open>(C26) Integers of fewer than 25 bits survive the conversion to a single and back: \<open>FCVT.S.W\<close> followed by
  \<open>FCVT.W.S\<close> returns the integer, without undefined behaviour, whatever lies between in the
  register file.\<close>

theorem int_float_roundtrip:
  fixes s :: vemu
  assumes "softfloat cfg = Some sf"
  defines "v \<equiv> sint (ucast (ireg s (f_rs1 s)) :: u32)"
  assumes "\<bar>v\<bar> < 2 ^ 24"
  shows "\<exists>s'. FCVTSW cfg s = Inr (NormalExecutionReturn, s') \<and>
    (\<forall>i. let t = s'\<lparr>curr_instr := i\<rparr> in f_rs1 t = f_rd s \<longrightarrow> FCVTWS cfg t = Inr (write_rd (of_int v) t))"
proof -
  let ?s = "set_freg (f_rd s) (int_to_f32 v) s"
  have "FCVTSW cfg s = Inr (NormalExecutionReturn, ?s)"
    by (simp add: FCVTSW_def with_softfloat_Some [OF assms(1)] write_frd_def v_def)
  moreover have "\<not> f32_nan (int_to_f32 v)"
    using int_f32_parts(1) [OF assms(3)] by (simp add: f32_finite_def f32_nan_def)
  then have "freg (?s\<lparr>curr_instr := i\<rparr>) (f_rd s) = int_to_f32 v" for i
    using freg_set_freg [of "f_rd s" "int_to_f32 v" s "f_rd s"] by (simp add: freg_def)
  moreover have "- (2 ^ 31) \<le> v" "v \<le> 2 ^ 31 - 1" using assms(3) by simp_all
  ultimately show ?thesis
    using int_f32_roundtrip [OF assms(3)]
    by (auto simp: FCVTWS_def with_softfloat_Some [OF assms(1)] store_converted_def Let_def)
qed

subsection \<open>Comparisons\<close>

text \<open>(C27) The comparisons compare the numbers that the registers hold: on operands that are finite,
  \<open>FEQ.S\<close>, \<open>FLT.S\<close> and \<open>FLE.S\<close> write one exactly when the first number, in units of the least
  positive single, equals, is less than, or is at most the second.\<close>

theorem float_compare_correct:
  fixes s :: vemu
  assumes "softfloat cfg = Some sf"
  defines "x \<equiv> freg s (f_rs1 s)" and "y \<equiv> freg s (f_rs2 s)"
  assumes "f32_finite x" and "f32_finite y"
  shows "FEQS cfg s = Inr (write_rd (of_bool (f32_value x = f32_value y)) s) \<and>
    FLTS cfg s = Inr (write_rd (of_bool (f32_value x < f32_value y)) s) \<and>
    FLES cfg s = Inr (write_rd (of_bool (f32_value x \<le> f32_value y)) s)"
proof -
  have "\<not> f32_nan x" "\<not> f32_nan y" using assms(4,5) by (simp_all add: f32_finite_def f32_nan_def)
  then show ?thesis
    using f32_key_value [of x y]
    by (auto simp: FEQS_def FLTS_def FLES_def with_softfloat_Some [OF assms(1)] feq_def flt_def fle_def x_def y_def
        le_less)
qed

subsection \<open>Exception flags\<close>

lemma set_fflag_bit:
  "n < 32 \<Longrightarrow> bit (csrs (set_fflag b (2 ^ k) s) FFLAGS) n = (if n = k then b else bit (csrs s FFLAGS) n)"
  by (auto simp: set_fflag_def bit_simps not32_def)

lemma set_fflag_bits:
  assumes "n < 32"
  shows "bit (csrs (set_fflag b 0x1 s) FFLAGS) n = (if n = 0 then b else bit (csrs s FFLAGS) n)"
    "bit (csrs (set_fflag b 0x2 s) FFLAGS) n = (if n = 1 then b else bit (csrs s FFLAGS) n)"
    "bit (csrs (set_fflag b 0x4 s) FFLAGS) n = (if n = 2 then b else bit (csrs s FFLAGS) n)"
    "bit (csrs (set_fflag b 0x10 s) FFLAGS) n = (if n = 4 then b else bit (csrs s FFLAGS) n)"
  using set_fflag_bit [OF assms, of b 0 s] set_fflag_bit [OF assms, of b 1 s] set_fflag_bit [OF assms, of b 2 s]
    set_fflag_bit [OF assms, of b 4 s] by simp_all

text \<open>The exception flags of an addition replace the ones of earlier operations: after \<open>FADD.S\<close> the bits for
  inexact, underflow, overflow and invalid are those that SoftFloat raised for this operation, also when
  they were set before, where the instruction set accumulates them; the bit for division by zero stays.\<close>

theorem float_flags_replaced:
  assumes "softfloat cfg = Some sf" and "f32_add sf (freg s (f_rs1 s)) (freg s (f_rs2 s)) = (res, flags)"
  shows "\<exists>s'. FADDS cfg s = Inr (NormalExecutionReturn, s') \<and>
    (\<forall>n \<in> {0, 1, 2, 4}. bit (csrs s' FFLAGS) n = bit flags n) \<and> bit (csrs s' FFLAGS) 3 = bit (csrs s FFLAGS) 3"
proof -
  let ?s = "set_freg (f_rd s) res s"
  have f: "flags AND 1 \<noteq> 0 \<longleftrightarrow> bit flags 0" "flags AND 2 \<noteq> 0 \<longleftrightarrow> bit flags 1" "flags AND 4 \<noteq> 0 \<longleftrightarrow> bit flags 2"
    "flags AND 16 \<noteq> 0 \<longleftrightarrow> bit flags 4"
    using and_exp_eq_0_iff_not_bit [of flags 0] and_exp_eq_0_iff_not_bit [of flags 1]
      and_exp_eq_0_iff_not_bit [of flags 2] and_exp_eq_0_iff_not_bit [of flags 4] by simp_all
  have "bit (csrs (update_float_flags flags ?s) FFLAGS) n =
      (if n \<in> {0, 1, 2, 4} then bit flags n else bit (csrs s FFLAGS) n)" if "n < 32" for n
    unfolding update_float_flags_def Let_def f set_fflag_bits [OF that] by (auto simp: set_freg_def)
  then show ?thesis by (simp add: FADDS_def with_softfloat_Some [OF assms(1)] assms(2))
qed

end
