(* ===== verification/Vemu_Print.thy ===== *)
theory Vemu_Print
  imports Vemu_Trap IEEE_Float
begin

text \<open>
  What the emulator prints: \<open>dump_regs\<close> of both register files, \<open>VEmu::dump_csrs\<close>, \<open>operator<<\<close> of an
  instruction, and the messages of \<open>XXX\<close>, \<open>exit_fatally\<close> and the \<open>ECALL\<close> of the testing build.
  \<open>std::cout\<close> is a value whose formatting state outlives the statement that sets it.
\<close>

subsection \<open>Output streams\<close>

text \<open>
  The base and the alignment of numbers, the fill character, the width of the next item, and the text
  written so far.
\<close>

record ostream =
  os_hex :: bool
  os_left :: bool
  os_fill :: char
  os_width :: nat
  os_text :: string

definition set_hex :: "ostream \<Rightarrow> ostream" where "set_hex os = os\<lparr>os_hex := True\<rparr>"
definition set_dec :: "ostream \<Rightarrow> ostream" where "set_dec os = os\<lparr>os_hex := False\<rparr>"
definition set_left :: "ostream \<Rightarrow> ostream" where "set_left os = os\<lparr>os_left := True\<rparr>"
definition setfill :: "char \<Rightarrow> ostream \<Rightarrow> ostream" where "setfill c os = os\<lparr>os_fill := c\<rparr>"
definition setw :: "nat \<Rightarrow> ostream \<Rightarrow> ostream" where "setw n os = os\<lparr>os_width := n\<rparr>"

text \<open>An item is padded to the width, which then becomes 0.\<close>

definition put :: "string \<Rightarrow> ostream \<Rightarrow> ostream" where
  "put s os =
     (let k = replicate (os_width os - length s) (os_fill os)
      in os\<lparr>os_text := os_text os @ (if os_left os then s @ k else k @ s), os_width := 0\<rparr>)"

definition digit :: "nat \<Rightarrow> char" where "digit n = ''0123456789abcdef'' ! n"

function digits :: "nat \<Rightarrow> nat \<Rightarrow> string" where
  "digits b n = (if n < b \<or> b < 2 then [digit n] else digits b (n div b) @ [digit (n mod b)])"
  by auto
termination by (relation "measure snd") auto

declare digits.simps [simp del]

definition put_num :: "nat \<Rightarrow> ostream \<Rightarrow> ostream" where
  "put_num n os = put (digits (if os_hex os then 16 else 10) n) os"

text \<open>A chain of \<open><<\<close>\<close>

definition emit :: "(ostream \<Rightarrow> ostream) list \<Rightarrow> ostream \<Rightarrow> ostream" where
  "emit fs os = fold (\<lambda>f. f) fs os"

abbreviation newline :: string where "newline \<equiv> [CHR 0x0A]"

subsection \<open>Registers\<close>

definition abi_map :: "string list" where
  "abi_map =
    [''zero'', ''ra'', ''sp'', ''gp'', ''tp'', ''t0'', ''t1'', ''t2'', ''s0'', ''s1'', ''a0'',
     ''a1'', ''a2'', ''a3'', ''a4'', ''a5'', ''a6'', ''a7'', ''s2'', ''s3'', ''s4'', ''s5'',
     ''s6'', ''s7'', ''s8'', ''s9'', ''s10'', ''s11'', ''t3'', ''t4'', ''t5'', ''t6'']"

definition dump_reg :: "RegFile \<Rightarrow> nat \<Rightarrow> ostream \<Rightarrow> ostream" where
  "dump_reg r i = emit
     [put ''{'', set_left, setfill CHR '' '', setw 3, put (abi_map ! i),
      put ''} '',
      put ''regs['', set_left, setw 2, put_num i, put ''] = '', set_hex,
      put_num (unat (rf_data r i)), set_dec, put newline]"

definition dump_regs :: "RegFile \<Rightarrow> ostream \<Rightarrow> ostream" where
  "dump_regs r os = fold (dump_reg r) [0..<32] os"

subsection \<open>Floating-point registers\<close>

text \<open>
  A \<open>double\<close> in the default format: six significant digits, rounded to nearest with ties to even from the
  exact value \<open>num / den\<close>, in scientific notation when the exponent is below -4 or at least 6, without
  trailing zeros.
\<close>

function leading_zeros :: "nat \<Rightarrow> nat \<Rightarrow> nat" where
  "leading_zeros num den = (if num = 0 \<or> den \<le> num then 0 else Suc (leading_zeros (num * 10) den))"
  by auto
termination by (relation "measure (\<lambda>(num, den). den - num)") auto

declare leading_zeros.simps [simp del]

definition decimal_exponent :: "nat \<Rightarrow> nat \<Rightarrow> int" where
  "decimal_exponent num den =
     (if den \<le> num then int (length (digits 10 (num div den))) - 1 else - int (leading_zeros num den))"

definition div_rne :: "nat \<Rightarrow> nat \<Rightarrow> nat" where
  "div_rne n d = (let q = n div d; r = n mod d in if 2 * r < d \<or> (2 * r = d \<and> even q) then q else q + 1)"

definition strip_zeros :: "string \<Rightarrow> string" where
  "strip_zeros s = rev (dropWhile (\<lambda>c. c = CHR ''0'') (rev s))"

definition with_fraction :: "string \<Rightarrow> string \<Rightarrow> string" where
  "with_fraction int_part frac = (if strip_zeros frac = [] then int_part else int_part @ ''.'' @ strip_zeros frac)"

text \<open>The significand of six digits and the exponent, after rounding\<close>

definition significant :: "nat \<Rightarrow> nat \<Rightarrow> nat \<times> int" where
  "significant num den =
     (let x = decimal_exponent num den;
          m = (if x \<le> 5 then div_rne (num * 10 ^ nat (5 - x)) den else div_rne num (den * 10 ^ nat (x - 5)))
      in if m = 10 ^ 6 then (10 ^ 5, x + 1) else (m, x))"

definition decimal :: "nat \<Rightarrow> nat \<Rightarrow> string" where
  "decimal num den =
     (if num = 0 then ''0''
      else let (m, x) = significant num den; ds = digits 10 m in
        if 0 \<le> x \<and> x < 6 then with_fraction (take (nat x + 1) ds) (drop (nat x + 1) ds)
        else if - 4 \<le> x \<and> x < 0 then with_fraction ''0'' (replicate (nat (- x - 1)) CHR ''0'' @ ds)
        else with_fraction (take 1 ds) (drop 1 ds) @ ''e'' @ (if x < 0 then ''-'' else ''+'') @
          (if \<bar>x\<bar> < 10 then ''0'' else []) @ digits 10 (nat \<bar>x\<bar>))"

definition double_text :: "f64 \<Rightarrow> string" where
  "double_text d = (if f64_sign d then ''-'' else []) @
     (if f64_exp d = 2047 then (if f64_frac d = 0 then ''inf'' else ''nan'')
      else if 0 \<le> f64_q d then decimal (f64_sig d * 2 ^ nat (f64_q d)) 1
      else decimal (f64_sig d) (2 ^ nat (- f64_q d)))"

definition f_abi_map :: "string list" where
  "f_abi_map =
    [''ft0'', ''ft1'', ''ft2'', ''ft3'', ''ft4'', ''ft5'', ''ft6'', ''ft7'',
     ''fs0'', ''fs1'', ''fa0'', ''fa1'', ''fa2'', ''fa3'', ''fa4'', ''fa5'',
     ''fa6'', ''fa7'', ''fs2'', ''fs3'', ''fs4'', ''fs5'', ''fs6'', ''fs7'',
     ''fs8'', ''fs9'', ''fs10'', ''fs11'', ''ft8'', ''ft9'', ''ft10'', ''ft11'']"

definition fdump_reg :: "FRegFile \<Rightarrow> nat \<Rightarrow> ostream \<Rightarrow> ostream" where
  "fdump_reg r i = emit
     [put ''{'', set_left, setfill CHR '' '', setw 3, put (f_abi_map ! i),
      put ''} '',
      put ''regs['', set_left, setw 2, put_num i, put ''] = '', set_hex,
      put (double_text (frf_data r i)), set_dec, put newline]"

definition fdump_regs :: "FRegFile \<Rightarrow> ostream \<Rightarrow> ostream" where
  "fdump_regs r os = fold (fdump_reg r) [0..<32] os"

subsection \<open>Control registers\<close>

definition dump_csrs :: "vemu \<Rightarrow> ostream \<Rightarrow> ostream" where
  "dump_csrs s = emit
     [set_hex,
      put ''mstatus: '', put_num (unat (load_csr s MSTATUS)), put newline,
      put ''mtvec: '', put_num (unat (load_csr s MTVEC)), put newline,
      put ''mepc: '', put_num (unat (load_csr s MEPC)), put newline,
      put ''mcause: '', put_num (unat (load_csr s MCAUSE)), put newline,
      put ''sstatus: '', put_num (unat (load_csr s SSTATUS)), put newline,
      put ''stvec: '', put_num (unat (load_csr s STVEC)), put newline,
      put ''sepc: '', put_num (unat (load_csr s SEPC)), put newline,
      put ''scause: '', put_num (unat (load_csr s SCAUSE)), put newline]"

subsection \<open>Instructions\<close>

definition print_Instruction :: "Instruction \<Rightarrow> ostream \<Rightarrow> ostream" where
  "print_Instruction ins os =
     (let f = get_fields ins;
          reg = (\<lambda>label v. [put (label @ '': 0x''), put_num (unat (v :: u8))]);
          immediate = [put '' imm: 0x'', put_num (unat (imm f))];
          os1 = emit [set_hex, setfill CHR ''0'', setw 8] os in
      if get_type ins = Type_WRONG then put (''Faulty Instruction.'' @ newline) os1
      else emit
        ([put ''Instruction: '', put (str_name ins), put '' '', put ''OPCode: '', put_num (unat (OPCode f))]
         @ (case get_type ins of
              Type_R \<Rightarrow> reg '' rd'' (rd f) @ reg '' rs1'' (rs1 f) @ reg '' rs2'' (rs2 f)
            | Type_I \<Rightarrow> reg '' rd'' (rd f) @ reg '' rs1'' (rs1 f) @ immediate
            | Type_S \<Rightarrow> reg '' rs1'' (rs1 f) @ reg '' rs2'' (rs2 f) @ immediate
            | Type_B \<Rightarrow> reg '' rs1'' (rs1 f) @ reg '' rs2'' (rs2 f) @ immediate
            | Type_U \<Rightarrow> reg '' rd'' (rd f) @ immediate
            | Type_J \<Rightarrow> reg '' rd'' (rd f) @ immediate
            | _ \<Rightarrow> [])
         @ [put newline]) os1)"

subsection \<open>Messages\<close>

text \<open>\<open>XXX\<close> restores the flags, but not the fill character.\<close>

definition print_XXX :: "vemu \<Rightarrow> ostream \<Rightarrow> ostream" where
  "print_XXX s os =
     (emit [put ''Faulty instruction: 0x'', setw 8, setfill CHR ''0'', set_hex, put_num (unat (hex_instr s)),
            put '' PC: '', put_num (unat (pc s)), put newline] os)\<lparr>os_hex := os_hex os, os_left := os_left os\<rparr>"

text \<open>\<open>std::to_string\<close> of a signed number\<close>

definition to_string :: "u64 \<Rightarrow> string" where
  "to_string w = (if w <s 0 then ''-'' else '''') @ digits 10 (nat \<bar>sint w\<bar>)"

definition print_ECALL_test :: "vemu \<Rightarrow> ostream \<Rightarrow> ostream" where
  "print_ECALL_test s =
     (if ireg s REG_A0 = 0 then put (''Passed'' @ newline)
      else emit
        [put ''Failed test: '', put (map (\<lambda>b. char_of (unat b)) (bin_file_name s)), put newline,
         put (''Failed on testcase #'' @ to_string (signed_drop_bit 1 (ireg s REG_GP)) @ newline),
         dump_regs (iregs s)])"

definition print_exit_fatally :: "ReturnException \<Rightarrow> vemu \<Rightarrow> ostream \<Rightarrow> ostream" where
  "print_exit_fatally e s = emit
     [put ''Exit on exception: '', put (stringify_exception e), put newline, set_hex, put_num (unat (pc s)), put newline,
      dump_regs (iregs s)]"

subsection \<open>Reading a dump\<close>

text \<open>What a reader makes of the text: the number after \<open>= \<close> in every line.\<close>

definition digit_value :: "char \<Rightarrow> nat" where
  "digit_value c = length (takeWhile (\<lambda>d. d \<noteq> c) ''0123456789abcdef'')"

definition hex_value :: "string \<Rightarrow> nat" where
  "hex_value s = foldl (\<lambda>n c. 16 * n + digit_value c) 0 s"

fun lines_of :: "string \<Rightarrow> string \<Rightarrow> string list" where
  "lines_of acc [] = []"
| "lines_of acc (c # cs) = (if c = CHR 0x0A then rev acc # lines_of [] cs else lines_of (c # acc) cs)"

definition read_line :: "string \<Rightarrow> u64" where
  "read_line l = of_nat (hex_value (drop 2 (dropWhile (\<lambda>c. c \<noteq> CHR ''='') l)))"

definition read_dump :: "string \<Rightarrow> u64 list" where
  "read_dump txt = map read_line (lines_of [] txt)"

text \<open>The line of a register, whatever the state of the stream\<close>

definition reg_line :: "RegFile \<Rightarrow> nat \<Rightarrow> string" where
  "reg_line r i = ''{'' @ (abi_map ! i @ replicate (3 - length (abi_map ! i)) CHR '' '') @ ''} regs['' @
     (digits 10 i @ replicate (2 - length (digits 10 i)) CHR '' '') @ ''] = '' @ digits 16 (unat (rf_data r i))"

lemma all_digits:
  "list_all (\<lambda>k. digit_value (digit k) = k \<and> digit k \<noteq> CHR 0x0A \<and> digit k \<noteq> CHR ''='') [0..<16]"
  by code_simp

lemma digit_value_digit: "n < 16 \<Longrightarrow> digit_value (digit n) = n"
  and digit_safe: "n < 16 \<Longrightarrow> digit n \<noteq> CHR 0x0A \<and> digit n \<noteq> CHR ''=''"
  using all_digits by (simp_all add: list_all_iff)

lemma digits_hex: "hex_value (digits 16 n) = n"
proof (induction n rule: less_induct)
  case (less n)
  show ?case
  proof (cases "n < 16")
    case False
    then have "hex_value (digits 16 (n div 16)) = n div 16" by (intro less) simp
    then show ?thesis using False by (simp add: digits.simps [of 16 n] hex_value_def digit_value_digit)
  qed (simp add: digits.simps hex_value_def digit_value_digit)
qed

lemma digits_safe: "2 \<le> b \<Longrightarrow> b \<le> 16 \<Longrightarrow> c \<in> set (digits b n) \<Longrightarrow> c \<noteq> CHR 0x0A \<and> c \<noteq> CHR ''=''"
proof (induction n rule: less_induct)
  case (less n)
  show ?case
  proof (cases "n < b")
    case True
    then show ?thesis using less.prems digit_safe [of n] by (simp add: digits.simps)
  next
    case False
    have "n mod b < 16" using mod_less_divisor [of b n] less.prems by linarith
    then show ?thesis using False less.prems less.IH [of "n div b"] digit_safe [of "n mod b"] by (auto simp: digits.simps [of b n])
  qed
qed

lemma lines_of_line: "CHR 0x0A \<notin> set l \<Longrightarrow> lines_of acc (l @ newline @ rest) = (rev acc @ l) # lines_of [] rest"
  by (induction l arbitrary: acc) auto

lemmas stream_defs = emit_def put_def put_num_def set_hex_def set_dec_def set_left_def setfill_def setw_def Let_def

lemma dump_reg_text:
  assumes "os_width os = 0" "os_hex os \<longrightarrow> i = 0"
  shows "os_text (dump_reg r i os) = os_text os @ reg_line r i @ newline"
    "os_width (dump_reg r i os) = 0" "os_left (dump_reg r i os)" "\<not> os_hex (dump_reg r i os)"
  using assms by (auto simp: dump_reg_def reg_line_def stream_defs digits.simps [of _ 0])

lemma dump_regs_text:
  assumes "os_width os = 0"
  shows "os_text (dump_regs r os) = os_text os @ concat (map (\<lambda>i. reg_line r i @ newline) [0..<32]) \<and>
    os_width (dump_regs r os) = 0 \<and> os_left (dump_regs r os) \<and> \<not> os_hex (dump_regs r os)"
proof -
  have "os_text (fold (dump_reg r) [0..<Suc n] os) = os_text os @ concat (map (\<lambda>i. reg_line r i @ newline) [0..<Suc n]) \<and>
      os_width (fold (dump_reg r) [0..<Suc n] os) = 0 \<and> os_left (fold (dump_reg r) [0..<Suc n] os) \<and>
      \<not> os_hex (fold (dump_reg r) [0..<Suc n] os)" for n
  proof (induction n)
    case 0
    show ?case using dump_reg_text [of os 0 r] assms by simp
  next
    case (Suc n)
    then show ?case using dump_reg_text [of "fold (dump_reg r) [0..<Suc n] os" "Suc n" r] by simp
  qed
  from this [of 31] show ?thesis by (simp add: dump_regs_def)
qed

lemma abi_map_safe: "i < 32 \<Longrightarrow> c \<in> set (abi_map ! i) \<Longrightarrow> c \<noteq> CHR 0x0A \<and> c \<noteq> CHR ''=''"
proof -
  assume i: "i < 32" and c: "c \<in> set (abi_map ! i)"
  have "\<forall>a \<in> set abi_map. CHR 0x0A \<notin> set a \<and> CHR ''='' \<notin> set a" by (simp add: abi_map_def)
  moreover have "abi_map ! i \<in> set abi_map" using i by (intro nth_mem) (simp add: abi_map_def)
  ultimately show ?thesis using c by blast
qed

lemma reg_line_parts:
  assumes "i < 32"
  shows "CHR 0x0A \<notin> set (reg_line r i)" "read_line (reg_line r i) = rf_data r i"
proof -
  let ?pre = "''{'' @ (abi_map ! i @ replicate (3 - length (abi_map ! i)) CHR '' '') @ ''} regs['' @
     (digits 10 i @ replicate (2 - length (digits 10 i)) CHR '' '') @ ''] ''"
  have line: "reg_line r i = ?pre @ ''= '' @ digits 16 (unat (rf_data r i))" by (simp add: reg_line_def)
  have s: "c \<noteq> CHR 0x0A \<and> c \<noteq> CHR ''=''" if "c \<in> set ?pre" for c
    using that abi_map_safe [OF assms, of c] digits_safe [of 10 c i] by auto
  have h: "CHR 0x0A \<notin> set (digits 16 n)" for n using digits_safe [of 16 "CHR 0x0A" n] by auto
  show "CHR 0x0A \<notin> set (reg_line r i)"
    unfolding line set_append using s [of "CHR 0x0A"] h by auto
  have "dropWhile (\<lambda>c. c \<noteq> CHR ''='') (?pre @ ''= '' @ y) = ''= '' @ y" for y
    using s by (subst dropWhile_append2) auto
  then show "read_line (reg_line r i) = rf_data r i"
    unfolding read_line_def line by (simp add: digits_hex)
qed

text \<open>(C36) A register dump can be read back: from whatever base, alignment and fill character the stream has,
  \<open>dump_regs\<close> writes one line per register, and the hexadecimal numbers of the lines are the contents of
  the registers in order; so the dump of a failed test shows the registers as they are.\<close>

theorem dump_regs_readable:
  assumes "os_width os = 0"
  shows "\<exists>txt. os_text (dump_regs r os) = os_text os @ txt \<and> read_dump txt = get_regs r"
proof -
  have "lines_of [] (concat (map (\<lambda>i. reg_line r i @ newline) is)) = map (reg_line r) is" if "set is \<subseteq> {..<32}" for "is"
    using that by (induction "is") (auto simp: lines_of_line [where acc = "[]", simplified] reg_line_parts(1))
  from this [of "[0..<32]"] have "read_dump (concat (map (\<lambda>i. reg_line r i @ newline) [0..<32])) = map (\<lambda>i. read_line (reg_line r i)) [0..<32]"
    by (simp add: read_dump_def subset_iff)
  also have "\<dots> = get_regs r" unfolding get_regs_def by (rule map_cong) (auto simp: reg_line_parts(2))
  finally show ?thesis using dump_regs_text [OF assms, of r] by blast
qed

subsection \<open>The alignment outlives the dump\<close>

lemma digits_shift: "0 < n \<Longrightarrow> digits 16 (16 * n) = digits 16 n @ ''0''"
  using digits.simps [of 16 "16 * n"] by (simp add: digit_def)

lemma digits_length: "n < 16 ^ k \<Longrightarrow> 0 < k \<Longrightarrow> length (digits 16 n) \<le> k"
proof (induction k arbitrary: n)
  case (Suc k)
  show ?case
  proof (cases "n < 16")
    case False
    then have "length (digits 16 (n div 16)) \<le> k" using Suc.prems by (intro Suc.IH) (auto simp: less_mult_imp_div_less mult.commute intro: gr0I)
    then show ?thesis using False by (simp add: digits.simps [of 16 n])
  qed (simp add: digits.simps)
qed simp

text \<open>The text of \<open>XXX\<close>\<close>

lemma print_XXX_text:
  "os_width os = 0 \<Longrightarrow> os_text (print_XXX s os) = os_text os @ ''Faulty instruction: 0x'' @
     (let d = digits 16 (unat (hex_instr s)); k = replicate (8 - length d) CHR ''0'' in if os_left os then d @ k else k @ d) @
     '' PC: '' @ digits 16 (unat (pc s)) @ newline"
  by (simp add: print_XXX_def stream_defs)

text \<open>The word that \<open>XXX\<close> reports is ambiguous after a register dump: the dump leaves the stream
  left-aligned, \<open>XXX\<close> does not reset the alignment, and its zeros then follow the digits; a word of
  fewer than eight digits and its sixteenfold are printed alike.\<close>

theorem faulty_word_ambiguous:
  assumes "os_width os = 0" and "hex_instr s \<noteq> 0" and "hex_instr s < 0x10000000"
  shows "os_text (print_XXX (s\<lparr>hex_instr := 16 * hex_instr s\<rparr>) (dump_regs r os)) = os_text (print_XXX s (dump_regs r os))"
proof -
  have n: "0 < unat (hex_instr s)" "unat (hex_instr s) < 16 ^ 7" using assms(2,3) by (simp_all add: word_less_nat_alt unat_gt_0)
  then have "unat (16 * hex_instr s) = 16 * unat (hex_instr s)" by (simp add: unat_word_ariths)
  moreover have "length (digits 16 (unat (hex_instr s))) \<le> 7" using n by (intro digits_length) simp_all
  then have "8 - length (digits 16 (unat (hex_instr s))) = Suc (7 - length (digits 16 (unat (hex_instr s))))" by simp
  ultimately show ?thesis
    using dump_regs_text [OF assms(1), of r] digits_shift [OF n(1)]
    by (simp add: print_XXX_text Let_def)
qed

subsection \<open>Integers in floating-point registers\<close>

lemma digits_times_ten: "0 < k \<Longrightarrow> digits 10 (k * 10 ^ j) = digits 10 k @ replicate j CHR ''0''"
proof (induction j)
  case (Suc j)
  have "digits 10 (k * 10 ^ Suc j) = digits 10 (k * 10 ^ j) @ ''0''"
    using Suc.prems digits.simps [of 10 "k * 10 ^ Suc j"] by (simp add: digit_def)
  then show ?case using Suc by (simp add: replicate_append_same)
qed simp

lemma digits_length_ten: "n < 10 ^ length (digits 10 n)" "0 < length (digits 10 n)"
proof (induction n rule: less_induct)
  case (less n)
  case 1
  show ?case
  proof (cases "n < 10")
    case False
    then have "n div 10 < 10 ^ length (digits 10 (n div 10))" by (intro less(1)) simp
    then show ?thesis using False by (simp add: digits.simps [of 10 n] div_less_iff_less_mult mult.commute)
  qed (simp add: digits.simps)
  case 2
  show ?case by (simp add: digits.simps [of 10 n])
qed

lemma digits_short: "n < 10 ^ k \<Longrightarrow> 0 < k \<Longrightarrow> length (digits 10 n) \<le> k"
proof (induction k arbitrary: n)
  case (Suc k)
  show ?case
  proof (cases "n < 10")
    case False
    then have "0 < k" using Suc.prems by (cases k) simp_all
    then show ?thesis using Suc.IH [of "n div 10"] Suc.prems False by (simp add: digits.simps [of 10 n] less_mult_imp_div_less mult.commute)
  qed (simp add: digits.simps)
qed simp

lemma decimal_integer:
  assumes "k < 10 ^ 6" "0 < den"
  shows "decimal (k * den) den = digits 10 k"
proof (cases "k = 0")
  case False
  let ?l = "length (digits 10 k)"
  have l: "0 < ?l" "?l \<le> 6" "k < 10 ^ ?l" using digits_length_ten [of k] digits_short [OF assms(1)] by simp_all
  have x: "decimal_exponent (k * den) den = int ?l - 1"
    using False assms(2) by (simp add: decimal_exponent_def)
  have "k * 10 ^ (6 - ?l) < 10 ^ ?l * 10 ^ (6 - ?l)" using l(3) by simp
  also have "\<dots> = (10 :: nat) ^ 6" using l(2) by (simp flip: power_add)
  finally have "k * 10 ^ (6 - ?l) \<noteq> 10 ^ 6" by simp
  moreover have "div_rne (k * den * 10 ^ (6 - ?l)) den = k * 10 ^ (6 - ?l)"
    using assms(2) by (simp add: div_rne_def Let_def mult.commute mult.left_commute)
  moreover have "nat (5 - (int ?l - 1)) = 6 - ?l" using l(2) by simp
  ultimately have s: "significant (k * den) den = (k * 10 ^ (6 - ?l), int ?l - 1)"
    using l by (simp add: significant_def x Let_def)
  have e: "nat (int ?l - 1) + 1 = ?l" "0 \<le> int ?l - 1" "int ?l - 1 < 6" using l(1,2) by linarith+
  show ?thesis
    using False assms(2) by (simp only: decimal_def s Let_def prod.case e digits_times_ten)
      (simp add: e with_fraction_def strip_zeros_def digits_times_ten dropWhile_replicate)
qed (simp add: decimal_def digits.simps digit_def)

text \<open>A register that holds an integer of at most six digits is printed as that integer.\<close>

theorem double_text_integer:
  assumes "f64_exp d < 2047" and "k < 10 ^ 6"
    and "(if 0 \<le> f64_q d then f64_sig d * 2 ^ nat (f64_q d) = k else f64_sig d = k * 2 ^ nat (- f64_q d))"
  shows "double_text d = (if f64_sign d then ''-'' else []) @ digits 10 k"
  using assms decimal_integer [OF assms(2), of 1] decimal_integer [OF assms(2), of "2 ^ nat (- f64_q d)"]
  by (auto simp: double_text_def split: if_splits)

end
