(* ===== verification/Process_Image.thy ===== *)
theory Process_Image
  imports Vemu_Process Memory_Reset
begin

text \<open>
  The image of a process: what the constructor for executables leaves in guest memory (the segments, the
  argument strings, the initial stack with \<open>argc\<close>, \<open>argv\<close> and their terminators), and that the
  run loop executes it.
\<close>

unbundle bit_operations_syntax

subsection \<open>Chunks of memory\<close>

definition stored :: "MMU \<Rightarrow> u64 \<Rightarrow> u8 list \<Rightarrow> bool" where
  "stored m a bs \<longleftrightarrow> (\<forall>k < length bs. ram m (a + of_nat k) = bs ! k)"

text \<open>Nothing changes outside the \<open>n\<close> bytes at \<open>a\<close>.\<close>

definition changes_only :: "u64 \<Rightarrow> nat \<Rightarrow> MMU \<Rightarrow> MMU \<Rightarrow> bool" where
  "changes_only a n m m' \<longleftrightarrow> (\<forall>i. unat i < unat a \<or> unat a + n \<le> unat i \<longrightarrow> ram m' i = ram m i)"

abbreviation (input) STACK_BYTES :: nat where "STACK_BYTES \<equiv> 0x100000"

definition words_of :: "u64 list \<Rightarrow> u8 list" where
  "words_of ws = concat (map (le_bytes 8) ws)"

text \<open>Segments that do not overlap, by their ranges in memory.\<close>

definition seg_end :: "MemorySegment \<Rightarrow> nat" where
  "seg_end seg = unat (seg_start_addr seg) + unat (seg_mem_size seg)"

fun apart :: "MemorySegment list \<Rightarrow> bool" where
  "apart [] \<longleftrightarrow> True"
| "apart (seg # segs) \<longleftrightarrow>
     list_all (\<lambda>t. seg_end seg \<le> unat (seg_start_addr t) \<or> seg_end t \<le> unat (seg_start_addr seg)) segs \<and> apart segs"

text \<open>
  The state while the constructor fills the stack, whose lowest address is \<open>B\<close>: the words pushed so far, and
  the chunks below the stack or above it.
\<close>

definition layout :: "u64 \<Rightarrow> (u64 \<times> u8 list) list \<Rightarrow> u64 list \<Rightarrow> vemu \<Rightarrow> bool" where
  "layout B chunks ws s \<longleftrightarrow>
     unat (ireg s REG_SP) + 8 * length ws = unat B + STACK_BYTES \<and>
     unat B + STACK_BYTES \<le> unat (alloc_ptr (get_mmu s)) \<and> alloc_ptr (get_mmu s) \<le> mmu_ram_size (get_mmu s) \<and>
     stored (get_mmu s) (ireg s REG_SP) (words_of ws) \<and>
     (\<forall>(a, bs) \<in> set chunks. stored (get_mmu s) a bs \<and>
        (unat a + length bs \<le> unat B \<or>
         unat B + STACK_BYTES \<le> unat a \<and> unat a + length bs \<le> unat (alloc_ptr (get_mmu s))))"

text \<open>
  What no step of the constructor changes after the segments have been loaded: everything but the stack pointer
  and the memory, the size of the memory, and the permissions below the stack
\<close>

definition same_process :: "u64 \<Rightarrow> vemu \<Rightarrow> vemu \<Rightarrow> bool" where
  "same_process B s s' \<longleftrightarrow> (\<exists>m r. s' = s\<lparr>bus := (bus s)\<lparr>mmu := m\<rparr>, iregs := r\<rparr> \<and> mmu_ram_size m = mmu_ram_size (get_mmu s) \<and>
     (\<forall>j. j \<noteq> REG_SP \<longrightarrow> load_reg r j = ireg s j) \<and>
     (\<forall>i. unat i < unat B \<longrightarrow> byte_permission m i = byte_permission (get_mmu s) i))"

text \<open>
  A memory of \<open>n\<close> bytes that no window of a device hides: in the fuzzing build there are no devices, in the
  other builds the first window is that of the CLINT.
\<close>

definition ram_only :: "config \<Rightarrow> u64 \<Rightarrow> bool" where
  "ram_only cfg n \<longleftrightarrow> build cfg = FUZZ_ENV \<or> n \<le> CLINT_BASE"

text \<open>
  Room for \<open>k\<close> more bytes of blocks, and a stack that can be written; an executable that fits, with its
  segments, the stack and a block of 256 bytes for its name and each argument.
\<close>

definition room :: "u64 \<Rightarrow> nat \<Rightarrow> MMU \<Rightarrow> bool" where
  "room B k m \<longleftrightarrow> mmu_wf m \<and> unat (alloc_ptr m) + k < unat (mmu_ram_size m) \<and>
     (\<forall>i. unat B \<le> unat i \<and> unat i < unat B + STACK_BYTES \<longrightarrow> byte_permission m i AND PERM_WRITE \<noteq> 0)"

definition fits :: "u64 \<Rightarrow> FileInfo \<Rightarrow> u8 list list \<Rightarrow> bool" where
  "fits n info args \<longleftrightarrow> n \<le> 0x8000000000000000 \<and> length args + 5 \<le> 0x20000 \<and>
     list_all (\<lambda>arg. length arg < 256) (fi_file_name info # args) \<and>
     list_all (\<lambda>top. top + STACK_BYTES + 256 * Suc (length args) < unat n)
       (0x10000 # map (\<lambda>seg. seg_end seg + 0xFFFF) (segments info)) \<and>
     apart (segments info) \<and> list_all (\<lambda>seg. unat (seg_file_size seg) \<le> length (seg_data seg)) (segments info)"

lemma length_words_of [simp]: "length (words_of ws) = 8 * length ws"
  by (induction ws) (simp_all add: words_of_def)

lemma zip_map_in: "(p, a) \<in> set (zip ps as) \<Longrightarrow> (p, f a) \<in> set (zip ps (map f as))"
  by (force simp: zip_map2)

lemma unat_offset: "unat a + k < 2 ^ 64 \<Longrightarrow> unat (a + of_nat k :: u64) = unat a + k"
  by (simp add: unat_word_ariths unat_of_nat_u64)

lemma stored_frame:
  assumes "stored m a bs" "changes_only c n m m'" "unat a + length bs \<le> unat c \<or> unat c + n \<le> unat a"
    "unat a + length bs \<le> 2 ^ 64"
  shows "stored m' a bs"
  unfolding stored_def
proof (intro allI impI)
  fix k assume k: "k < length bs"
  then have "unat (a + of_nat k) = unat a + k" using assms(4) by (intro unat_offset) simp
  then have "ram m' (a + of_nat k) = ram m (a + of_nat k)"
    using assms(2,3) k unfolding changes_only_def by auto
  then show "ram m' (a + of_nat k) = bs ! k" using assms(1) k by (simp add: stored_def)
qed

lemma stored_append:
  "stored m a (bs @ cs) \<longleftrightarrow> stored m a bs \<and> stored m (a + of_nat (length bs)) cs"
proof -
  have "(\<forall>k < length bs + length cs. ram m (a + of_nat k) = (bs @ cs) ! k) \<longleftrightarrow>
      (\<forall>k < length bs. ram m (a + of_nat k) = bs ! k) \<and> (\<forall>k < length cs. ram m (a + of_nat (length bs + k)) = cs ! k)"
  proof (safe, goal_cases)
    case (1 k) from 1(1)[rule_format, of k] 1(2) show ?case by (simp add: nth_append)
  next
    case (2 k) from 2(1)[rule_format, of "length bs + k"] 2(2) show ?case by simp
  next
    case (3 k)
    then show ?case using 3(2)[rule_format, of "k - length bs"] by (cases "k < length bs") (auto simp: nth_append)
  qed
  then show ?thesis by (simp add: stored_def add.assoc)
qed

lemma stored_written:
  assumes "length bs < 2 ^ 64" "a \<le> a + of_nat (length bs)"
  shows "stored (written m bs a) a bs" "changes_only a (length bs) m (written m bs a)"
proof -
  show "stored (written m bs a) a bs"
    using region_nth [OF assms] by (simp add: stored_def written_def)
  have "unat (a + of_nat (length bs)) = unat a + length bs"
    using unat_add_no_wrap [OF assms(2)] assms(1) by (simp add: unat_of_nat_u64)
  then show "changes_only a (length bs) m (written m bs a)"
    by (auto simp: changes_only_def written_def region_def word_le_nat_alt word_less_nat_alt)
qed

lemma unat_end: "a \<le> a + n \<Longrightarrow> unat a + unat n = unat (a + n)" for a n :: u64
  using unat_add_no_wrap by simp

lemma ram_only_target: "ram_only cfg n \<Longrightarrow> a < n \<Longrightarrow> target_of cfg a = To_RAM"
  by (auto simp: ram_only_def target_of_def claims_def in_window_def word_less_nat_alt word_le_nat_alt)

lemma same_process_state:
  assumes "same_process B s s'"
  shows "pc s' = pc s" "bin_file_name s' = bin_file_name s" "has_exited s' = has_exited s" "decoder s' = decoder s"
    "mmu_ram_size (get_mmu s') = mmu_ram_size (get_mmu s)"
    "unat i < unat B \<Longrightarrow> byte_permission (get_mmu s') i = byte_permission (get_mmu s) i"
    "j \<noteq> REG_SP \<Longrightarrow> ireg s' j = ireg s j"
    "s' = s\<lparr>bus := (bus s)\<lparr>mmu := get_mmu s'\<rparr>, iregs := iregs s'\<rparr>"
    "mode s' = mode s" "csrs s' = csrs s" "test_flag_done s' = test_flag_done s" "console s' = console s"
    "uart (bus s') = uart (bus s)"
  using assms by (auto simp: same_process_def)

lemma same_process_refl: "same_process B s s"
  unfolding same_process_def by (intro exI [where x = "get_mmu s"] exI [where x = "iregs s"]) simp

lemma same_process_trans:
  assumes "same_process B s t" "same_process B t u"
  shows "same_process B s u"
proof -
  from assms obtain m r m' r' where "t = s\<lparr>bus := (bus s)\<lparr>mmu := m\<rparr>, iregs := r\<rparr>" "u = t\<lparr>bus := (bus t)\<lparr>mmu := m'\<rparr>, iregs := r'\<rparr>"
    by (auto simp: same_process_def)
  then have "u = s\<lparr>bus := (bus s)\<lparr>mmu := get_mmu u\<rparr>, iregs := iregs u\<rparr>" by simp
  then show ?thesis
    using same_process_state(5-7) [OF assms(1)] same_process_state(5-7) [OF assms(2)] unfolding same_process_def by auto
qed

subsection \<open>The steps of the constructor\<close>

lemma push_result:
  assumes "target_of cfg (ireg s REG_SP - 8) = To_RAM" "push_to_stack cfg v 64 s = Inr s'" "unat B + 8 \<le> unat (ireg s REG_SP)"
  shows "unat (ireg s' REG_SP) + 8 = unat (ireg s REG_SP)" "stored (get_mmu s') (ireg s' REG_SP) (le_bytes 8 v)"
    "changes_only (ireg s' REG_SP) 8 (get_mmu s) (get_mmu s')"
    "alloc_ptr (get_mmu s') = alloc_ptr (get_mmu s)" "same_process B s s'"
proof -
  let ?a = "ireg s REG_SP - 8"
  from assms(1,2) obtain x m where m: "MMU_store (get_mmu s) ?a v 64 = Inr (x, m)"
    and s': "s' = set_ireg REG_SP ?a (s\<lparr>bus := (bus s)\<lparr>mmu := m\<rparr>\<rparr>)"
    by (auto simp: push_to_stack_def vstore_def bus_store_cases bind_res_eq_Inr Let_def)
  from m have "write_from (get_mmu s) (le_bytes 8 v) ?a = Inr (m\<lparr>dirty_blocks := dirty_blocks (get_mmu s)\<rparr>)"
    by (rule mmu_store_cases) auto
  then have w: "m\<lparr>dirty_blocks := dirty_blocks (get_mmu s)\<rparr> = written (get_mmu s) (le_bytes 8 v) ?a"
    by (auto simp: write_from_eq split: if_splits)
  have sp: "unat ?a + 8 = unat (ireg s REG_SP)" using assms(3) by (simp add: unat_sub word_le_nat_alt)
  then have nw: "?a \<le> ?a + of_nat (length (le_bytes 8 v))"
    by (simp add: word_le_nat_alt)
  have r: "ram m = ram (written (get_mmu s) (le_bytes 8 v) ?a)" "alloc_ptr m = alloc_ptr (get_mmu s)"
    using arg_cong [OF w, of ram] arg_cong [OF w, of alloc_ptr] by simp_all
  have i: "ireg s' REG_SP = ?a" "get_mmu s' = m" by (simp_all add: s')
  show "unat (ireg s' REG_SP) + 8 = unat (ireg s REG_SP)" "alloc_ptr (get_mmu s') = alloc_ptr (get_mmu s)"
    using sp r(2) by (simp_all only: i)
  show "stored (get_mmu s') (ireg s' REG_SP) (le_bytes 8 v)" "changes_only (ireg s' REG_SP) 8 (get_mmu s) (get_mmu s')"
    using stored_written [OF _ nw, of "get_mmu s"] unfolding i stored_def changes_only_def r by simp_all
  have "byte_permission m = byte_permission (written (get_mmu s) (le_bytes 8 v) ?a)" "mmu_ram_size m = mmu_ram_size (get_mmu s)"
    using arg_cong [OF w, of byte_permission] arg_cong [OF w, of mmu_ram_size] by simp_all
  moreover have "i \<notin> region ?a 8" if "unat i < unat B" for i
    using that sp assms(3) by (auto simp: region_def word_le_nat_alt)
  ultimately show "same_process B s s'"
    unfolding same_process_def s' set_ireg_def
    by (intro exI [where x = m] exI [where x = "store_reg (iregs s) REG_SP ?a"]) (simp add: written_def)
qed

lemma push_target:
  assumes "ram_only cfg (mmu_ram_size (get_mmu s))" "layout B chunks ws s" "8 * Suc (length ws) \<le> STACK_BYTES"
  shows "target_of cfg (ireg s REG_SP - 8) = To_RAM" "unat B + 8 \<le> unat (ireg s REG_SP)"
proof -
  show sp: "unat B + 8 \<le> unat (ireg s REG_SP)" using assms(2,3) unfolding layout_def by simp
  then have "unat (ireg s REG_SP - 8) + 8 = unat (ireg s REG_SP)" by (simp add: unat_sub word_le_nat_alt)
  then show "target_of cfg (ireg s REG_SP - 8) = To_RAM"
    using assms(2) by (intro ram_only_target [OF assms(1)]) (auto simp: layout_def word_less_nat_alt word_le_nat_alt)
qed

lemma layout_push:
  assumes "ram_only cfg (mmu_ram_size (get_mmu s))" "layout B chunks ws s" "push_to_stack cfg v 64 s = Inr s'"
    "8 * Suc (length ws) \<le> STACK_BYTES"
  shows "layout B chunks (v # ws) s'" "same_process B s s'"
proof -
  note p = push_result [OF push_target(1) [OF assms(1,2,4)] assms(3) push_target(2) [OF assms(1,2,4)]]
    and size = same_process_state(5) [OF p(5)]
  show "same_process B s s'" by (fact p(5))
  have le: "unat (alloc_ptr (get_mmu s)) \<le> 2 ^ 64" using unat_u64_bound [of "alloc_ptr (get_mmu s)"] by simp
  have ends: "unat (ireg s' REG_SP) + 8 * Suc (length ws) = unat B + STACK_BYTES"
    using assms(2) p(1) by (simp add: layout_def)
  have "stored (get_mmu s') (ireg s REG_SP) (words_of ws)"
    using assms(2) p(1) le by (intro stored_frame [OF _ p(3)]) (auto simp: layout_def)
  moreover have "ireg s' REG_SP + 8 = ireg s REG_SP"
    using p(1) unat_offset [of "ireg s' REG_SP" 8] unat_u64_bound [of "ireg s REG_SP"] by (simp add: word_unat_eq_iff)
  ultimately have "stored (get_mmu s') (ireg s' REG_SP) (words_of (v # ws))"
    using p(2) by (simp add: words_of_def stored_append)
  moreover have "stored (get_mmu s') a bs" if "(a, bs) \<in> set chunks" for a bs
    using assms(2) that p(1) ends assms(4) le
    by (intro stored_frame [OF _ p(3)]) (auto simp: layout_def)
  ultimately show "layout B chunks (v # ws) s'"
    using assms(2) ends p(4) unfolding layout_def size by fastforce
qed

lemma layout_arg:
  assumes "ram_only cfg (mmu_ram_size (get_mmu s))" "layout B chunks ws s" "push_arg cfg arg s = Inr s'" "length arg < 256"
    "8 * Suc (length ws) \<le> STACK_BYTES"
  shows "\<exists>p. layout B ((p, arg @ [0]) # chunks) (p # ws) s'" "same_process B s s'"
proof -
  from assms(3) obtain p m1 m2 where a: "allocate (get_mmu s) 256 = Inr (p, m1)"
    and w: "write_from m1 (arg @ [0]) p = Inr m2"
    and q: "push_to_stack cfg p 64 (set_mmu m2 (set_mmu m1 s)) = Inr s'"
    by (auto simp: push_arg_def mmu_allocate_def write_string_to_addr_def bind_res_eq_Inr)
  note al = allocate_eq [OF a]
  let ?s2 = "set_mmu m2 (set_mmu m1 s)" and ?b = "arg @ [0]"
  have m2: "m2 = written m1 ?b p" using w by (auto simp: write_from_eq split: if_splits)
  have e: "unat p + 256 = unat (alloc_ptr m1)" using unat_end [OF al(3)] by (simp add: al(2))
  then have u: "unat p + length ?b < 2 ^ 64" using assms(4) unat_u64_bound [of "alloc_ptr m1"] by simp
  have nw: "p \<le> p + of_nat (length ?b)" using unat_offset [OF u] by (simp add: word_le_nat_alt)
  have len: "length ?b < 2 ^ 64" using assms(4) by simp
  note st = stored_written [OF len nw, of m1, folded m2]
  have le: "unat (alloc_ptr (get_mmu s)) \<le> 2 ^ 64" using unat_u64_bound [of "alloc_ptr (get_mmu s)"] by simp
  have c: "changes_only p (length ?b) (get_mmu s) m2" using st(2) by (simp add: changes_only_def al(5))
  have keep: "stored m2 a bs" if "stored (get_mmu s) a bs" "unat a + length bs \<le> unat p" for a bs
    using that e unat_u64_bound [of p] by (intro stored_frame [OF _ c]) auto
  have "alloc_ptr m1 \<le> mmu_ram_size m1" using al(2,4,7) by simp
  then have "layout B ((p, ?b) # chunks) ws ?s2"
    using assms(2,4) st(1) keep e unfolding layout_def al(1) [symmetric] by (fastforce simp: m2 al(1))
  moreover have size: "mmu_ram_size (get_mmu ?s2) = mmu_ram_size (get_mmu s)" by (simp add: m2 al(7))
  ultimately have push: "layout B ((p, ?b) # chunks) (p # ws) s'" "same_process B ?s2 s'"
    using layout_push [OF _ _ q assms(5)] assms(1) by simp_all
  show "\<exists>p. layout B ((p, ?b) # chunks) (p # ws) s'" using push(1) by blast
  have "unat B \<le> unat p" using assms(2) by (simp add: layout_def al(1))
  then have "i \<notin> region p n" if "unat i < unat B" for i n
    using that by (auto simp: region_def word_le_nat_alt)
  then have "same_process B s ?s2"
    unfolding same_process_def set_mmu_def
    by (intro exI [where x = m2] exI [where x = "iregs s"]) (simp add: m2 al(7,9) written_def)
  then show "same_process B s s'" using push(2) by (rule same_process_trans)
qed

subsection \<open>The segments\<close>

lemma round_up:
  fixes e :: u64
  assumes "unat e + 0xFFFF < 2 ^ 64"
  shows "unat e \<le> unat ((e + 0xFFFF) AND NOT 0xFFFF)"
proof -
  let ?x = "e + 0xFFFF"
  have x: "unat ?x = unat e + 0xFFFF" using assms unat_offset [of e "0xFFFF"] by simp
  have "(?x AND 0xFFFF) + (?x AND NOT 0xFFFF) = (?x AND 0xFFFF) OR (?x AND NOT 0xFFFF)"
    by (rule disjunctive_add) (auto simp: bit_simps)
  also have "\<dots> = ?x" by (rule bit_word_eqI) (auto simp: bit_simps)
  finally have "?x AND NOT 0xFFFF = ?x - (?x AND 0xFFFF)" by (simp add: algebra_simps)
  moreover have "?x AND 0xFFFF \<le> 0xFFFF" by (rule word_and_le1)
  then have "unat (?x AND 0xFFFF) \<le> 0xFFFF" by (simp add: word_le_nat_alt)
  ultimately show ?thesis using x unat_sub [of "?x AND 0xFFFF" ?x] by (simp add: word_le_nat_alt)
qed

lemma load_segment_image:
  assumes "load_segment seg m = Inr m'" "mmu_ram_size m \<le> 0x8000000000000000"
  shows "stored m' (seg_start_addr seg) (segment_image seg)" "seg_end seg \<le> unat (alloc_ptr m')"
    "changes_only (seg_start_addr seg) (unat (seg_mem_size seg)) m m'" "alloc_ptr m \<le> alloc_ptr m'"
    "mmu_ram_size m' = mmu_ram_size m" "seg_end seg < 2 ^ 63"
proof -
  note r = load_segment_result [OF assms(1)]
  let ?e = "seg_start_addr seg + seg_mem_size seg"
  have e: "seg_end seg = unat ?e" using unat_end [OF r(1)] by (simp add: seg_end_def)
  then show l: "seg_end seg < 2 ^ 63" using r(2) assms(2) by (simp add: word_less_nat_alt word_le_nat_alt)
  show "stored m' (seg_start_addr seg) (segment_image seg)" using r(4) by (simp add: stored_def segment_image_length)
  show "changes_only (seg_start_addr seg) (unat (seg_mem_size seg)) m m'"
    using r(5) e by (auto simp: changes_only_def region_def word_le_nat_alt word_less_nat_alt seg_end_def)
  show "alloc_ptr m \<le> alloc_ptr m'" "mmu_ram_size m' = mmu_ram_size m" using r(7,8) by simp_all
  have "unat ?e \<le> unat ((?e + 0xFFFF) AND NOT 0xFFFF)" using l e by (intro round_up) simp
  also have "\<dots> \<le> unat (alloc_ptr m')" unfolding r(7) using word_le_nat_alt by (metis max.cobounded2)
  finally show "seg_end seg \<le> unat (alloc_ptr m')" using e by simp
qed

text \<open>Loading segments that lie apart leaves all of them in memory, below the allocation pointer.\<close>

lemma load_file_keeps:
  assumes "load_file m segs = Inr m'" "mmu_ram_size m \<le> 0x8000000000000000" "stored m a bs"
    "list_all (\<lambda>t. unat a + length bs \<le> unat (seg_start_addr t) \<or> seg_end t \<le> unat a) segs" "unat a + length bs \<le> 2 ^ 64"
  shows "stored m' a bs"
  using assms
proof (induction segs arbitrary: m)
  case (Cons t segs)
  then obtain m1 where t: "load_segment t m = Inr m1" and f: "load_file m1 segs = Inr m'"
    by (auto simp: load_file_def bind_res_eq_Inr)
  note i = load_segment_image [OF t Cons.prems(2)]
  have "stored m1 a bs" using Cons.prems(3-5) by (intro stored_frame [OF _ i(3)]) (auto simp: seg_end_def)
  then show ?case using Cons.IH [OF f] Cons.prems i(5) by simp
qed (simp add: load_file_def)

lemma load_file_image:
  assumes "load_file m segs = Inr m'" "mmu_ram_size m \<le> 0x8000000000000000" "apart segs"
  shows "alloc_ptr m \<le> alloc_ptr m' \<and>
    (\<forall>t \<in> set segs. stored m' (seg_start_addr t) (segment_image t) \<and> seg_end t \<le> unat (alloc_ptr m'))"
  using assms
proof (induction segs arbitrary: m)
  case (Cons t segs)
  then obtain m1 where t: "load_segment t m = Inr m1" and f: "load_file m1 segs = Inr m'"
    by (auto simp: load_file_def bind_res_eq_Inr)
  note i = load_segment_image [OF t Cons.prems(2)]
  have s: "mmu_ram_size m1 \<le> 0x8000000000000000" using Cons.prems(2) i(5) by simp
  have l: "unat (seg_start_addr t) + length (segment_image t) = seg_end t"
    by (simp add: seg_end_def segment_image_length)
  have "stored m' (seg_start_addr t) (segment_image t)"
    using Cons.prems(3) i(6) l by (intro load_file_keeps [OF f s i(1)]) (auto simp: list_all_iff)
  moreover have IH: "alloc_ptr m1 \<le> alloc_ptr m' \<and>
      (\<forall>t \<in> set segs. stored m' (seg_start_addr t) (segment_image t) \<and> seg_end t \<le> unat (alloc_ptr m'))"
    using Cons.IH [OF f s] Cons.prems(3) by simp
  ultimately show ?case using i(2,4) by (auto simp: word_le_nat_alt)
qed (simp add: load_file_def)

subsection \<open>The constructor returns\<close>

lemma write_from_total:
  assumes "mmu_wf m" "unat a + length bs < unat (mmu_ram_size m)"
    "\<forall>i. unat a \<le> unat i \<and> unat i < unat a + length bs \<longrightarrow> byte_permission m i AND PERM_WRITE \<noteq> 0"
  shows "write_from m bs a = Inr (written m bs a)"
proof -
  have e: "unat (a + of_nat (length bs)) = unat a + length bs"
    using assms(2) unat_u64_bound [of "mmu_ram_size m"] by (intro unat_offset) simp
  have r: "i \<in> region a (of_nat (length bs)) \<longleftrightarrow> unat a \<le> unat i \<and> unat i < unat a + length bs" for i
    by (simp add: region_def word_le_nat_alt word_less_nat_alt e)
  show ?thesis
    using assms e by (auto simp: write_from_eq r mmu_wf_def word_less_nat_alt)
qed

lemma written_keeps_writable:
  "byte_permission m i AND PERM_WRITE \<noteq> 0 \<Longrightarrow> byte_permission (written m bs a) i AND PERM_WRITE \<noteq> 0"
  by (auto simp: written_def)

lemma room_written: "room B k m \<Longrightarrow> room B k (written m bs a)"
  using written_keeps_writable by (auto simp: room_def)

lemma room_dirty: "room B k (m\<lparr>dirty_blocks := D\<rparr>) = room B k m"
  by (simp add: room_def mmu_wf_def)

lemma push_total:
  assumes "ram_only cfg (mmu_ram_size (get_mmu s))" "layout B chunks ws s" "room B k (get_mmu s)" "8 * Suc (length ws) \<le> STACK_BYTES"
  shows "\<exists>s'. push_to_stack cfg v 64 s = Inr s' \<and> room B k (get_mmu s')"
proof -
  let ?a = "ireg s REG_SP - 8" and ?m = "get_mmu s"
  have l: "unat (ireg s REG_SP) + 8 * length ws = unat B + STACK_BYTES" "unat B + STACK_BYTES \<le> unat (alloc_ptr ?m)"
    using assms(2) by (simp_all add: layout_def)
  have a: "unat ?a + 8 = unat (ireg s REG_SP)" using l assms(4) by (simp add: unat_sub word_le_nat_alt)
  have "write_from ?m (le_bytes 8 v) ?a = Inr (written ?m (le_bytes 8 v) ?a)"
    using assms(3,4) l a by (intro write_from_total) (auto simp: room_def)
  then show ?thesis
    using push_target(1) [OF assms(1,2,4)] room_written [OF assms(3), of "le_bytes 8 v" ?a]
    by (simp add: push_to_stack_def vstore_def bus_store_cases MMU_store_def store_as_bytes room_dirty Let_def)
qed

lemma allocate_total:
  assumes "mmu_wf m" "unat (alloc_ptr m) + unat n < unat (mmu_ram_size m)"
  shows "\<exists>m'. allocate m n = Inr (alloc_ptr m, m')"
proof -
  have "unat (alloc_ptr m + n) = unat (alloc_ptr m) + unat n"
    using assms(2) unat_u64_bound [of "mmu_ram_size m"] by (intro unat_add_lem [THEN iffD1]) simp
  then show ?thesis
    using assms by (simp add: allocate_def set_perms_def Let_def assert_res_def defined_res_def mmu_wf_def add.commute
        word_le_nat_alt word_less_nat_alt)
qed

lemma push_arg_total:
  assumes "ram_only cfg (mmu_ram_size (get_mmu s))" "layout B chunks ws s" "room B (256 + k) (get_mmu s)" "length arg < 256"
    "8 * Suc (length ws) \<le> STACK_BYTES"
  shows "\<exists>s'. push_arg cfg arg s = Inr s' \<and> room B k (get_mmu s')"
proof -
  let ?p = "alloc_ptr (get_mmu s)" and ?b = "arg @ [0]"
  obtain m1 where a: "allocate (get_mmu s) 256 = Inr (?p, m1)"
    using allocate_total [of "get_mmu s" 256] assms(3) by (auto simp: room_def)
  note al = allocate_eq [OF a]
  have e: "unat (alloc_ptr m1) = unat ?p + 256" using unat_end [OF al(3)] by (simp add: al(2))
  have r: "i \<in> region ?p 256 \<longleftrightarrow> unat ?p \<le> unat i \<and> unat i < unat ?p + 256" for i
    using e by (simp add: region_def word_le_nat_alt word_less_nat_alt al(2))
  have wf: "mmu_wf m1" using assms(3) al(6,7) by (simp add: room_def mmu_wf_def)
  have w: "write_from m1 ?b ?p = Inr (written m1 ?b ?p)"
    using assms(3,4) wf by (intro write_from_total) (auto simp: room_def al(7,9) r)
  have room: "room B k m1" using assms(3) wf e by (auto simp: room_def al(7,9))
  let ?s = "set_mmu (written m1 ?b ?p) (set_mmu m1 s)"
  have "layout B [] ws ?s"
  proof -
    have "changes_only ?p (length ?b) m1 (written m1 ?b ?p)"
    proof (rule stored_written)
      have u: "unat ?p + length ?b < 2 ^ 64" using assms(4) e unat_u64_bound [of "alloc_ptr m1"] by simp
      then show "length ?b < 2 ^ 64" "?p \<le> ?p + of_nat (length ?b)"
        unfolding word_le_nat_alt using unat_offset [OF u] by simp_all
    qed
    then have "changes_only ?p (length ?b) (get_mmu s) (written m1 ?b ?p)" by (simp add: changes_only_def al(5))
    moreover have "stored (get_mmu s) (ireg s REG_SP) (words_of ws)" using assms(2) by (simp add: layout_def)
    ultimately have "stored (written m1 ?b ?p) (ireg s REG_SP) (words_of ws)"
      using assms(2) unat_u64_bound [of ?p] by (elim stored_frame) (auto simp: layout_def)
    then show ?thesis using assms(2) e al(2,4) by (simp add: layout_def al(7) less_imp_le)
  qed
  moreover have "ram_only cfg (mmu_ram_size (get_mmu ?s))" using assms(1) by (simp add: al(7))
  ultimately show ?thesis using push_total [OF _ _ _ assms(5), of cfg ?s B "[]" k ?p]
    using a w room_written [OF room] by (simp add: push_arg_def mmu_allocate_def write_string_to_addr_def)
qed

lemma load_segment_total:
  assumes "mmu_wf m" "seg_end seg < unat (mmu_ram_size m)" "unat (seg_file_size seg) \<le> length (seg_data seg)"
    "mmu_ram_size m \<le> 0x8000000000000000"
  shows "\<exists>m'. load_segment seg m = Inr m' \<and> mmu_wf m' \<and> mmu_ram_size m' = mmu_ram_size m \<and>
    unat (alloc_ptr m') \<le> max (unat (alloc_ptr m)) (seg_end seg + 0xFFFF)"
proof -
  let ?a = "seg_start_addr seg" and ?n = "seg_mem_size seg"
  have e: "unat (?a + ?n) = seg_end seg"
    using assms(2) unat_u64_bound [of "mmu_ram_size m"] unfolding seg_end_def
    by (intro unat_add_lem [THEN iffD1]) simp
  then have nw: "?a \<le> ?a + ?n" "?a + ?n < mmu_ram_size m"
    using assms(2) by (simp_all add: word_le_nat_alt word_less_nat_alt seg_end_def)
  have sp: "\<exists>m2. set_perms m1 ?a ?n p = Inr m2 \<and> m2 = m1\<lparr>byte_permission :=
      (\<lambda>i. if ?a \<le> i \<and> i < ?a + ?n then p else byte_permission m1 i)\<rparr>"
    if "mmu_wf m1" "mmu_ram_size m1 = mmu_ram_size m" for m1 p
    using that nw by (simp add: set_perms_def mmu_wf_def less_imp_le)
  obtain m1 where m1: "set_perms m ?a ?n PERM_WRITE = Inr m1" "m1 = m\<lparr>byte_permission :=
      (\<lambda>i. if ?a \<le> i \<and> i < ?a + ?n then PERM_WRITE else byte_permission m i)\<rparr>"
    using sp [OF assms(1) refl] by blast
  have w1: "mmu_wf m1" "mmu_ram_size m1 = mmu_ram_size m" using assms(1) by (simp_all add: m1(2) mmu_wf_def)
  have w: "write_from m1 (segment_image seg) ?a = Inr (written m1 (segment_image seg) ?a)"
    using w1 assms(2) e
    by (intro write_from_total) (auto simp: segment_image_length m1(2) seg_end_def word_le_nat_alt word_less_nat_alt)
  obtain m' where m': "load_segment seg m = Inr m'"
    using m1(1) w sp [of "written m1 (segment_image seg) ?a" "seg_perms seg"] w1 assms(3)
    by (auto simp: load_segment_def)
  note r = load_segment_result [OF m']
  have "(?a + ?n + 0xFFFF) AND NOT 0xFFFF \<le> ?a + ?n + 0xFFFF" by (rule word_and_le2)
  moreover have "unat (?a + ?n + 0xFFFF) = seg_end seg + 0xFFFF"
    using unat_offset [of "?a + ?n" "0xFFFF"] e assms(2,4) by (simp add: word_le_nat_alt)
  ultimately have "unat (alloc_ptr m') \<le> max (unat (alloc_ptr m)) (seg_end seg + 0xFFFF)"
    unfolding r(7) by (auto simp: max_def word_le_nat_alt)
  then show ?thesis using m' load_segment_wf [OF assms(1) m'] r(8) by blast
qed

lemma load_file_total:
  assumes "mmu_wf m" "list_all (\<lambda>t. seg_end t + 0xFFFF + k < unat (mmu_ram_size m)) segs" "unat (alloc_ptr m) + k < unat (mmu_ram_size m)"
    "list_all (\<lambda>t. unat (seg_file_size t) \<le> length (seg_data t)) segs" "mmu_ram_size m \<le> 0x8000000000000000"
  shows "\<exists>m'. load_file m segs = Inr m' \<and> mmu_wf m' \<and> mmu_ram_size m' = mmu_ram_size m \<and>
    unat (alloc_ptr m') + k < unat (mmu_ram_size m)"
  using assms
proof (induction segs arbitrary: m)
  case (Cons t segs)
  have t: "seg_end t < unat (mmu_ram_size m)" "unat (seg_file_size t) \<le> length (seg_data t)" using Cons.prems(2,4) by simp_all
  obtain m1 where m1: "load_segment t m = Inr m1" "mmu_wf m1" "mmu_ram_size m1 = mmu_ram_size m"
    "unat (alloc_ptr m1) \<le> max (unat (alloc_ptr m)) (seg_end t + 0xFFFF)"
    using load_segment_total [OF Cons.prems(1) t Cons.prems(5)] by blast
  have "unat (alloc_ptr m1) + k < unat (mmu_ram_size m1)" using m1(3,4) Cons.prems(2,3) by auto
  then show ?case using Cons.IH [OF m1(2)] Cons.prems m1 by (auto simp: load_file_def)
qed (simp add: load_file_def)

subsection \<open>The constructor, step by step\<close>

definition staged :: "u64 \<Rightarrow> nat \<Rightarrow> (u64 \<times> u8 list) list \<Rightarrow> u64 list \<Rightarrow> vemu \<Rightarrow> vemu \<Rightarrow> bool" where
  "staged B k chunks ws s0 s \<longleftrightarrow> layout B chunks ws s \<and> room B k (get_mmu s) \<and> same_process B s0 s"

lemma staged_process: "staged B k chunks ws s0 s \<Longrightarrow> same_process B s0 s"
  by (simp add: staged_def)

lemma staged_push:
  assumes "ram_only cfg (mmu_ram_size (get_mmu s0))" "staged B k chunks ws s0 s" "8 * Suc (length ws) \<le> STACK_BYTES"
  shows "\<exists>s'. push_to_stack cfg v 64 s = Inr s' \<and> staged B k chunks (v # ws) s0 s'"
proof -
  have l: "layout B chunks ws s" and r: "room B k (get_mmu s)" and p: "same_process B s0 s"
    using assms(2) by (simp_all add: staged_def)
  have o: "ram_only cfg (mmu_ram_size (get_mmu s))" using assms(1) same_process_state(5) [OF p] by simp
  obtain s' where s': "push_to_stack cfg v 64 s = Inr s'" "room B k (get_mmu s')"
    using push_total [OF o l r assms(3)] by blast
  then show ?thesis using layout_push [OF o l s'(1) assms(3)] same_process_trans [OF p] by (auto simp: staged_def)
qed

lemma staged_arg:
  assumes "ram_only cfg (mmu_ram_size (get_mmu s0))" "staged B (256 + k) chunks ws s0 s" "length arg < 256" "8 * Suc (length ws) \<le> STACK_BYTES"
  shows "\<exists>s' p. push_arg cfg arg s = Inr s' \<and> staged B k ((p, arg @ [0]) # chunks) (p # ws) s0 s'"
proof -
  have l: "layout B chunks ws s" and r: "room B (256 + k) (get_mmu s)" and p: "same_process B s0 s"
    using assms(2) by (simp_all add: staged_def)
  have o: "ram_only cfg (mmu_ram_size (get_mmu s))" using assms(1) same_process_state(5) [OF p] by simp
  obtain s' where s': "push_arg cfg arg s = Inr s'" "room B k (get_mmu s')"
    using push_arg_total [OF o l r assms(3,4)] by blast
  note a = layout_arg [OF o l s'(1) assms(3,4)]
  then show ?thesis using s' same_process_trans [OF p a(2)] by (auto simp: staged_def)
qed

lemma staged_args:
  assumes "ram_only cfg (mmu_ram_size (get_mmu s0))" "staged B (256 * length as + k) chunks ws s0 s"
    "list_all (\<lambda>a. length a < 256) as" "8 * (length as + length ws) \<le> STACK_BYTES"
  shows "\<exists>s' ps cs. fold_res (push_arg cfg) as s = Inr s' \<and> length ps = length as \<and>
    set cs = set chunks \<union> set (zip ps (map (\<lambda>a. a @ [0]) as)) \<and> staged B k cs (rev ps @ ws) s0 s'"
  using assms(2-4)
proof (induction as arbitrary: s ws chunks)
  case (Cons a as)
  obtain t p where t: "push_arg cfg a s = Inr t" "staged B (256 * length as + k) ((p, a @ [0]) # chunks) (p # ws) s0 t"
    using staged_arg [OF assms(1), where k = "256 * length as + k" and s = s and arg = a and B = B and chunks = chunks and ws = ws] Cons.prems by (auto simp: add.assoc)
  obtain s' ps cs where "fold_res (push_arg cfg) as t = Inr s'" "length ps = length as"
    "set cs = set ((p, a @ [0]) # chunks) \<union> set (zip ps (map (\<lambda>a. a @ [0]) as))" "staged B k cs (rev ps @ p # ws) s0 s'"
    using Cons.IH [OF t(2)] Cons.prems(2,3) by auto
  then show ?case using t(1)
    by (intro exI [where x = s'] exI [where x = "p # ps"] exI [where x = cs]) auto
qed auto

lemma staged_start:
  assumes "mmu_wf m" "unat (alloc_ptr m) + (STACK_BYTES + k) < unat (mmu_ram_size m)"
    "\<forall>(a, bs) \<in> set chunks. stored m a bs \<and> unat a + length bs \<le> unat (alloc_ptr m)"
  shows "\<exists>s1. mmu_allocate STACK_SIZE (set_mmu m s0) = Inr (alloc_ptr m, s1) \<and>
    staged (alloc_ptr m) k chunks [] (set_mmu m s0) (set_ireg REG_SP (alloc_ptr m + STACK_SIZE) s1)"
proof -
  let ?b = "alloc_ptr m"
  obtain m1 where a: "allocate m STACK_SIZE = Inr (?b, m1)"
    using allocate_total [OF assms(1), of STACK_SIZE] assms(2) by auto
  note al = allocate_eq [OF a]
  let ?s1 = "set_mmu m1 (set_mmu m s0)"
  let ?t = "set_ireg REG_SP (?b + STACK_SIZE) ?s1"
  have e: "unat (?b + STACK_SIZE) = unat ?b + STACK_BYTES" using unat_end [OF al(3)] by simp
  have t: "get_mmu ?t = m1" "ireg ?t REG_SP = ?b + STACK_SIZE" by simp_all
  have "layout ?b chunks [] ?t"
    using assms(3) al(4) unfolding layout_def t al(2,7) e by (auto simp: words_of_def stored_def al(5))
  moreover have "i \<in> region ?b STACK_SIZE" if "unat ?b \<le> unat i" "unat i < unat ?b + STACK_BYTES" for i
    using that unfolding region_def mem_Collect_eq word_le_nat_alt word_less_nat_alt e by blast
  then have "room ?b k m1"
    using assms(1,2) unfolding room_def al(2,7,9) e by (auto simp: mmu_wf_def al(6,7))
  moreover have "same_process ?b (set_mmu m s0) ?t"
    unfolding same_process_def set_ireg_def set_mmu_def
    by (intro exI [where x = m1] exI [where x = "store_reg (iregs s0) REG_SP (?b + STACK_SIZE)"])
      (auto simp: al(7,9) region_def word_le_nat_alt)
  ultimately show ?thesis using a by (auto simp: staged_def mmu_allocate_def)
qed

lemma exec_staged:
  fixes d :: InstructionDecoder and init :: uninit
  assumes "ram_only cfg n" "fits n info args"
  defines "s0 \<equiv> (VEmu_base cfg init d [] (entry_point info) n)\<lparr>bin_file_name := fi_file_name info\<rparr>"
  shows "\<exists>s m ptrs chunks. VEmu_exec cfg init d info args n = Inr s \<and> length ptrs = Suc (length args) \<and>
    load_file (get_mmu s0) (segments info) = Inr m \<and>
    staged (alloc_ptr m) 0 chunks (of_nat (Suc (length args)) # ptrs @ [0, 0, 0]) (set_mmu m s0) s \<and>
    set chunks = set (map (\<lambda>t. (seg_start_addr t, segment_image t)) (segments info)) \<union>
      set (zip ptrs (map (\<lambda>a. a @ [0]) (fi_file_name info # args)))"
proof -
  have n: "n \<le> 0x8000000000000000" "length args + 5 \<le> 0x20000" "apart (segments info)"
    "length (fi_file_name info) < 256" "list_all (\<lambda>a. length a < 256) (rev args)"
    using assms(2) by (auto simp: fits_def)
  have base: "mmu_ram_size (get_mmu s0) = n" "mmu_wf (get_mmu s0)" "alloc_ptr (get_mmu s0) = 0x10000"
    by (simp_all add: s0_def VEmu_base_def init_misa_def store_csr_def Let_def Bus_new_def MMU_new_def mmu_wf_def)
  obtain m where m: "load_file (get_mmu s0) (segments info) = Inr m" "mmu_wf m" "mmu_ram_size m = n"
    "unat (alloc_ptr m) + (STACK_BYTES + 256 * Suc (length args)) < unat n"
    using load_file_total [OF base(2), of "STACK_BYTES + 256 * Suc (length args)" "segments info"] assms(2) n(1) base(1,3)
    by (auto simp: fits_def list_all_iff add.assoc)
  note segs = load_file_image [OF m(1) _ n(3), unfolded base(1), OF n(1)]
  let ?s0 = "set_mmu m s0"
  have o: "ram_only cfg (mmu_ram_size (get_mmu ?s0))" using assms(1) m(3) by simp
  let ?chunks = "map (\<lambda>t. (seg_start_addr t, segment_image t)) (segments info)"
  obtain s1 where s1: "mmu_allocate STACK_SIZE (set_mmu m s0) = Inr (alloc_ptr m, s1)"
    "staged (alloc_ptr m) (256 * Suc (length args)) ?chunks [] ?s0 (set_ireg REG_SP (alloc_ptr m + STACK_SIZE) s1)"
    using staged_start [OF m(2), of "256 * Suc (length args)" ?chunks s0] segs m(3,4)
    by (auto simp: segment_image_length seg_end_def)
  obtain s2 where s2: "push_to_stack cfg 0 64 (set_ireg REG_SP (alloc_ptr m + STACK_SIZE) s1) = Inr s2"
    "staged (alloc_ptr m) (256 * Suc (length args)) ?chunks [0] ?s0 s2"
    using staged_push [OF o s1(2), of 0] by auto
  obtain s3 where s3: "push_to_stack cfg 0 64 s2 = Inr s3"
    "staged (alloc_ptr m) (256 * Suc (length args)) ?chunks [0, 0] ?s0 s3"
    using staged_push [OF o s2(2), of 0] by auto
  obtain s4 where s4: "push_to_stack cfg 0 64 s3 = Inr s4"
    "staged (alloc_ptr m) (256 * length (rev args) + (256 + 0)) ?chunks [0, 0, 0] ?s0 s4"
    using staged_push [OF o s3(2), of 0] by (auto simp: add.commute)
  obtain s5 ps cs where s5: "fold_res (push_arg cfg) (rev args) s4 = Inr s5" "length ps = length args"
    "set cs = set ?chunks \<union> set (zip ps (map (\<lambda>a. a @ [0]) (rev args)))"
    "staged (alloc_ptr m) (256 + 0) cs (rev ps @ [0, 0, 0]) ?s0 s5"
    using staged_args [OF o s4(2) n(5)] n(2) by auto
  have nm: "bin_file_name s5 = fi_file_name info" using same_process_state(2) [OF staged_process [OF s5(4)]] by (simp add: s0_def set_mmu_def)
  obtain s6 q where s6: "push_arg cfg (fi_file_name info) s5 = Inr s6"
    "staged (alloc_ptr m) 0 ((q, fi_file_name info @ [0]) # cs) (q # rev ps @ [0, 0, 0]) ?s0 s6"
    using staged_arg [OF o s5(4) n(4)] s5(2) n(2) by auto
  obtain s where s: "push_to_stack cfg (of_nat (length args) + 1) 64 s6 = Inr s"
    "staged (alloc_ptr m) 0 ((q, fi_file_name info @ [0]) # cs) ((of_nat (length args) + 1) # q # rev ps @ [0, 0, 0]) ?s0 s"
    using staged_push [OF o s6(2), of "of_nat (length args) + 1"] s5(2) n(2) by auto
  have "VEmu_exec cfg init d info args n = Inr s"
    using m(1) s1(1) s2(1) s3(1) s4(1) s5(1) s6(1) s(1) nm
    by (simp add: VEmu_exec_def Let_def flip: s0_def)
  moreover have "set (zip (rev ps) (map (\<lambda>a. a @ [0]) args)) = set (zip ps (map (\<lambda>a. a @ [0]) (rev args)))"
    using zip_rev [of ps "rev (map (\<lambda>a. a @ [0]) args)"] s5(2) by (metis length_map length_rev rev_map rev_rev_ident set_rev)
  ultimately show ?thesis using s(2) s5(2,3) m(1)
    by (intro exI [where x = s] exI [where x = m] exI [where x = "q # rev ps"]
        exI [where x = "(q, fi_file_name info @ [0]) # cs"]) (simp add: add.commute)
qed

subsection \<open>Properties\<close>

text \<open>Room for the code of a flat binary, and an emulator that is about to run it\<close>

definition code_fits :: "u64 \<Rightarrow> u8 list \<Rightarrow> bool" where
  "code_fits n bytes \<longleftrightarrow> 0x10000 + length bytes + 0xFFFF < unat n"

definition holds_code :: "u8 list \<Rightarrow> vemu \<Rightarrow> bool" where
  "holds_code bytes s \<longleftrightarrow> stored (get_mmu s) (pc s) bytes \<and>
     list_all (\<lambda>k. byte_permission (get_mmu s) (pc s + of_nat k) = PERM_EXEC OR PERM_READ) [0..<length bytes]"

lemma base_memory:
  "mmu_ram_size (get_mmu (VEmu_base cfg init d f p n)) = n" "mmu_wf (get_mmu (VEmu_base cfg init d f p n))"
  "alloc_ptr (get_mmu (VEmu_base cfg init d f p n)) = 0x10000"
  by (simp_all add: VEmu_base_def init_misa_def store_csr_def Let_def Bus_new_def MMU_new_def mmu_wf_def)

lemma place_code_total:
  assumes "mmu_wf (get_mmu s)" "alloc_ptr (get_mmu s) = 0x10000" "code_fits (mmu_ram_size (get_mmu s)) bytes"
  shows "\<exists>s'. place_code bytes s = Inr s' \<and> holds_code bytes s'"
proof -
  let ?m = "get_mmu s" and ?n = "of_nat (length bytes) :: u64" and ?a = "0x10000 :: u64"
  have room: "0x10000 + length bytes + 0xFFFF < unat (mmu_ram_size ?m)" using assms(3) by (simp add: code_fits_def)
  then have len: "length bytes + 0x1FFFF < 2 ^ 64" using unat_u64_bound [of "mmu_ram_size ?m"] by simp
  then have n: "unat ?n = length bytes" by (simp add: unat_of_nat_u64)
  let ?size = "(?n + 0xFFFF) AND NOT 0xFFFF"
  have "?size \<le> ?n + 0xFFFF" by (rule word_and_le2)
  moreover have "unat (?n + 0xFFFF) = length bytes + 0xFFFF" using unat_offset [of ?n "0xFFFF"] n len by simp
  ultimately have size: "unat ?size \<le> length bytes + 0xFFFF" by (simp add: word_le_nat_alt)
  obtain m1 where a: "allocate ?m ?size = Inr (?a, m1)"
    using allocate_total [OF assms(1), of ?size] assms(2) size room by auto
  note al = allocate_eq [OF a]
  have w1: "mmu_wf m1" using assms(1) by (simp add: mmu_wf_def al(6,7))
  have e: "unat (?a + ?n) = 0x10000 + length bytes" using unat_offset [of ?a "length bytes"] len by simp
  have nw: "?a \<le> ?a + ?n" "?a + ?n < mmu_ram_size ?m" using e room by (simp_all add: word_le_nat_alt word_less_nat_alt)
  have sp: "set_perms m' ?a ?n q = Inr (m'\<lparr>byte_permission := (\<lambda>i. if i \<in> region ?a ?n then q else byte_permission m' i)\<rparr>)"
    if "mmu_wf m'" "mmu_ram_size m' = mmu_ram_size ?m" for m' q
    using that nw by (simp add: set_perms_def mmu_wf_def less_imp_le region_def)
  let ?m2 = "m1\<lparr>byte_permission := (\<lambda>i. if i \<in> region ?a ?n then PERM_WRITE else byte_permission m1 i)\<rparr>"
  have w: "write_from ?m2 bytes ?a = Inr (written ?m2 bytes ?a)"
    using w1 room e by (intro write_from_total) (auto simp: mmu_wf_def al(7) region_def word_le_nat_alt word_less_nat_alt)
  have st: "stored (written ?m2 bytes ?a) ?a bytes" using stored_written(1) [OF _ nw(1)] len by simp
  have p: "?a + of_nat k \<in> region ?a ?n" if "k < length bytes" for k
    using region_offset [OF nw(1), of k] that n by simp
  have m: "mmu_wf ?m2" "mmu_ram_size ?m2 = mmu_ram_size ?m" "mmu_wf (written ?m2 bytes ?a)"
    "mmu_ram_size (written ?m2 bytes ?a) = mmu_ram_size ?m"
    using w1 by (simp_all add: mmu_wf_def al(7))
  let ?m3 = "(written ?m2 bytes ?a)\<lparr>byte_permission :=
      (\<lambda>i. if i \<in> region ?a ?n then 5 else byte_permission (written ?m2 bytes ?a) i)\<rparr>"
  have "place_code bytes s = Inr (set_mmu ?m3 ((set_mmu m1 (s\<lparr>code_size := ?n\<rparr>))\<lparr>pc := ?a\<rparr>))"
    unfolding place_code_def Let_def mmu_allocate_def
    using a sp [OF w1 al(7)] w sp [OF m(3,4)] by (simp add: set_mmu_def)
  moreover have "holds_code bytes (set_mmu ?m3 ((set_mmu m1 (s\<lparr>code_size := ?n\<rparr>))\<lparr>pc := ?a\<rparr>))"
    using st p by (simp add: holds_code_def stored_def list_all_iff set_mmu_def)
  ultimately show ?thesis by blast
qed

text \<open>(C3) An executable is turned into a running process: in the fuzzing build, for an executable whose
  segments do not overlap and fit with the stack and the arguments, the constructor returns; the program
  counter is the entry point, every segment is in memory, the stack pointer points to \<open>argc\<close>, to
  pointers to the null-terminated name and arguments in order, and to the terminators of \<open>argv\<close>, of the
  environment and of the auxiliary vector; and from there the run loop follows every execution of the
  instruction set.\<close>

theorem exec_builds_process:
  assumes "build cfg = FUZZ_ENV" and "decoder_ok d" and "fits n info args"
  shows "\<exists>s. VEmu_exec cfg init d info args n = Inr s \<and> pc s = entry_point info \<and>
    (\<forall>seg \<in> set (segments info). stored (get_mmu s) (seg_start_addr seg) (segment_image seg)) \<and>
    (\<exists>ptrs. length ptrs = Suc (length args) \<and>
       stored (get_mmu s) (ireg s REG_SP) (words_of (of_nat (Suc (length args)) # ptrs @ [0, 0, 0])) \<and>
       (\<forall>(p, arg) \<in> set (zip ptrs (fi_file_name info # args)). stored (get_mmu s) p (arg @ [0]))) \<and>
    (\<forall>\<sigma>. isa_step\<^sup>*\<^sup>* (arch_of s) \<sigma> \<longrightarrow> (\<exists>s'. reachable cfg s s' \<and> arch_of s' = \<sigma>))"
proof -
  have "ram_only cfg n" using assms(1) by (simp add: ram_only_def)
  then obtain s m ptrs chunks where s: "VEmu_exec cfg init d info args n = Inr s" "length ptrs = Suc (length args)"
    "staged (alloc_ptr m) 0 chunks (of_nat (Suc (length args)) # ptrs @ [0, 0, 0])
      (set_mmu m ((VEmu_base cfg init d [] (entry_point info) n)\<lparr>bin_file_name := fi_file_name info\<rparr>)) s"
    "set chunks = set (map (\<lambda>t. (seg_start_addr t, segment_image t)) (segments info)) \<union>
      set (zip ptrs (map (\<lambda>a. a @ [0]) (fi_file_name info # args)))"
    using exec_staged [OF _ assms(3)] by blast
  have same: "pc s = entry_point info" "\<not> has_exited s"
    using same_process_state(1,3) [OF staged_process [OF s(3)]] assms(1)
    by (simp_all add: VEmu_base_def set_mmu_def)
  have chunk: "stored (get_mmu s) a bs" if "(a, bs) \<in> set chunks" for a bs
    using s(3) that by (auto simp: staged_def layout_def)
  have "stored (get_mmu s) p (arg @ [0])" if "(p, arg) \<in> set (zip ptrs (fi_file_name info # args))" for p arg
    using zip_map_in [OF that, of "\<lambda>a. a @ [0]"] by (intro chunk) (simp add: s(4))
  moreover have "stored (get_mmu s) (seg_start_addr t) (segment_image t)" if "t \<in> set (segments info)" for t
    using that by (intro chunk) (simp add: s(4))
  moreover have "fuzzing cfg = cfg" using assms(1) by (simp add: fuzzing_def)
  then have "\<exists>s'. reachable cfg s s' \<and> arch_of s' = \<sigma>" if "isa_step\<^sup>*\<^sup>* (arch_of s) \<sigma>" for \<sigma>
    using isa.simulates_run [OF that, of cfg] emu_ok_exec [OF assms(2) s(1)] same(2) reachable_rtranclp by auto
  moreover have "stored (get_mmu s) (ireg s REG_SP) (words_of (of_nat (Suc (length args)) # ptrs @ [0, 0, 0]))"
    using s(3) by (simp add: staged_def layout_def)
  ultimately show ?thesis using s(1,2) same(1) by blast
qed

text \<open>(C30) What the constructors make. Given a decoder with sound caches, the ones for a sequence of bytes and for a
  flat binary file return a well-formed emulator that is about to run the code, which is in memory,
  readable and executable, if it fits; a file that cannot be opened ends the process, and no file gives an
  emulator at the program counter asked for. The one for an executable returns a well-formed emulator at the entry
  point, if segments, stack and arguments fit and no device hides the memory. Whenever one of
  these returns, the emulator is well formed. The copy constructor never makes a well-formed emulator,
  since it leaves out the table of handlers.\<close>

theorem constructors_build:
  assumes "decoder_ok d"
  shows "(code_fits n bytes \<longrightarrow> (\<exists>s. VEmu_bytes cfg init d bytes p n = Inr s \<and> emu_ok s \<and> holds_code bytes s)) \<and>
    (code_fits n bytes \<and> f_name \<noteq> [] \<longrightarrow>
      (\<exists>s. VEmu_file cfg init d f_name (Some bytes) p n = Inr s \<and> emu_ok s \<and> holds_code bytes s)) \<and>
    (f_name \<noteq> [] \<longrightarrow> VEmu_file cfg init d f_name None p n = Inl ExitFailure) \<and>
    (\<exists>s. VEmu_file cfg init d [] file p n = Inr s \<and> emu_ok s \<and> pc s = p) \<and>
    (ram_only cfg n \<and> fits n info args \<longrightarrow>
      (\<exists>s. VEmu_exec cfg init d info args n = Inr s \<and> emu_ok s \<and> pc s = entry_point info)) \<and>
    (\<forall>s. Inr s \<in> {VEmu_bytes cfg init d bytes p n, VEmu_file cfg init d f_name file p n,
        VEmu_exec cfg init d info args n} \<longrightarrow> emu_ok s) \<and>
    \<not> emu_ok (VEmu_copy init other)"
proof -
  let ?base = "\<lambda>f. VEmu_base cfg init d f p n"
  note ok = emu_ok_place_code [OF emu_ok_base [OF assms]]
  have place: "\<exists>s. place_code bytes (?base f) = Inr s \<and> emu_ok s \<and> holds_code bytes s" if "code_fits n bytes" for f
    using place_code_total [of "?base f" bytes] that ok [of bytes cfg init f p n] by (auto simp: base_memory)
  have exec: "\<exists>s. VEmu_exec cfg init d info args n = Inr s \<and> emu_ok s \<and> pc s = entry_point info"
    if fit: "ram_only cfg n" "fits n info args"
  proof -
    obtain s m chunks ws where s: "VEmu_exec cfg init d info args n = Inr s"
      "staged (alloc_ptr m) 0 chunks ws
        (set_mmu m ((VEmu_base cfg init d [] (entry_point info) n)\<lparr>bin_file_name := fi_file_name info\<rparr>)) s"
      using exec_staged [OF fit] by blast
    then show ?thesis using emu_ok_exec [OF assms s(1)] same_process_state(1) [OF staged_process [OF s(2)]]
      by (simp add: VEmu_base_def init_misa_def store_csr_def Let_def set_mmu_def split: if_splits)
  qed
  have "pc (?base []) = p" by (simp add: VEmu_base_def init_misa_def store_csr_def Let_def)
  moreover have "emu_ok s" if "VEmu_file cfg init d f_name file p n = Inr s" for s
    using that ok emu_ok_base [OF assms] by (auto simp: VEmu_file_def read_file_def Let_def split: option.splits if_splits)
  moreover have "emu_ok s" if "VEmu_bytes cfg init d bytes p n = Inr s" for s
    using that ok by (simp add: VEmu_bytes_def)
  moreover have "\<not> emu_ok (VEmu_copy init other)" by (simp add: emu_ok_def VEmu_copy_def)
  moreover have "VEmu_bytes cfg init d bytes p n = place_code bytes (?base [])"
    "f_name \<noteq> [] \<Longrightarrow> VEmu_file cfg init d f_name (Some bytes) p n = place_code bytes (?base f_name)"
    "f_name \<noteq> [] \<Longrightarrow> VEmu_file cfg init d f_name None p n = Inl ExitFailure"
    "VEmu_file cfg init d [] file p n = Inr (?base [])"
    by (simp_all add: VEmu_bytes_def VEmu_file_def read_file_def Let_def)
  ultimately show ?thesis
    using place exec emu_ok_base [OF assms] emu_ok_exec [OF assms] by auto
qed

end
