(* ===== verification/Guest_Files.thy ===== *)
theory Guest_Files
  imports Process_Image
begin

text \<open>
  Sessions on a file: \<open>lseek\<close> and the reads that follow it, inside the file and beyond its end.
\<close>

unbundle bit_operations_syntax

subsection \<open>Seeking\<close>

text \<open>The position that the arguments of \<open>lseek\<close> ask for, \<open>None\<close> for an unknown origin\<close>

definition seek_target :: "FileHandle \<Rightarrow> u64 \<Rightarrow> u64 \<Rightarrow> u64 option" where
  "seek_target fh offset whence =
     (if whence = 0 then Some offset else if whence = 1 then Some (fh_idx fh + offset)
      else if whence = 2 then Some (fh_len fh + offset) else None)"

lemma sys_lseek_result:
  assumes "List.find (\<lambda>fh. scast (fh_fd fh) = ireg s REG_A0) (file_table s) = Some fh"
    and "seek_target fh (ireg s REG_A1) (ireg s REG_A2) = Some pos"
  shows "\<exists>s'. sys_lseek s = Inr s' \<and> ireg s' REG_A0 = pos \<and> get_mmu s' = get_mmu s \<and>
    List.find (\<lambda>fh. scast (fh_fd fh) = ireg s REG_A0) (file_table s') = Some (fh\<lparr>fh_idx := pos\<rparr>)"
proof -
  have "scast (fh_fd fh) = ireg s REG_A0" using assms(1) by (auto simp: find_Some_iff)
  then have "List.find (\<lambda>fh. scast (fh_fd fh) = ireg s REG_A0)
      (update_first (\<lambda>fh. scast (fh_fd fh) = ireg s REG_A0) (fh\<lparr>fh_idx := pos\<rparr>) (file_table s)) = Some (fh\<lparr>fh_idx := pos\<rparr>)"
    by (intro find_update_first [OF assms(1)]) simp
  then show ?thesis
    using assms by (auto simp: sys_lseek_def Let_def seek_target_def split: if_splits)
qed

lemma holds_seek:
  assumes "holds content fh" "unat pos \<le> length content"
  shows "holds content (fh\<lparr>fh_idx := pos\<rparr>)" "remaining (fh\<lparr>fh_idx := pos\<rparr>) = drop (unat pos) content"
  using assms by (simp_all add: holds_def remaining_def word_le_nat_alt unat_of_nat_u64)

text \<open>A state from which the guest reads: it has the descriptor, the buffer and the count in its registers.\<close>

definition ready_to_read :: "u64 \<Rightarrow> u64 \<Rightarrow> u64 \<Rightarrow> vemu \<Rightarrow> bool" where
  "ready_to_read fd buf count t \<longleftrightarrow> emu_ok t \<and> ireg t REG_A0 = fd \<and> ireg t REG_A1 = buf \<and> ireg t REG_A2 = count"

text \<open>The little-endian field of \<open>n\<close> bytes at an offset of a chunk\<close>

lemma stored_field:
  assumes "stored (get_mmu s) a bs" "off + n \<le> length bs"
  shows "mem_value (arch_of s) (a + of_nat off) n = le_value (take n (drop off bs))"
proof -
  have "map (\<lambda>k. a_mem (arch_of s) (a + of_nat off + of_nat k)) [0..<n] = take n (drop off bs)"
  proof (rule nth_equalityI)
    fix k assume "k < length (map (\<lambda>k. a_mem (arch_of s) (a + of_nat off + of_nat k)) [0..<n])"
    then have k: "k < n" by simp
    then have "ram (get_mmu s) (a + of_nat (off + k)) = bs ! (off + k)"
      using assms(1) [unfolded stored_def, rule_format, of "off + k"] assms(2) by simp
    then show "map (\<lambda>k. a_mem (arch_of s) (a + of_nat off + of_nat k)) [0..<n] ! k = take n (drop off bs) ! k"
      using k assms(2) by (simp add: add.assoc)
  qed (use assms(2) in simp)
  then show ?thesis by (simp add: mem_value_def)
qed

lemma stat_bytes_fields:
  "length (stat_bytes cfg fd len) = 128"
  "take 8 (drop 48 (stat_bytes cfg fd len)) = le_bytes 8 (if fd = 1 then 0 else len)"
  "take 4 (drop 16 (stat_bytes cfg fd len)) = le_bytes 4 (if fd = 1 then 0x2190 else 0x81fd)"
  "take 8 (drop 64 (stat_bytes cfg fd len)) = le_bytes 8 (if fd = 1 then 0 else len div 0x1000)"
  "take 8 (drop 40 (stat_bytes cfg fd len)) = map (stack_byte cfg) [40..<48]"
  by (simp_all add: stat_bytes_def Let_def)

lemma sys_fstat_result:
  assumes "list_ex (\<lambda>fh. fh_fd fh = ucast (ireg s REG_A0)) (file_table s)" "emu_ok s" "writable (arch_of s) (ireg s REG_A1) 128"
  shows "\<exists>s'. sys_fstat cfg s = Inr s' \<and> ireg s' REG_A0 = 0 \<and>
    stored (get_mmu s') (ireg s REG_A1) (stat_bytes cfg (ireg s REG_A0) (fh_len (last (file_table s)))) \<and>
    changes_only (ireg s REG_A1) 128 (get_mmu s) (get_mmu s')"
proof -
  let ?bs = "stat_bytes cfg (ireg s REG_A0) (fh_len (last (file_table s)))" and ?m = "get_mmu s" and ?a = "ireg s REG_A1"
  have i: "inside (arch_of s) ?a 128" using assms(3) by (simp add: writable_def)
  then have nw: "?a \<le> ?a + of_nat (length ?bs)" "?a + 128 < mmu_ram_size ?m"
    by (simp_all add: inside_def stat_bytes_fields)
  have "\<forall>i \<in> region ?a 128. byte_permission ?m i AND PERM_WRITE \<noteq> 0"
    using assms(3) ball_region [of ?a 128 "\<lambda>i. byte_permission ?m i AND PERM_WRITE \<noteq> 0"] nw
    by (simp add: writable_def stat_bytes_fields)
  then have "write_from ?m ?bs ?a = Inr (written ?m ?bs ?a)"
    using nw(2) inside_storage [OF assms(2) i] by (simp add: write_from_eq stat_bytes_fields)
  then have "sys_fstat cfg s = Inr (set_ireg REG_A0 0 (set_mmu (written ?m ?bs ?a) s))"
    using assms(1) by (simp add: sys_fstat_def Let_def)
  then show ?thesis
    using stored_written [OF _ nw(1), of ?m] by (simp add: stat_bytes_fields)
qed

subsection \<open>Properties\<close>

text \<open>(C17) Random access to a file: a seek to a position inside the file, from its start, the current position
  or its end, returns the position; and the next read of that descriptor, whatever the guest does in
  between without touching its files, copies to a writable buffer the bytes of the file from that
  position on, as many as were asked for or as there are, and returns their number.\<close>

theorem seek_read_delivers:
  assumes "List.find (\<lambda>fh. scast (fh_fd fh) = ireg s REG_A0) (file_table s) = Some fh" and "holds content fh"
    and "seek_target fh (ireg s REG_A1) (ireg s REG_A2) = Some pos" and "unat pos \<le> length content"
  shows "\<exists>s'. sys_lseek s = Inr s' \<and> ireg s' REG_A0 = pos \<and>
    (\<forall>t buf count. let chunk = take (unat count) (drop (unat pos) content) in
      file_table t = file_table s' \<and> ready_to_read (ireg s REG_A0) buf count t \<and> unat count < 2 ^ 63 \<and>
      chunk \<noteq> [] \<and> writable (arch_of t) buf (length chunk) \<longrightarrow>
      (\<exists>t'. sys_read t = Inr t' \<and> ireg t' REG_A0 = of_nat (length chunk) \<and>
        map (\<lambda>k. ram (get_mmu t') (buf + of_nat k)) [0..<length chunk] = chunk))"
proof -
  obtain s' where s': "sys_lseek s = Inr s'" "ireg s' REG_A0 = pos"
    "List.find (\<lambda>fh. scast (fh_fd fh) = ireg s REG_A0) (file_table s') = Some (fh\<lparr>fh_idx := pos\<rparr>)"
    using sys_lseek_result [OF assms(1,3)] by blast
  note h = holds_seek [OF assms(2,4)]
  have "\<exists>t'. sys_read t = Inr t' \<and> ireg t' REG_A0 = of_nat (length chunk) \<and>
      map (\<lambda>k. ram (get_mmu t') (buf + of_nat k)) [0..<length chunk] = chunk"
    if "chunk = take (unat count) (drop (unat pos) content)" "file_table t = file_table s'"
      "ready_to_read (ireg s REG_A0) buf count t" "unat count < 2 ^ 63" "chunk \<noteq> []" "writable (arch_of t) buf (length chunk)"
    for t buf count chunk
    using sys_read_result [of t "fh\<lparr>fh_idx := pos\<rparr>" content] that s'(3) h unfolding ready_to_read_def by auto
  then show ?thesis using s'(1,2) unfolding Let_def by blast
qed

text \<open>(C18) A seek beyond the end of a file succeeds, and the next read of that descriptor leaves the buffer that
  holds the file: the number of bytes that remain is computed as a difference of unsigned numbers and
  wraps around, so that the range which the host copies starts from a pointer outside the buffer and ends
  before it starts. This is undefined behaviour, whatever the size of the read, as long as the position
  after it does not wrap around.\<close>

theorem read_past_end_overruns:
  assumes "List.find (\<lambda>fh. scast (fh_fd fh) = ireg s REG_A0) (file_table s) = Some fh" and "holds content fh"
    and "seek_target fh (ireg s REG_A1) (ireg s REG_A2) = Some pos" and "length content < unat pos"
  shows "\<exists>s'. sys_lseek s = Inr s' \<and> ireg s' REG_A0 = pos \<and>
    (\<forall>t buf count. file_table t = file_table s' \<and> ready_to_read (ireg s REG_A0) buf count t \<and>
      unat pos + unat count < 2 ^ 64 \<longrightarrow> sys_read t = Inl UndefinedBehaviour)"
proof -
  obtain s' where s': "sys_lseek s = Inr s'" "ireg s' REG_A0 = pos"
    "List.find (\<lambda>fh. scast (fh_fd fh) = ireg s REG_A0) (file_table s') = Some (fh\<lparr>fh_idx := pos\<rparr>)"
    using sys_lseek_result [OF assms(1,3)] by blast
  have d: "fh_data fh = Some (content @ [0])" and l: "unat (fh_len fh) = length content"
    using assms(2) by (auto simp: holds_def unat_of_nat_u64)
  have "fh_read (fh\<lparr>fh_idx := pos\<rparr>) count = Inl UndefinedBehaviour" if "unat pos + unat count < 2 ^ 64" for count
  proof -
    have "fh_len fh \<le> pos + count"
      using that l assms(4) unat_add_lem [THEN iffD1, of pos count] by (simp add: word_le_nat_alt)
    moreover have "fh_len fh - pos \<noteq> 0" using l assms(4) by (auto dest: arg_cong [where f = unat])
    moreover have "\<not> unat pos + unat (fh_len fh - pos) \<le> Suc (length content)"
    proof
      assume le: "unat pos + unat (fh_len fh - pos) \<le> Suc (length content)"
      then have "unat (pos + (fh_len fh - pos)) = unat pos + unat (fh_len fh - pos)"
        using assms(2) by (intro unat_add_lem [THEN iffD1]) (simp add: holds_def)
      then show False using l assms(4) by simp
    qed
    ultimately show ?thesis by (simp add: fh_read_def buffer_slice_def d defined_res_def)
  qed
  then have "sys_read t = Inl UndefinedBehaviour"
    if "file_table t = file_table s'" "ready_to_read (ireg s REG_A0) buf count t" "unat pos + unat count < 2 ^ 64" for t buf count
    using that s'(3) by (simp add: sys_read_def ready_to_read_def Let_def)
  then show ?thesis using s'(1,2) by blast
qed

text \<open>(C19) What \<open>fstat\<close> tells the guest: for an open descriptor and a writable structure of 128 bytes it returns
  0 and fills the structure and nothing else; the mode is that of a terminal for descriptor 1 and of a
  regular file otherwise; the size and the number of blocks are those of the file opened last, whichever
  descriptor was asked about; and the padding carries bytes of the host's stack into guest memory.\<close>

theorem fstat_reports_last_file:
  assumes "list_ex (\<lambda>fh. fh_fd fh = ucast (ireg s REG_A0)) (file_table s)" and "emu_ok s"
    and "writable (arch_of s) (ireg s REG_A1) 128"
  defines "len \<equiv> fh_len (last (file_table s))" and "fd \<equiv> ireg s REG_A0" and "st \<equiv> ireg s REG_A1"
  shows "\<exists>s'. sys_fstat cfg s = Inr s' \<and> ireg s' REG_A0 = 0 \<and>
    mem_value (arch_of s') (st + 16) 4 = (if fd = 1 then 0x2190 else 0x81fd) \<and>
    mem_value (arch_of s') (st + 48) 8 = (if fd = 1 then 0 else len) \<and>
    mem_value (arch_of s') (st + 64) 8 = (if fd = 1 then 0 else len div 0x1000) \<and>
    mem_value (arch_of s') (st + 40) 8 = le_value (map (stack_byte cfg) [40..<48]) \<and>
    (\<forall>i. unat i < unat st \<or> unat st + 128 \<le> unat i \<longrightarrow> ram (get_mmu s') i = ram (get_mmu s) i)"
proof -
  obtain s' where s': "sys_fstat cfg s = Inr s'" "ireg s' REG_A0 = 0"
    "stored (get_mmu s') st (stat_bytes cfg fd len)" "changes_only st 128 (get_mmu s) (get_mmu s')"
    using sys_fstat_result [OF assms(1-3)] by (auto simp: len_def fd_def st_def)
  have f: "mem_value (arch_of s') (st + of_nat off) n = le_value (take n (drop off (stat_bytes cfg fd len)))"
    if "off + n \<le> 128" for off n
    using stored_field [OF s'(3)] that by (simp add: stat_bytes_fields)
  show ?thesis
    using s'(1,2,4) f [of 16 4] f [of 48 8] f [of 64 8] f [of 40 8]
    by (simp add: stat_bytes_fields(2-5) le_value_le_bytes changes_only_def)
qed

end
