(* ===== verification/Memory_Examples.thy ===== *)
theory Memory_Examples
  imports Memory_Reset Vemu_Bus
begin

text \<open>
  The theorems on the memory and the bus at concrete inputs: a memory of 128 KiB whose bytes are zero,
  readable and writable.
\<close>

unbundle bit_operations_syntax

definition sample_memory :: MMU where
  "sample_memory = MMU_new (\<lambda>_. 0) (\<lambda>_. 6) 0x20000"

lemma sample_memory_simps [simp]:
  "ram sample_memory i = 0" "byte_permission sample_memory i = 6" "ram_cap sample_memory = 0x20000"
  "mmu_ram_size sample_memory = 0x20000" "dirty_blocks sample_memory = {}" "alloc_ptr sample_memory = 0x10000"
  "mmu_wf sample_memory"
  by (simp_all add: sample_memory_def MMU_new_def mmu_wf_def)

lemma sample_write:
  "a + of_nat (length bs) < 0x20000 \<Longrightarrow> write_from sample_memory bs a = Inr (written sample_memory bs a)"
  by (auto simp: write_from_eq region_def)

lemma sample_store:
  assumes "n \<in> {1, 2, 4, 8}" "a + of_nat n < 0x20000"
  shows "MMU_store sample_memory a v (8 * n) = Inr (NormalExecutionReturn,
    (written sample_memory (le_bytes n v) a)\<lparr>dirty_blocks := {a div BLOCK_SIZE}\<rparr>)"
  using assms sample_write [of a "le_bytes n v"]
  by (auto simp: MMU_store_def store_as_bytes)

subsection \<open>Loads and stores\<close>

theorem mmu_store_load_witness:
  "\<exists>m'. MMU_store sample_memory 0x1000 0x1122334455667788 32 = Inr (NormalExecutionReturn, m') \<and>
     MMU_load m' 0x1000 32 = Inr (0x55667788, NormalExecutionReturn)"
proof -
  obtain m' where "MMU_store sample_memory 0x1000 0x1122334455667788 32 = Inr (NormalExecutionReturn, m')"
    using sample_store [of 4] by simp
  then show ?thesis
    using mmu_store_load [where m = sample_memory and a = "0x1000" and v = "0x1122334455667788" and sz = 32]
    by (simp add: readable_once_written_def)
qed

theorem mmu_store_load_elsewhere_witness:
  "\<exists>m'. MMU_store sample_memory 0x1000 0xFF 32 = Inr (NormalExecutionReturn, m') \<and>
     MMU_load m' 0x1004 8 = MMU_load sample_memory 0x1004 8"
proof -
  obtain m' where "MMU_store sample_memory 0x1000 0xFF 32 = Inr (NormalExecutionReturn, m')"
    using sample_store [of 4] by simp
  moreover have "region 0x1004 (of_nat (8 div 8)) \<inter> region 0x1000 (of_nat (32 div 8)) = {}"
    by (auto simp: region_def)
  ultimately show ?thesis
    using mmu_store_load_elsewhere [where m = sample_memory and a = "0x1000" and v = "0xFF" and sz = 32 and b = "0x1004" and sz' = 8]
    by auto
qed

theorem mmu_access_safe_witness:
  "MMU_load sample_memory 0x20000 64 = Inl AssertionFailure"
proof (cases "MMU_load sample_memory 0x20000 64")
  case (Inl e)
  then show ?thesis using mmu_access_safe [where m = sample_memory and a = "0x20000" and sz = 64 and e = e] by simp
next
  case (Inr x)
  then show ?thesis by (simp add: MMU_load_def load_as_bytes load_bytes_def read_to_eq)
qed

theorem mmu_wrapped_access_witness:
  "MMU_load sample_memory 0xFFFFFFFFFFFFFFFF 32 = Inr (0, NormalExecutionReturn)"
  using mmu_wrapped_access [where n = 4 and a = "0xFFFFFFFFFFFFFFFF" and m = sample_memory] by simp

theorem allocations_disjoint_witness:
  "\<exists>bs m'. allocate_all sample_memory [0x100, 0x200] = Inr (bs, m') \<and>
     region (bs ! 0) 0x100 \<inter> region (bs ! 1) 0x200 = {}"
proof -
  obtain bs m' where "allocate_all sample_memory [0x100, 0x200] = Inr (bs, m')"
    by (simp add: allocate_def set_perms_def Let_def assert_res_def defined_res_def)
  then show ?thesis using allocations_disjoint [of sample_memory "[0x100, 0x200]" bs m' 0 1] by auto
qed

subsection \<open>Reset and copy\<close>

theorem reset_restores_witness:
  "\<exists>m' m''. stores [(0x1008, 42, 64)] sample_memory = Inr m' \<and> ram m' 0x1008 = 42 \<and>
     reset_to m' sample_memory = Inr m'' \<and> ram m'' = ram sample_memory"
proof -
  define m' where "m' = (written sample_memory (le_bytes 8 42) 0x1008)\<lparr>dirty_blocks := {0x1008 div BLOCK_SIZE}\<rparr>"
  have st: "stores [(0x1008, 42, 64)] sample_memory = Inr m'"
    using sample_store [of 8 "0x1008" 42] by (simp add: stores_def m'_def)
  have "ram m' 0x1008 = 42" by (simp add: m'_def written_def region_def le_bytes_def)
  moreover have "within_block 0x1008 8" by (simp add: within_block_def)
  ultimately show ?thesis
    using reset_restores [where m = sample_memory and base = sample_memory, OF _ _ _ _ _ _ st] st by auto
qed

theorem reset_misses_crossing_store_witness:
  "\<exists>m' m''. MMU_store sample_memory 0xFFF 0x1234 16 = Inr (NormalExecutionReturn, m') \<and>
     reset_to m' sample_memory = Inr m'' \<and> ram m'' 0x1000 = 0x12 \<and> ram sample_memory 0x1000 = 0"
proof -
  define m' where "m' = (written sample_memory (le_bytes 2 0x1234) 0xFFF)\<lparr>dirty_blocks := {0}\<rparr>"
  have st: "MMU_store sample_memory 0xFFF 0x1234 16 = Inr (NormalExecutionReturn, m')"
    using sample_store [of 2 "0xFFF" "0x1234"] by (simp add: m'_def)
  have "in_storage m' (loop_range 0 BLOCK_SIZE)" "in_storage sample_memory (loop_range 0 BLOCK_SIZE)"
    by (auto simp: in_storage_def list_all_iff set_loop_range m'_def written_def word_less_nat_alt)
  then obtain m'' where rs: "reset_to m' sample_memory = Inr m''"
    by (simp add: reset_to_def m'_def defined_res_def)
  have "ram m' 0x1000 = 0x12" by (simp add: m'_def written_def region_def le_bytes_def nth_Cons')
  then show ?thesis
    using st rs reset_misses_crossing_store [where i = "0x1000", OF st _ _ rs] by auto
qed

theorem mmu_copy_unusable_witness: "read_to (MMU_copy sample_memory) 0 4 = Inl UndefinedBehaviour"
  using mmu_copy_unusable [where n = 4 and a = 0 and m = sample_memory] by simp

theorem string_read_total_witness:
  "\<exists>r. read_null_terminated_string 0x20001 sample_memory 5 = Some r"
  using string_read_total [where m = sample_memory and fuel = "0x20001" and a = 5] by auto

definition sample_segment :: MemorySegment where
  "sample_segment = \<lparr>seg_perms = 5, seg_start_addr = 0x1000, seg_mem_size = 4, seg_file_size = 2, seg_data = [7, 9]\<rparr>"

theorem load_segment_effect_witness:
  "\<exists>m'. load_segment sample_segment sample_memory = Inr m' \<and> ram m' 0x1001 = 9 \<and> ram m' 0x1003 = 0 \<and>
     byte_permission m' 0x1003 = 5 \<and> byte_permission m' 0x1004 = 6"
proof -
  define m1 where "m1 = sample_memory\<lparr>byte_permission := (\<lambda>i. if 0x1000 \<le> i \<and> i < 0x1004 then 2 else byte_permission sample_memory i)\<rparr>"
  have img: "segment_image sample_segment = [7, 9, 0, 0]"
    by (simp add: segment_image_def sample_segment_def Let_def) (simp add: numeral_2_eq_2)
  have p: "set_perms sample_memory 0x1000 4 2 = Inr m1"
    by (simp add: set_perms_def assert_res_def defined_res_def m1_def)
  have "write_from m1 [7, 9, 0, 0] 0x1000 = Inr (written m1 [7, 9, 0, 0] 0x1000)"
    by (auto simp: write_from_eq m1_def region_def word_less_nat_alt)
  then have "\<exists>m'. load_segment sample_segment sample_memory = Inr m'"
    unfolding load_segment_def img using p
    by (simp add: sample_segment_def set_perms_def assert_res_def defined_res_def written_def m1_def)
  then obtain m' where ld: "load_segment sample_segment sample_memory = Inr m'" ..
  note eff = load_segment_effect [OF ld]
  from eff have "\<forall>k < 4. ram m' (0x1000 + of_nat k) = (if k < 2 then [7, 9] ! k else 0)"
    by (simp add: sample_segment_def)
  from spec [OF this, of 1] spec [OF this, of 3] eff ld show ?thesis
    by (simp add: sample_segment_def region_def)
qed

subsection \<open>The bus\<close>

definition sample_config :: "build_env \<Rightarrow> config" where
  "sample_config env = \<lparr>build = env, softfloat = None, wide_shr = (\<lambda>_ _. 0), host_open = (\<lambda>_ _ _. None), stack_byte = (\<lambda>_. 0)\<rparr>"

definition sample_bus :: Bus where
  "sample_bus = Bus_new False (\<lambda>_. 0) (\<lambda>_. 6) 0x20000"

theorem bus_routing_witness:
  "\<exists>b'. Bus_store (sample_config TEST_ENV) sample_bus CLINT_MTIMECMP 7 64 = Inr (NormalExecutionReturn, b') \<and>
     plic b' = plic sample_bus \<and> mmu b' = mmu sample_bus"
proof -
  obtain b' where st: "Bus_store (sample_config TEST_ENV) sample_bus CLINT_MTIMECMP 7 64 = Inr (NormalExecutionReturn, b')"
    by (simp add: Bus_store_def sample_config_def in_window_def CLINT_store_def)
  have "target_of (sample_config TEST_ENV) CLINT_MTIMECMP = To_CLINT"
    by (simp add: target_of_def sample_config_def claims_def in_window_def)
  then have "same_target To_PLIC sample_bus b'" "same_target To_RAM sample_bus b'"
    using st bus_routing [where addr = CLINT_MTIMECMP and cfg = "sample_config TEST_ENV" and b = sample_bus and sz = 64 and w = 7]
    by auto
  then show ?thesis using st by (simp add: same_target_def)
qed

end
