(* ===== verification/Emulator_Examples.thy ===== *)
theory Emulator_Examples
  imports Vemu_Print Memory_Examples RV_Privileged Vemu_Process Shared_Decoder
begin

text \<open>
  The theorems on the decoder, the instruction handlers, the run loop, the traps and the system calls at
  concrete inputs: emulators with 128 KiB of readable and writable memory and a short program at
  address 0.
\<close>

unbundle bit_operations_syntax

subsection \<open>A sample emulator\<close>

definition sample_init :: "u8 list \<Rightarrow> uninit" where
  "sample_init prog = \<lparr>u_mem = (\<lambda>i. if unat i < length prog then prog ! unat i else 0), u_perms = (\<lambda>_. 6),
     u_csrs = (\<lambda>_. 0), u_uart = False, u_word = 0, u_instr = MRET_instr, u_mode = Machine, u_code_size = 0\<rparr>"

definition sample_emu :: "build_env \<Rightarrow> u8 list \<Rightarrow> vemu" where
  "sample_emu env prog = VEmu_base (sample_config env) (sample_init prog) InstructionDecoder_new [] 0 0x20000"

text \<open>The emulator about to execute an instruction with the given operands.\<close>

definition sample_state :: "u8 \<Rightarrow> u8 \<Rightarrow> u8 \<Rightarrow> u32 \<Rightarrow> vemu" where
  "sample_state d r1 r2 im = (sample_emu FUZZ_ENV [])\<lparr>
     curr_instr := wrong_instr (empty_fields\<lparr>rd := d, rs1 := r1, rs2 := r2, imm := im\<rparr>),
     iregs := store_reg (store_reg RegFile_new 5 0x1000) 6 7\<rparr>"

lemma build_sample [simp]: "build (sample_config env) = env" "softfloat (sample_config env) = None"
  by (simp_all add: sample_config_def)

lemma sample_emu_ok [simp]: "emu_ok (sample_emu env prog)"
  by (simp add: sample_emu_def emu_ok_base decoder_ok_new)

lemma sample_emu_simps [simp]:
  "pc (sample_emu env prog) = 0" "ireg (sample_emu env prog) r = 0" "\<not> has_exited (sample_emu env prog)"
  "ram (get_mmu (sample_emu env prog)) i = (if unat i < length prog then prog ! unat i else 0)"
  "byte_permission (get_mmu (sample_emu env prog)) i = 6" "mmu_ram_size (get_mmu (sample_emu env prog)) = 0x20000"
  "alloc_ptr (get_mmu (sample_emu env prog)) = 0x10000" "mmu_wf (get_mmu (sample_emu env prog))"
  "\<not> interrupting (uart (bus (sample_emu env prog)))"
  "mode (sample_emu env prog) = (if env = FUZZ_ENV then Machine else User)"
  by (simp_all add: sample_emu_def VEmu_base_def Let_def init_misa_def Bus_new_def MMU_new_def sample_init_def
      UART_new_def RegFile_new_def load_reg_def mmu_wf_def)

lemma sample_state_ok [simp]: "emu_ok (sample_state d r1 r2 im)"
  using sample_emu_ok [of FUZZ_ENV "[]"]
  by (simp add: emu_ok_def sample_state_def x0_zero_def store_reg_def load_reg_def RegFile_new_def)

lemma sample_state_simps [simp]:
  "f_rd (sample_state d r1 r2 im) = unat d" "f_rs1 (sample_state d r1 r2 im) = unat r1"
  "f_rs2 (sample_state d r1 r2 im) = unat r2" "imm64 (sample_state d r1 r2 im) = scast im"
  "ireg (sample_state d r1 r2 im) i = (if i = 5 then 0x1000 else if i = 6 then 7 else 0)"
  "iregs (sample_state d r1 r2 im) = store_reg (store_reg RegFile_new 5 0x1000) 6 7"
  "imm (get_fields (curr_instr (sample_state d r1 r2 im))) = im"
  "get_mmu (sample_state d r1 r2 im) = get_mmu (sample_emu FUZZ_ENV [])"
  by (simp_all add: sample_state_def wrong_instr_def mk_instr_def imm64_def load_reg_def store_reg_def RegFile_new_def)

lemma arch_of_sample:
  "arch_of (sample_emu env prog) = \<lparr>a_pc = 0, a_reg = (\<lambda>_. 0),
     a_mem = (\<lambda>i. if unat i < length prog then prog ! unat i else 0), a_perm = (\<lambda>_. 6), a_size = 0x20000\<rparr>"
  by (simp add: arch_of_def fun_eq_iff)

lemma upto_four: "[0..<4] = [0, 1, 2, 3 :: nat]" and upto_two: "[0..<2] = [0, 1 :: nat]"
  by (simp_all add: upt_rec)

subsection \<open>Decoding\<close>

lemma sample_encode:
  "encode (AsmI iADDI 1 0 5) = Some 0x00500093" "encode (AsmJ iJAL 0 0) = Some 0x6F"
  by (simp_all add: rv_I_def rv_J_def rv_shift_def rv_shiftw_def enc_I_def enc_J_def enc_U_def enc_R_def)

theorem decode_caches_transparent_witness:
  "\<exists>d. decode_stream InstructionDecoder_new [0x30200073, 0x10200073, 0x30200073] =
     Inr ([MRET_instr, SRET_instr, MRET_instr], d)"
  using decode_caches_transparent
    [of "[0x30200073, 0x10200073, 0x30200073]" "[MRET_instr, SRET_instr, MRET_instr]"]
  by (auto simp: decode_spec_def)

theorem decode_encode_witness:
  "\<exists>i d. decode InstructionDecoder_new 0x00500093 = Inr (i, d) \<and> get_name i = iADDI \<and> imm (get_fields i) = 5"
  using decode_encode [OF sample_encode(1) decoder_ok_new] by fastforce

theorem decode_unnamed_aborts_witness: "decode InstructionDecoder_new 0x4F = Inl OutOfRange"
  using decode_unnamed_aborts [OF decoder_ok_new, of "0x4F"] by (simp add: extract_opcode_def extract_funct2_def)

subsection \<open>Handlers\<close>

theorem alu_handlers_correct_witness:
  "ireg (snd (ADD (sample_state 1 5 6 0))) 1 = 0x1007"
proof -
  have "(iADD, ADD, \<lambda>a b. of_int (sint a + sint b)) \<in> set alu_ops" by (simp add: alu_ops_def)
  from alu_handlers_correct [OF this, of "sample_state 1 5 6 0"] show ?thesis
    by (simp add: load_reg_def store_reg_def)
qed

theorem div_rem_agree_witness:
  "7 * ireg (snd (DIV (sample_state 1 5 6 0))) 1 + ireg (snd (REM (sample_state 1 5 6 0))) 1 = 0x1000"
  using div_rem_agree [of "sample_state 1 5 6 0"] by simp

theorem amo_handlers_correct_witness:
  "\<exists>s'. AMOADDD (sample_config FUZZ_ENV) (sample_state 1 5 6 0) = Inr (NormalExecutionReturn, s') \<and>
     mem_value (arch_of s') 0x1000 1 = 7"
proof -
  let ?s = "sample_state 1 5 6 0"
  have m: "(iAMOADDD, AMOADDD, 8, \<lambda>v r. of_int (sint v + sint r)) \<in> set amo_ops" by (simp add: amo_ops_def)
  have r: "readable (arch_of ?s) 0x1000 8" "writable (arch_of ?s) 0x1000 8"
    by (simp_all add: readable_def writable_def inside_def list_all_iff)
  have v: "mem_value (arch_of ?s) 0x1000 8 = 0"
    by (simp add: mem_value_def upt_rec)
  from amo_handlers_correct [OF m, of "sample_config FUZZ_ENV" ?s] r v obtain s'
    where s': "AMOADDD (sample_config FUZZ_ENV) ?s = Inr (NormalExecutionReturn, s')"
      "arch_of (s'\<lparr>iregs := iregs ?s\<rparr>) = mem_write 0x1000 8 7 (arch_of ?s)"
    by auto
  have "a_mem (arch_of s') 0x1000 = a_mem (arch_of (s'\<lparr>iregs := iregs ?s\<rparr>)) 0x1000" by (simp add: arch_of_def)
  also have "\<dots> = 7" unfolding s'(2) by (simp add: mem_write_def)
  finally show ?thesis using s'(1) by (simp add: mem_value_def)
qed

theorem signed_loads_mask_faults_witness:
  "\<exists>s' e. e \<noteq> NormalExecutionReturn \<and> LWU (sample_config TEST_ENV) (sample_state 1 0 0 0x2000000) = Inr (e, s') \<and>
     fst (sum.projr (LW (sample_config TEST_ENV) (sample_state 1 0 0 0x2000000))) = NormalExecutionReturn"
proof -
  let ?s = "sample_state 1 0 0 0x2000000"
  obtain v s' where "vload (sample_config TEST_ENV) ?s CLINT_BASE 32 = Inr (v, LoadAccessFault, s')"
    by (simp add: vload_def Bus_load_def in_window_def CLINT_load_def)
  then have "vload (sample_config TEST_ENV) ?s (ireg ?s (f_rs1 ?s) + imm64 ?s) (8 * 4) = Inr (v, LoadAccessFault, s')"
    by simp
  from signed_loads_mask_faults [OF this] show ?thesis by auto
qed

subsection \<open>The run loop\<close>

lemma sample_step:
  "isa_step (arch_of (sample_emu env [0x93, 0x00, 0x50, 0x00]))
     (advance (set_reg 1 5 (arch_of (sample_emu env [0x93, 0x00, 0x50, 0x00]))))"
  by (rule isa_step.intros [OF sample_encode(1)])
    (simp_all add: arch_of_sample upto_four mem_value_def specs_def load_ops_def imm_ops_def reg_of_def)

theorem run_loop_implements_isa_witness:
  "\<exists>s'. reachable (sample_config FUZZ_ENV) (sample_emu FUZZ_ENV [0x93, 0x00, 0x50, 0x00]) s' \<and> pc s' = 4 \<and> ireg s' 1 = 5"
proof -
  let ?s = "sample_emu FUZZ_ENV [0x93, 0x00, 0x50, 0x00]"
  let ?\<sigma> = "advance (set_reg 1 5 (arch_of ?s))"
  have "isa_step\<^sup>*\<^sup>* (arch_of ?s) ?\<sigma>" using sample_step by (rule r_into_rtranclp)
  then obtain s' where s': "reachable (sample_config FUZZ_ENV) ?s s'" "arch_of s' = ?\<sigma>"
    using run_loop_implements_isa [of "sample_config FUZZ_ENV" ?s ?\<sigma>] by auto
  have "pc s' = a_pc (arch_of s')" "ireg s' 1 = a_reg (arch_of s') 1" by (simp_all add: arch_of_def)
  then show ?thesis using s' unfolding s'(2) by (auto simp: advance_def set_reg_def arch_of_sample)
qed

theorem reachable_emu_ok_witness:
  "\<exists>s. step (sample_config FUZZ_ENV) (sample_emu FUZZ_ENV [0x93, 0x00, 0x50, 0x00]) s \<and> emu_ok s"
proof -
  let ?s = "sample_emu FUZZ_ENV [0x93, 0x00, 0x50, 0x00]"
  obtain s where s: "step (sample_config FUZZ_ENV) ?s s"
    using sim_step [OF _ _ _ sample_step, of "sample_config FUZZ_ENV"] by auto
  have "reachable (sample_config FUZZ_ENV) ?s s" by (rule reachable.intros(2) [OF reachable.intros(1) s])
  then show ?thesis using s reachable_emu_ok [of ?s "sample_config FUZZ_ENV" s] by auto
qed

theorem run_iteration_safe_witness:
  "run_iteration (sample_config TEST_ENV) (sample_emu TEST_ENV [0x93, 0x00, 0x50, 0x00]) \<noteq> Inl UndefinedBehaviour"
  using run_iteration_safe [OF sample_emu_ok build_sample reachable.intros(1)] by blast

theorem run_ignores_decoder_witness:
  "\<exists>i d. decode InstructionDecoder_new 0x00500093 = Inr (i, d) \<and>
     map_option observed (run 3 (sample_config TEST_ENV) ((sample_emu TEST_ENV [0x93, 0x00, 0x50, 0x00])\<lparr>decoder := d\<rparr>)) =
     map_option observed (run 3 (sample_config TEST_ENV) (sample_emu TEST_ENV [0x93, 0x00, 0x50, 0x00]))"
proof -
  obtain i d where d: "decode InstructionDecoder_new 0x00500093 = Inr (i, d)" "decoder_ok d"
    using decode_spec_encode [OF sample_encode(1)] decode_correct(1,3) [OF decoder_ok_new] by blast
  have "decoder_ok (decoder (sample_emu TEST_ENV [0x93, 0x00, 0x50, 0x00]))"
    using sample_emu_ok by (simp add: emu_ok_def)
  then show ?thesis using run_ignores_decoder [OF _ d(2)] d(1) by blast
qed

theorem exit_ends_run_witness:
  "\<exists>s'. run 2 (sample_config FUZZ_ENV) (set_ireg REG_A0 2 (set_ireg REG_A7 93 (sample_emu FUZZ_ENV [0x73, 0, 0, 0]))) =
     Some (Inr (2, s'))"
proof -
  let ?s = "set_ireg REG_A0 2 (set_ireg REG_A7 93 (sample_emu FUZZ_ENV [0x73, 0, 0, 0]))"
  have "emu_ok ?s" by (intro emu_ok_updates sample_emu_ok)
  moreover have "mem_value (arch_of ?s) (pc ?s) 4 = 0x73"
    by (simp add: arch_of_def mem_value_def upto_four)
  ultimately show ?thesis
    using exit_ends_run [of "sample_config FUZZ_ENV" ?s] by (simp add: upto_four signed_modulo_int_def)
qed

lemma step_deterministic: "step cfg s s' \<Longrightarrow> step cfg s s'' \<Longrightarrow> s' = s''"
  by (auto simp: step_iff)

lemma sample_loop:
  assumes "isa_step\<^sup>*\<^sup>* (arch_of (sample_emu FUZZ_ENV [0x6F, 0, 0, 0])) \<sigma>"
  shows "\<sigma> = arch_of (sample_emu FUZZ_ENV [0x6F, 0, 0, 0])" "isa_step \<sigma> \<sigma>"
proof -
  let ?s = "sample_emu FUZZ_ENV [0x6F, 0, 0, 0]" and ?c = "sample_config FUZZ_ENV"
  have loop: "isa_step (arch_of ?s) (arch_of ?s)"
    by (rule isa_step.intros [OF sample_encode(2)])
      (simp_all add: arch_of_sample upto_four mem_value_def isa_jump_def set_reg_def)
  obtain t where t: "step ?c ?s t" "arch_of t = arch_of ?s" using sim_step [OF _ _ _ loop, of ?c] by auto
  have stays: "\<tau> = arch_of ?s" if "isa_step (arch_of ?s) \<tau>" for \<tau>
    using sim_step [OF _ _ _ that, of ?c] step_deterministic [OF t(1)] t(2) by fastforce
  from assms show "\<sigma> = arch_of ?s" by (induction rule: rtranclp_induct) (auto dest: stays)
  with loop show "isa_step \<sigma> \<sigma>" by simp
qed

theorem run_goes_on_witness:
  "run 1000 (sample_config FUZZ_ENV) (sample_emu FUZZ_ENV [0x6F, 0, 0, 0]) = None"
  using run_goes_on [of "sample_config FUZZ_ENV" "sample_emu FUZZ_ENV [0x6F, 0, 0, 0]" 1000] sample_loop by auto

subsection \<open>Traps, interrupts and control registers\<close>

theorem supervisor_trap_return_witness:
  "mode (snd (SRET (trap (sample_config TEST_ENV) IllegalInstruction ((sample_emu TEST_ENV [])\<lparr>csrs := (\<lambda>_. 4)\<rparr>)))) = User"
  using supervisor_trap_return [where cfg = "sample_config TEST_ENV" and e = IllegalInstruction and
      s = "(sample_emu TEST_ENV [])\<lparr>csrs := (\<lambda>_. 4)\<rparr>"]
  by (simp add: shr64_def load_csr_def)

theorem machine_trap_return_witness:
  "MRET (trap (sample_config TEST_ENV) IllegalInstruction ((sample_emu TEST_ENV [])\<lparr>mode := Machine\<rparr>)) = Inl AssertionFailure"
  using machine_trap_return [where cfg = "sample_config TEST_ENV" and e = IllegalInstruction and
      s = "(sample_emu TEST_ENV [])\<lparr>mode := Machine\<rparr>"]
  by simp

theorem interrupt_priority_witness:
  "\<exists>s'. check_pending_interrupt (sample_config TEST_ENV) ((sample_emu TEST_ENV [])\<lparr>csrs := (\<lambda>_. 0x8A)\<rparr>) =
     Inr (MachineSoftwareInterrupt, s') \<and> \<not> bit (csrs s' MIP) 3 \<and> bit (csrs s' MIP) 7"
proof -
  let ?s = "(sample_emu TEST_ENV [])\<lparr>csrs := (\<lambda>_. 0x8A)\<rparr>"
  have b: "bit (0x8A :: u64) 11 = False" "bit (0x8A :: u64) 3 = True" "bit (0x8A :: u64) 7 = True" by simp_all
  then have "highest 0x8A 0x8A = Some (3, MachineSoftwareInterrupt)" by (simp add: highest_def priority_def)
  then obtain i s' where "check_pending_interrupt (sample_config TEST_ENV) ?s = Inr (i, s')" "i = MachineSoftwareInterrupt"
    "\<forall>n < 32. bit (csrs s' MIP) n = (bit (0x8A :: u64) n \<and> n \<noteq> 3)"
    using interrupt_priority [where cfg = "sample_config TEST_ENV" and s = ?s] by auto
  then show ?thesis using b(3) by auto
qed

theorem csr_instructions_witness:
  "csrs (snd (CSRRW (sample_state 1 6 0 0x340))) 0x340 = 7"
proof -
  have "(iCSRRW, CSRRW, \<lambda>s. ireg s (f_rs1 s), \<lambda>old x. x) \<in> set csr_ops" by (simp add: csr_ops_def)
  from csr_instructions [OF this, of "sample_state 1 6 0 0x340"] show ?thesis
    by (simp add: csr_addr_def set_ireg_def)
qed

subsection \<open>System calls\<close>

definition sample_file :: FileHandle where
  "sample_file = \<lparr>fh_data = Some [10, 20, 30, 0], pathname = Some [], fh_fd = 3, fh_len = 3, fh_idx = 0, fh_type = DiskFile\<rparr>"

lemma sample_file_holds: "holds [10, 20, 30] sample_file" "remaining sample_file = [10, 20, 30]"
  by (simp_all add: holds_def remaining_def sample_file_def)

theorem file_reads_deliver_content_witness:
  "\<exists>fh'. read_all fh_read sample_file [2, 5] = Inr ([10, 20, 30], fh')"
  using file_reads_deliver_content [OF sample_file_holds(1), of "[2, 5]"] sample_file_holds(2) by auto

definition sample_caller :: "u64 \<Rightarrow> u64 \<Rightarrow> u64 \<Rightarrow> vemu" where
  "sample_caller a0 a1 a2 = set_ireg REG_A0 a0 (set_ireg REG_A1 a1 (set_ireg REG_A2 a2
     ((sample_emu FUZZ_ENV [])\<lparr>file_table := std_files @ [sample_file]\<rparr>)))"

theorem sys_read_effect_witness:
  "\<exists>s'. sys_read (sample_caller 3 0x1000 2) = Inr s' \<and> ireg s' REG_A0 = 2 \<and>
     ram (get_mmu s') 0x1000 = 10 \<and> ram (get_mmu s') 0x1001 = 20"
proof -
  let ?s = "sample_caller 3 0x1000 2"
  have regs: "ireg ?s REG_A0 = 3" "ireg ?s REG_A1 = 0x1000" "ireg ?s REG_A2 = 2" by (simp_all add: sample_caller_def)
  have find: "List.find (\<lambda>fh. scast (fh_fd fh) = ireg ?s REG_A0) (file_table ?s) = Some sample_file"
    by (simp add: regs) (simp add: sample_caller_def std_files_def sample_file_def)
  have ok: "emu_ok ?s" unfolding sample_caller_def by (intro emu_ok_updates sample_emu_ok)
  have w: "writable (arch_of ?s) 0x1000 2"
    by (simp add: writable_def inside_def list_all_iff sample_caller_def)
  have "take 2 [10, 20, 30 :: u8] = [10, 20]" by simp
  with sys_read_effect [OF find sample_file_holds(1) _ ok] w show ?thesis
    by (auto simp: regs sample_file_holds(2) numeral_2_eq_2 [symmetric] upto_two)
qed

theorem sys_open_effect_witness:
  "\<exists>s'. sys_open ((sample_config FUZZ_ENV)\<lparr>host_open := (\<lambda>_ _ _. Some (4, [1, 2]))\<rparr>) (sample_caller 0x1000 0 0) = Inr s' \<and>
     ireg s' REG_A0 = 4"
proof -
  let ?s = "sample_caller 0x1000 0 0" and ?cfg = "(sample_config FUZZ_ENV)\<lparr>host_open := (\<lambda>_ _ _. Some (4, [1, 2]))\<rparr>"
  have m: "get_mmu ?s = get_mmu (sample_emu FUZZ_ENV [])" and a0: "ireg ?s REG_A0 = 0x1000" by (simp_all add: sample_caller_def)
  have p: "read_null_terminated_string (Suc (unat (mmu_ram_size (get_mmu ?s)))) (get_mmu ?s) (ireg ?s REG_A0) = Some (Inr [0])"
    unfolding read_null_terminated_string.simps m a0 using emu_ok_mmu [OF sample_emu_ok, of FUZZ_ENV "[]"]
    by (simp add: read_one_byte mmu_wf_def)
  show ?thesis
    using sys_open_effect [OF p, of ?cfg 4 "[1, 2]"]
    by (auto simp: sample_caller_def std_files_def sample_file_def)
qed

theorem sys_brk_effect_witness:
  "\<exists>s'. sys_brk (sample_caller 0x10100 0 0) = Inr s' \<and> ireg s' REG_A0 = 0x10100 \<and> byte_permission (get_mmu s') 0x100FF = 10"
proof -
  let ?s = "sample_caller 0x10100 0 0"
  have m: "get_mmu ?s = get_mmu (sample_emu FUZZ_ENV [])" and a0: "ireg ?s REG_A0 = 0x10100" by (simp_all add: sample_caller_def)
  show ?thesis using sys_brk_effect [of ?s] unfolding m a0 by (auto simp: word_sless_alt)
qed

subsection \<open>Printing\<close>

definition cout :: ostream where
  "cout = \<lparr>os_hex = False, os_left = False, os_fill = CHR '' '', os_width = 0, os_text = []\<rparr>"

theorem dump_regs_readable_witness: "read_dump (os_text (dump_regs RegFile_new cout)) = replicate 32 0"
  using dump_regs_readable [of cout RegFile_new]
  by (auto simp: cout_def get_regs_def RegFile_new_def map_replicate_const)

theorem faulty_word_ambiguous_witness:
  "os_text (print_XXX ((sample_emu TEST_ENV [])\<lparr>hex_instr := 0x130\<rparr>) (dump_regs RegFile_new cout)) =
   os_text (print_XXX ((sample_emu TEST_ENV [])\<lparr>hex_instr := 0x13\<rparr>) (dump_regs RegFile_new cout))"
  using faulty_word_ambiguous [of cout "(sample_emu TEST_ENV [])\<lparr>hex_instr := 0x13\<rparr>" RegFile_new] by (simp add: cout_def)

end
