(* ===== verification/Program_Examples.thy ===== *)
theory Program_Examples
  imports Fuzz_Laws Tester_Laws UART_Reader Process_Image
begin

text \<open>The theorems on the fuzzing harness, the test driver and the serial port at concrete inputs.\<close>

unbundle bit_operations_syntax

subsection \<open>The fuzzer\<close>

definition sample_info :: FileInfo where
  "sample_info = \<lparr>fi_file_name = [], entry_point = 0, segments =
     [\<lparr>seg_perms = 5, seg_start_addr = 0x1000, seg_mem_size = 1, seg_file_size = 1, seg_data = [7]\<rparr>]\<rparr>"

lemma sample_info_mutable: "mutable_info sample_info" "small sample_info"
  by (simp_all add: mutable_info_def small_def sample_info_def)

theorem push_mutate_safe_witness:
  "\<exists>info' history' seed'. push_mutate 3 sample_info [] 123456789 = Inr (info', history', seed')"
  using push_mutate_safe [OF sample_info_mutable(1)] by blast

theorem mutation_roundtrip_witness:
  "\<exists>info' history seed'. push_mutate 1 sample_info [] 123456789 = Inr (info', history, seed') \<and>
     info' \<noteq> sample_info \<and> pop_mutate info' history = Inr sample_info"
proof -
  obtain info' history seed' where p: "push_mutate 1 sample_info [] 123456789 = Inr (info', history, seed')"
    and n: "info' \<noteq> sample_info"
    by (simp add: sample_info_def gen_rand_def Let_def get_byte_def set_byte_def defined_res_def)
  then show ?thesis using mutation_roundtrip [OF p sample_info_mutable(2)] by blast
qed

definition sample_fuzz :: fuzz where
  "sample_fuzz = \<lparr>target = sample_info, corpus_files = [(sample_info, False)], seed = 123456789,
     shared_decoder = InstructionDecoder_new\<rparr>"

definition fuzz_config :: config where
  "fuzz_config = \<lparr>build = FUZZ_ENV, softfloat = None, wide_shr = (\<lambda>_ _. 0), host_open = (\<lambda>_ _ _. None), stack_byte = (\<lambda>_. 0)\<rparr>"

definition fuzz_init :: "nat \<Rightarrow> uninit" where
  "fuzz_init _ = \<lparr>u_mem = (\<lambda>_. 0), u_perms = (\<lambda>_. 0), u_csrs = (\<lambda>_. 0), u_uart = False, u_word = 0,
     u_instr = MRET_instr, u_mode = Machine, u_code_size = 0\<rparr>"

theorem fuzz_dispatch_stuck_witness:
  "fuzz_dispatch 1000 fuzz_config fuzz_init [] 2 sample_fuzz \<noteq> Some (Inr sample_fuzz)"
  by (rule fuzz_dispatch_stuck) (simp_all add: sample_fuzz_def free_count_def)

subsection \<open>The test driver\<close>













subsection \<open>The serial port\<close>

definition sample_serial :: serial where
  "sample_serial = serial_start (UART_new False) 0 [65, 66]"

lemma sample_serial_steps:
  "serial_step\<^sup>*\<^sup>* sample_serial (guest_load UART_RHR (raise_flag (deliver (read_char sample_serial))))"
proof -
  let ?s1 = "read_char sample_serial" let ?s2 = "deliver ?s1" let ?s3 = "raise_flag ?s2"
  have "reader sample_serial = Reading" "reader ?s1 = Waiting" "\<not> rx (dev ?s1)" "reader ?s2 = Flagging"
    by (simp_all add: sample_serial_def serial_start_def read_char_def deliver_def rx_def UART_new_def)
  then have "serial_step sample_serial ?s1" "serial_step ?s1 ?s2" "serial_step ?s2 ?s3"
    "serial_step ?s3 (guest_load UART_RHR ?s3)"
    by (auto intro: serial_step.intros(1-3)) (rule serial_step.intros(4), simp_all)
  then show ?thesis by (meson converse_rtranclp_into_rtranclp rtranclp.rtrancl_refl)
qed

theorem serial_delivers_in_order_witness:
  "\<exists>n. prefix (received (guest_load UART_RHR (raise_flag (deliver (read_char sample_serial))))) ([65, 66] @ replicate n 66)"
  using serial_delivers_in_order [OF sample_serial_steps [unfolded sample_serial_def]]
  by (simp add: sample_serial_def rx_def UART_new_def)

theorem serial_race_loses_character_witness:
  "received (take_register (raise_flag (deliver (clear_flag (read_char (raise_flag (deliver (read_char sample_serial)))))))) = [66]"
proof -
  let ?s = "read_char (raise_flag (deliver (read_char sample_serial)))"
  have "rx (dev ?s)" "reader ?s = Waiting" "held ?s = 66" "received ?s = []"
    by (simp_all add: sample_serial_def serial_start_def read_char_def deliver_def raise_flag_def rx_def UART_new_def)
  then show ?thesis using serial_race_loses_character [of ?s] by simp
qed

end
