(* ===== verification/Float_Examples.thy ===== *)
theory Float_Examples
  imports Float_Handlers Emulator_Examples
begin

text \<open>The theorems on the floating-point handlers at concrete inputs.\<close>

unbundle bit_operations_syntax

text \<open>A library whose every operation returns its first operand and reports an inexact result\<close>

definition sample_softfloat :: softfloat where
  "sample_softfloat = \<lparr>f32_add = (\<lambda>x _. (x, 1)), f32_sub = (\<lambda>x _. (x, 1)), f32_mul = (\<lambda>x _. (x, 1)), f32_div = (\<lambda>x _. (x, 1)),
     f32_sqrt = (\<lambda>x. x), fma_nan = (\<lambda>_ _ _. 0x7FC00000)\<rparr>"

definition float_config :: config where
  "float_config = (sample_config FUZZ_ENV)\<lparr>softfloat := Some sample_softfloat\<rparr>"

lemma float_config_simps: "build float_config = FUZZ_ENV" "softfloat float_config = Some sample_softfloat"
  by (simp_all add: float_config_def)

text \<open>The operands are \<open>x0\<close> and the registers with number 1, and the word at address 0 is that of 1.0.\<close>

definition float_instr :: Instruction where
  "float_instr = wrong_instr (empty_fields\<lparr>rd := 1, rs2 := 1\<rparr>)"

definition float_state :: vemu where
  "float_state = (sample_emu FUZZ_ENV [0x00, 0x00, 0x80, 0x3F])\<lparr>curr_instr := float_instr\<rparr>"

lemma float_state_simps:
  "emu_ok float_state" "f_rd float_state = 1" "f_rs1 float_state = 0" "f_rs2 float_state = 1" "fp_addr float_state = 0"
  "arch_of float_state = arch_of (sample_emu FUZZ_ENV [0x00, 0x00, 0x80, 0x3F])"
  using sample_emu_ok [of FUZZ_ENV "[0x00, 0x00, 0x80, 0x3F]"]
  by (simp_all add: float_state_def float_instr_def wrong_instr_def mk_instr_def fp_addr_def emu_ok_def arch_of_def
      empty_fields_def)

theorem float_load_store_copies_witness:
  "\<exists>s' t'. FLW float_config float_state = Inr (NormalExecutionReturn, s') \<and>
     FSW float_config (s'\<lparr>curr_instr := float_instr\<rparr>) = Inr (NormalExecutionReturn, t') \<and>
     mem_value (arch_of t') 0 4 = 0x3F800000"
proof -
  let ?\<sigma> = "arch_of float_state"
  have rw: "readable ?\<sigma> (fp_addr float_state) 4" "writable ?\<sigma> 0 4"
    by (simp_all add: float_state_simps arch_of_sample readable_def writable_def inside_def upto_four)
  have w: "(ucast (mem_value ?\<sigma> (fp_addr float_state) 4) :: f32) = 0x3F800000"
    by (simp add: float_state_simps arch_of_sample mem_value_def upto_four)
  have nn: "\<not> f32_nan 0x3F800000" by (simp add: f32_nan_def f32_exp_def f32_mag_def)
  from float_load_store_copies [OF float_config_simps float_state_simps(1) rw(1)] obtain s'
    where s': "FLW float_config float_state = Inr (NormalExecutionReturn, s')" "arch_of s' = ?\<sigma>"
      and t: "\<And>t. t = s'\<lparr>curr_instr := float_instr\<rparr> \<Longrightarrow> f_rs2 t = f_rd float_state \<Longrightarrow> writable (arch_of t) (fp_addr t) 4 \<Longrightarrow>
        \<exists>t'. FSW float_config t = Inr (NormalExecutionReturn, t') \<and> mem_value (arch_of t') (fp_addr t) 4 = 0x3F800000"
    unfolding w using nn by (auto simp: Let_def)
  let ?t = "s'\<lparr>curr_instr := float_instr\<rparr>"
  have "a_reg (arch_of s') 0 = 0" unfolding s'(2) float_state_simps(6) arch_of_sample by simp
  then have "fp_addr ?t = 0" "f_rs2 ?t = 1"
    by (simp_all add: fp_addr_def float_instr_def wrong_instr_def mk_instr_def empty_fields_def)
  moreover have "arch_of ?t = ?\<sigma>" using s'(2) by (simp add: arch_of_def)
  ultimately show ?thesis using t [OF refl] s'(1) rw(2) float_state_simps(2) by simp
qed

theorem sign_injection_ignores_rs2_witness:
  "FSGNJNS float_config float_state = write_frd (fneg (freg float_state 0)) float_state"
  using sign_injection_ignores_rs2 [OF float_config_simps(2), of float_state] by (simp add: float_state_simps)

theorem int_float_roundtrip_witness:
  "\<exists>s'. FCVTSW float_config (sample_state 1 6 0 0) = Inr (NormalExecutionReturn, s') \<and>
     FCVTWS float_config (s'\<lparr>curr_instr := wrong_instr (empty_fields\<lparr>rd := 2, rs1 := 1\<rparr>)\<rparr>) =
       Inr (write_rd 7 (s'\<lparr>curr_instr := wrong_instr (empty_fields\<lparr>rd := 2, rs1 := 1\<rparr>)\<rparr>))"
proof -
  let ?s = "sample_state 1 6 0 0" and ?i = "wrong_instr (empty_fields\<lparr>rd := 2, rs1 := 1\<rparr>)"
  have v: "sint (ucast (ireg ?s (f_rs1 ?s)) :: u32) = 7" by simp
  obtain s' where s': "FCVTSW float_config ?s = Inr (NormalExecutionReturn, s')"
    and t: "\<And>i. f_rs1 (s'\<lparr>curr_instr := i\<rparr>) = f_rd ?s \<Longrightarrow>
      FCVTWS float_config (s'\<lparr>curr_instr := i\<rparr>) = Inr (write_rd 7 (s'\<lparr>curr_instr := i\<rparr>))"
    using int_float_roundtrip [OF float_config_simps(2), of ?s] unfolding v by (auto simp: Let_def)
  show ?thesis using s' t [of ?i] by (simp add: wrong_instr_def mk_instr_def empty_fields_def)
qed

theorem float_compare_correct_witness:
  "FLES float_config (sample_emu FUZZ_ENV []) = Inr (write_rd 1 (sample_emu FUZZ_ENV []))"
proof -
  let ?s = "sample_emu FUZZ_ENV []"
  have "freg ?s i = narrow 0" for i
    by (simp add: freg_def sample_emu_def VEmu_base_def Let_def FRegFile_new_def fload_reg_def)
  moreover have "narrow 0 = 0"
    by (simp add: narrow_def f64_exp_def f64_frac_def f64_mag_def f64_sig_def f64_sign_def fp_round_def f32_make_def)
  moreover have "f32_finite 0" by (simp add: f32_finite_def f32_exp_def f32_mag_def)
  ultimately show ?thesis using float_compare_correct [OF float_config_simps(2), of ?s] by simp
qed

theorem float_flags_replaced_witness:
  "\<exists>s'. FADDS float_config float_state = Inr (NormalExecutionReturn, s') \<and> bit (csrs s' FFLAGS) 0 \<and> \<not> bit (csrs s' FFLAGS) 1"
proof -
  have "f32_add sample_softfloat (freg float_state (f_rs1 float_state)) (freg float_state (f_rs2 float_state)) =
      (freg float_state (f_rs1 float_state), 1)"
    by (simp add: sample_softfloat_def)
  from float_flags_replaced [OF float_config_simps(2) this] show ?thesis by auto
qed

end
