(* ===== verification/Process_Examples.thy ===== *)
theory Process_Examples
  imports Guest_Files Emulator_Examples
begin

text \<open>The theorems on processes and their files at concrete inputs.\<close>

subsection \<open>An executable\<close>

text \<open>One instruction, \<open>addi x1, x0, 5\<close>, in a segment of eight bytes at the entry point\<close>

definition image_info :: FileInfo where
  "image_info = \<lparr>fi_file_name = [0x61], entry_point = 0x20000, segments =
     [\<lparr>seg_perms = 5, seg_start_addr = 0x20000, seg_mem_size = 8, seg_file_size = 4,
       seg_data = [0x93, 0x00, 0x50, 0x00]\<rparr>]\<rparr>"

theorem exec_builds_process_witness:
  "\<exists>s. VEmu_exec (sample_config FUZZ_ENV) (sample_init []) InstructionDecoder_new image_info [[0x62]] 0x200000 = Inr s \<and>
     pc s = 0x20000 \<and> stored (get_mmu s) 0x20000 [0x93, 0x00, 0x50, 0x00, 0, 0, 0, 0] \<and>
     (\<exists>p q. stored (get_mmu s) (ireg s REG_SP) (words_of [2, p, q, 0, 0, 0]) \<and>
        stored (get_mmu s) p [0x61, 0] \<and> stored (get_mmu s) q [0x62, 0])"
proof -
  have f: "fits 0x200000 image_info [[0x62]]" by (simp add: fits_def image_info_def seg_end_def)
  have i: "segment_image (hd (segments image_info)) = [0x93, 0x00, 0x50, 0x00, 0, 0, 0, 0]"
    by code_simp
  obtain s ptrs where s: "VEmu_exec (sample_config FUZZ_ENV) (sample_init []) InstructionDecoder_new image_info [[0x62]] 0x200000 = Inr s"
    "pc s = entry_point image_info"
    "\<forall>seg \<in> set (segments image_info). stored (get_mmu s) (seg_start_addr seg) (segment_image seg)"
    "length ptrs = 2" "stored (get_mmu s) (ireg s REG_SP) (words_of (2 # ptrs @ [0, 0, 0]))"
    "\<forall>(p, arg) \<in> set (zip ptrs [[0x61], [0x62]]). stored (get_mmu s) p (arg @ [0])"
    using exec_builds_process [OF build_sample(1) decoder_ok_new f, of "sample_init []"]
    by (auto simp: image_info_def numeral_2_eq_2)
  moreover obtain p q where "ptrs = [p, q]" using s(4) by (auto simp: numeral_2_eq_2 length_Suc_conv)
  ultimately show ?thesis using i by (auto simp: image_info_def)
qed

theorem constructors_build_witness:
  "\<exists>s. VEmu_bytes (sample_config TEST_ENV) (sample_init []) InstructionDecoder_new [0x73, 0, 0, 0] 0 0x40000 = Inr s \<and>
     emu_ok s \<and> holds_code [0x73, 0, 0, 0] s"
  using constructors_build [OF decoder_ok_new, THEN conjunct1, rule_format] by (simp add: code_fits_def)

subsection \<open>Files\<close>

lemma sample_caller_find:
  "List.find (\<lambda>fh. scast (fh_fd fh) = ireg (sample_caller 3 a b) REG_A0) (file_table (sample_caller 3 a b)) = Some sample_file"
  by (simp add: sample_caller_def) (simp add: std_files_def sample_file_def)

lemma sample_caller_simps:
  "ireg (sample_caller a b c) REG_A0 = a" "ireg (sample_caller a b c) REG_A1 = b" "ireg (sample_caller a b c) REG_A2 = c"
  "emu_ok (sample_caller a b c)" "get_mmu (sample_caller a b c) = get_mmu (sample_emu FUZZ_ENV [])"
  by (simp_all add: sample_caller_def) (intro emu_ok_updates sample_emu_ok)

text \<open>The registers of a \<open>read\<close> of the file with descriptor 3\<close>

definition reading :: "u64 \<Rightarrow> u64 \<Rightarrow> vemu \<Rightarrow> vemu" where
  "reading buf count s = set_ireg REG_A0 3 (set_ireg REG_A1 buf (set_ireg REG_A2 count s))"

lemma reading_ready:
  assumes "sys_lseek (sample_caller 3 a b) = Inr s'"
  shows "ready_to_read 3 buf count (reading buf count s')" "file_table (reading buf count s') = file_table s'"
    "get_mmu (reading buf count s') = get_mmu (sample_emu FUZZ_ENV [])"
proof -
  have s': "emu_ok s'" "get_mmu s' = get_mmu (sample_emu FUZZ_ENV [])"
    using syscalls_ok(7) [OF sample_caller_simps(4) assms] assms sample_caller_simps(5) [of 3 a b]
    by (auto simp: sys_lseek_def Let_def bind_res_eq_Inr split: option.splits if_splits)
  then show "ready_to_read 3 buf count (reading buf count s')" "file_table (reading buf count s') = file_table s'"
    "get_mmu (reading buf count s') = get_mmu (sample_emu FUZZ_ENV [])"
    by (simp_all add: ready_to_read_def reading_def) (intro emu_ok_updates s')
qed

theorem seek_read_delivers_witness:
  "\<exists>s' t'. sys_lseek (sample_caller 3 1 0) = Inr s' \<and> sys_read (reading 0x1000 5 s') = Inr t' \<and>
     ireg t' REG_A0 = 2 \<and> ram (get_mmu t') 0x1000 = 20 \<and> ram (get_mmu t') 0x1001 = 30"
proof -
  let ?s = "sample_caller 3 1 0"
  have t: "seek_target sample_file (ireg ?s REG_A1) (ireg ?s REG_A2) = Some 1"
    by (simp add: sample_caller_simps seek_target_def)
  obtain s' where s': "sys_lseek ?s = Inr s'"
    and r: "\<forall>t buf count. let chunk = take (unat count) (drop (unat (1 :: u64)) [10, 20, 30]) in
      file_table t = file_table s' \<and> ready_to_read (ireg ?s REG_A0) buf count t \<and> unat count < 2 ^ 63 \<and>
      chunk \<noteq> [] \<and> writable (arch_of t) buf (length chunk) \<longrightarrow>
      (\<exists>t'. sys_read t = Inr t' \<and> ireg t' REG_A0 = of_nat (length chunk) \<and>
        map (\<lambda>k. ram (get_mmu t') (buf + of_nat k)) [0..<length chunk] = chunk)"
    using seek_read_delivers [OF sample_caller_find sample_file_holds(1) t] by auto
  have w: "writable (arch_of (reading 0x1000 5 s')) 0x1000 2"
    using reading_ready(3) [OF s'] by (simp add: writable_def inside_def list_all_iff)
  have c: "take (unat (5 :: u64)) (drop (unat (1 :: u64)) [10, 20, 30 :: u8]) = [20, 30]" by simp
  have l: "length [20, 30 :: u8] = 2" by simp
  have "\<exists>t'. sys_read (reading 0x1000 5 s') = Inr t' \<and> ireg t' REG_A0 = of_nat 2 \<and>
      map (\<lambda>k. ram (get_mmu t') (0x1000 + of_nat k)) [0..<2] = [20, 30]"
    using spec [OF spec [OF spec [OF r, of "reading 0x1000 5 s'"], of "0x1000"], of 5] reading_ready(1,2) [OF s', of "0x1000" 5] w
    unfolding c Let_def l by (simp add: sample_caller_simps)
  then show ?thesis using s' by (auto simp: upto_two)
qed

theorem read_past_end_overruns_witness:
  "\<exists>s'. sys_lseek (sample_caller 3 100 0) = Inr s' \<and> sys_read (reading 0x1000 1 s') = Inl UndefinedBehaviour"
proof -
  let ?s = "sample_caller 3 100 0"
  have t: "seek_target sample_file (ireg ?s REG_A1) (ireg ?s REG_A2) = Some 100"
    by (simp add: sample_caller_simps seek_target_def)
  have l: "length [10, 20, 30 :: u8] < unat (100 :: u64)" by simp
  obtain s' where s': "sys_lseek ?s = Inr s'"
    and r: "\<forall>t buf count. file_table t = file_table s' \<and> ready_to_read (ireg ?s REG_A0) buf count t \<and>
      unat (100 :: u64) + unat count < 2 ^ 64 \<longrightarrow> sys_read t = Inl UndefinedBehaviour"
    using read_past_end_overruns [OF sample_caller_find sample_file_holds(1) t l] by blast
  have "sys_read (reading 0x1000 1 s') = Inl UndefinedBehaviour"
    using spec [OF spec [OF spec [OF r, of "reading 0x1000 1 s'"], of "0x1000"], of 1] reading_ready(1,2) [OF s', of "0x1000" 1]
    by (simp add: sample_caller_simps)
  then show ?thesis using s' by blast
qed

theorem fstat_reports_last_file_witness:
  "\<exists>s'. sys_fstat (sample_config FUZZ_ENV) (sample_caller 0 0x1000 0) = Inr s' \<and> mem_value (arch_of s') 0x1030 8 = 3"
proof -
  let ?s = "sample_caller 0 0x1000 0"
  have f: "list_ex (\<lambda>fh. fh_fd fh = ucast (ireg ?s REG_A0)) (file_table ?s)" "fh_len (last (file_table ?s)) = 3"
    by (simp_all add: sample_caller_def std_files_def sample_file_def)
  have w: "writable (arch_of ?s) (ireg ?s REG_A1) 128"
    by (simp add: writable_def inside_def list_all_iff sample_caller_simps)
  show ?thesis
    using fstat_reports_last_file [OF f(1) sample_caller_simps(4) w] by (auto simp: f(2) sample_caller_simps(1-3))
qed

end
