(* ===== verification/Spec2Isabelle.thy ===== *)
theory Spec2Isabelle
  imports Memory_Reset Decoder_Roundtrip RV_Simulation RV_Privileged Vemu_Process Shared_Decoder Fuzz_Laws Tester_Laws
    UART_Reader Float_Handlers Vemu_Print Process_Image Guest_Files
    Memory_Examples Emulator_Examples Program_Examples Float_Examples Process_Examples
begin

text \<open>
  \<^bold>\<open>A verification library for vemu\<close>, an emulator of 64-bit RISC-V (RV64IMA, optionally with single-precision
  floating point; machine, supervisor and user mode) that is built as a test runner (\<open>TEST_ENV\<close>) or as a fuzzer of guest programs
  (\<open>FUZZ_ENV\<close>).

  \<^bold>\<open>The program.\<close> \<open>VEmu::run\<close> (\<^verbatim>\<open>src/VEmu.cpp\<close>) checks for interrupts, fetches a word, asks the
  shared \<open>InstructionDecoder\<close> (\<^verbatim>\<open>src/InstructionDecoder.cpp\<close>) for the instruction, calls the handler
  that its table holds for the instruction's name, and turns exceptions into traps. Handlers work on the
  register files (\<^verbatim>\<open>src/RegFile.cpp\<close>, \<^verbatim>\<open>src/FRegFile.cpp\<close>) and reach memory through the \<open>Bus\<close>
  (\<^verbatim>\<open>src/Bus.cpp\<close>), which routes an address to the CLINT, the PLIC, the UART or the \<open>MMU\<close>
  (\<^verbatim>\<open>src/MMU.cpp\<close>). In the fuzzing build the bus has no devices and \<open>ECALL\<close> emulates system calls.
  \<^verbatim>\<open>src/util.cpp\<close> reads executables, keeps the corpus and mutates segments; \<^verbatim>\<open>src/FuzzThread.cpp\<close>,
  \<^verbatim>\<open>src/Tester.cpp\<close> and \<^verbatim>\<open>src/main.cpp\<close> drive the emulator.

  \<^bold>\<open>The model.\<close>

  \<^item> \<open>Vemu_Prelude\<close>: the result type (\<open>Inl\<close> is how the process stops: a failed assertion,
    \<open>exit\<close>, a missing key, a missing handler, undefined behaviour), loops over addresses, words;
    \<open>Vemu_Defs\<close>: the enumerations and constants of \<^verbatim>\<open>include/defs.h\<close> and the build configuration.
  \<^item> \<open>Reg_File\<close>, \<open>Vemu_Devices\<close>, \<open>Vemu_MMU\<close>, \<open>Vemu_Bus\<close>: one record per class, one definition
    per method. The contracts are the locales \<open>register_file\<close>, \<open>mmio_device\<close>,
    \<open>register_bank\<close> and the byte memory of \<open>Memory_Laws\<close>, interpreted on these definitions.
  \<^item> \<open>Decoder_Tables\<close>, \<open>Instruction_Decoder\<close>: the sixteen tables, the two caches, one routine per
    format. \<open>Decoder_Cache\<close> removes the caches (locale \<open>memo_table\<close>), \<open>Decoder_Fields\<close> gives the
    fields and immediates of an encoded word, \<open>Decoder_Rows\<close> the encodings of the manual and
    \<open>Decoder_Roundtrip\<close> an assembler with its inverse.
  \<^item> \<open>Vemu_State\<close>: the class \<open>VEmu\<close>, its constructors with the initial stack, and its copy;
    \<open>RV_Base\<close>, \<open>RV_Mul\<close>, \<open>RV_Atomic\<close>, \<open>RV_System\<close>: one definition per instruction handler;
    \<open>Vemu_Trap\<close>, \<open>Vemu_Syscalls\<close>, \<open>Vemu_Run\<close>: traps and interrupts, \<open>ECALL\<close>, the table of
    handlers and the loop, also as the step relation \<open>step\<close>.
  \<^item> \<open>IEEE_Float\<close>: the host's \<open>float\<close> and \<open>double\<close> as bit patterns, with rounding, conversions,
    comparison and \<open>std::fma\<close>; \<open>RV_Float\<close>: one definition per floating-point handler. The SoftFloat
    library is the record \<open>softfloat\<close> of the configuration, \<open>None\<close> in a build without
    \<open>SUPPORT_SOFTFLOAT\<close>, where every handler reports an illegal instruction.
  \<^item> \<open>Vemu_Print\<close>: \<open>std::cout\<close> with its formatting state, the dumps of both register files (doubles as
    \<open>%g\<close> prints them) and messages.
  \<^item> \<open>Vemu_Fuzz\<close>: executables, random numbers, corpus, mutations, fuzzing thread, test driver,
    main program; \<open>UART_Reader\<close>: the input thread of the serial port, interleaved with the guest.

  \<^bold>\<open>The theorems.\<close>

  \<^item> \<open>Memory_Laws\<close>, \<open>Memory_Reset\<close>, \<open>Vemu_Bus\<close>: stored values are read back, elsewhere
    nothing changes, accesses stay in the storage, allocations are disjoint, the dirty blocks restore a
    snapshot when no store crosses a block, segments are loaded as their headers say, an access
    touches no target but the one that its address selects.
  \<^item> \<open>Decoder_Cache\<close>, \<open>Decoder_Roundtrip\<close>: the caches never change a result, and decoding inverts
    assembling for every instruction of the listings.
  \<^item> \<open>RV_Spec\<close>, \<open>RV_ISA\<close>, \<open>RV_Simulation\<close>: the handlers compute the functions of the manual; an
    abstract machine executes assembled instructions, and the run loop of the fuzzing build simulates each of
    its steps (locale \<open>forward_simulation\<close>).
  \<^item> \<open>Vemu_Invariant\<close>: a well-formedness invariant of the emulator that every handler, trap, system
    call and iteration keeps (locales \<open>machine_invariant\<close>, \<open>loop_invariant\<close>), and that the testing
    build without SoftFloat never leaves its storage. \<open>Shared_Decoder\<close>: no handler touches the decoder, so that runs cannot
    influence each other through its caches.
  \<^item> \<open>RV_Privileged\<close>: traps and their returns, interrupt priority, control registers;
    \<open>Vemu_Process\<close>: files are streams (locale \<open>byte_stream\<close>), the effect of \<open>read\<close>, \<open>open\<close>,
    \<open>brk\<close> and \<open>exit\<close>, and what the fuel of \<open>run\<close> means.
  \<^item> \<open>Process_Image\<close>: from an executable to a running process. \<open>fits\<close> says when the segments, the
    stack and the arguments have room; then \<open>VEmu_exec\<close> returns, the memory holds the segments and the
    argument vector that a C program expects, and, in the fuzzing build, the run loop follows the instruction
    set from there; what each constructor makes, in every build.
    \<open>Guest_Files\<close>: sessions of system calls on a file, \<open>lseek\<close> followed by \<open>read\<close> inside the file
    and beyond its end, and what \<open>fstat\<close> reports.
  \<^item> \<open>Fuzz_Laws\<close>, \<open>Tester_Laws\<close>, \<open>UART_Reader\<close>: undoing mutations restores the file (locale
    \<open>undo_log\<close>), the fuzzer runs out of unlocked files, the driver does what its tests do each on its
    own and reports them in order, input arrives in order unless a load is interrupted.
  \<^item> \<open>Float_Laws\<close>, \<open>Float_Handlers\<close>: what holds of both formats (locale \<open>binary_format\<close>); a word
    survives the registers, small integers survive conversion, comparisons compare the numbers, and where the
    handlers leave the instruction set. \<open>Vemu_Print\<close>: a register dump can be read back.
  \<^item> \<open>Memory_Examples\<close>, \<open>Emulator_Examples\<close>, \<open>Program_Examples\<close>, \<open>Float_Examples\<close>,
    \<open>Process_Examples\<close>: the theorems at concrete inputs.

  \<^bold>\<open>Bounds and fuel.\<close> Words have the widths of the source. Signed overflow, which the source relies on,
  wraps; shifts by 64 or more are the parameter \<open>wide_shr\<close>. Values that a constructor leaves
  indeterminate are the argument \<open>init\<close>. \<open>run\<close>, \<open>get_random_free_file\<close>, \<open>Tester_run\<close> and
  \<open>fuzz_dispatch\<close> take fuel, since the loops need not end: \<open>None\<close> is a loop that is still running,
  more fuel never changes a result (\<open>run_adequate\<close>), and \<open>run_goes_on\<close> and \<open>fuzz_dispatch_stuck\<close>
  are about runs that never end. The string read takes fuel too, but the memory size plus one always
  suffices. The host's \<open>open\<close>, the ELF library and the directory listing are parameters
  (\<open>host_open\<close>, \<open>host_elf\<close>, \<open>host_dir\<close>). \<open>try_lock\<close> of a mutex that the same thread holds
  returns false.

  A conversion of a floating-point number that the integer type cannot hold is undefined behaviour; the NaN
  that \<open>std::fma\<close> makes is the host's (\<open>fma_nan\<close>); rounding is to nearest with ties to even, since
  nothing sets another mode.

  \<^bold>\<open>Not modelled.\<close> SoftFloat and ELFIO themselves, which are libraries of others.
  A general emulator:
  \<^verbatim>\<open>src/main.cpp\<close> refuses to compile one. Declarations in the headers have no definition of their own,
  nor have the destructors, which only free memory, and \<open>struct stats\<close>, which nothing uses.
\<close>

end
